(* ===== verification/Prelude.thy ===== *)
theory Prelude
  imports Complex_Main "HOL-Library.Word"
begin

text \<open>
  Shared vocabulary of the development: results of fallible Go functions, the error
  values the packages return, and the generic facts on lists of rows that the
  component theories use. A Go function returning \<open>(T, error)\<close> is modelled by the sum
  type \<open>goerr + 't\<close>: \<open>Inl\<close> is a non-nil error, \<open>Inr\<close> the value returned with a nil
  error.
\<close>

named_theorems row_simps \<open>facts on tables of rows: lookup after update, insert and filter\<close>
named_theorems money_simps \<open>facts on stored amounts\<close>

section \<open>Errors as values\<close>

text \<open>
  The sentinel errors of the packages (\<open>errors.New\<close> at package level). Two packages
  that both call a sentinel \<open>ErrValidation\<close> have different values, hence the package
  prefix.
\<close>

datatype sentinel =
    BillingErrInsufficientFunds
  | BillingErrTariffNotConfigured
  | BillingErrInvalidTariff
  | BillingErrPriceSnapshotMissing
  | BillingErrWalletNotFound
  | BillingErrHoldNotFound
  | BillingErrInvalidAmount
  | BillingErrNegativeBalance
  | BillingErrValidation
  | MessagingErrValidation
  | MessagingErrNotFound
  | MessagingErrNotAssigned
  | MessagingErrInternationalOff
  | IdempotencyErrConflict
  | IdempotencyErrInFlight
  | LookupErrValidation
  | LookupErrLookupDisabled
  | LookupErrClientSuspended
  | LookupErrNotFound
  | LookupErrConflict
  | LookupErrTariffNotConfigured
  | CampaignsErrValidation
  | CampaignsErrNotFound
  | CampaignsErrNotAssigned
  | CampaignsErrFrozen
  | CampaignsErrNotDraft
  | CampaignsErrEmpty
  | CampaignsErrConflict
  | CampaignsErrTooMany
  | RunexisErrNotConfigured
  | WebhooksErrValidation
  | WebhooksErrNotFound

text \<open>The PostgreSQL error classes the code can meet (SQLSTATE by name).\<close>

datatype pg_code =
    UniqueViolation
  | CheckViolation
  | NumericValueOutOfRange
  | StringDataRightTruncation
  | CharacterNotInRepertoire
  | UntranslatableCharacter
  | InvalidRowCountInResultOffsetClause
  | InFailedSQLTransaction

text \<open>
  \<open>Sentinel\<close> is a bare sentinel, \<open>Fmt s t\<close> is \<open>fmt.Errorf("%w: t", s)\<close>, \<open>Wrapped s c m ps\<close> is
  the package's \<open>Error\<close> struct with \<open>Err = s\<close>, \<open>Code = c\<close>, \<open>Message = m\<close> (and, for the
  lookup package, \<open>RejectedPhones = ps\<close>), \<open>NoRows\<close> is \<open>pgx.ErrNoRows\<close>, \<open>PgError\<close> a
  \<open>*pgconn.PgError\<close>, \<open>Plain\<close> an \<open>errors.New\<close> at the return.
\<close>

datatype goerr =
    Sentinel sentinel
  | Fmt sentinel string
  | Wrapped sentinel string string "string list"
  | NoRows
  | PgError pg_code
  | Plain string

fun errors_Is :: "goerr \<Rightarrow> sentinel \<Rightarrow> bool" where
  "errors_Is (Sentinel s) t = (s = t)"
| "errors_Is (Fmt s _) t = (s = t)"
| "errors_Is (Wrapped s _ _ _) t = (s = t)"
| "errors_Is NoRows t = False"
| "errors_Is (PgError _) t = False"
| "errors_Is (Plain _) t = False"

type_synonym 'a result = "goerr + 'a"

definition is_ok :: "'a result \<Rightarrow> bool" where
  "is_ok r = (case r of Inl _ \<Rightarrow> False | Inr _ \<Rightarrow> True)"

lemma is_ok_simps [simp]: "\<not> is_ok (Inl e)" "is_ok (Inr x)"
  by (simp_all add: is_ok_def)

section \<open>Tables of rows\<close>

text \<open>
  A table is the list of its rows. \<open>update_where p f\<close> is \<open>UPDATE ... SET f WHERE p\<close>; the
  first row that satisfies a predicate is \<open>find\<close>.
\<close>

definition update_where :: "('r \<Rightarrow> bool) \<Rightarrow> ('r \<Rightarrow> 'r) \<Rightarrow> 'r list \<Rightarrow> 'r list" where
  "update_where p f rs = map (\<lambda>r. if p r then f r else r) rs"

lemma update_where_Nil [simp]: "update_where p f [] = []"
  by (simp add: update_where_def)

lemma update_where_Cons [simp]:
  "update_where p f (r # rs) = (if p r then f r else r) # update_where p f rs"
  by (simp add: update_where_def)

lemma length_update_where [simp]: "length (update_where p f rs) = length rs"
  by (simp add: update_where_def)

lemma set_update_where: "set (update_where p f rs) = (\<lambda>r. if p r then f r else r) ` set rs"
  by (simp add: update_where_def)

lemma map_update_where_inv [row_simps]:
  "(\<And>r. g (f r) = g r) \<Longrightarrow> map g (update_where p f rs) = map g rs"
  by (induction rs) auto

lemma image_update_where [row_simps]:
  "(\<And>r. g (f r) = g r) \<Longrightarrow> g ` set (update_where p f rs) = g ` set rs"
  by (induction rs) auto

lemma update_where_none: "(\<And>r. r \<in> set rs \<Longrightarrow> \<not> p r) \<Longrightarrow> update_where p f rs = rs"
  by (simp add: update_where_def map_idI)

lemma update_where_append [simp]: "update_where p f (rs @ qs) = update_where p f rs @ update_where p f qs"
  by (simp add: update_where_def)

lemma update_where_elem:
  "y \<in> set (update_where p f rs) \<Longrightarrow> \<exists>x \<in> set rs. y = x \<or> y = f x \<and> p x"
  by (auto simp: set_update_where)

lemma find_update_where [row_simps]:
  assumes "\<And>r. q (f r) = q r"
  shows "find q (update_where p f rs) =
    map_option (\<lambda>r. if p r then f r else r) (find q rs)"
  using assms by (induction rs) auto

lemma find_append [row_simps]:
  "find p (xs @ ys) = (case find p xs of None \<Rightarrow> find p ys | Some x \<Rightarrow> Some x)"
  by (induction xs) auto

lemma find_Some_mem: "find p xs = Some x \<Longrightarrow> x \<in> set xs \<and> p x"
  by (induction xs) (auto split: if_splits)

lemma find_None_all: "find p xs = None \<longleftrightarrow> (\<forall>x \<in> set xs. \<not> p x)"
  by (auto simp: find_None_iff)

lemma distinct_map_find:
  assumes "distinct (map k xs)" and "x \<in> set xs"
  shows "find (\<lambda>y. k y = k x) xs = Some x"
  using assms by (induction xs) (auto simp: image_iff)

lemma distinct_map_inj:
  "distinct (map k xs) \<Longrightarrow> x \<in> set xs \<Longrightarrow> y \<in> set xs \<Longrightarrow> k x = k y \<Longrightarrow> x = y"
  by (auto simp: distinct_map dest: inj_onD)

lemma sum_list_map_filter_append [simp]:
  "sum_list (map f (filter p (xs @ [x]))) =
   sum_list (map f (filter p xs)) + (if p x then f x else (0::'b::comm_monoid_add))"
  by simp

lemma sum_list_map_update_where:
  "(\<And>r. g (f r) = g r) \<Longrightarrow> sum_list (map g (update_where p f rs)) = sum_list (map g rs)"
  by (induction rs) auto

lemma sort_key_hd_mem:
  assumes "sort_key k xs = y # ys"
  shows "y \<in> set xs"
proof -
  have "set (sort_key k xs) = set xs" by simp
  with assms show ?thesis by auto
qed

text \<open>A \<open>:one\<close> query returns the first row of its result, or \<open>pgx.ErrNoRows\<close>.\<close>

definition first_row :: "'r list \<Rightarrow> 'r result" where
  "first_row rs = (case rs of [] \<Rightarrow> Inl NoRows | r # _ \<Rightarrow> Inr r)"

lemma first_row_simps [simp]: "first_row [] = Inl NoRows" "first_row (r # rs) = Inr r"
  by (simp_all add: first_row_def)

lemma first_row_OK: "first_row rs = Inr r \<Longrightarrow> r \<in> set rs"
  by (cases rs) auto

lemma first_row_Inl [simp]: "first_row rs = Inl e \<longleftrightarrow> rs = [] \<and> e = NoRows"
  by (cases rs) auto

text \<open>SQL's \<open>COALESCE\<close>.\<close>

definition coalesce :: "'a option \<Rightarrow> 'a option \<Rightarrow> 'a option" where
  "coalesce a b = (case a of None \<Rightarrow> b | Some _ \<Rightarrow> a)"

lemma coalesce_simps [simp]: "coalesce None b = b" "coalesce (Some x) b = Some x"
  by (simp_all add: coalesce_def)

lemma length_filter_le_1:
  assumes "distinct xs" and "\<And>x y. x \<in> set xs \<Longrightarrow> y \<in> set xs \<Longrightarrow> p x \<Longrightarrow> p y \<Longrightarrow> x = y"
  shows "length (filter p xs) \<le> 1"
proof -
  have "card (set (filter p xs)) \<le> 1"
    by (rule card_le_Suc0_iff_eq [THEN iffD2, unfolded One_nat_def [symmetric]]) (use assms(2) in auto)
  moreover have "card (set (filter p xs)) = length (filter p xs)"
    by (rule distinct_card) (simp add: assms(1))
  ultimately show ?thesis by simp
qed

section \<open>Safety of transition systems\<close>

text \<open>
  The contract of a component seen as a set of committed transactions: every step keeps
  the invariant, hence every run does.
\<close>

locale safe_system =
  fixes step :: "'s \<Rightarrow> 's \<Rightarrow> bool" and inv :: "'s \<Rightarrow> bool"
  assumes step_keeps: "step s t \<Longrightarrow> inv s \<Longrightarrow> inv t"
begin

lemma steps_keep: "step\<^sup>*\<^sup>* s t \<Longrightarrow> inv s \<Longrightarrow> inv t"
  by (induction rule: rtranclp_induct) (auto intro: step_keeps)

end

section \<open>Machine integers\<close>

type_synonym int32 = "32 word"
type_synonym int64 = "64 word"

text \<open>The value an \<open>int32\<close> holds after an operation whose exact result is \<open>k\<close>.\<close>

definition int32_of :: "int \<Rightarrow> int" where
  "int32_of k = sint (word_of_int k :: int32)"

text \<open>Signed comparison of Go's \<open>int32\<close>/\<open>int64\<close> values.\<close>

definition s_less :: "'a::len word \<Rightarrow> 'a word \<Rightarrow> bool" where
  "s_less a b = (sint a < sint b)"

definition s_le :: "'a::len word \<Rightarrow> 'a word \<Rightarrow> bool" where
  "s_le a b = (sint a \<le> sint b)"

lemma sint_of_int_small:
  "- (2 ^ (LENGTH('a) - 1)) \<le> k \<Longrightarrow> k < 2 ^ (LENGTH('a) - 1) \<Longrightarrow> sint (word_of_int k :: 'a::len word) = k"
  unfolding sint_sbintrunc' by (simp add: signed_take_bit_int_eq_self)

lemma int32_of_small [simp]: "- 2147483648 \<le> k \<Longrightarrow> k \<le> 2147483647 \<Longrightarrow> int32_of k = k"
  by (simp add: int32_of_def sint_of_int_small)

end
