(* ===== verification/Store.thy ===== *)
theory Store
  imports Prelude
begin

text \<open>
  The persistent state: the PostgreSQL tables the modelled packages read and write
  (\<open>db/migrations\<close>, row types in \<open>internal/db/sqlc/models.go\<close>), and the column types whose
  storage rules matter. A table is a list of rows; \<open>uuid\<close> values are their canonical
  strings, so \<open>uuid.String()\<close> is the identity; a nullable column is an \<open>option\<close>; a
  \<open>timestamptz\<close> is an \<open>int\<close> (nanoseconds). Exact decimal values (\<open>decimal.Decimal\<close>,
  \<open>numeric\<close>) are rationals.
\<close>

type_synonym uuid = string
type_synonym time = int
type_synonym decimal = rat

definition second :: time where "second = 1000000000"

definition uuid_Nil :: uuid where
  "uuid_Nil = ''00000000-0000-0000-0000-000000000000''"

section \<open>Column types\<close>

text \<open>
  \<open>CREATE DOMAIN billing_money AS numeric(18, 6)\<close>: a stored value is rounded to six
  fractional digits, ties away from zero, and rejected when twelve integer digits do not
  suffice.
\<close>

definition round6 :: "decimal \<Rightarrow> decimal" where
  "round6 x =
     (if x < 0 then - of_int \<lfloor>- x * 1000000 + 1 / 2\<rfloor> else of_int \<lfloor>x * 1000000 + 1 / 2\<rfloor>) / 1000000"

definition billing_money :: "decimal \<Rightarrow> decimal result" where
  "billing_money x =
     (let r = round6 x in
      if \<bar>r\<bar> < 1000000000000 then Inr r else Inl (PgError NumericValueOutOfRange))"

definition billing_money_opt :: "decimal option \<Rightarrow> decimal option result" where
  "billing_money_opt x =
     (case x of None \<Rightarrow> Inr None
      | Some v \<Rightarrow> (case billing_money v of Inl e \<Rightarrow> Inl e | Inr r \<Rightarrow> Inr (Some r)))"

text \<open>\<open>char(3)\<close>: trailing blanks are not significant, shorter values are blank padded.\<close>

definition char3 :: "string \<Rightarrow> string result" where
  "char3 s =
     (let t = rev (dropWhile (\<lambda>c. c = CHR '' '') (rev s)) in
      if length t > 3 then Inl (PgError StringDataRightTruncation)
      else Inr (t @ replicate (3 - length t) (CHR '' '')))"

definition int4_max :: int where
  "int4_max = 2147483647"

section \<open>Enumerations\<close>

datatype client_status = ClientActive | ClientSuspended | ClientDeleted
datatype billing_product = SmsDomestic | SmsInternational | Hlr | SilentSms
datatype wallet_tx_type = CREDIT | HOLD | DEBIT | RELEASE | ADJUSTMENT
datatype billing_action = ActionCapture | ActionRelease
datatype sms_direction = Outbound | Inbound
datatype sms_status = SmsQueued | SmsAccepted | SmsSent | SmsDelivered | SmsFailed
datatype send_job_status = JobPending | JobProcessing | JobDone | JobRetry | JobUncertain | JobDead
datatype send_attempt_kind = KindAccepted | KindRejected4xx | KindRateLimited | KindTimeout | Kind5xx
datatype def_number_status = NumberInventory | NumberAssigned | NumberDisabled
datatype lookup_check_type = CheckHlr | CheckPing
datatype lookup_job_source = SourceSingle | SourceBulk | SourceApi
datatype lookup_job_status =
  LJobQueued | LJobProcessing | LJobCompleted | LJobCompletedWithErrors | LJobFailed
datatype lookup_item_status = ItemQueued | ItemReserved | ItemPending | ItemCompleted | ItemFailed
datatype provider_lookup_kind = LookupSend | LookupStatus | LookupCost | LookupBalance
datatype provider_lookup_request_status = RequestPending | RequestSucceeded | RequestFailed
datatype webhook_delivery_status =
  DeliveryPending | DeliveryDelivered | DeliveryFailed | DeliveryDead
datatype campaign_status =
  CampaignDraft | CampaignQueued | CampaignRunning | CampaignCompleted | CampaignFailed | CampaignCancelled
datatype campaign_recipient_status =
  RecipientPending | RecipientEnqueued | RecipientSkipped | RecipientFailed
datatype actor_type = ActorAdmin | ActorClientUser | ActorApiKey | ActorSystem

section \<open>Rows\<close>

record client =
  cl_id :: uuid
  cl_status :: client_status

record wallet =
  w_id :: uuid
  w_client :: uuid
  w_currency :: string
  w_available :: decimal
  w_held :: decimal
  w_version :: int

text \<open>
  The metadata of a wallet transaction is a JSON object. \<open>JMoney d\<close> is the string
  \<open>FormatMoney(d)\<close>, whose rendering belongs to the decimal package.
\<close>

datatype json = JNull | JString string | JInt int | JMoney decimal

record wallet_tx =
  tx_id :: uuid
  tx_wallet :: uuid
  tx_client :: uuid
  tx_type :: wallet_tx_type
  tx_amount :: decimal
  tx_currency :: string
  tx_after_available :: "decimal option"
  tx_after_held :: "decimal option"
  tx_related_hold :: "uuid option"
  tx_sms_message :: "uuid option"
  tx_lookup_job :: "uuid option"
  tx_lookup_item :: "uuid option"
  tx_key :: "string option"
  tx_description :: "string option"
  tx_metadata :: "(string \<times> json) list"
  tx_created_by :: "uuid option"
  tx_created_at :: time

record sms_message =
  msg_id :: uuid
  msg_client :: "uuid option"
  msg_direction :: sms_direction
  msg_from :: string
  msg_to :: string
  msg_text :: string
  msg_provider_sms_id :: "string option"
  msg_provider_status :: "string option"
  msg_pdu_count :: "int option"
  msg_campaign :: "uuid option"
  msg_status :: sms_status
  msg_idempotency_key :: "string option"
  msg_created_at :: time
  msg_accepted_at :: "time option"
  msg_sent_at :: "time option"
  msg_delivered_at :: "time option"
  msg_failed_at :: "time option"
  msg_unit_sell_price :: "decimal option"
  msg_billed_segments :: "int option"
  msg_tariff_plan_id :: "uuid option"
  msg_tariff_plan_code :: "string option"
  msg_currency :: "string option"
  msg_billing_action :: "billing_action option"

record send_job =
  sj_id :: uuid
  sj_message :: uuid
  sj_client :: "uuid option"
  sj_status :: send_job_status
  sj_attempt :: int
  sj_available_at :: time
  sj_locked_at :: "time option"
  sj_locked_by :: "string option"
  sj_last_error :: "string option"

record send_attempt =
  sa_job :: uuid
  sa_attempt :: int
  sa_http_status :: "int option"
  sa_body :: "string option"
  sa_kind :: "send_attempt_kind option"
  sa_created_at :: time

record tariff_plan =
  tp_id :: uuid
  tp_code :: string
  tp_product :: billing_product
  tp_sell_price :: decimal
  tp_currency :: string
  tp_is_active :: bool

record client_tariff =
  ct_id :: uuid
  ct_client :: uuid
  ct_product :: billing_product
  ct_plan :: uuid
  ct_price_override :: "decimal option"
  ct_effective_from :: time
  ct_effective_to :: "time option"

record def_number =
  dn_id :: uuid
  dn_msisdn :: string
  dn_status :: def_number_status

record number_assignment =
  na_id :: uuid
  na_number :: uuid
  na_client :: uuid
  na_unassigned_at :: "time option"

record lookup_job =
  lj_id :: uuid
  lj_client :: uuid
  lj_check_type :: lookup_check_type
  lj_source :: lookup_job_source
  lj_status :: lookup_job_status
  lj_item_count :: int
  lj_success_count :: int
  lj_failure_count :: int
  lj_unit_sell_price :: "decimal option"
  lj_tariff_plan_id :: "uuid option"
  lj_tariff_plan_code :: "string option"
  lj_currency :: string
  lj_estimated_cost :: "decimal option"
  lj_actual_cost :: "decimal option"
  lj_original_filename :: "string option"
  lj_idempotency_key :: "string option"
  lj_created_by :: "uuid option"
  lj_api_credential_id :: "uuid option"
  lj_error_code :: "string option"
  lj_error_message :: "string option"
  lj_started_at :: "time option"
  lj_completed_at :: "time option"
  lj_metadata :: string
  lj_created_at :: time
  lj_updated_at :: time
  lj_reachable_count :: int
  lj_unreachable_count :: int

record lookup_item =
  li_id :: uuid
  li_job :: uuid
  li_client :: uuid
  li_check_type :: lookup_check_type
  li_status :: lookup_item_status
  li_phone :: string
  li_phone_digits :: string
  li_provider_code :: string
  li_provider_message_id :: "string option"
  li_unit_sell_price :: "decimal option"
  li_tariff_plan_id :: "uuid option"
  li_tariff_plan_code :: "string option"
  li_currency :: "string option"
  li_estimated_cost :: "decimal option"
  li_actual_cost :: "decimal option"
  li_result_status :: "string option"
  li_is_reachable :: "bool option"
  li_imsi :: "string option"
  li_mcc :: "string option"
  li_mnc :: "string option"
  li_operator_name :: "string option"
  li_country_code :: "string option"
  li_ported :: "bool option"
  li_roaming :: "bool option"
  li_normalized_result :: string
  li_error_code :: "string option"
  li_error_message :: "string option"
  li_billing_action :: "billing_action option"
  li_next_poll_at :: "time option"
  li_poll_attempts :: int
  li_sent_at :: "time option"
  li_completed_at :: "time option"
  li_created_at :: time
  li_updated_at :: time
  li_enrich_attempts :: int

record provider_lookup_request =
  pr_id :: uuid
  pr_client :: "uuid option"
  pr_item :: "uuid option"
  pr_provider_code :: string
  pr_kind :: provider_lookup_kind
  pr_status :: provider_lookup_request_status
  pr_provider_message_id :: "string option"
  pr_http_status :: "int option"
  pr_error_code :: "string option"
  pr_error_message :: "string option"
  pr_request_payload :: string
  pr_response_payload :: "string option"
  pr_normalized_result :: "string option"
  pr_idempotency_key :: "string option"
  pr_started_at :: "time option"
  pr_finished_at :: "time option"
  pr_created_at :: time

record provider_lookup_callback =
  cb_id :: uuid
  cb_client :: "uuid option"
  cb_item :: "uuid option"
  cb_provider_code :: string
  cb_provider_message_id :: "string option"
  cb_raw_payload :: string
  cb_normalized_result :: "string option"
  cb_dedupe_key :: "string option"
  cb_signature_valid :: "bool option"
  cb_processed_at :: "time option"
  cb_process_error :: "string option"
  cb_created_at :: time

record webhook_endpoint =
  we_id :: uuid
  we_client :: uuid
  we_url :: string
  we_secret_ciphertext :: string
  we_dek_key_id :: string
  we_description :: "string option"
  we_enabled :: bool
  we_events :: "string list"
  we_consecutive_failures :: int
  we_created_at :: time
  we_updated_at :: time

record webhook_delivery =
  wd_id :: uuid
  wd_client :: uuid
  wd_endpoint :: uuid
  wd_job :: "uuid option"
  wd_item :: "uuid option"
  wd_event_type :: string
  wd_payload :: string
  wd_status :: webhook_delivery_status
  wd_attempt_count :: int
  wd_max_attempts :: int
  wd_next_attempt_at :: "time option"
  wd_last_response_code :: "int option"
  wd_last_error :: "string option"
  wd_delivered_at :: "time option"
  wd_created_at :: time
  wd_updated_at :: time

record sms_campaign =
  cp_id :: uuid
  cp_client :: uuid
  cp_from :: string
  cp_text :: string
  cp_status :: campaign_status
  cp_total_count :: int
  cp_accepted_count :: int
  cp_delivered_count :: int
  cp_failed_count :: int
  cp_created_by :: "uuid option"
  cp_created_at :: time
  cp_updated_at :: time

record campaign_recipient =
  rp_id :: uuid
  rp_campaign :: uuid
  rp_to :: string
  rp_status :: campaign_recipient_status
  rp_sms_message :: "uuid option"
  rp_created_at :: time

record idempotency_key =
  ik_id :: uuid
  ik_principal_type :: actor_type
  ik_principal_id :: uuid
  ik_key :: string
  ik_request_hash :: string
  ik_response_status :: "int option"
  ik_response_body :: string
  ik_expires_at :: time

record db =
  clients :: "client list"
  wallets :: "wallet list"
  wallet_txs :: "wallet_tx list"
  sms_messages :: "sms_message list"
  send_jobs :: "send_job list"
  send_attempts :: "send_attempt list"
  tariff_plans :: "tariff_plan list"
  client_tariffs :: "client_tariff list"
  def_numbers :: "def_number list"
  number_assignments :: "number_assignment list"
  lookup_jobs :: "lookup_job list"
  lookup_items :: "lookup_item list"
  idempotency_keys :: "idempotency_key list"
  provider_lookup_requests :: "provider_lookup_request list"
  provider_lookup_callbacks :: "provider_lookup_callback list"
  webhook_endpoints :: "webhook_endpoint list"
  webhook_deliveries :: "webhook_delivery list"
  sms_campaigns :: "sms_campaign list"
  campaign_recipients :: "campaign_recipient list"

definition empty_db :: db where
  "empty_db = \<lparr>clients = [], wallets = [], wallet_txs = [], sms_messages = [], send_jobs = [],
     send_attempts = [], tariff_plans = [], client_tariffs = [], def_numbers = [],
     number_assignments = [], lookup_jobs = [], lookup_items = [], idempotency_keys = [],
     provider_lookup_requests = [], provider_lookup_callbacks = [], webhook_endpoints = [],
     webhook_deliveries = [], sms_campaigns = [], campaign_recipients = []\<rparr>"

section \<open>Stored amounts\<close>

text \<open>A storable amount is a whole number of millionths.\<close>

definition is_money :: "decimal \<Rightarrow> bool" where
  "is_money x = (x * 1000000 \<in> \<int>)"

lemma is_money_0 [simp]: "is_money 0"
  by (simp add: is_money_def)

lemma is_money_add [money_simps]: "is_money x \<Longrightarrow> is_money y \<Longrightarrow> is_money (x + y)"
  by (simp add: is_money_def ring_distribs)

lemma is_money_diff [money_simps]: "is_money x \<Longrightarrow> is_money y \<Longrightarrow> is_money (x - y)"
  by (simp add: is_money_def ring_distribs)

lemma is_money_mult_int [money_simps]: "is_money x \<Longrightarrow> is_money (x * of_int k)"
proof -
  assume "is_money x"
  then have "(x * 1000000) * of_int k \<in> \<int>" by (simp add: is_money_def)
  then show ?thesis by (simp add: is_money_def ac_simps)
qed

lemma floor_half_int: "x \<in> \<int> \<Longrightarrow> of_int \<lfloor>x + 1 / 2 :: rat\<rfloor> = x"
  by (auto simp: Ints_def floor_eq_iff)

lemma round6_id [money_simps]: "is_money x \<Longrightarrow> round6 x = x"
proof -
  assume "is_money x"
  then have "x * 1000000 \<in> \<int>" and "- x * 1000000 \<in> \<int>"
    by (simp_all add: is_money_def)
  then show ?thesis
    unfolding round6_def by (simp only: floor_half_int) auto
qed

lemma is_money_round6 [money_simps, simp]: "is_money (round6 x)"
  by (simp add: round6_def is_money_def)

lemma billing_money_OK [money_simps]: "billing_money x = Inr y \<Longrightarrow> y = round6 x"
  by (auto simp: billing_money_def Let_def split: if_splits)

lemma billing_money_is_money: "billing_money x = Inr y \<Longrightarrow> is_money y"
  by (auto dest: billing_money_OK)

lemma billing_money_exact: "billing_money x = Inr y \<Longrightarrow> is_money x \<Longrightarrow> y = x"
  by (auto dest: billing_money_OK simp: round6_id)

lemma round6_nonneg: "0 \<le> x \<Longrightarrow> 0 \<le> round6 x"
  by (simp add: round6_def)

lemma round6_mono: "x \<le> y \<Longrightarrow> round6 x \<le> round6 y"
proof -
  assume "x \<le> y"
  moreover have "\<lfloor>x * 1000000 + 1 / 2\<rfloor> \<le> \<lfloor>y * 1000000 + 1 / 2\<rfloor>"
    and "\<lfloor>- y * 1000000 + 1 / 2\<rfloor> \<le> \<lfloor>- x * 1000000 + 1 / 2\<rfloor>"
    using \<open>x \<le> y\<close> by (simp_all add: floor_mono)
  moreover have "0 \<le> \<lfloor>y * 1000000 + 1 / 2\<rfloor>" if "\<not> y < 0"
    using that by simp
  moreover have "0 \<le> \<lfloor>- x * 1000000 + 1 / 2\<rfloor>" if "x < 0"
    using that by (simp add: less_imp_le)
  ultimately show ?thesis
    unfolding round6_def
    by (auto simp: divide_right_mono intro: order_trans [of _ 0])
qed

definition storable :: "decimal \<Rightarrow> bool" where
  "storable x = (is_money x \<and> \<bar>x\<bar> < 1000000000000)"

lemma billing_money_storable: "storable x \<Longrightarrow> billing_money x = Inr x"
  by (simp add: storable_def billing_money_def Let_def round6_id)

lemma billing_money_storable_D: "billing_money x = Inr y \<Longrightarrow> storable y"
  by (auto simp: billing_money_def Let_def storable_def split: if_splits)

lemma char3_idem: "char3 s = Inr c \<Longrightarrow> char3 c = Inr c"
proof -
  let ?b = "\<lambda>c. c = CHR '' ''"
  assume c: "char3 s = Inr c"
  define t where "t = rev (dropWhile ?b (rev s))"
  have len: "length t \<le> 3" and ct: "c = t @ replicate (3 - length t) (CHR '' '')"
    using c by (auto simp: char3_def Let_def t_def split: if_splits)
  have "dropWhile ?b (rev t) = rev t" unfolding t_def by (simp add: dropWhile_idem)
  then have "rev (dropWhile ?b (rev c)) = t"
    unfolding ct by (simp add: dropWhile_append)
  then show ?thesis using len ct by (simp add: char3_def Let_def)
qed

end
