(* ===== verification/GoStrings.thy ===== *)
theory GoStrings
  imports Prelude
begin

text \<open>
  Go strings. A Go string is a sequence of bytes, which need not be valid UTF-8, and a
  HOL \<open>char\<close> is a byte, so a Go string is a HOL \<open>string\<close>: \<open>len(s)\<close> is \<open>length s\<close> and
  \<open>s[i]\<close> is \<open>s ! i\<close>. A \<open>range\<close> loop over a string decodes UTF-8 (\<open>decode_rune\<close>), an
  invalid byte giving U+FFFD of width 1. The Unicode tables are those of Unicode 15.0.
\<close>

type_synonym rune = nat

definition rune_error :: rune where
  "rune_error = 0xFFFD"

definition is_cont :: "nat \<Rightarrow> bool" where
  "is_cont b = (0x80 \<le> b \<and> b \<le> 0xBF)"

text \<open>The range of the second byte, which depends on the first (\<open>acceptRanges\<close>).\<close>

definition second_ok :: "nat \<Rightarrow> nat \<Rightarrow> bool" where
  "second_ok b0 b1 =
     (if b0 = 0xE0 then 0xA0 \<le> b1 \<and> b1 \<le> 0xBF
      else if b0 = 0xED then 0x80 \<le> b1 \<and> b1 \<le> 0x9F
      else if b0 = 0xF0 then 0x90 \<le> b1 \<and> b1 \<le> 0xBF
      else if b0 = 0xF4 then 0x80 \<le> b1 \<and> b1 \<le> 0x8F
      else is_cont b1)"

text \<open>
  \<open>utf8.DecodeRuneInString\<close> on a non-empty string: the rune and its width in bytes.
\<close>

definition decode2 :: "nat \<Rightarrow> string \<Rightarrow> rune \<times> nat" where
  "decode2 b0 rest =
     (case rest of
        c1 # _ \<Rightarrow>
          let b1 = of_char c1 in
          if is_cont b1 then ((b0 mod 32) * 64 + b1 mod 64, 2) else (rune_error, 1)
      | _ \<Rightarrow> (rune_error, 1))"

definition decode3 :: "nat \<Rightarrow> string \<Rightarrow> rune \<times> nat" where
  "decode3 b0 rest =
     (case rest of
        c1 # c2 # _ \<Rightarrow>
          let b1 = of_char c1; b2 = of_char c2 in
          if second_ok b0 b1 \<and> is_cont b2
          then ((b0 mod 16) * 4096 + (b1 mod 64) * 64 + b2 mod 64, 3) else (rune_error, 1)
      | _ \<Rightarrow> (rune_error, 1))"

definition decode4 :: "nat \<Rightarrow> string \<Rightarrow> rune \<times> nat" where
  "decode4 b0 rest =
     (case rest of
        c1 # c2 # c3 # _ \<Rightarrow>
          let b1 = of_char c1; b2 = of_char c2; b3 = of_char c3 in
          if second_ok b0 b1 \<and> is_cont b2 \<and> is_cont b3
          then ((b0 mod 8) * 262144 + (b1 mod 64) * 4096 + (b2 mod 64) * 64 + b3 mod 64, 4)
          else (rune_error, 1)
      | _ \<Rightarrow> (rune_error, 1))"

definition decode_rune :: "char \<Rightarrow> string \<Rightarrow> rune \<times> nat" where
  "decode_rune c rest =
     (let b0 = of_char c in
      if b0 < 0x80 then (b0, 1)
      else if 0xC2 \<le> b0 \<and> b0 \<le> 0xDF then decode2 b0 rest
      else if 0xE0 \<le> b0 \<and> b0 \<le> 0xEF then decode3 b0 rest
      else if 0xF0 \<le> b0 \<and> b0 \<le> 0xF4 then decode4 b0 rest
      else (rune_error, 1))"

lemma decode_rune_width_pos: "0 < snd (decode_rune c rest)"
  by (auto simp: decode_rune_def decode2_def decode3_def decode4_def Let_def split: list.splits)

text \<open>The iterations of \<open>for _, r := range s\<close>, each rune with the bytes it was read from.\<close>

function runes :: "string \<Rightarrow> (rune \<times> string) list" where
  "runes [] = []"
| "runes (c # cs) =
     (let (r, w) = decode_rune c cs in (r, take w (c # cs)) # runes (drop w (c # cs)))"
  by pat_completeness auto
termination
proof (relation "measure length", goal_cases)
  case (2 c cs x r w)
  then have "0 < w" using decode_rune_width_pos [of c cs] by (metis snd_conv)
  then show ?case by simp
qed simp

declare runes.simps [simp del]

lemma runes_Nil [simp]: "runes [] = []"
  by (simp add: runes.simps)

definition runes_of :: "string \<Rightarrow> rune list" where
  "runes_of s = map fst (runes s)"

text \<open>\<open>strings.Builder.WriteRune\<close> / \<open>utf8.AppendRune\<close>.\<close>

definition encode_rune :: "rune \<Rightarrow> string" where
  "encode_rune r =
     (if r < 0x80 then [char_of r]
      else if r < 0x800 then [char_of (0xC0 + r div 64), char_of (0x80 + r mod 64)]
      else if 0xD800 \<le> r \<and> r \<le> 0xDFFF \<or> 0x10FFFF < r
      then [char_of (0xEF::nat), char_of (0xBF::nat), char_of (0xBD::nat)]
      else if r < 0x10000 then
        [char_of (0xE0 + r div 4096), char_of (0x80 + r div 64 mod 64), char_of (0x80 + r mod 64)]
      else
        [char_of (0xF0 + r div 262144), char_of (0x80 + r div 4096 mod 64),
         char_of (0x80 + r div 64 mod 64), char_of (0x80 + r mod 64)])"

text \<open>\<open>unicode.IsDigit\<close>: the first code point of each run of ten decimal digits (category Nd).\<close>

definition nd_zeros :: "rune list" where
  "nd_zeros =
    [0x30, 0x660, 0x6F0, 0x7C0, 0x966, 0x9E6, 0xA66, 0xAE6, 0xB66, 0xBE6, 0xC66, 0xCE6,
     0xD66, 0xDE6, 0xE50, 0xED0, 0xF20, 0x1040, 0x1090, 0x17E0, 0x1810, 0x1946, 0x19D0,
     0x1A80, 0x1A90, 0x1B50, 0x1BB0, 0x1C40, 0x1C50, 0xA620, 0xA8D0, 0xA900, 0xA9D0,
     0xA9F0, 0xAA50, 0xABF0, 0xFF10, 0x104A0, 0x10D30, 0x11066, 0x110F0, 0x11136, 0x111D0,
     0x112F0, 0x11450, 0x114D0, 0x11650, 0x116C0, 0x11730, 0x118E0, 0x11950, 0x11C50,
     0x11D50, 0x11DA0, 0x11F50, 0x16A60, 0x16AC0, 0x16B50, 0x1D7CE, 0x1D7D8, 0x1D7E2,
     0x1D7EC, 0x1D7F6, 0x1E140, 0x1E2F0, 0x1E4F0, 0x1E950, 0x1FBF0]"

definition unicode_IsDigit :: "rune \<Rightarrow> bool" where
  "unicode_IsDigit r = list_ex (\<lambda>z. z \<le> r \<and> r \<le> z + 9) nd_zeros"

text \<open>\<open>unicode.IsSpace\<close> (White_Space).\<close>

definition unicode_IsSpace :: "rune \<Rightarrow> bool" where
  "unicode_IsSpace r =
     (r \<in> set [0x09, 0x0A, 0x0B, 0x0C, 0x0D, 0x20, 0x85, 0xA0, 0x1680, 0x2028, 0x2029, 0x202F,
               0x205F, 0x3000]
      \<or> 0x2000 \<le> r \<and> r \<le> 0x200A)"

text \<open>\<open>strings.TrimSpace\<close>: drop the leading and trailing white space runes.\<close>

definition TrimSpace :: "string \<Rightarrow> string" where
  "TrimSpace s =
     (let keep = dropWhile (\<lambda>(r, _). unicode_IsSpace r) (runes s) in
      concat (map snd (rev (dropWhile (\<lambda>(r, _). unicode_IsSpace r) (rev keep)))))"

definition RuneCountInString :: "string \<Rightarrow> nat" where
  "RuneCountInString s = length (runes s)"

definition HasPrefix :: "string \<Rightarrow> string \<Rightarrow> bool" where
  "HasPrefix s p = (take (length p) s = p)"

text \<open>\<open>strings.Index\<close> (\<open>None\<close> for -1), \<open>Contains\<close>, \<open>TrimPrefix\<close>, \<open>TrimSuffix\<close>.\<close>

fun strings_Index :: "string \<Rightarrow> string \<Rightarrow> nat option" where
  "strings_Index s sub =
     (if HasPrefix s sub then Some 0
      else (case s of [] \<Rightarrow> None | _ # cs \<Rightarrow> map_option Suc (strings_Index cs sub)))"

declare strings_Index.simps [simp del]

definition strings_Contains :: "string \<Rightarrow> string \<Rightarrow> bool" where
  "strings_Contains s sub = (strings_Index s sub \<noteq> None)"

definition TrimPrefix :: "string \<Rightarrow> string \<Rightarrow> string" where
  "TrimPrefix s p = (if HasPrefix s p then drop (length p) s else s)"

definition TrimSuffix :: "string \<Rightarrow> string \<Rightarrow> string" where
  "TrimSuffix s p = (if HasPrefix (rev s) (rev p) then take (length s - length p) s else s)"

text \<open>Decimal rendering (\<open>%d\<close>, \<open>strconv.Itoa\<close>).\<close>

fun nat_digits :: "nat \<Rightarrow> string" where
  "nat_digits n =
     (if n < 10 then [char_of (48 + n)] else nat_digits (n div 10) @ [char_of (48 + n mod 10)])"

declare nat_digits.simps [simp del]

definition itoa :: "int \<Rightarrow> string" where
  "itoa k = (if k < 0 then CHR ''-'' # nat_digits (nat (- k)) else nat_digits (nat k))"

section \<open>ASCII strings\<close>

definition is_ascii :: "string \<Rightarrow> bool" where
  "is_ascii s = list_all (\<lambda>c. of_char c < (0x80::nat)) s"

definition ascii_digit :: "char \<Rightarrow> bool" where
  "ascii_digit c = (48 \<le> (of_char c :: nat) \<and> (of_char c :: nat) \<le> 57)"

lemma is_ascii_simps [simp]:
  "is_ascii []"
  "is_ascii (c # cs) = ((of_char c :: nat) < 0x80 \<and> is_ascii cs)"
  "is_ascii (s @ t) = (is_ascii s \<and> is_ascii t)"
  by (simp_all add: is_ascii_def)

lemma runes_ascii_Cons [simp]:
  "(of_char c :: nat) < 0x80 \<Longrightarrow> runes (c # cs) = (of_char c, [c]) # runes cs"
  by (simp add: runes.simps decode_rune_def)

lemma runes_ascii: "is_ascii s \<Longrightarrow> runes s = map (\<lambda>c. (of_char c, [c])) s"
  by (induction s) auto

lemma encode_rune_ascii [simp]: "(of_char c :: nat) < 0x80 \<Longrightarrow> encode_rune (of_char c) = [c]"
  by (simp add: encode_rune_def)

lemma IsDigit_ascii: "r < 0x80 \<Longrightarrow> unicode_IsDigit r = (48 \<le> r \<and> r \<le> 57)"
  by (simp add: unicode_IsDigit_def nd_zeros_def)

lemma ascii_digit_ascii: "ascii_digit c \<Longrightarrow> (of_char c :: nat) < 0x80"
  by (simp add: ascii_digit_def)

text \<open>Digits extracted from an ASCII string by a \<open>range\<close> loop are its ASCII digits.\<close>

lemma filter_digits_ascii:
  "is_ascii s \<Longrightarrow>
   concat (map (encode_rune \<circ> fst) (filter (\<lambda>(r, _). unicode_IsDigit r) (runes s))) =
   filter ascii_digit s"
  by (induction s) (auto simp: IsDigit_ascii ascii_digit_def)

end
