(* ===== verification/Ledger.thy ===== *)
theory Ledger
  imports Store GoStrings
begin

text \<open>
  The pure part of \<open>internal/billing\<close>: the balance arithmetic of \<open>ledger.go\<close>, the amount
  checks and error codes of \<open>money.go\<close> and \<open>service.go\<close>, the idempotency keys, and the
  decisions of \<open>lookup.go\<close>.
\<close>

section \<open>Amounts and error codes\<close>

abbreviation wrap :: "sentinel \<Rightarrow> string \<Rightarrow> string \<Rightarrow> goerr" where
  "wrap err code msg \<equiv> Wrapped err code msg []"

text \<open>
  \<open>money\<close> parses with \<open>decimal.NewFromString\<close>, which is the parameter \<open>parse\<close>
  (\<open>None\<close> when it returns an error).
\<close>

definition money :: "(string \<Rightarrow> decimal option) \<Rightarrow> string \<Rightarrow> decimal result" where
  "money parse s =
     (case parse (TrimSpace s) of
        None \<Rightarrow> Inl (Fmt BillingErrInvalidAmount s)
      | Some d \<Rightarrow> Inr d)"

definition mustPositive :: "decimal \<Rightarrow> string \<Rightarrow> goerr option" where
  "mustPositive d field =
     (if d \<le> 0 then Some (Fmt BillingErrInvalidAmount (field @ '' must be > 0'')) else None)"

definition trimCurrency :: "string \<Rightarrow> string" where
  "trimCurrency s = TrimSpace s"

fun error_code :: "goerr \<Rightarrow> string" where
  "error_code (Wrapped _ c _ _) = c"
| "error_code _ = []"

definition CodeOf :: "goerr \<Rightarrow> string" where
  "CodeOf err =
     (if error_code err \<noteq> [] then error_code err
      else if errors_Is err BillingErrInsufficientFunds then ''insufficient_funds''
      else if errors_Is err BillingErrTariffNotConfigured then ''tariff_not_configured''
      else if errors_Is err BillingErrInvalidTariff then ''invalid_tariff''
      else if errors_Is err BillingErrPriceSnapshotMissing then ''price_snapshot_missing''
      else if errors_Is err BillingErrWalletNotFound then ''wallet_not_found''
      else if errors_Is err BillingErrNegativeBalance then ''negative_balance_forbidden''
      else if errors_Is err BillingErrValidation \<or> errors_Is err BillingErrInvalidAmount
      then ''validation''
      else ''internal'')"

section \<open>Balance arithmetic\<close>

definition insufficient_funds :: goerr where
  "insufficient_funds = wrap BillingErrInsufficientFunds ''insufficient_funds'' ''insufficient funds''"

definition applyHold :: "decimal \<Rightarrow> decimal \<Rightarrow> decimal \<Rightarrow> (decimal \<times> decimal) result" where
  "applyHold avail held amt =
     (let nextAvail = avail - amt in
      if nextAvail < 0 then Inl insufficient_funds
      else Inr (nextAvail, held + amt))"

definition applyRelease :: "decimal \<Rightarrow> decimal \<Rightarrow> decimal \<Rightarrow> (decimal \<times> decimal) result" where
  "applyRelease avail held amt =
     (let nextHeld = held - amt in
      if nextHeld < 0
      then Inl (wrap BillingErrInvalidAmount ''invalid_amount'' ''release exceeds held'')
      else Inr (avail + amt, nextHeld))"

definition applyDebitFromHold :: "decimal \<Rightarrow> decimal \<Rightarrow> decimal \<Rightarrow> (decimal \<times> decimal) result" where
  "applyDebitFromHold avail held amt =
     (let nextHeld = held - amt in
      if nextHeld < 0
      then Inl (wrap BillingErrInvalidAmount ''invalid_amount'' ''debit exceeds held'')
      else Inr (avail, nextHeld))"

definition applyAdjustment :: "decimal \<Rightarrow> decimal \<Rightarrow> bool \<Rightarrow> bool \<Rightarrow> decimal result" where
  "applyAdjustment avail amt debit allowNeg =
     (let next = (if debit then avail - amt else avail + amt) in
      if next < 0 \<and> \<not> allowNeg
      then Inl (wrap BillingErrNegativeBalance ''negative_balance_forbidden''
             ''negative balance forbidden'')
      else Inr next)"

section \<open>Idempotency keys\<close>

definition HoldKey :: "uuid \<Rightarrow> string" where
  "HoldKey messageID = ''hold:sms:'' @ messageID"

definition DebitKey :: "uuid \<Rightarrow> string" where
  "DebitKey messageID = ''debit:sms:'' @ messageID"

definition ReleaseKey :: "uuid \<Rightarrow> string" where
  "ReleaseKey messageID = ''release:sms:'' @ messageID"

definition LookupHoldKey :: "uuid \<Rightarrow> string" where
  "LookupHoldKey jobID = ''hold:lookup_job:'' @ jobID"

definition LookupDebitKey :: "uuid \<Rightarrow> string" where
  "LookupDebitKey itemID = ''debit:lookup_item:'' @ itemID"

definition LookupReleaseKey :: "uuid \<Rightarrow> string" where
  "LookupReleaseKey itemID = ''release:lookup_item:'' @ itemID"

definition LookupReleaseRemainderKey :: "uuid \<Rightarrow> string" where
  "LookupReleaseRemainderKey jobID = ''release-remainder:lookup_job:'' @ jobID"

lemmas key_defs = HoldKey_def DebitKey_def ReleaseKey_def LookupHoldKey_def LookupDebitKey_def
  LookupReleaseKey_def LookupReleaseRemainderKey_def

section \<open>Decisions on lookup jobs\<close>

definition ProductForCheckType :: "lookup_check_type \<Rightarrow> billing_product" where
  "ProductForCheckType t = (case t of CheckHlr \<Rightarrow> Hlr | CheckPing \<Rightarrow> SilentSms)"

definition RemainingOnHold :: "decimal \<Rightarrow> decimal \<Rightarrow> decimal result" where
  "RemainingOnHold holdAmount settledAmount =
     (let left = holdAmount - settledAmount in
      if left < 0
      then Inl (wrap BillingErrInvalidAmount ''invalid_amount'' ''settled exceeds hold'')
      else Inr left)"

definition HoldIsOpen :: "decimal \<Rightarrow> bool" where
  "HoldIsOpen remaining = (remaining > 0)"

definition LookupRemainderBlocked :: "nat \<Rightarrow> bool" where
  "LookupRemainderBlocked blockingItems = (blockingItems > 0)"

definition LookupItemSettleAction :: "lookup_item \<Rightarrow> string" where
  "LookupItemSettleAction item =
     (case li_billing_action item of
        Some ActionCapture \<Rightarrow> ''capture''
      | Some ActionRelease \<Rightarrow> ''release''
      | None \<Rightarrow>
          if li_status item = ItemCompleted then ''capture''
          else if li_result_status item \<in> {Some ''reachable'', Some ''unreachable'', Some ''error''}
          then ''capture''
          else if li_status item = ItemFailed then ''release''
          else [])"

section \<open>Conservation\<close>

text \<open>
  The balance arithmetic conserves money on every branch: a hold and a release move an
  amount between the available and the held balance without changing their sum, a debit
  takes it out of the held balance only, and an operation that would make the balance it
  draws from negative is refused.
\<close>

theorem balance_arithmetic_conserves:
  "(case applyHold a h x of
      Inl e \<Rightarrow> a < x \<and> CodeOf e = ''insufficient_funds''
    | Inr (a', h') \<Rightarrow> a' + h' = a + h \<and> h' = h + x \<and> 0 \<le> a')
   \<and> (case applyRelease a h x of
      Inl e \<Rightarrow> h < x \<and> CodeOf e = ''invalid_amount''
    | Inr (a', h') \<Rightarrow> a' + h' = a + h \<and> h' = h - x \<and> 0 \<le> h')
   \<and> (case applyDebitFromHold a h x of
      Inl e \<Rightarrow> h < x \<and> CodeOf e = ''invalid_amount''
    | Inr (a', h') \<Rightarrow> a' = a \<and> h' = h - x \<and> 0 \<le> h')
   \<and> (case applyAdjustment a x debit neg of
      Inl e \<Rightarrow> \<not> neg \<and> CodeOf e = ''negative_balance_forbidden''
    | Inr a' \<Rightarrow> a' = (if debit then a - x else a + x) \<and> (neg \<or> 0 \<le> a'))"
  by (auto simp: applyHold_def applyRelease_def applyDebitFromHold_def applyAdjustment_def
      insufficient_funds_def CodeOf_def Let_def)

text \<open>
  Idempotency keys of different purposes never collide, whatever the identifiers: the
  seven families of keys of the SMS and lookup settlement are pairwise disjoint, and
  each family is injective in the identifier.
\<close>

theorem idempotency_keys_disjoint:
  "distinct [HoldKey a, DebitKey b, ReleaseKey c, LookupHoldKey d, LookupDebitKey e,
     LookupReleaseKey f, LookupReleaseRemainderKey g]
   \<and> inj HoldKey \<and> inj DebitKey \<and> inj ReleaseKey \<and> inj LookupHoldKey \<and> inj LookupDebitKey
   \<and> inj LookupReleaseKey \<and> inj LookupReleaseRemainderKey"
  by (simp add: key_defs inj_def)

end
