(* ===== verification/WalletQueries.thy ===== *)
theory WalletQueries
  imports Ledger
begin

text \<open>
  The SQL of \<open>internal/db/queries/billing.sql\<close> and \<open>lookup_billing.sql\<close> (executed through
  \<open>internal/db/sqlc\<close>) that the billing service runs, with the constraints of the schema:
  primary keys, the unique index on \<open>(client_id, idempotency_key)\<close>, the CHECK on the held
  balance and the amount, and the storage rules of \<open>billing_money\<close>, \<open>char(3)\<close> and \<open>int\<close>.
  A read returns \<open>Inl NoRows\<close> where pgx returns \<open>ErrNoRows\<close>; a write returns the new state.
\<close>

section \<open>Clients and wallets\<close>

definition GetClientByID :: "uuid \<Rightarrow> db \<Rightarrow> client result" where
  "GetClientByID cid d =
     (case find (\<lambda>c. cl_id c = cid) (clients d) of None \<Rightarrow> Inl NoRows | Some c \<Rightarrow> Inr c)"

definition GetWalletByClientID :: "uuid \<Rightarrow> db \<Rightarrow> wallet result" where
  "GetWalletByClientID cid d =
     (case find (\<lambda>w. w_client w = cid) (wallets d) of None \<Rightarrow> Inl NoRows | Some w \<Rightarrow> Inr w)"

text \<open>The row lock of \<open>FOR UPDATE\<close> has no effect within one transaction.\<close>

definition LockWalletByClientID :: "uuid \<Rightarrow> db \<Rightarrow> wallet result" where
  "LockWalletByClientID cid d = GetWalletByClientID cid d"

definition InsertWallet :: "uuid \<Rightarrow> uuid \<Rightarrow> string \<Rightarrow> db \<Rightarrow> (wallet \<times> db) result" where
  "InsertWallet new_id cid currency d =
     (case char3 currency of Inl e \<Rightarrow> Inl e | Inr cur \<Rightarrow>
      case find (\<lambda>w. w_client w = cid) (wallets d) of
        Some w \<Rightarrow> Inr (w, d)
      | None \<Rightarrow>
          if new_id \<in> set (map w_id (wallets d)) then Inl (PgError UniqueViolation)
          else
            let w = \<lparr>w_id = new_id, w_client = cid, w_currency = cur, w_available = 0,
                     w_held = 0, w_version = 0\<rparr>
            in Inr (w, d\<lparr>wallets := wallets d @ [w]\<rparr>))"

definition UpdateWalletBalances ::
    "decimal \<Rightarrow> decimal \<Rightarrow> uuid \<Rightarrow> int \<Rightarrow> db \<Rightarrow> db result" where
  "UpdateWalletBalances avail held wid ver d =
     (let hit = (\<lambda>w. w_id w = wid \<and> w_version w = ver) in
      case find hit (wallets d) of None \<Rightarrow> Inl NoRows | Some _ \<Rightarrow>
      case billing_money avail of Inl e \<Rightarrow> Inl e | Inr a \<Rightarrow>
      case billing_money held of Inl e \<Rightarrow> Inl e | Inr h \<Rightarrow>
      if h < 0 then Inl (PgError CheckViolation)
      else if ver + 1 > int4_max then Inl (PgError NumericValueOutOfRange)
      else Inr (d\<lparr>wallets := update_where hit
             (\<lambda>w. w\<lparr>w_available := a, w_held := h, w_version := ver + 1\<rparr>) (wallets d)\<rparr>))"

section \<open>Wallet transactions\<close>

text \<open>
  \<open>InsertWalletTransaction new_id now p\<close> inserts the row \<open>p\<close> with the generated id and
  creation time.
\<close>

definition InsertWalletTransaction :: "uuid \<Rightarrow> time \<Rightarrow> wallet_tx \<Rightarrow> db \<Rightarrow> db result" where
  "InsertWalletTransaction new_id now p d =
     (case billing_money (tx_amount p) of Inl e \<Rightarrow> Inl e | Inr amt \<Rightarrow>
      case billing_money_opt (tx_after_available p) of Inl e \<Rightarrow> Inl e | Inr aa \<Rightarrow>
      case billing_money_opt (tx_after_held p) of Inl e \<Rightarrow> Inl e | Inr ah \<Rightarrow>
      case char3 (tx_currency p) of Inl e \<Rightarrow> Inl e | Inr cur \<Rightarrow>
      if amt < 0 then Inl (PgError CheckViolation)
      else if new_id \<in> set (map tx_id (wallet_txs d)) then Inl (PgError UniqueViolation)
      else if tx_key p \<noteq> None \<and>
        list_ex (\<lambda>t. tx_client t = tx_client p \<and> tx_key t = tx_key p) (wallet_txs d)
      then Inl (PgError UniqueViolation)
      else Inr (d\<lparr>wallet_txs := wallet_txs d @
             [p\<lparr>tx_id := new_id, tx_created_at := now, tx_amount := amt, tx_currency := cur,
                tx_after_available := aa, tx_after_held := ah\<rparr>]\<rparr>))"

definition GetWalletTxByIdempotency :: "uuid \<Rightarrow> string \<Rightarrow> db \<Rightarrow> wallet_tx result" where
  "GetWalletTxByIdempotency cid key d =
     (case find (\<lambda>t. tx_client t = cid \<and> tx_key t = Some key) (wallet_txs d) of
        None \<Rightarrow> Inl NoRows | Some t \<Rightarrow> Inr t)"

definition settles :: "uuid \<Rightarrow> wallet_tx \<Rightarrow> bool" where
  "settles hid t = (tx_related_hold t = Some hid \<and> tx_type t \<in> {DEBIT, RELEASE})"

definition GetOpenHoldForMessage :: "uuid \<Rightarrow> db \<Rightarrow> wallet_tx result" where
  "GetOpenHoldForMessage mid d =
     (case sort_key tx_created_at
        (filter (\<lambda>h. tx_sms_message h = Some mid \<and> tx_type h = HOLD
                     \<and> \<not> list_ex (settles (tx_id h)) (wallet_txs d)) (wallet_txs d)) of
        [] \<Rightarrow> Inl NoRows | h # _ \<Rightarrow> Inr h)"

definition GetLookupJobHold :: "uuid \<Rightarrow> db \<Rightarrow> wallet_tx result" where
  "GetLookupJobHold jid d =
     (case sort_key tx_created_at
        (filter (\<lambda>h. tx_lookup_job h = Some jid \<and> tx_type h = HOLD) (wallet_txs d)) of
        [] \<Rightarrow> Inl NoRows | h # _ \<Rightarrow> Inr h)"

definition settled_sum :: "uuid \<Rightarrow> db \<Rightarrow> decimal" where
  "settled_sum hid d = sum_list (map tx_amount (filter (settles hid) (wallet_txs d)))"

definition SumSettledAgainstHold :: "uuid \<Rightarrow> db \<Rightarrow> decimal result" where
  "SumSettledAgainstHold hid d = billing_money (settled_sum hid d)"

definition CountOpenHolds :: "db \<Rightarrow> nat" where
  "CountOpenHolds d =
     length (filter (\<lambda>h. tx_type h = HOLD \<and> tx_sms_message h \<noteq> None
                     \<and> \<not> list_ex (settles (tx_id h)) (wallet_txs d)) (wallet_txs d))"

definition CountOpenLookupHolds :: "db \<Rightarrow> nat" where
  "CountOpenLookupHolds d =
     length (filter (\<lambda>h. tx_type h = HOLD \<and> tx_lookup_job h \<noteq> None
                     \<and> tx_amount h - settled_sum (tx_id h) d > 0) (wallet_txs d))"

section \<open>Messages\<close>

definition GetSmsMessageByID :: "uuid \<Rightarrow> db \<Rightarrow> sms_message result" where
  "GetSmsMessageByID mid d =
     (case find (\<lambda>m. msg_id m = mid) (sms_messages d) of None \<Rightarrow> Inl NoRows | Some m \<Rightarrow> Inr m)"

definition SetSmsMessageBillingAction :: "billing_action \<Rightarrow> uuid \<Rightarrow> db \<Rightarrow> db result" where
  "SetSmsMessageBillingAction act mid d =
     (case find (\<lambda>m. msg_id m = mid) (sms_messages d) of
        None \<Rightarrow> Inl NoRows
      | Some _ \<Rightarrow> Inr (d\<lparr>sms_messages := update_where (\<lambda>m. msg_id m = mid)
             (\<lambda>m. m\<lparr>msg_billing_action := Some act\<rparr>) (sms_messages d)\<rparr>))"

text \<open>The rows of \<open>ListOpenHoldMessages\<close>: a hold joined with its message and, if any, its job.\<close>

record open_hold_row =
  oh_sms_message :: "uuid option"
  oh_message_status :: sms_status
  oh_accepted_at :: "time option"
  oh_billing_action :: "billing_action option"
  oh_job_status :: "send_job_status option"

definition join_jobs :: "uuid \<Rightarrow> db \<Rightarrow> send_job_status option list" where
  "join_jobs mid d =
     (case filter (\<lambda>j. sj_message j = mid) (send_jobs d) of
        [] \<Rightarrow> [None] | js \<Rightarrow> map (\<lambda>j. Some (sj_status j)) js)"

definition ListOpenHoldMessages :: "nat \<Rightarrow> db \<Rightarrow> open_hold_row list" where
  "ListOpenHoldMessages limit d =
     take limit
       (concat (map (\<lambda>h. concat (map (\<lambda>m.
            map (\<lambda>st. \<lparr>oh_sms_message = tx_sms_message h, oh_message_status = msg_status m,
                       oh_accepted_at = msg_accepted_at m,
                       oh_billing_action = msg_billing_action m, oh_job_status = st\<rparr>)
              (join_jobs (msg_id m) d))
          (filter (\<lambda>m. tx_sms_message h = Some (msg_id m)) (sms_messages d))))
        (sort_key tx_created_at
          (filter (\<lambda>h. tx_type h = HOLD \<and> \<not> list_ex (settles (tx_id h)) (wallet_txs d))
             (wallet_txs d)))))"

section \<open>Lookup items\<close>

definition GetLookupItem :: "uuid \<Rightarrow> db \<Rightarrow> lookup_item result" where
  "GetLookupItem iid d =
     (case find (\<lambda>i. li_id i = iid) (lookup_items d) of None \<Rightarrow> Inl NoRows | Some i \<Rightarrow> Inr i)"

definition SetLookupItemBillingAction ::
    "billing_action \<Rightarrow> decimal option \<Rightarrow> uuid \<Rightarrow> db \<Rightarrow> db result" where
  "SetLookupItemBillingAction act cost iid d =
     (case billing_money_opt cost of Inl e \<Rightarrow> Inl e | Inr c \<Rightarrow>
      Inr (d\<lparr>lookup_items := update_where (\<lambda>i. li_id i = iid)
             (\<lambda>i. i\<lparr>li_billing_action := Some act, li_actual_cost := c\<rparr>) (lookup_items d)\<rparr>))"

definition terminal_item :: "lookup_item \<Rightarrow> bool" where
  "terminal_item i = (li_status i \<in> {ItemCompleted, ItemFailed})"

definition CountLookupItemsBlockingRemainder :: "uuid \<Rightarrow> db \<Rightarrow> nat" where
  "CountLookupItemsBlockingRemainder jid d =
     length (filter (\<lambda>i. li_job i = jid \<and> (\<not> terminal_item i \<or> li_billing_action i = None))
       (lookup_items d))"

definition ListUnsettledTerminalLookupItems :: "uuid \<Rightarrow> db \<Rightarrow> lookup_item list" where
  "ListUnsettledTerminalLookupItems jid d =
     sort_key li_created_at
       (filter (\<lambda>i. li_job i = jid \<and> terminal_item i \<and> li_billing_action i = None)
         (lookup_items d))"

record open_lookup_hold_row =
  ol_lookup_job :: "uuid option"
  ol_job_status :: lookup_job_status

definition ListOpenLookupJobHolds :: "nat \<Rightarrow> db \<Rightarrow> open_lookup_hold_row list" where
  "ListOpenLookupJobHolds limit d =
     take limit
       (concat (map (\<lambda>h.
          map (\<lambda>j. \<lparr>ol_lookup_job = tx_lookup_job h, ol_job_status = lj_status j\<rparr>)
            (filter (\<lambda>j. tx_lookup_job h = Some (lj_id j)) (lookup_jobs d)))
        (sort_key tx_created_at
          (filter (\<lambda>h. tx_type h = HOLD \<and> tx_lookup_job h \<noteq> None
                     \<and> tx_amount h - settled_sum (tx_id h) d > 0) (wallet_txs d)))))"

end
