(* ===== verification/BillingService.thy ===== *)
theory BillingService
  imports WalletQueries
begin

text \<open>
  \<open>internal/billing/service.go\<close>: the wallet operations of the SMS product. Each operation
  that opens its own transaction returns \<open>Inl e\<close> when it rolls back (the state is then the
  one before) and \<open>Inr d'\<close> with the committed state. Generated row ids and the clock are
  arguments.
\<close>

section \<open>Reservation\<close>

definition clientDeleted :: "uuid \<Rightarrow> db \<Rightarrow> bool" where
  "clientDeleted cid d =
     (case GetClientByID cid d of Inl _ \<Rightarrow> True | Inr cl \<Rightarrow> cl_status cl = ClientDeleted)"

text \<open>
  \<open>existing, err := GetWalletTxByIdempotency(...); err == nil && existing.ID != uuid.Nil\<close>.
\<close>

definition tx_posted :: "uuid \<Rightarrow> string \<Rightarrow> db \<Rightarrow> bool" where
  "tx_posted cid key d =
     (case GetWalletTxByIdempotency cid key d of Inl _ \<Rightarrow> False | Inr t \<Rightarrow> tx_id t \<noteq> uuid_Nil)"

definition wallet_not_found :: goerr where
  "wallet_not_found = wrap BillingErrWalletNotFound ''wallet_not_found'' ''wallet not found''"

definition price_snapshot_missing :: goerr where
  "price_snapshot_missing =
     wrap BillingErrPriceSnapshotMissing ''price_snapshot_missing'' ''price snapshot missing''"

definition uuidPtr :: "uuid option \<Rightarrow> json" where
  "uuidPtr i = (case i of None \<Rightarrow> JNull | Some u \<Rightarrow> JString u)"

definition ReserveForMessage :: "uuid \<Rightarrow> time \<Rightarrow> db option \<Rightarrow> sms_message \<Rightarrow> db result" where
  "ReserveForMessage new_id now q msg =
     (case q of None \<Rightarrow> Inl (Plain ''reserve requires transaction queries'') | Some d \<Rightarrow>
      case msg_client msg of
        None \<Rightarrow> Inl (wrap BillingErrValidation ''validation'' ''message has no client'')
      | Some cid \<Rightarrow>
      if clientDeleted cid d then Inr d else
      case (msg_unit_sell_price msg, msg_billed_segments msg, msg_tariff_plan_id msg,
            msg_tariff_plan_code msg, msg_currency msg) of
        (Some price, Some segs, Some plan, Some code, Some cur) \<Rightarrow>
          let amount = price * of_int segs; key = HoldKey (msg_id msg) in
          (case mustPositive amount ''hold_amount'' of Some e \<Rightarrow> Inl e | None \<Rightarrow>
           if tx_posted cid key d then Inr d else
           case LockWalletByClientID cid d of
             Inl e \<Rightarrow> Inl (if e = NoRows then wallet_not_found else e)
           | Inr w \<Rightarrow>
           case applyHold (w_available w) (w_held w) amount of Inl e \<Rightarrow> Inl e
           | Inr (avail, held) \<Rightarrow>
           case UpdateWalletBalances avail held (w_id w) (w_version w) d of Inl e \<Rightarrow> Inl e
           | Inr d1 \<Rightarrow>
           InsertWalletTransaction new_id now
             \<lparr>tx_id = [], tx_wallet = w_id w, tx_client = cid, tx_type = HOLD,
              tx_amount = amount, tx_currency = trimCurrency cur,
              tx_after_available = Some avail, tx_after_held = Some held,
              tx_related_hold = None, tx_sms_message = Some (msg_id msg),
              tx_lookup_job = None, tx_lookup_item = None, tx_key = Some key,
              tx_description = Some ''Reserve SMS'',
              tx_metadata = [(''sms_message_id'', JString (msg_id msg)),
                (''to_msisdn'', JString (msg_to msg)), (''billed_segments'', JInt segs),
                (''unit_sell_price'', JMoney price), (''tariff_plan_id'', JString plan),
                (''tariff_plan_code'', JString code),
                (''price_source'', JString ''message_snapshot''),
                (''campaign_id'', uuidPtr (msg_campaign msg))],
              tx_created_by = None, tx_created_at = now\<rparr> d1)
      | _ \<Rightarrow> Inl price_snapshot_missing)"

section \<open>Settlement\<close>

text \<open>
  \<open>settle\<close> reads the message, the client, the idempotency key and the open hold before it
  locks the wallet. \<open>settle_read\<close> is that first part: either the transaction ends there
  (committed with the state given) or it goes on with the message and the hold it found.
  \<open>settle_write\<close> is the rest, from the wallet lock to the commit. Under READ COMMITTED
  other transactions may commit between the two.
\<close>

datatype settle_plan = SettleDone db | SettleProceed uuid sms_message wallet_tx

definition settle_key :: "bool \<Rightarrow> uuid \<Rightarrow> string" where
  "settle_key capture mid = (if capture then DebitKey mid else ReleaseKey mid)"

definition settle_action :: "bool \<Rightarrow> billing_action" where
  "settle_action capture = (if capture then ActionCapture else ActionRelease)"

definition settle_read :: "uuid \<Rightarrow> bool \<Rightarrow> db \<Rightarrow> settle_plan" where
  "settle_read mid capture d =
     (case GetSmsMessageByID mid d of Inl _ \<Rightarrow> SettleDone d | Inr msg \<Rightarrow>
      case (msg_client msg, msg_unit_sell_price msg) of
        (Some cid, Some _) \<Rightarrow>
          if clientDeleted cid d then SettleDone d
          else if tx_posted cid (settle_key capture mid) d then
            (case SetSmsMessageBillingAction (settle_action capture) mid d of
               Inl _ \<Rightarrow> SettleDone d | Inr d' \<Rightarrow> SettleDone d')
          else
            (case GetOpenHoldForMessage mid d of
               Inl _ \<Rightarrow> SettleDone d
             | Inr hold \<Rightarrow> SettleProceed cid msg hold)
      | _ \<Rightarrow> SettleDone d)"

text \<open>The row a settlement inserts.\<close>

definition settle_row ::
    "time \<Rightarrow> uuid \<Rightarrow> bool \<Rightarrow> uuid \<Rightarrow> sms_message \<Rightarrow> wallet_tx \<Rightarrow> uuid \<Rightarrow> decimal \<Rightarrow> decimal \<Rightarrow> wallet_tx" where
  "settle_row now mid capture cid msg hold wid avail held =
     \<lparr>tx_id = [], tx_wallet = wid, tx_client = cid,
       tx_type = (if capture then DEBIT else RELEASE),
       tx_amount = tx_amount hold, tx_currency = tx_currency hold,
       tx_after_available = Some avail, tx_after_held = Some held,
       tx_related_hold = Some (tx_id hold), tx_sms_message = Some mid,
       tx_lookup_job = None, tx_lookup_item = None,
       tx_key = Some (settle_key capture mid),
       tx_description = Some (if capture then ''Capture SMS'' else ''Release SMS''),
       tx_metadata = [(''sms_message_id'', JString mid), (''to_msisdn'', JString (msg_to msg)),
         (''billed_segments'', case msg_billed_segments msg of None \<Rightarrow> JNull | Some n \<Rightarrow> JInt n),
         (''unit_sell_price'',
           case msg_unit_sell_price msg of None \<Rightarrow> JString [] | Some p \<Rightarrow> JMoney p),
         (''price_source'', JString ''message_snapshot'')],
       tx_created_by = None, tx_created_at = now\<rparr>"

definition settle_write ::
    "uuid \<Rightarrow> time \<Rightarrow> uuid \<Rightarrow> bool \<Rightarrow> uuid \<Rightarrow> sms_message \<Rightarrow> wallet_tx \<Rightarrow> db \<Rightarrow> db result" where
  "settle_write new_id now mid capture cid msg hold d =
     (case LockWalletByClientID cid d of Inl e \<Rightarrow> Inl e | Inr w \<Rightarrow>
      case (if capture then applyDebitFromHold (w_available w) (w_held w) (tx_amount hold)
            else applyRelease (w_available w) (w_held w) (tx_amount hold)) of
        Inl e \<Rightarrow> Inl e
      | Inr (avail, held) \<Rightarrow>
      case UpdateWalletBalances avail held (w_id w) (w_version w) d of Inl e \<Rightarrow> Inl e
      | Inr d1 \<Rightarrow>
      case InsertWalletTransaction new_id now
          (settle_row now mid capture cid msg hold (w_id w) avail held) d1 of Inl e \<Rightarrow> Inl e
      | Inr d2 \<Rightarrow> SetSmsMessageBillingAction (settle_action capture) mid d2)"

definition settle :: "uuid \<Rightarrow> time \<Rightarrow> uuid \<Rightarrow> bool \<Rightarrow> db \<Rightarrow> db result" where
  "settle new_id now mid capture d =
     (case settle_read mid capture d of
        SettleDone d' \<Rightarrow> Inr d'
      | SettleProceed cid msg hold \<Rightarrow> settle_write new_id now mid capture cid msg hold d)"

definition CaptureForMessage :: "uuid \<Rightarrow> time \<Rightarrow> uuid \<Rightarrow> db \<Rightarrow> db result" where
  "CaptureForMessage new_id now mid d = settle new_id now mid True d"

definition ReleaseForMessage :: "uuid \<Rightarrow> time \<Rightarrow> uuid \<Rightarrow> db \<Rightarrow> db result" where
  "ReleaseForMessage new_id now mid d = settle new_id now mid False d"

section \<open>Top-ups and adjustments\<close>

definition credit ::
    "uuid \<Rightarrow> time \<Rightarrow> uuid \<Rightarrow> decimal \<Rightarrow> string \<Rightarrow> string \<Rightarrow> string \<Rightarrow> string \<Rightarrow> uuid option \<Rightarrow> bool \<Rightarrow>
     db \<Rightarrow> db result" where
  "credit new_id now cid amt kind direction comment key createdBy allowNeg d =
     (if tx_posted cid key d then Inr d else
      case LockWalletByClientID cid d of
        Inl e \<Rightarrow> Inl (if e = NoRows then wallet_not_found else e)
      | Inr w \<Rightarrow>
      case (if kind = ''CREDIT'' then Inr (w_available w + amt)
            else applyAdjustment (w_available w) amt (direction = ''debit'') allowNeg) of
        Inl e \<Rightarrow> Inl e
      | Inr avail \<Rightarrow>
      case UpdateWalletBalances avail (w_held w) (w_id w) (w_version w) d of Inl e \<Rightarrow> Inl e
      | Inr d1 \<Rightarrow>
      InsertWalletTransaction new_id now
        \<lparr>tx_id = [], tx_wallet = w_id w, tx_client = cid,
         tx_type = (if kind = ''CREDIT'' then CREDIT else ADJUSTMENT),
         tx_amount = amt, tx_currency = trimCurrency (w_currency w),
         tx_after_available = Some avail, tx_after_held = Some (w_held w),
         tx_related_hold = None, tx_sms_message = None, tx_lookup_job = None,
         tx_lookup_item = None, tx_key = Some key, tx_description = Some comment,
         tx_metadata = [(''direction'', JString direction), (''comment'', JString comment)],
         tx_created_by = createdBy, tx_created_at = now\<rparr> d1)"

text \<open>The keys \<open>TopUp\<close> and \<open>Adjust\<close> build from the client and the caller's key.\<close>

definition topup_key :: "uuid \<Rightarrow> string \<Rightarrow> string" where
  "topup_key cid k = ''topup:'' @ cid @ '':'' @ k"

definition adjustment_key :: "uuid \<Rightarrow> string \<Rightarrow> string" where
  "adjustment_key cid k = ''adjustment:'' @ cid @ '':'' @ k"

record topup_input =
  tu_client :: uuid
  tu_amount :: string
  tu_comment :: string
  tu_key :: string
  tu_created_by :: "uuid option"

definition TopUp ::
    "(string \<Rightarrow> decimal option) \<Rightarrow> uuid \<Rightarrow> time \<Rightarrow> topup_input \<Rightarrow> db \<Rightarrow> db result" where
  "TopUp parse new_id now i d =
     (case money parse (tu_amount i) of Inl e \<Rightarrow> Inl e | Inr amt \<Rightarrow>
      case mustPositive amt ''amount'' of Some e \<Rightarrow> Inl e | None \<Rightarrow>
      if tu_key i = [] then Inl (Fmt BillingErrValidation ''idempotency_key required'')
      else credit new_id now (tu_client i) amt ''CREDIT'' ''credit'' (tu_comment i)
             (topup_key (tu_client i) (tu_key i)) (tu_created_by i) False d)"

record adjust_input =
  ad_client :: uuid
  ad_amount :: string
  ad_direction :: string
  ad_comment :: string
  ad_key :: string
  ad_allow_negative :: bool
  ad_created_by :: "uuid option"

definition Adjust ::
    "(string \<Rightarrow> decimal option) \<Rightarrow> uuid \<Rightarrow> time \<Rightarrow> adjust_input \<Rightarrow> db \<Rightarrow> db result" where
  "Adjust parse new_id now i d =
     (case money parse (ad_amount i) of Inl e \<Rightarrow> Inl e | Inr amt \<Rightarrow>
      case mustPositive amt ''amount'' of Some e \<Rightarrow> Inl e | None \<Rightarrow>
      if ad_comment i = [] then Inl (Fmt BillingErrValidation ''comment required'')
      else if ad_key i = [] then Inl (Fmt BillingErrValidation ''idempotency_key required'')
      else
        let dir = (if ad_direction i \<noteq> ''debit'' then ''credit'' else ad_direction i) in
        credit new_id now (ad_client i) amt ''ADJUSTMENT'' dir (ad_comment i)
          (adjustment_key (ad_client i) (ad_key i)) (ad_created_by i)
          (ad_allow_negative i) d)"

section \<open>The reaper\<close>

definition settleAction :: "open_hold_row \<Rightarrow> string" where
  "settleAction row =
     (case oh_billing_action row of
        Some ActionCapture \<Rightarrow> ''capture''
      | Some ActionRelease \<Rightarrow> ''release''
      | None \<Rightarrow>
          if oh_accepted_at row \<noteq> None then ''capture''
          else if oh_message_status row = SmsFailed \<and> oh_accepted_at row = None
            \<and> oh_job_status row = Some JobDead then ''release''
          else [])"

text \<open>
  One iteration of the loop of \<open>ReapOpenHolds\<close>: the new state and whether the row counts.
  A settlement that fails is logged and leaves the state unchanged (\<open>s.log\<close> is never nil,
  see \<open>New\<close>).
\<close>

definition reap_row :: "uuid \<Rightarrow> time \<Rightarrow> open_hold_row \<Rightarrow> db \<Rightarrow> db \<times> nat" where
  "reap_row new_id now row d =
     (case oh_sms_message row of None \<Rightarrow> (d, 0) | Some mid \<Rightarrow>
      let act = settleAction row in
      if act = ''capture'' then
        (case CaptureForMessage new_id now mid d of Inl _ \<Rightarrow> (d, 0) | Inr d' \<Rightarrow> (d', 1))
      else if act = ''release'' then
        (case ReleaseForMessage new_id now mid d of Inl _ \<Rightarrow> (d, 0) | Inr d' \<Rightarrow> (d', 1))
      else (d, 0))"

fun reap_rows :: "(nat \<Rightarrow> uuid) \<Rightarrow> time \<Rightarrow> nat \<Rightarrow> open_hold_row list \<Rightarrow> db \<Rightarrow> db \<times> nat" where
  "reap_rows ids now k [] d = (d, 0)"
| "reap_rows ids now k (row # rows) d =
     (let (d1, n1) = reap_row (ids k) now row d;
          (d2, n2) = reap_rows ids now (Suc k) rows d1
      in (d2, n1 + n2))"

definition ReapOpenHolds :: "(nat \<Rightarrow> uuid) \<Rightarrow> time \<Rightarrow> int \<Rightarrow> db \<Rightarrow> db \<times> nat" where
  "ReapOpenHolds ids now limit d =
     (let lim = (if limit < 1 then 50 else limit) in
      reap_rows ids now 0 (ListOpenHoldMessages (nat lim) d) d)"

end
