(* ===== verification/LedgerInv.thy ===== *)
theory LedgerInv
  imports BillingService
begin

text \<open>
  The invariant of the wallet ledger and its preservation by one posting (a wallet update
  followed by the insertion of its transaction row), on which every wallet operation of
  the SMS and lookup products rests.
\<close>

section \<open>The invariant\<close>

definition is_settlement :: "wallet_tx \<Rightarrow> bool" where
  "is_settlement t = (tx_type t \<in> {DEBIT, RELEASE})"

definition sum_amounts :: "(wallet_tx \<Rightarrow> bool) \<Rightarrow> wallet_tx list \<Rightarrow> decimal" where
  "sum_amounts p ts = sum_list (map tx_amount (filter p ts))"

definition client_holds :: "uuid \<Rightarrow> wallet_tx \<Rightarrow> bool" where
  "client_holds cid t = (tx_client t = cid \<and> tx_type t = HOLD)"

definition client_settlements :: "uuid \<Rightarrow> wallet_tx \<Rightarrow> bool" where
  "client_settlements cid t = (tx_client t = cid \<and> is_settlement t)"

definition wallet_balanced :: "wallet_tx list \<Rightarrow> wallet \<Rightarrow> bool" where
  "wallet_balanced ts w =
     (is_money (w_available w) \<and> is_money (w_held w) \<and>
      w_held w = sum_amounts (client_holds (w_client w)) ts
                 - sum_amounts (client_settlements (w_client w)) ts)"

definition settlement_linked :: "wallet_tx list \<Rightarrow> wallet_tx \<Rightarrow> bool" where
  "settlement_linked ts t =
     (is_settlement t \<longrightarrow>
      (\<exists>h \<in> set ts. tx_type h = HOLD \<and> tx_related_hold t = Some (tx_id h)
                    \<and> tx_client h = tx_client t \<and> tx_sms_message h = tx_sms_message t))"

text \<open>
  No hold is settled beyond its amount; a hold of an SMS is settled by one row of its full
  amount or not at all.
\<close>

definition hold_covered :: "wallet_tx list \<Rightarrow> wallet_tx \<Rightarrow> bool" where
  "hold_covered ts h =
     (tx_type h = HOLD \<longrightarrow>
      sum_amounts (settles (tx_id h)) ts \<le> tx_amount h
      \<and> (tx_sms_message h \<noteq> None \<longrightarrow>
          (filter (settles (tx_id h)) ts = []
           \<or> length (filter (settles (tx_id h)) ts) = 1
             \<and> sum_amounts (settles (tx_id h)) ts = tx_amount h)))"

definition keyed :: "wallet_tx list \<Rightarrow> (uuid \<times> string) list" where
  "keyed ts = map (\<lambda>t. (tx_client t, the (tx_key t))) (filter (\<lambda>t. tx_key t \<noteq> None) ts)"

text \<open>What the column types guarantee of a stored row.\<close>

definition wallet_stored :: "wallet \<Rightarrow> bool" where
  "wallet_stored w = (storable (w_available w) \<and> storable (w_held w))"

definition tx_stored :: "wallet_tx \<Rightarrow> bool" where
  "tx_stored t = (storable (tx_amount t) \<and> char3 (tx_currency t) = Inr (tx_currency t))"

definition ledger_ok :: "wallet list \<Rightarrow> wallet_tx list \<Rightarrow> bool" where
  "ledger_ok ws ts =
     (distinct (map w_id ws) \<and> distinct (map w_client ws) \<and> distinct (map tx_id ts)
      \<and> distinct (keyed ts)
      \<and> (\<forall>w \<in> set ws. wallet_balanced ts w)
      \<and> (\<forall>t \<in> set ts. is_money (tx_amount t) \<and> 0 \<le> tx_amount t)
      \<and> (\<forall>t \<in> set ts. settlement_linked ts t)
      \<and> (\<forall>t \<in> set ts. hold_covered ts t)
      \<and> (\<forall>t \<in> set ts. tx_client t \<in> w_client ` set ws)
      \<and> (\<forall>w \<in> set ws. wallet_stored w) \<and> (\<forall>t \<in> set ts. tx_stored t))"

lemma ledger_okI:
  assumes "distinct (map w_id ws)" "distinct (map w_client ws)" "distinct (map tx_id ts)"
    "distinct (keyed ts)" "\<And>w. w \<in> set ws \<Longrightarrow> wallet_balanced ts w"
    "\<And>t. t \<in> set ts \<Longrightarrow> is_money (tx_amount t) \<and> 0 \<le> tx_amount t"
    "\<And>t. t \<in> set ts \<Longrightarrow> settlement_linked ts t" "\<And>t. t \<in> set ts \<Longrightarrow> hold_covered ts t"
    "\<And>t. t \<in> set ts \<Longrightarrow> tx_client t \<in> w_client ` set ws"
    "\<And>w. w \<in> set ws \<Longrightarrow> wallet_stored w" "\<And>t. t \<in> set ts \<Longrightarrow> tx_stored t"
  shows "ledger_ok ws ts"
  using assms by (simp add: ledger_ok_def)

lemma ledger_okD:
  assumes "ledger_ok ws ts"
  shows "distinct (map w_id ws)" "distinct (map w_client ws)" "distinct (map tx_id ts)"
    "distinct (keyed ts)" "w \<in> set ws \<Longrightarrow> wallet_balanced ts w"
    "t \<in> set ts \<Longrightarrow> is_money (tx_amount t)" "t \<in> set ts \<Longrightarrow> 0 \<le> tx_amount t"
    "t \<in> set ts \<Longrightarrow> settlement_linked ts t" "t \<in> set ts \<Longrightarrow> hold_covered ts t"
    "t \<in> set ts \<Longrightarrow> tx_client t \<in> w_client ` set ws"
    "w \<in> set ws \<Longrightarrow> wallet_stored w" "t \<in> set ts \<Longrightarrow> tx_stored t"
  using assms by (simp_all add: ledger_ok_def)

section \<open>What the two statements do\<close>

lemma UpdateWalletBalances_OK:
  assumes "UpdateWalletBalances avail held wid ver d = Inr d1"
  shows "d1 = d\<lparr>wallets := update_where (\<lambda>w. w_id w = wid \<and> w_version w = ver)
           (\<lambda>w. w\<lparr>w_available := round6 avail, w_held := round6 held, w_version := ver + 1\<rparr>)
           (wallets d)\<rparr>"
    and "0 \<le> round6 held" and "storable (round6 avail)" "storable (round6 held)"
proof -
  from assms have b: "billing_money avail = Inr (round6 avail)" "billing_money held = Inr (round6 held)"
    by (auto simp: UpdateWalletBalances_def Let_def
        split: option.splits sum.splits if_splits dest: billing_money_OK)
  with assms show "d1 = d\<lparr>wallets := update_where (\<lambda>w. w_id w = wid \<and> w_version w = ver)
           (\<lambda>w. w\<lparr>w_available := round6 avail, w_held := round6 held, w_version := ver + 1\<rparr>)
           (wallets d)\<rparr>" and "0 \<le> round6 held"
    by (auto simp: UpdateWalletBalances_def Let_def split: option.splits if_splits)
  from b show "storable (round6 avail)" "storable (round6 held)"
    by (auto dest: billing_money_storable_D)
qed

lemma InsertWalletTransaction_OK:
  assumes "InsertWalletTransaction new_id now p d = Inr d2"
  obtains t where "d2 = d\<lparr>wallet_txs := wallet_txs d @ [t]\<rparr>"
    "tx_id t = new_id" "tx_client t = tx_client p" "tx_type t = tx_type p"
    "tx_amount t = round6 (tx_amount p)" "tx_related_hold t = tx_related_hold p"
    "tx_sms_message t = tx_sms_message p" "tx_lookup_job t = tx_lookup_job p"
    "tx_lookup_item t = tx_lookup_item p" "tx_key t = tx_key p" "tx_created_at t = now"
    "0 \<le> tx_amount t" "new_id \<notin> tx_id ` set (wallet_txs d)"
    "tx_key p \<noteq> None \<Longrightarrow> (\<forall>u \<in> set (wallet_txs d). tx_client u = tx_client p \<longrightarrow> tx_key u \<noteq> tx_key p)"
    "tx_stored t"
proof -
  from assms obtain amt aa ah cur where
    "billing_money (tx_amount p) = Inr amt" "char3 (tx_currency p) = Inr cur" "0 \<le> amt"
    "new_id \<notin> tx_id ` set (wallet_txs d)"
    "tx_key p \<noteq> None \<Longrightarrow> (\<forall>u \<in> set (wallet_txs d). tx_client u = tx_client p \<longrightarrow> tx_key u \<noteq> tx_key p)"
    "d2 = d\<lparr>wallet_txs := wallet_txs d @
       [p\<lparr>tx_id := new_id, tx_created_at := now, tx_amount := amt, tx_currency := cur,
          tx_after_available := aa, tx_after_held := ah\<rparr>]\<rparr>"
    by (auto simp: InsertWalletTransaction_def list_ex_iff split: sum.splits if_splits)
  then show thesis
    by (intro that [of "p\<lparr>tx_id := new_id, tx_created_at := now, tx_amount := amt,
          tx_currency := cur, tx_after_available := aa, tx_after_held := ah\<rparr>"])
      (simp_all add: billing_money_OK tx_stored_def billing_money_storable_D char3_idem)
qed

lemma LockWallet_OK:
  "LockWalletByClientID cid d = Inr w \<Longrightarrow> w \<in> set (wallets d) \<and> w_client w = cid"
  by (auto simp: LockWalletByClientID_def GetWalletByClientID_def
      split: option.splits dest: find_Some_mem)

section \<open>One posting keeps the invariant\<close>

lemma sum_amounts_snoc [simp]:
  "sum_amounts p (ts @ [t]) = sum_amounts p ts + (if p t then tx_amount t else 0)"
  by (simp add: sum_amounts_def)

lemma keyed_snoc [simp]:
  "keyed (ts @ [t]) = keyed ts @ (case tx_key t of None \<Rightarrow> [] | Some k \<Rightarrow> [(tx_client t, k)])"
  by (auto simp: keyed_def split: option.splits)

lemma settles_settlement: "settles hid t \<Longrightarrow> is_settlement t"
  by (simp add: settles_def is_settlement_def)

lemma no_settlement_of_fresh:
  assumes "\<forall>t \<in> set ts. settlement_linked ts t" and "hid \<notin> tx_id ` set ts"
  shows "filter (settles hid) ts = []"
  using assms by (fastforce simp: filter_empty_conv settlement_linked_def settles_def is_settlement_def)

definition held_delta :: "wallet_tx \<Rightarrow> decimal" where
  "held_delta t =
     (if tx_type t = HOLD then tx_amount t else if is_settlement t then - tx_amount t else 0)"

text \<open>What a settlement row must respect: it closes part of a hold of the same client.\<close>

definition settles_within :: "wallet_tx list \<Rightarrow> wallet_tx \<Rightarrow> bool" where
  "settles_within ts t =
     (is_settlement t \<longrightarrow>
      (\<exists>h \<in> set ts. tx_type h = HOLD \<and> tx_related_hold t = Some (tx_id h)
         \<and> tx_client h = tx_client t \<and> tx_sms_message h = tx_sms_message t
         \<and> sum_amounts (settles (tx_id h)) ts + tx_amount t \<le> tx_amount h
         \<and> (tx_sms_message h \<noteq> None \<longrightarrow>
              filter (settles (tx_id h)) ts = [] \<and> tx_amount t = tx_amount h)))"

lemma balanced_snoc:
  assumes "wallet_balanced ts w" and "w_client v = w_client w"
    and "is_money (w_available v)" and "is_money (w_held v)"
    and "w_held v = w_held w + (if tx_client t = w_client w then held_delta t else 0)"
  shows "wallet_balanced (ts @ [t]) v"
  using assms
  by (auto simp: wallet_balanced_def client_holds_def client_settlements_def held_delta_def
      is_settlement_def)

lemma hold_covered_snoc:
  assumes cov: "hold_covered ts h" and ok: "settles_within ts t"
    and ids: "distinct (map tx_id ts)" and h: "h \<in> set ts"
  shows "hold_covered (ts @ [t]) h"
proof (cases "tx_type h = HOLD \<and> settles (tx_id h) t")
  case True
  then have "is_settlement t" by (auto dest: settles_settlement)
  with ok obtain g where g: "g \<in> set ts" "tx_related_hold t = Some (tx_id g)"
    "sum_amounts (settles (tx_id g)) ts + tx_amount t \<le> tx_amount g"
    "tx_sms_message g \<noteq> None \<longrightarrow> filter (settles (tx_id g)) ts = [] \<and> tx_amount t = tx_amount g"
    by (auto simp: settles_within_def)
  from True g(2) have "tx_id g = tx_id h" by (simp add: settles_def)
  with ids g(1) h have "g = h" by (blast intro: distinct_map_inj)
  with g(3,4) True show ?thesis by (auto simp: hold_covered_def sum_amounts_def)
next
  case False
  with cov show ?thesis by (auto simp: hold_covered_def)
qed

lemma hold_covered_new:
  assumes "\<forall>u \<in> set ts. settlement_linked ts u" and "tx_id t \<notin> tx_id ` set ts"
    and "0 \<le> tx_amount t" and "settles_within ts t"
  shows "hold_covered (ts @ [t]) t"
proof -
  have none: "filter (settles (tx_id t)) ts = []"
    using assms(1,2) by (rule no_settlement_of_fresh)
  have "\<not> settles (tx_id t) t" if "tx_type t = HOLD"
    using that by (simp add: settles_def)
  with none assms(3) show ?thesis by (auto simp: hold_covered_def sum_amounts_def)
qed

lemma settlement_linked_snoc:
  "settlement_linked ts u \<Longrightarrow> settlement_linked (ts @ [t]) u"
  by (auto simp: settlement_linked_def)

lemma settlement_linked_new: "settles_within ts t \<Longrightarrow> settlement_linked (ts @ [t]) t"
  by (auto simp: settlement_linked_def settles_within_def)

lemma keyed_fresh:
  "tx_key t = Some k \<Longrightarrow> \<forall>u \<in> set ts. tx_client u = tx_client t \<longrightarrow> tx_key u \<noteq> tx_key t \<Longrightarrow>
   (tx_client t, k) \<notin> set (keyed ts)"
  by (auto simp: keyed_def)

lemma ledger_ok_append:
  assumes inv: "ledger_ok ws ts"
    and ws: "map w_id ws' = map w_id ws" "map w_client ws' = map w_client ws"
    and bal: "\<And>v. v \<in> set ws' \<Longrightarrow> wallet_balanced (ts @ [t]) v"
    and t: "is_money (tx_amount t)" "0 \<le> tx_amount t" "tx_id t \<notin> tx_id ` set ts"
    and key: "tx_key t \<noteq> None \<Longrightarrow> (\<forall>u \<in> set ts. tx_client u = tx_client t \<longrightarrow> tx_key u \<noteq> tx_key t)"
    and within: "settles_within ts t" and has: "tx_client t \<in> w_client ` set ws"
    and stored: "\<And>v. v \<in> set ws' \<Longrightarrow> wallet_stored v" "tx_stored t"
  shows "ledger_ok ws' (ts @ [t])"
proof (rule ledger_okI)
  note D = ledger_okD [OF inv]
  show "distinct (map w_id ws')" "distinct (map w_client ws')" using ws D(1,2) by simp_all
  show "distinct (map tx_id (ts @ [t]))" using D(3) t(3) by simp
  show "distinct (keyed (ts @ [t]))"
    using D(4) key keyed_fresh [of t _ ts] by (auto split: option.splits)
  show "wallet_balanced (ts @ [t]) v" if "v \<in> set ws'" for v using that by (rule bal)
  show "is_money (tx_amount u) \<and> 0 \<le> tx_amount u" if "u \<in> set (ts @ [t])" for u
    using that D(6,7) t(1,2) by auto
  show "settlement_linked (ts @ [t]) u" if "u \<in> set (ts @ [t])" for u
    using that D(8) within settlement_linked_snoc settlement_linked_new by auto
  show "hold_covered (ts @ [t]) u" if "u \<in> set (ts @ [t])" for u
    using that D(9) hold_covered_snoc [OF _ within D(3)] hold_covered_new [OF _ t(3) t(2) within]
      D(8) by auto
  have same: "w_client ` set ws' = w_client ` set ws" using ws(2) by (metis list.set_map)
  show "tx_client u \<in> w_client ` set ws'" if "u \<in> set (ts @ [t])" for u
    unfolding same using that D(10) has by auto
  show "wallet_stored v" if "v \<in> set ws'" for v using that by (rule stored(1))
  show "tx_stored u" if "u \<in> set (ts @ [t])" for u using that D(12) stored(2) by auto
qed

text \<open>
  The posting lemma: an update of the wallet of the row's client by the row's effect on
  the held balance, followed by the insertion of the row, keeps the invariant.
\<close>

lemma post_keeps_ledger:
  assumes inv: "ledger_ok (wallets d) (wallet_txs d)"
    and lock: "LockWalletByClientID cid d = Inr w"
    and upd: "UpdateWalletBalances avail held (w_id w) (w_version w) d = Inr d1"
    and ins: "InsertWalletTransaction new_id now p d1 = Inr d2"
    and p: "tx_client p = cid"
    and delta: "held = w_held w + held_delta p"
    and mon: "tx_type p = HOLD \<or> is_settlement p \<Longrightarrow> is_money (tx_amount p)"
    and within: "settles_within (wallet_txs d) p"
  shows "ledger_ok (wallets d2) (wallet_txs d2)"
proof -
  let ?hit = "\<lambda>v. w_id v = w_id w \<and> w_version v = w_version w"
  note D = ledger_okD [OF inv]
  from LockWallet_OK [OF lock] have w: "w \<in> set (wallets d)" "w_client w = cid" by simp_all
  from UpdateWalletBalances_OK [OF upd] have d1: "wallet_txs d1 = wallet_txs d"
    "wallets d1 = update_where ?hit (\<lambda>v. v\<lparr>w_available := round6 avail, w_held := round6 held,
        w_version := w_version w + 1\<rparr>) (wallets d)" by simp_all
  from ins obtain t where t: "d2 = d1\<lparr>wallet_txs := wallet_txs d1 @ [t]\<rparr>" "tx_id t = new_id"
    "tx_client t = tx_client p" "tx_type t = tx_type p" "tx_amount t = round6 (tx_amount p)"
    "tx_related_hold t = tx_related_hold p" "tx_sms_message t = tx_sms_message p"
    "tx_key t = tx_key p" "0 \<le> tx_amount t" "new_id \<notin> tx_id ` set (wallet_txs d1)"
    "tx_key p \<noteq> None \<Longrightarrow> (\<forall>u \<in> set (wallet_txs d1). tx_client u = tx_client p \<longrightarrow> tx_key u \<noteq> tx_key p)"
    "tx_stored t"
    by (rule InsertWalletTransaction_OK) blast
  have amt: "tx_amount t = tx_amount p" if "tx_type p = HOLD \<or> is_settlement p"
    using mon [OF that] t(5) by (simp add: round6_id)
  have st: "is_settlement t = is_settlement p" using t(4) by (simp add: is_settlement_def)
  have dt: "held_delta t = held_delta p" using amt st t(4) by (auto simp: held_delta_def)
  have wm: "is_money (w_held w)" using D(5) [OF w(1)] unfolding wallet_balanced_def by blast
  have "is_money (held_delta p)"
    using mon is_money_diff [OF is_money_0, of "tx_amount p"] by (auto simp: held_delta_def)
  then have hm: "is_money held" using wm delta by (simp add: is_money_add)
  have within': "settles_within (wallet_txs d) t"
    using within amt st t(3,6,7) by (auto simp: settles_within_def)
  have only: "v = w" if "v \<in> set (wallets d)" "w_client v = w_client w \<or> w_id v = w_id w" for v
    using that w(1) D(1,2) by (blast intro: distinct_map_inj)
  have stored: "wallet_stored v"
    if "v \<in> set (update_where ?hit (\<lambda>v. v\<lparr>w_available := round6 avail, w_held := round6 held,
        w_version := w_version w + 1\<rparr>) (wallets d))" for v
    using that D(11) UpdateWalletBalances_OK(3,4) [OF upd]
    by (auto simp: set_update_where wallet_stored_def)
  have has: "tx_client t \<in> w_client ` set (wallets d)" using w t(3) p by force
  show ?thesis
    unfolding t(1)
  proof (simp add: d1, rule ledger_ok_append [OF inv])
    show "wallet_balanced (wallet_txs d @ [t]) v"
      if "v \<in> set (update_where ?hit (\<lambda>v. v\<lparr>w_available := round6 avail, w_held := round6 held,
        w_version := w_version w + 1\<rparr>) (wallets d))" for v
    proof -
      from that obtain u where u: "u \<in> set (wallets d)"
        "v = (if ?hit u then u\<lparr>w_available := round6 avail, w_held := round6 held,
          w_version := w_version w + 1\<rparr> else u)" by (auto simp: set_update_where)
      show ?thesis
      proof (cases "?hit u")
        case True
        then have "u = w" using only [OF u(1)] by blast
        moreover have "round6 held = held" using hm by (rule round6_id)
        moreover have "tx_client t = w_client w" using t(3) p w(2) by simp
        ultimately show ?thesis
          by (intro balanced_snoc [OF D(5) [OF u(1)]]) (simp_all add: u(2) True hm [unfolded delta] dt delta)
      next
        case False
        have "u \<noteq> w" using False by blast
        then have "w_client w \<noteq> w_client u" using only [OF u(1)] by metis
        then have "tx_client t \<noteq> w_client u" using t(3) p w(2) by simp
        moreover have "is_money (w_available u)" "is_money (w_held u)"
          using D(5) [OF u(1)] unfolding wallet_balanced_def by blast+
        moreover have "v = u" using u(2) False by simp
        ultimately show ?thesis by (intro balanced_snoc [OF D(5) [OF u(1)]]) simp_all
      qed
    qed
  qed (use within' t d1 has stored in \<open>auto simp: map_update_where_inv\<close>)
qed


section \<open>The held balance is the sum of the open holds\<close>

definition open_amount :: "wallet_tx list \<Rightarrow> wallet_tx \<Rightarrow> decimal" where
  "open_amount ts h = tx_amount h - sum_amounts (settles (tx_id h)) ts"

lemma sum_list_unique:
  fixes c :: decimal
  shows "distinct (map k xs) \<Longrightarrow>
    sum_list (map (\<lambda>x. if k x = a then c else 0) xs) = (if a \<in> k ` set xs then c else 0)"
  by (induction xs) auto

lemma sum_list_exchange:
  fixes f :: "'a \<Rightarrow> 'b \<Rightarrow> decimal"
  shows "(\<Sum>x\<leftarrow>xs. \<Sum>y\<leftarrow>ys. f x y) = (\<Sum>y\<leftarrow>ys. \<Sum>x\<leftarrow>xs. f x y)"
  by (induction xs) (simp_all add: sum_list_addf)

lemma sum_amounts_if: "sum_amounts p ts = (\<Sum>t\<leftarrow>ts. if p t then tx_amount t else 0)"
  by (induction ts) (simp_all add: sum_amounts_def)

lemma settlements_of_holds:
  assumes ok: "ledger_ok ws ts"
  shows "(\<Sum>h\<leftarrow>filter (client_holds cid) ts. sum_amounts (settles (tx_id h)) ts) =
    sum_amounts (client_settlements cid) ts"
proof -
  let ?hs = "filter (client_holds cid) ts"
  note D = ledger_okD [OF ok]
  have ids: "distinct (map tx_id ?hs)" using D(3) by (simp add: distinct_map_filter)
  have "(\<Sum>h\<leftarrow>?hs. if settles (tx_id h) t then tx_amount t else 0) =
      (if client_settlements cid t then tx_amount t else 0)" if t: "t \<in> set ts" for t
  proof (cases "is_settlement t")
    case True
    then obtain g where g: "g \<in> set ts" "tx_type g = HOLD" "tx_related_hold t = Some (tx_id g)"
      "tx_client g = tx_client t" using D(8) [OF t] by (auto simp: settlement_linked_def)
    have st: "settles (tx_id h) t = (tx_id h = tx_id g)" for h
      using True g(3) by (auto simp: settles_def is_settlement_def)
    have "(\<Sum>h\<leftarrow>?hs. if settles (tx_id h) t then tx_amount t else 0) =
        (if tx_id g \<in> tx_id ` set ?hs then tx_amount t else 0)"
      unfolding st by (rule sum_list_unique [OF ids])
    also have "tx_id g \<in> tx_id ` set ?hs \<longleftrightarrow> tx_client t = cid"
    proof
      assume "tx_id g \<in> tx_id ` set ?hs"
      then obtain h where h: "h \<in> set ts" "client_holds cid h" "tx_id h = tx_id g" by auto
      have "h = g" by (rule distinct_map_inj [OF D(3) h(1) g(1) h(3)])
      with h g show "tx_client t = cid" by (simp add: client_holds_def)
    next
      assume "tx_client t = cid"
      with g show "tx_id g \<in> tx_id ` set ?hs" by (simp add: client_holds_def)
    qed
    finally show ?thesis using True by (simp add: client_settlements_def)
  qed (auto simp: settles_def client_settlements_def is_settlement_def)
  then show ?thesis
    by (simp add: sum_amounts_if sum_list_exchange [of _ ts] cong: map_cong)
qed

lemma held_open_holds:
  assumes ok: "ledger_ok ws ts" and w: "w \<in> set ws"
  shows "w_held w = (\<Sum>h\<leftarrow>filter (client_holds (w_client w)) ts. open_amount ts h)"
    and "h \<in> set ts \<Longrightarrow> tx_type h = HOLD \<Longrightarrow> 0 \<le> open_amount ts h" and "0 \<le> w_held w"
proof -
  have "w_held w = sum_amounts (client_holds (w_client w)) ts
      - sum_amounts (client_settlements (w_client w)) ts"
    using ledger_okD(5) [OF ok w] unfolding wallet_balanced_def by blast
  then show eq: "w_held w = (\<Sum>h\<leftarrow>filter (client_holds (w_client w)) ts. open_amount ts h)"
    by (simp add: open_amount_def sum_list_subtractf settlements_of_holds [OF ok, symmetric])
      (simp add: sum_amounts_def)
  show nn: "0 \<le> open_amount ts h" if "h \<in> set ts" "tx_type h = HOLD" for h
    using ledger_okD(9) [OF ok that(1)] that(2) by (simp add: hold_covered_def open_amount_def)
  show "0 \<le> w_held w"
    unfolding eq by (rule sum_list_nonneg) (auto simp: client_holds_def intro: nn)
qed

end
