(* ===== verification/SmsLedger.thy ===== *)
theory SmsLedger
  imports LedgerInv
begin

text \<open>
  The invariant of the whole billing state and its preservation by the operations of
  \<open>service.go\<close>: reservation, capture, release, top-up, adjustment and the reaper.
\<close>

section \<open>The state invariant\<close>

text \<open>
  A row under the debit or release key of a message settles the hold of that message, a
  row under its hold key is that hold.
\<close>

definition settle_key_ok :: "wallet_tx \<Rightarrow> bool" where
  "settle_key_ok t =
     ((\<forall>mid capture. tx_key t = Some (settle_key capture mid) \<longrightarrow>
        is_settlement t \<and> tx_sms_message t = Some mid)
     \<and> (\<forall>mid. tx_key t = Some (HoldKey mid) \<longrightarrow> tx_type t = HOLD \<and> tx_sms_message t = Some mid))"

lemma settle_key_neq [simp]:
  "settle_key c m \<noteq> HoldKey i" "settle_key c m \<noteq> LookupHoldKey i" "settle_key c m \<noteq> LookupDebitKey i"
  "settle_key c m \<noteq> LookupReleaseKey i" "settle_key c m \<noteq> LookupReleaseRemainderKey i"
  "settle_key c m \<noteq> topup_key i k" "settle_key c m \<noteq> adjustment_key i k"
  by (simp_all add: settle_key_def key_defs topup_key_def adjustment_key_def)

lemmas settle_key_neq' [simp] = settle_key_neq [symmetric]

lemma hold_key_neq [simp]:
  "HoldKey m \<noteq> LookupHoldKey i" "HoldKey m \<noteq> LookupDebitKey i" "HoldKey m \<noteq> LookupReleaseKey i"
  "HoldKey m \<noteq> LookupReleaseRemainderKey i" "HoldKey m \<noteq> topup_key i k" "HoldKey m \<noteq> adjustment_key i k"
  "HoldKey m = HoldKey m' \<longleftrightarrow> m = m'"
  by (simp_all add: key_defs topup_key_def adjustment_key_def)

lemmas hold_key_neq' [simp] = hold_key_neq(1-6) [symmetric]

lemma settle_key_inj [simp]: "settle_key c m = settle_key c' m' \<longleftrightarrow> c = c' \<and> m = m'"
  by (auto simp: settle_key_def key_defs)

definition links_ok :: "db \<Rightarrow> bool" where
  "links_ok d =
     (distinct (map msg_id (sms_messages d)) \<and>
      (\<forall>t \<in> set (wallet_txs d). \<forall>mid. tx_sms_message t = Some mid \<longrightarrow>
         mid \<in> msg_id ` set (sms_messages d)) \<and>
      (\<forall>t \<in> set (wallet_txs d). settle_key_ok t) \<and>
      (\<forall>j \<in> set (lookup_jobs d). \<forall>i \<in> set (lookup_items d). li_job i = lj_id j \<longrightarrow>
         li_client i = lj_client j) \<and>
      (\<forall>h \<in> set (wallet_txs d). tx_type h = HOLD \<longrightarrow>
         (\<forall>m \<in> set (sms_messages d). tx_sms_message h = Some (msg_id m) \<longrightarrow>
            msg_client m = Some (tx_client h))
         \<and> (\<forall>i \<in> set (lookup_items d). tx_lookup_job h = Some (li_job i) \<longrightarrow>
            li_client i = tx_client h)
         \<and> (tx_lookup_job h \<noteq> None \<longrightarrow> tx_sms_message h = None)
         \<and> (\<forall>mid. tx_sms_message h = Some mid \<longrightarrow> tx_key h = Some (HoldKey mid))))"

definition prices_ok :: "db \<Rightarrow> bool" where
  "prices_ok d =
     ((\<forall>m \<in> set (sms_messages d). \<forall>p. msg_unit_sell_price m = Some p \<longrightarrow> is_money p)
      \<and> (\<forall>j \<in> set (lookup_jobs d). \<forall>p. lj_unit_sell_price j = Some p \<longrightarrow> is_money p)
      \<and> (\<forall>i \<in> set (lookup_items d). \<forall>p. li_unit_sell_price i = Some p \<longrightarrow> is_money p))"

definition db_ok :: "db \<Rightarrow> bool" where
  "db_ok d = (ledger_ok (wallets d) (wallet_txs d) \<and> links_ok d \<and> prices_ok d)"

lemma db_okD:
  assumes "db_ok d"
  shows "ledger_ok (wallets d) (wallet_txs d)" "links_ok d" "prices_ok d"
  using assms by (simp_all add: db_ok_def)

lemma settle_key_row:
  assumes "db_ok d" "t \<in> set (wallet_txs d)" "tx_key t = Some (settle_key c mid)"
  shows "is_settlement t" "tx_sms_message t = Some mid"
proof -
  have "settle_key_ok t" using assms(1,2) by (simp add: db_ok_def links_ok_def)
  with assms(3) show "is_settlement t" "tx_sms_message t = Some mid" by (simp_all add: settle_key_ok_def)
qed

lemma hold_key_row:
  assumes "db_ok d" "t \<in> set (wallet_txs d)" "tx_key t = Some (HoldKey mid)"
  shows "tx_type t = HOLD" "tx_sms_message t = Some mid"
proof -
  have "settle_key_ok t" using assms(1,2) by (simp add: db_ok_def links_ok_def)
  with assms(3) show "tx_type t = HOLD" "tx_sms_message t = Some mid" by (simp_all add: settle_key_ok_def)
qed

section \<open>Inversion of the operations\<close>

lemma mustPositive_None: "mustPositive x f = None \<longleftrightarrow> 0 < x"
  by (auto simp: mustPositive_def)

lemma applyHold_OK: "applyHold a h x = Inr (a', h') \<longleftrightarrow> x \<le> a \<and> a' = a - x \<and> h' = h + x"
  by (auto simp: applyHold_def Let_def)

lemma applyRelease_OK: "applyRelease a h x = Inr (a', h') \<longleftrightarrow> x \<le> h \<and> a' = a + x \<and> h' = h - x"
  by (auto simp: applyRelease_def Let_def)

lemma applyDebit_OK: "applyDebitFromHold a h x = Inr (a', h') \<longleftrightarrow> x \<le> h \<and> a' = a \<and> h' = h - x"
  by (auto simp: applyDebitFromHold_def Let_def)

lemmas apply_OK = applyHold_OK applyRelease_OK applyDebit_OK mustPositive_None

lemma ReserveForMessage_OK:
  assumes "ReserveForMessage new_id now (Some d) msg = Inr d'"
  obtains (noop) cid where "d' = d" "msg_client msg = Some cid"
      "clientDeleted cid d \<or> tx_posted cid (HoldKey (msg_id msg)) d"
  | (posted) cid price segs amt w d1 p where
      "msg_client msg = Some cid" "\<not> clientDeleted cid d"
      "msg_unit_sell_price msg = Some price" "msg_billed_segments msg = Some segs"
      "amt = price * of_int segs" "0 < amt" "amt \<le> w_available w"
      "LockWalletByClientID cid d = Inr w"
      "UpdateWalletBalances (w_available w - amt) (w_held w + amt) (w_id w) (w_version w) d = Inr d1"
      "InsertWalletTransaction new_id now p d1 = Inr d'"
      "tx_client p = cid" "tx_type p = HOLD" "tx_amount p = amt" "tx_related_hold p = None"
      "tx_sms_message p = Some (msg_id msg)" "tx_lookup_job p = None"
      "tx_key p = Some (HoldKey (msg_id msg))"
proof (cases "\<exists>cid. msg_client msg = Some cid \<and> d' = d \<and>
    (clientDeleted cid d \<or> tx_posted cid (HoldKey (msg_id msg)) d)")
  case True
  then show ?thesis using noop by blast
next
  case False
  with assms show ?thesis
    by (auto simp: ReserveForMessage_def Let_def apply_OK split: option.splits sum.splits if_splits
        prod.splits intro!: posted)
qed

lemma settle_read_Proceed:
  assumes "settle_read mid capture d = SettleProceed cid msg hold"
  shows "msg \<in> set (sms_messages d)" "msg_id msg = mid" "msg_client msg = Some cid"
    "\<not> clientDeleted cid d" "\<not> tx_posted cid (settle_key capture mid) d"
    "hold \<in> set (wallet_txs d)" "tx_type hold = HOLD" "tx_sms_message hold = Some mid"
    "filter (settles (tx_id hold)) (wallet_txs d) = []"
proof -
  from assms have "GetSmsMessageByID mid d = Inr msg" "GetOpenHoldForMessage mid d = Inr hold"
    "msg_client msg = Some cid" "\<not> clientDeleted cid d"
    "\<not> tx_posted cid (settle_key capture mid) d"
    by (auto simp: settle_read_def split: sum.splits option.splits if_splits)
  moreover from calculation(2) have "hold \<in> set (filter (\<lambda>h. tx_sms_message h = Some mid
      \<and> tx_type h = HOLD \<and> \<not> list_ex (settles (tx_id h)) (wallet_txs d)) (wallet_txs d))"
    unfolding GetOpenHoldForMessage_def by (auto split: list.splits dest: sort_key_hd_mem)
  ultimately show "msg \<in> set (sms_messages d)" "msg_id msg = mid" "msg_client msg = Some cid"
    "\<not> clientDeleted cid d" "\<not> tx_posted cid (settle_key capture mid) d"
    "hold \<in> set (wallet_txs d)" "tx_type hold = HOLD" "tx_sms_message hold = Some mid"
    "filter (settles (tx_id hold)) (wallet_txs d) = []"
    by (auto simp: GetSmsMessageByID_def list_ex_iff filter_empty_conv split: option.splits
        dest: find_Some_mem)
qed

lemma settle_read_Done:
  assumes "settle_read mid capture d = SettleDone d'"
  shows "d' = d \<or> SetSmsMessageBillingAction (settle_action capture) mid d = Inr d'"
  using assms by (auto simp: settle_read_def split: sum.splits option.splits if_splits)

lemma settle_write_OK:
  assumes "settle_write new_id now mid capture cid msg hold d = Inr d'"
  obtains w avail d1 d2 p where
      "LockWalletByClientID cid d = Inr w" "tx_amount hold \<le> w_held w"
      "avail = w_available w + (if capture then 0 else tx_amount hold)"
      "UpdateWalletBalances avail (w_held w - tx_amount hold) (w_id w) (w_version w) d = Inr d1"
      "InsertWalletTransaction new_id now p d1 = Inr d2"
      "tx_client p = cid" "tx_type p = (if capture then DEBIT else RELEASE)"
      "tx_amount p = tx_amount hold" "tx_related_hold p = Some (tx_id hold)"
      "tx_sms_message p = Some mid" "tx_lookup_job p = None"
      "tx_key p = Some (settle_key capture mid)"
      "SetSmsMessageBillingAction (settle_action capture) mid d2 = Inr d'"
  using assms
  by (cases capture)
    (auto simp: settle_write_def settle_row_def apply_OK split: sum.splits prod.splits intro!: that)

lemma credit_OK:
  assumes "credit new_id now cid amt kind direction comment key by neg d = Inr d'"
  obtains (noop) "d' = d" "tx_posted cid key d"
  | (posted) w avail d1 p where
      "LockWalletByClientID cid d = Inr w"
      "avail = (if kind = ''CREDIT'' \<or> direction \<noteq> ''debit'' then w_available w + amt
                else w_available w - amt)"
      "kind \<noteq> ''CREDIT'' \<Longrightarrow> neg \<or> 0 \<le> avail"
      "UpdateWalletBalances avail (w_held w) (w_id w) (w_version w) d = Inr d1"
      "InsertWalletTransaction new_id now p d1 = Inr d'"
      "tx_client p = cid" "tx_type p = (if kind = ''CREDIT'' then CREDIT else ADJUSTMENT)"
      "tx_amount p = amt" "tx_related_hold p = None" "tx_sms_message p = None"
      "tx_lookup_job p = None" "tx_key p = Some key"
proof (cases "d' = d \<and> tx_posted cid key d")
  case True
  then show ?thesis using noop by blast
next
  case False
  with assms show ?thesis
    by (auto simp: credit_def applyAdjustment_def Let_def
        split: sum.splits if_splits intro!: posted)
qed


section \<open>Preservation\<close>

lemma post_frame:
  assumes "UpdateWalletBalances avail held wid ver d = Inr d1"
    and "InsertWalletTransaction new_id now p d1 = Inr d2"
  obtains t ws where "d2 = d\<lparr>wallets := ws, wallet_txs := wallet_txs d @ [t]\<rparr>"
    "tx_id t = new_id" "tx_client t = tx_client p" "tx_type t = tx_type p"
    "tx_amount t = round6 (tx_amount p)" "tx_related_hold t = tx_related_hold p"
    "tx_sms_message t = tx_sms_message p" "tx_lookup_job t = tx_lookup_job p" "tx_key t = tx_key p"
  using assms(2)
proof (rule InsertWalletTransaction_OK)
  fix t
  assume "d2 = d1\<lparr>wallet_txs := wallet_txs d1 @ [t]\<rparr>" and t: "tx_id t = new_id"
    "tx_client t = tx_client p" "tx_type t = tx_type p" "tx_amount t = round6 (tx_amount p)"
    "tx_related_hold t = tx_related_hold p" "tx_sms_message t = tx_sms_message p"
    "tx_lookup_job t = tx_lookup_job p" "tx_key t = tx_key p"
  moreover from UpdateWalletBalances_OK(1) [OF assms(1)] obtain ws
    where "d1 = d\<lparr>wallets := ws\<rparr>" by blast
  ultimately have "d2 = d\<lparr>wallets := ws, wallet_txs := wallet_txs d @ [t]\<rparr>" by simp
  then show thesis using t that by blast
qed

lemma links_ok_post:
  assumes "links_ok d" and "\<And>mid. tx_sms_message t = Some mid \<Longrightarrow> mid \<in> msg_id ` set (sms_messages d)"
    and "settle_key_ok t"
    and "tx_type t = HOLD \<Longrightarrow>
     (\<forall>m \<in> set (sms_messages d). tx_sms_message t = Some (msg_id m) \<longrightarrow> msg_client m = Some (tx_client t))
     \<and> (\<forall>i \<in> set (lookup_items d). tx_lookup_job t = Some (li_job i) \<longrightarrow> li_client i = tx_client t)
     \<and> (tx_lookup_job t \<noteq> None \<longrightarrow> tx_sms_message t = None)
     \<and> (\<forall>mid. tx_sms_message t = Some mid \<longrightarrow> tx_key t = Some (HoldKey mid))"
  shows "links_ok (d\<lparr>wallets := ws, wallet_txs := wallet_txs d @ [t]\<rparr>)"
  using assms unfolding links_ok_def by auto

lemma prices_ok_post: "prices_ok d \<Longrightarrow> prices_ok (d\<lparr>wallets := ws, wallet_txs := ts\<rparr>)"
  by (simp add: prices_ok_def)

lemma SetSmsMessageBillingAction_OK:
  assumes "SetSmsMessageBillingAction act mid d = Inr d'"
  shows "d' = d\<lparr>sms_messages := update_where (\<lambda>m. msg_id m = mid)
    (\<lambda>m. m\<lparr>msg_billing_action := Some act\<rparr>) (sms_messages d)\<rparr>"
  using assms by (auto simp: SetSmsMessageBillingAction_def split: option.splits)

text \<open>An update of messages that keeps their id, client and price keeps the invariant.\<close>

lemma db_ok_message_update:
  assumes f: "\<And>m. msg_id (f m) = msg_id m" "\<And>m. msg_client (f m) = msg_client m"
      "\<And>m. msg_unit_sell_price (f m) = msg_unit_sell_price m"
    and inv: "db_ok d"
  shows "db_ok (d\<lparr>sms_messages := update_where p f (sms_messages d)\<rparr>)"
proof -
  note D = db_okD [OF inv]
  have "msg_client m = Some (tx_client h)"
    if "h \<in> set (wallet_txs d)" "tx_type h = HOLD" "m \<in> set (update_where p f (sms_messages d))"
      "tx_sms_message h = Some (msg_id m)" for h m
  proof -
    from update_where_elem [OF that(3)] f obtain n where
      "n \<in> set (sms_messages d)" "msg_id m = msg_id n" "msg_client m = msg_client n" by auto
    with D(2) that(1,2,4) show ?thesis by (simp add: links_ok_def)
  qed
  then have "links_ok (d\<lparr>sms_messages := update_where p f (sms_messages d)\<rparr>)"
    using D(2) f by (auto simp: links_ok_def map_update_where_inv image_update_where)
  moreover have "prices_ok (d\<lparr>sms_messages := update_where p f (sms_messages d)\<rparr>)"
    using D(3) f by (auto simp: prices_ok_def dest!: update_where_elem)
  ultimately show ?thesis using D(1) by (simp add: db_ok_def)
qed

lemma SetSmsMessageBillingAction_keeps:
  "SetSmsMessageBillingAction act mid d = Inr d' \<Longrightarrow> db_ok d \<Longrightarrow> db_ok d'"
  by (drule SetSmsMessageBillingAction_OK) (simp add: db_ok_message_update)

lemma ReserveForMessage_keeps:
  assumes "ReserveForMessage new_id now (Some d) msg = Inr d'" and inv: "db_ok d"
    and m: "msg \<in> set (sms_messages d)"
  shows "db_ok d'"
  using assms(1)
proof (cases rule: ReserveForMessage_OK)
  case (posted cid price segs amt w d1 p)
  note D = db_okD [OF inv]
  have "is_money price" using D(3) m posted(3) by (auto simp: prices_ok_def)
  then have mon: "is_money (tx_amount p)" using posted by (simp add: is_money_mult_int)
  have "ledger_ok (wallets d') (wallet_txs d')"
    by (rule post_keeps_ledger [OF D(1) posted(8,9,10)])
      (use posted mon in \<open>auto simp: held_delta_def settles_within_def is_settlement_def\<close>)
  moreover from posted(9,10) obtain t ws where
    "d' = d\<lparr>wallets := ws, wallet_txs := wallet_txs d @ [t]\<rparr>" "tx_client t = tx_client p"
    "tx_type t = tx_type p" "tx_sms_message t = tx_sms_message p" "tx_lookup_job t = tx_lookup_job p"
    "tx_key t = tx_key p"
    by (rule post_frame)
  moreover from m posted(1) D(2) have "msg_client n = Some cid"
    if "n \<in> set (sms_messages d)" "msg_id n = msg_id msg" for n
    using that distinct_map_inj [of msg_id "sms_messages d" n msg] by (simp add: links_ok_def)
  ultimately show ?thesis
    using D(2,3) posted m
    by (auto simp: db_ok_def prices_ok_post settle_key_ok_def intro!: links_ok_post)
qed (use inv in simp)

lemma settle_write_keeps:
  assumes w: "settle_write new_id now mid capture cid msg hold d = Inr d'" and inv: "db_ok d"
    and hold: "hold \<in> set (wallet_txs d)" "tx_type hold = HOLD" "tx_sms_message hold = Some mid"
      "tx_client hold = cid" and fresh: "filter (settles (tx_id hold)) (wallet_txs d) = []"
  shows "db_ok d'"
  using w
proof (rule settle_write_OK)
  fix w avail d1 d2 p
  assume lock: "LockWalletByClientID cid d = Inr w"
    and upd: "UpdateWalletBalances avail (w_held w - tx_amount hold) (w_id w) (w_version w) d = Inr d1"
    and ins: "InsertWalletTransaction new_id now p d1 = Inr d2"
    and p: "tx_client p = cid" "tx_type p = (if capture then DEBIT else RELEASE)"
      "tx_amount p = tx_amount hold" "tx_related_hold p = Some (tx_id hold)"
      "tx_sms_message p = Some mid" "tx_key p = Some (settle_key capture mid)"
    and act: "SetSmsMessageBillingAction (settle_action capture) mid d2 = Inr d'"
  note D = db_okD [OF inv]
  have st: "is_settlement p" "tx_type p \<noteq> HOLD" using p(2) by (simp_all add: is_settlement_def)
  have "ledger_ok (wallets d2) (wallet_txs d2)"
  proof (rule post_keeps_ledger [OF D(1) lock upd ins])
    show "settles_within (wallet_txs d) p"
      unfolding settles_within_def using hold p fresh by (auto simp: sum_amounts_def)
    show "is_money (tx_amount p)" using ledger_okD(6) [OF D(1) hold(1)] p(3) by simp
  qed (use p st in \<open>auto simp: held_delta_def\<close>)
  moreover from upd ins obtain t ws where
    "d2 = d\<lparr>wallets := ws, wallet_txs := wallet_txs d @ [t]\<rparr>" "tx_type t = tx_type p"
    "tx_sms_message t = tx_sms_message p" "tx_key t = tx_key p"
    by (rule post_frame)
  moreover have "mid \<in> msg_id ` set (sms_messages d)"
    using D(2) hold(1,3) by (simp add: links_ok_def)
  ultimately have "db_ok d2"
    using D(2,3) st p(5,6)
    by (auto simp: db_ok_def prices_ok_post settle_key_ok_def is_settlement_def intro!: links_ok_post)
  with act show ?thesis by (rule SetSmsMessageBillingAction_keeps)
qed

lemma hold_client:
  assumes "db_ok d" "settle_read mid capture d = SettleProceed cid msg hold"
  shows "tx_client hold = cid"
proof -
  note R = settle_read_Proceed [OF assms(2)]
  have "msg_client msg = Some (tx_client hold)"
    using db_okD(2) [OF assms(1)] R(1,2,6,7,8) unfolding links_ok_def by blast
  with R(3) show ?thesis by simp
qed

lemma settle_keeps:
  assumes "settle new_id now mid capture d = Inr d'" and inv: "db_ok d"
  shows "db_ok d'"
proof (cases "settle_read mid capture d")
  case (SettleDone d0)
  with assms settle_read_Done [OF SettleDone] show ?thesis
    by (auto simp: settle_def dest: SetSmsMessageBillingAction_keeps)
next
  case (SettleProceed cid msg hold)
  note R = settle_read_Proceed [OF SettleProceed]
  from assms(1) SettleProceed have "settle_write new_id now mid capture cid msg hold d = Inr d'"
    by (simp add: settle_def)
  then show ?thesis
    by (rule settle_write_keeps [OF _ inv R(6,7,8) hold_client [OF inv SettleProceed] R(9)])
qed

lemma credit_keeps:
  assumes "credit new_id now cid amt kind direction comment key by neg d = Inr d'"
    and inv: "db_ok d" and key: "\<And>c m. key \<noteq> settle_key c m" "\<And>m. key \<noteq> HoldKey m"
  shows "db_ok d'"
  using assms(1)
proof (cases rule: credit_OK)
  case (posted w avail d1 p)
  note D = db_okD [OF inv]
  have ty: "tx_type p \<noteq> HOLD" "\<not> is_settlement p"
    using posted(7) by (auto simp: is_settlement_def split: if_splits)
  have "ledger_ok (wallets d') (wallet_txs d')"
    by (rule post_keeps_ledger [OF D(1) posted(1,4,5)])
      (use posted ty in \<open>auto simp: held_delta_def settles_within_def\<close>)
  moreover from posted(4,5) obtain t ws where
    "d' = d\<lparr>wallets := ws, wallet_txs := wallet_txs d @ [t]\<rparr>" "tx_type t = tx_type p"
    "tx_sms_message t = tx_sms_message p" "tx_key t = tx_key p"
    by (rule post_frame)
  ultimately show ?thesis
    using D(2,3) ty posted(10,12) key
    by (auto simp: db_ok_def prices_ok_post settle_key_ok_def intro!: links_ok_post)
qed (use inv in simp)

lemma TopUp_keeps: "TopUp parse new_id now i d = Inr d' \<Longrightarrow> db_ok d \<Longrightarrow> db_ok d'"
  by (auto simp: TopUp_def split: sum.splits option.splits if_splits dest!: credit_keeps)

lemma Adjust_keeps: "Adjust parse new_id now i d = Inr d' \<Longrightarrow> db_ok d \<Longrightarrow> db_ok d'"
  by (auto simp: Adjust_def Let_def split: sum.splits option.splits if_splits dest!: credit_keeps)

lemma reap_row_keeps: "db_ok d \<Longrightarrow> db_ok (fst (reap_row new_id now row d))"
  by (auto simp: reap_row_def Let_def CaptureForMessage_def ReleaseForMessage_def
      split: option.splits sum.splits dest: settle_keeps)

lemma fst_reap_rows_Cons:
  "fst (reap_rows ids now k (row # rows) d) =
   fst (reap_rows ids now (Suc k) rows (fst (reap_row (ids k) now row d)))"
  by (simp add: Let_def split_beta)

lemma reap_rows_keeps: "db_ok d \<Longrightarrow> db_ok (fst (reap_rows ids now k rows d))"
proof (induction rows arbitrary: k d)
  case (Cons row rows)
  then show ?case unfolding fst_reap_rows_Cons by (intro Cons.IH reap_row_keeps)
qed simp

lemma ReapOpenHolds_keeps: "db_ok d \<Longrightarrow> db_ok (fst (ReapOpenHolds ids now limit d))"
  by (simp add: ReapOpenHolds_def Let_def reap_rows_keeps)

end
