(* ===== verification/LookupBilling.thy ===== *)
theory LookupBilling
  imports SmsLedger
begin

text \<open>
  \<open>internal/billing/lookup_billing.go\<close>: the wallet operations of the HLR / Silent SMS
  product. One hold covers a whole job; each item captures or releases its share, and the
  rest of the hold is released when no item can claim it any more.
\<close>

definition walletVersionRetries :: nat where
  "walletVersionRetries = 5"

section \<open>Reservation\<close>

definition check_type_string :: "lookup_check_type \<Rightarrow> string" where
  "check_type_string t = (case t of CheckHlr \<Rightarrow> ''hlr'' | CheckPing \<Rightarrow> ''ping'')"

definition ReserveForLookupJob :: "uuid \<Rightarrow> time \<Rightarrow> db option \<Rightarrow> lookup_job \<Rightarrow> db result" where
  "ReserveForLookupJob new_id now q job =
     (case q of None \<Rightarrow> Inl (Plain ''reserve lookup job requires transaction queries'') | Some d \<Rightarrow>
      let cid = lj_client job in
      if clientDeleted cid d then Inr d
      else if lj_item_count job < 1
      then Inl (wrap BillingErrValidation ''validation'' ''lookup job has no items'')
      else
      case (lj_unit_sell_price job, lj_tariff_plan_id job, lj_tariff_plan_code job) of
        (Some price, Some plan, Some code) \<Rightarrow>
          let amount = price * of_int (lj_item_count job); key = LookupHoldKey (lj_id job) in
          (case mustPositive amount ''hold_amount'' of Some e \<Rightarrow> Inl e | None \<Rightarrow>
           if tx_posted cid key d then Inr d else
           case LockWalletByClientID cid d of
             Inl e \<Rightarrow> Inl (if e = NoRows then wallet_not_found else e)
           | Inr w \<Rightarrow>
           case applyHold (w_available w) (w_held w) amount of Inl e \<Rightarrow> Inl e
           | Inr (avail, held) \<Rightarrow>
           case UpdateWalletBalances avail held (w_id w) (w_version w) d of Inl e \<Rightarrow> Inl e
           | Inr d1 \<Rightarrow>
           InsertWalletTransaction new_id now
             \<lparr>tx_id = [], tx_wallet = w_id w, tx_client = cid, tx_type = HOLD,
              tx_amount = amount, tx_currency = trimCurrency (lj_currency job),
              tx_after_available = Some avail, tx_after_held = Some held,
              tx_related_hold = None, tx_sms_message = None,
              tx_lookup_job = Some (lj_id job), tx_lookup_item = None, tx_key = Some key,
              tx_description = Some ''Reserve lookup job'',
              tx_metadata = [(''lookup_job_id'', JString (lj_id job)),
                (''check_type'', JString (check_type_string (lj_check_type job))),
                (''item_count'', JInt (lj_item_count job)), (''unit_sell_price'', JMoney price),
                (''tariff_plan_id'', JString plan), (''tariff_plan_code'', JString code),
                (''price_source'', JString ''job_snapshot'')],
              tx_created_by = None, tx_created_at = now\<rparr> d1)
      | _ \<Rightarrow> Inl price_snapshot_missing)"

section \<open>Settlement of an item\<close>

definition markLookupItemPosted :: "uuid \<Rightarrow> bool \<Rightarrow> decimal \<Rightarrow> db \<Rightarrow> db result" where
  "markLookupItemPosted iid capture share d =
     SetLookupItemBillingAction (settle_action capture) (if capture then Some share else None) iid d"

definition lookup_settle_key :: "bool \<Rightarrow> uuid \<Rightarrow> string" where
  "lookup_settle_key capture iid = (if capture then LookupDebitKey iid else LookupReleaseKey iid)"

text \<open>
  As for the SMS settlement, the reads (item, client, key, hold and what is already
  settled of it) come before the wallet lock: \<open>lookup_settle_read\<close> is that first part and
  \<open>lookup_settle_write\<close> the rest of the transaction.
\<close>

datatype lookup_settle_plan =
    LookupFail goerr
  | LookupDone db
  | LookupProceed lookup_item decimal wallet_tx

text \<open>The message of the last error also shows the two amounts, rendered by the decimal package.\<close>

definition lookup_hold_check :: "lookup_item \<Rightarrow> decimal \<Rightarrow> db \<Rightarrow> lookup_settle_plan" where
  "lookup_hold_check item share d =
     (case GetLookupJobHold (li_job item) d of
        Inl e \<Rightarrow> LookupFail (wrap BillingErrHoldNotFound ''hold_not_found''
                 ''lookup job hold not found'')
      | Inr hold \<Rightarrow>
     (case SumSettledAgainstHold (tx_id hold) d of Inl e \<Rightarrow> LookupFail e | Inr settled \<Rightarrow>
     (case RemainingOnHold (tx_amount hold) settled of Inl e \<Rightarrow> LookupFail e | Inr remaining \<Rightarrow>
      if remaining < share
      then LookupFail (wrap BillingErrInvalidAmount ''invalid_amount''
             ''hold remaining less than item share'')
      else LookupProceed item share hold)))"

definition lookup_settle_read :: "uuid \<Rightarrow> bool \<Rightarrow> db \<Rightarrow> lookup_settle_plan" where
  "lookup_settle_read iid capture d =
     (case GetLookupItem iid d of Inl e \<Rightarrow> LookupFail e | Inr item \<Rightarrow>
      if clientDeleted (li_client item) d then LookupDone d else
     (case li_billing_action item of
        Some act \<Rightarrow>
          if act = settle_action capture then LookupDone d
          else LookupFail (wrap BillingErrInvalidAmount ''invalid_amount''
                 ''lookup item already settled with a different action'')
      | None \<Rightarrow>
     (case li_unit_sell_price item of
        None \<Rightarrow> LookupFail (wrap BillingErrPriceSnapshotMissing ''price_snapshot_missing''
                 ''item price snapshot missing'')
      | Some share \<Rightarrow>
     (case mustPositive share ''item_amount'' of Some e \<Rightarrow> LookupFail e | None \<Rightarrow>
      if tx_posted (li_client item) (lookup_settle_key capture iid) d then
        (case markLookupItemPosted (li_id item) capture share d of
           Inl e \<Rightarrow> LookupFail e | Inr d' \<Rightarrow> LookupDone d')
      else lookup_hold_check item share d))))"

definition lookup_settle_write ::
    "uuid \<Rightarrow> time \<Rightarrow> uuid \<Rightarrow> bool \<Rightarrow> lookup_item \<Rightarrow> decimal \<Rightarrow> wallet_tx \<Rightarrow> db \<Rightarrow> db result" where
  "lookup_settle_write new_id now iid capture item share hold d =
     (case LockWalletByClientID (li_client item) d of Inl e \<Rightarrow> Inl e | Inr w \<Rightarrow>
     (case (if capture then applyDebitFromHold (w_available w) (w_held w) share
            else applyRelease (w_available w) (w_held w) share) of
        Inl e \<Rightarrow> Inl e
      | Inr (avail, held) \<Rightarrow>
     (case UpdateWalletBalances avail held (w_id w) (w_version w) d of Inl e \<Rightarrow> Inl e
      | Inr d1 \<Rightarrow>
     (case InsertWalletTransaction new_id now
          \<lparr>tx_id = [], tx_wallet = w_id w, tx_client = li_client item,
           tx_type = (if capture then DEBIT else RELEASE),
           tx_amount = share, tx_currency = tx_currency hold,
           tx_after_available = Some avail, tx_after_held = Some held,
           tx_related_hold = Some (tx_id hold), tx_sms_message = None,
           tx_lookup_job = Some (li_job item), tx_lookup_item = Some (li_id item),
           tx_key = Some (lookup_settle_key capture iid),
           tx_description = Some (if capture then ''Capture lookup'' else ''Release lookup''),
           tx_metadata = [(''lookup_job_id'', JString (li_job item)),
             (''lookup_item_id'', JString (li_id item)), (''phone_e164'', JString (li_phone item)),
             (''unit_sell_price'', JMoney share), (''price_source'', JString ''item_snapshot'')],
           tx_created_by = None, tx_created_at = now\<rparr> d1 of Inl e \<Rightarrow> Inl e
      | Inr d2 \<Rightarrow> markLookupItemPosted (li_id item) capture share d2))))"

definition settleLookupItemOnce :: "uuid \<Rightarrow> time \<Rightarrow> uuid \<Rightarrow> bool \<Rightarrow> db \<Rightarrow> db result" where
  "settleLookupItemOnce new_id now iid capture d =
     (case lookup_settle_read iid capture d of
        LookupFail e \<Rightarrow> Inl e
      | LookupDone d' \<Rightarrow> Inr d'
      | LookupProceed item share hold \<Rightarrow>
          lookup_settle_write new_id now iid capture item share hold d)"

text \<open>
  The retry loop on \<open>pgx.ErrNoRows\<close> (the wallet changed under the transaction): \<open>n\<close> more
  attempts after this one, each with its own generated id.
\<close>

fun settle_attempts :: "(nat \<Rightarrow> uuid) \<Rightarrow> time \<Rightarrow> uuid \<Rightarrow> bool \<Rightarrow> nat \<Rightarrow> db \<Rightarrow> db result" where
  "settle_attempts ids now iid capture 0 d = settleLookupItemOnce (ids 0) now iid capture d"
| "settle_attempts ids now iid capture (Suc n) d =
     (case settleLookupItemOnce (ids (Suc n)) now iid capture d of
        Inl e \<Rightarrow> if e = NoRows then settle_attempts ids now iid capture n d else Inl e
      | Inr d' \<Rightarrow> Inr d')"

definition settleLookupItem :: "(nat \<Rightarrow> uuid) \<Rightarrow> time \<Rightarrow> uuid \<Rightarrow> bool \<Rightarrow> db \<Rightarrow> db result" where
  "settleLookupItem ids now iid capture d =
     settle_attempts ids now iid capture (walletVersionRetries - 1) d"

definition CaptureForLookupItem :: "(nat \<Rightarrow> uuid) \<Rightarrow> time \<Rightarrow> uuid \<Rightarrow> db \<Rightarrow> db result" where
  "CaptureForLookupItem ids now iid d = settleLookupItem ids now iid True d"

definition ReleaseForLookupItem :: "(nat \<Rightarrow> uuid) \<Rightarrow> time \<Rightarrow> uuid \<Rightarrow> db \<Rightarrow> db result" where
  "ReleaseForLookupItem ids now iid d = settleLookupItem ids now iid False d"

section \<open>Release of the remainder\<close>

definition post_remainder ::
    "uuid \<Rightarrow> time \<Rightarrow> uuid \<Rightarrow> wallet_tx \<Rightarrow> decimal \<Rightarrow> db \<Rightarrow> db result" where
  "post_remainder new_id now jid hold remaining d =
     (case LockWalletByClientID (tx_client hold) d of Inl e \<Rightarrow> Inl e | Inr w \<Rightarrow>
     (case applyRelease (w_available w) (w_held w) remaining of Inl e \<Rightarrow> Inl e
      | Inr (avail, held) \<Rightarrow>
     (case UpdateWalletBalances avail held (w_id w) (w_version w) d of Inl e \<Rightarrow> Inl e
      | Inr d1 \<Rightarrow>
      InsertWalletTransaction new_id now
        \<lparr>tx_id = [], tx_wallet = w_id w, tx_client = tx_client hold, tx_type = RELEASE,
         tx_amount = remaining, tx_currency = tx_currency hold,
         tx_after_available = Some avail, tx_after_held = Some held,
         tx_related_hold = Some (tx_id hold), tx_sms_message = None,
         tx_lookup_job = Some jid, tx_lookup_item = None,
         tx_key = Some (LookupReleaseRemainderKey jid),
         tx_description = Some ''Release lookup remainder'',
         tx_metadata = [(''lookup_job_id'', JString jid),
           (''price_source'', JString ''hold_remainder'')],
         tx_created_by = None, tx_created_at = now\<rparr> d1)))"

definition releaseLookupJobRemainderOnce :: "uuid \<Rightarrow> time \<Rightarrow> uuid \<Rightarrow> db \<Rightarrow> db result" where
  "releaseLookupJobRemainderOnce new_id now jid d =
     (if LookupRemainderBlocked (CountLookupItemsBlockingRemainder jid d) then Inr d else
     (case GetLookupJobHold jid d of Inl _ \<Rightarrow> Inr d | Inr hold \<Rightarrow>
      if clientDeleted (tx_client hold) d then Inr d else
     (case SumSettledAgainstHold (tx_id hold) d of Inl e \<Rightarrow> Inl e | Inr settled \<Rightarrow>
     (case RemainingOnHold (tx_amount hold) settled of Inl e \<Rightarrow> Inl e | Inr remaining \<Rightarrow>
      if \<not> HoldIsOpen remaining then Inr d
      else if tx_posted (tx_client hold) (LookupReleaseRemainderKey jid) d then Inr d
      else post_remainder new_id now jid hold remaining d))))"

fun remainder_attempts :: "(nat \<Rightarrow> uuid) \<Rightarrow> time \<Rightarrow> uuid \<Rightarrow> nat \<Rightarrow> db \<Rightarrow> db result" where
  "remainder_attempts ids now jid 0 d = releaseLookupJobRemainderOnce (ids 0) now jid d"
| "remainder_attempts ids now jid (Suc n) d =
     (case releaseLookupJobRemainderOnce (ids (Suc n)) now jid d of
        Inl e \<Rightarrow> if e = NoRows then remainder_attempts ids now jid n d else Inl e
      | Inr d' \<Rightarrow> Inr d')"

definition ReleaseLookupJobRemainder :: "(nat \<Rightarrow> uuid) \<Rightarrow> time \<Rightarrow> uuid \<Rightarrow> db \<Rightarrow> db result" where
  "ReleaseLookupJobRemainder ids now jid d =
     remainder_attempts ids now jid (walletVersionRetries - 1) d"

section \<open>The reaper\<close>

definition reap_item :: "(nat \<Rightarrow> uuid) \<Rightarrow> time \<Rightarrow> lookup_item \<Rightarrow> db \<Rightarrow> db \<times> nat" where
  "reap_item ids now item d =
     (let act = LookupItemSettleAction item in
      if act = ''capture'' then
        (case CaptureForLookupItem ids now (li_id item) d of Inl _ \<Rightarrow> (d, 0) | Inr d' \<Rightarrow> (d', 1))
      else if act = ''release'' then
        (case ReleaseForLookupItem ids now (li_id item) d of Inl _ \<Rightarrow> (d, 0) | Inr d' \<Rightarrow> (d', 1))
      else (d, 0))"

fun reap_items ::
    "(nat \<Rightarrow> nat \<Rightarrow> uuid) \<Rightarrow> time \<Rightarrow> nat \<Rightarrow> lookup_item list \<Rightarrow> db \<Rightarrow> db \<times> nat" where
  "reap_items ids now k [] d = (d, 0)"
| "reap_items ids now k (i # is) d =
     (let (d1, n1) = reap_item (ids k) now i d;
          (d2, n2) = reap_items ids now (Suc k) is d1
      in (d2, n1 + n2))"

definition reap_job ::
    "(nat \<Rightarrow> nat \<Rightarrow> uuid) \<Rightarrow> time \<Rightarrow> open_lookup_hold_row \<Rightarrow> db \<Rightarrow> db \<times> nat" where
  "reap_job ids now row d =
     (case ol_lookup_job row of None \<Rightarrow> (d, 0) | Some jid \<Rightarrow>
      let (d1, n) = reap_items (\<lambda>k. ids (Suc k)) now 0 (ListUnsettledTerminalLookupItems jid d) d in
      if ol_job_status row \<in> {LJobCompleted, LJobCompletedWithErrors, LJobFailed} then
        (case ReleaseLookupJobRemainder (ids 0) now jid d1 of
           Inl _ \<Rightarrow> (d1, n) | Inr d2 \<Rightarrow> (d2, n))
      else (d1, n))"

fun reap_jobs ::
    "(nat \<Rightarrow> nat \<Rightarrow> nat \<Rightarrow> uuid) \<Rightarrow> time \<Rightarrow> nat \<Rightarrow> open_lookup_hold_row list \<Rightarrow> db \<Rightarrow> db \<times> nat" where
  "reap_jobs ids now k [] d = (d, 0)"
| "reap_jobs ids now k (row # rows) d =
     (let (d1, n1) = reap_job (ids k) now row d;
          (d2, n2) = reap_jobs ids now (Suc k) rows d1
      in (d2, n1 + n2))"

definition ReapOpenLookupHolds ::
    "(nat \<Rightarrow> nat \<Rightarrow> nat \<Rightarrow> uuid) \<Rightarrow> time \<Rightarrow> int \<Rightarrow> db \<Rightarrow> db \<times> nat" where
  "ReapOpenLookupHolds ids now limit d =
     (let lim = (if limit < 1 then 50 else limit) in
      reap_jobs ids now 0 (ListOpenLookupJobHolds (nat lim) d) d)"

end
