(* ===== verification/LookupLedger.thy ===== *)
theory LookupLedger
  imports LookupBilling
begin

text \<open>
  Preservation of the billing invariant by the lookup wallet operations.
\<close>

section \<open>Inversion\<close>

lemma ReserveForLookupJob_OK:
  assumes "ReserveForLookupJob new_id now (Some d) job = Inr d'"
  obtains (noop) "d' = d"
  | (posted) price amt w d1 p where
      "lj_unit_sell_price job = Some price" "1 \<le> lj_item_count job"
      "amt = price * of_int (lj_item_count job)" "0 < amt" "amt \<le> w_available w"
      "LockWalletByClientID (lj_client job) d = Inr w"
      "UpdateWalletBalances (w_available w - amt) (w_held w + amt) (w_id w) (w_version w) d = Inr d1"
      "InsertWalletTransaction new_id now p d1 = Inr d'"
      "tx_client p = lj_client job" "tx_type p = HOLD" "tx_amount p = amt"
      "tx_related_hold p = None" "tx_sms_message p = None" "tx_lookup_job p = Some (lj_id job)"
      "tx_key p = Some (LookupHoldKey (lj_id job))"
proof (cases "d' = d")
  case True
  then show ?thesis by (rule noop)
next
  case False
  with assms show ?thesis
    by (auto simp: ReserveForLookupJob_def Let_def apply_OK split: option.splits sum.splits if_splits
        prod.splits intro!: posted)
qed

lemma GetLookupJobHold_OK:
  assumes "GetLookupJobHold jid d = Inr h"
  shows "h \<in> set (wallet_txs d)" "tx_lookup_job h = Some jid" "tx_type h = HOLD"
proof -
  from assms have "h \<in> set (filter (\<lambda>h. tx_lookup_job h = Some jid \<and> tx_type h = HOLD) (wallet_txs d))"
    unfolding GetLookupJobHold_def by (auto split: list.splits dest: sort_key_hd_mem)
  then show "h \<in> set (wallet_txs d)" "tx_lookup_job h = Some jid" "tx_type h = HOLD" by auto
qed

lemma GetLookupItem_OK:
  "GetLookupItem iid d = Inr i \<Longrightarrow> i \<in> set (lookup_items d) \<and> li_id i = iid"
  by (auto simp: GetLookupItem_def split: option.splits dest: find_Some_mem)

lemma lookup_settle_read_Proceed:
  assumes "lookup_settle_read iid capture d = LookupProceed item share hold"
  shows "item \<in> set (lookup_items d)" "li_id item = iid" "li_unit_sell_price item = Some share"
    "li_billing_action item = None" "0 < share" "GetLookupJobHold (li_job item) d = Inr hold"
    "share \<le> tx_amount hold - round6 (settled_sum (tx_id hold) d)"
    "\<not> tx_posted (li_client item) (lookup_settle_key capture iid) d"
    "\<not> clientDeleted (li_client item) d"
  using assms
  by (auto simp: lookup_settle_read_def lookup_hold_check_def RemainingOnHold_def Let_def apply_OK
      SumSettledAgainstHold_def split: sum.splits option.splits if_splits
      dest!: GetLookupItem_OK billing_money_OK)

lemma lookup_settle_read_Done:
  assumes "lookup_settle_read iid capture d = LookupDone d'"
  shows "d' = d \<or> (\<exists>share item. markLookupItemPosted iid capture share d = Inr d' \<and>
     item \<in> set (lookup_items d) \<and> li_id item = iid \<and> li_billing_action item = None \<and>
     tx_posted (li_client item) (lookup_settle_key capture iid) d)"
  using assms
  by (auto simp: lookup_settle_read_def lookup_hold_check_def
      split: sum.splits option.splits if_splits dest!: GetLookupItem_OK)

lemma lookup_settle_write_OK:
  assumes "lookup_settle_write new_id now iid capture item share hold d = Inr d'"
  obtains w avail d1 d2 p where
      "LockWalletByClientID (li_client item) d = Inr w" "share \<le> w_held w"
      "avail = w_available w + (if capture then 0 else share)"
      "UpdateWalletBalances avail (w_held w - share) (w_id w) (w_version w) d = Inr d1"
      "InsertWalletTransaction new_id now p d1 = Inr d2"
      "tx_client p = li_client item" "tx_type p = (if capture then DEBIT else RELEASE)"
      "tx_amount p = share" "tx_related_hold p = Some (tx_id hold)"
      "tx_sms_message p = None" "tx_key p = Some (lookup_settle_key capture iid)"
      "markLookupItemPosted (li_id item) capture share d2 = Inr d'"
      "tx_lookup_job p = Some (li_job item)"
  using assms
  by (cases capture)
    (auto simp: lookup_settle_write_def apply_OK split: sum.splits prod.splits intro!: that)

lemma post_remainder_OK:
  assumes "post_remainder new_id now jid hold remaining d = Inr d'"
  obtains w d1 p where
      "LockWalletByClientID (tx_client hold) d = Inr w" "remaining \<le> w_held w"
      "UpdateWalletBalances (w_available w + remaining) (w_held w - remaining) (w_id w)
         (w_version w) d = Inr d1"
      "InsertWalletTransaction new_id now p d1 = Inr d'"
      "tx_client p = tx_client hold" "tx_type p = RELEASE"
      "tx_amount p = remaining" "tx_related_hold p = Some (tx_id hold)"
      "tx_sms_message p = None" "tx_key p = Some (LookupReleaseRemainderKey jid)"
  using assms by (auto simp: post_remainder_def apply_OK split: sum.splits prod.splits intro!: that)

lemma releaseRemainderOnce_OK:
  assumes "releaseLookupJobRemainderOnce new_id now jid d = Inr d'"
  obtains (noop) "d' = d"
  | (posted) hold remaining where
      "CountLookupItemsBlockingRemainder jid d = 0" "GetLookupJobHold jid d = Inr hold"
      "remaining = tx_amount hold - round6 (settled_sum (tx_id hold) d)" "0 < remaining"
      "post_remainder new_id now jid hold remaining d = Inr d'"
proof (cases "d' = d")
  case True
  then show ?thesis by (rule noop)
next
  case False
  with assms show ?thesis
    by (auto simp: releaseLookupJobRemainderOnce_def LookupRemainderBlocked_def RemainingOnHold_def
        HoldIsOpen_def SumSettledAgainstHold_def Let_def split: sum.splits if_splits
        dest!: billing_money_OK intro!: posted)
qed

section \<open>Preservation\<close>

lemma settled_sum_amounts: "settled_sum hid d = sum_amounts (settles hid) (wallet_txs d)"
  by (simp add: settled_sum_def sum_amounts_def)

lemma is_money_sum_amounts:
  "(\<And>t. t \<in> set ts \<Longrightarrow> is_money (tx_amount t)) \<Longrightarrow> is_money (sum_amounts p ts)"
  by (induction ts) (auto simp: sum_amounts_def is_money_add)

lemma settled_sum_exact:
  "ledger_ok (wallets d) (wallet_txs d) \<Longrightarrow> round6 (settled_sum hid d) = settled_sum hid d"
  by (simp add: settled_sum_amounts round6_id is_money_sum_amounts ledger_okD(6))

lemma markLookupItemPosted_keeps:
  assumes "markLookupItemPosted iid capture share d = Inr d'" and "db_ok d"
  shows "db_ok d'"
  using assms
  by (auto simp: markLookupItemPosted_def SetLookupItemBillingAction_def db_ok_def links_ok_def
      prices_ok_def set_update_where split: sum.splits)

lemma lookup_post_keeps:
  assumes inv: "db_ok d" and hold: "hold \<in> set (wallet_txs d)" "tx_type hold = HOLD"
      "tx_sms_message hold = None" "tx_client hold = cid"
    and lock: "LockWalletByClientID cid d = Inr w"
    and upd: "UpdateWalletBalances avail (w_held w - amt) (w_id w) (w_version w) d = Inr d1"
    and ins: "InsertWalletTransaction new_id now p d1 = Inr d2"
    and p: "tx_client p = cid" "tx_type p = DEBIT \<or> tx_type p = RELEASE" "tx_amount p = amt"
      "tx_related_hold p = Some (tx_id hold)" "tx_sms_message p = None"
      "\<And>c m. tx_key p \<noteq> Some (settle_key c m)" "\<And>m. tx_key p \<noteq> Some (HoldKey m)"
    and amt: "is_money amt" "amt \<le> tx_amount hold - round6 (settled_sum (tx_id hold) d)"
  shows "db_ok d2"
proof -
  note D = db_okD [OF inv]
  have st: "is_settlement p" "tx_type p \<noteq> HOLD" using p(2) by (auto simp: is_settlement_def)
  have "sum_amounts (settles (tx_id hold)) (wallet_txs d) + amt \<le> tx_amount hold"
    using amt(2) settled_sum_exact [OF D(1), of "tx_id hold"] by (simp add: settled_sum_amounts)
  then have within: "settles_within (wallet_txs d) p"
    unfolding settles_within_def using hold p by auto
  have "ledger_ok (wallets d2) (wallet_txs d2)"
    by (rule post_keeps_ledger [OF D(1) lock upd ins])
      (use p st within amt in \<open>auto simp: held_delta_def\<close>)
  moreover from upd ins obtain t ws where
    "d2 = d\<lparr>wallets := ws, wallet_txs := wallet_txs d @ [t]\<rparr>" "tx_type t = tx_type p"
    "tx_sms_message t = tx_sms_message p" "tx_key t = tx_key p"
    by (rule post_frame)
  ultimately show ?thesis
    using D(2,3) st(2) p(5,6,7)
    by (auto simp: db_ok_def prices_ok_post settle_key_ok_def intro!: links_ok_post)
qed

lemma job_hold_link:
  assumes "db_ok d" "GetLookupJobHold jid d = Inr h"
  shows "tx_sms_message h = None"
    and "item \<in> set (lookup_items d) \<Longrightarrow> li_job item = jid \<Longrightarrow> tx_client h = li_client item"
  using GetLookupJobHold_OK [OF assms(2)] db_okD(2) [OF assms(1)] unfolding links_ok_def
  by (metis option.distinct(1), metis)

lemma settleLookupItemOnce_keeps:
  assumes "settleLookupItemOnce new_id now iid capture d = Inr d'" and inv: "db_ok d"
  shows "db_ok d'"
proof (cases "lookup_settle_read iid capture d")
  case (LookupDone d0)
  with assms lookup_settle_read_Done [OF LookupDone] show ?thesis
    by (auto simp: settleLookupItemOnce_def dest: markLookupItemPosted_keeps)
next
  case (LookupProceed item share hold)
  note R = lookup_settle_read_Proceed [OF LookupProceed]
  note H = GetLookupJobHold_OK [OF R(6)] job_hold_link [OF inv R(6)]
  have m: "is_money share" using db_okD(3) [OF inv] R(1,3) by (auto simp: prices_ok_def)
  from assms(1) LookupProceed
  have "lookup_settle_write new_id now iid capture item share hold d = Inr d'"
    by (simp add: settleLookupItemOnce_def)
  then show ?thesis
  proof (rule lookup_settle_write_OK)
    fix w avail d1 d2 p
    assume A: "LockWalletByClientID (li_client item) d = Inr w"
      "UpdateWalletBalances avail (w_held w - share) (w_id w) (w_version w) d = Inr d1"
      "InsertWalletTransaction new_id now p d1 = Inr d2"
      "tx_client p = li_client item" "tx_type p = (if capture then DEBIT else RELEASE)"
      "tx_amount p = share" "tx_related_hold p = Some (tx_id hold)" "tx_sms_message p = None"
      "tx_key p = Some (lookup_settle_key capture iid)"
      and mark: "markLookupItemPosted (li_id item) capture share d2 = Inr d'"
    have "db_ok d2"
      by (rule lookup_post_keeps [OF inv H(1,3,4) _ A(1-4) _ A(6,7,8) _ _ m R(7)])
        (use H(5) R(1) A(5,9) in \<open>auto simp: lookup_settle_key_def\<close>)
    with mark show ?thesis by (rule markLookupItemPosted_keeps)
  qed
qed (use assms in \<open>simp add: settleLookupItemOnce_def\<close>)

lemma settle_attempts_keeps:
  "settle_attempts ids now iid capture n d = Inr d' \<Longrightarrow> db_ok d \<Longrightarrow> db_ok d'"
  by (induction n) (auto split: sum.splits if_splits dest: settleLookupItemOnce_keeps)

lemma settleLookupItem_keeps:
  "settleLookupItem ids now iid capture d = Inr d' \<Longrightarrow> db_ok d \<Longrightarrow> db_ok d'"
  by (simp add: settleLookupItem_def settle_attempts_keeps)

lemma releaseRemainderOnce_keeps:
  assumes "releaseLookupJobRemainderOnce new_id now jid d = Inr d'" and inv: "db_ok d"
  shows "db_ok d'"
  using assms(1)
proof (cases rule: releaseRemainderOnce_OK)
  case (posted hold remaining)
  note H = GetLookupJobHold_OK [OF posted(2)] job_hold_link [OF inv posted(2)]
  have m: "is_money remaining"
    unfolding posted(3) using ledger_okD(6) [OF db_okD(1) [OF inv] H(1)] by (simp add: is_money_diff)
  from posted(5) show ?thesis
  proof (rule post_remainder_OK)
    fix w d1 p
    assume A: "LockWalletByClientID (tx_client hold) d = Inr w"
      "UpdateWalletBalances (w_available w + remaining) (w_held w - remaining) (w_id w)
         (w_version w) d = Inr d1"
      "InsertWalletTransaction new_id now p d1 = Inr d'"
      "tx_client p = tx_client hold" "tx_type p = RELEASE" "tx_amount p = remaining"
      "tx_related_hold p = Some (tx_id hold)" "tx_sms_message p = None"
      "tx_key p = Some (LookupReleaseRemainderKey jid)"
    show ?thesis
      by (rule lookup_post_keeps [OF inv H(1,3,4) refl A(1-4) _ A(6,7,8) _ _ m]) (use A(5,9) posted(3) in auto)
  qed
qed (use inv in simp)

lemma remainder_attempts_keeps:
  "remainder_attempts ids now jid n d = Inr d' \<Longrightarrow> db_ok d \<Longrightarrow> db_ok d'"
  by (induction n) (auto split: sum.splits if_splits dest: releaseRemainderOnce_keeps)

lemma ReleaseLookupJobRemainder_keeps:
  "ReleaseLookupJobRemainder ids now jid d = Inr d' \<Longrightarrow> db_ok d \<Longrightarrow> db_ok d'"
  by (simp add: ReleaseLookupJobRemainder_def remainder_attempts_keeps)

lemma ReserveForLookupJob_keeps:
  assumes "ReserveForLookupJob new_id now (Some d) job = Inr d'" and inv: "db_ok d"
    and j: "job \<in> set (lookup_jobs d)"
  shows "db_ok d'"
  using assms(1)
proof (cases rule: ReserveForLookupJob_OK)
  case (posted price amt w d1 p)
  note D = db_okD [OF inv]
  have "is_money price" using D(3) j posted(1) by (auto simp: prices_ok_def)
  then have mon: "is_money (tx_amount p)" using posted by (simp add: is_money_mult_int)
  have "ledger_ok (wallets d') (wallet_txs d')"
    by (rule post_keeps_ledger [OF D(1) posted(6,7,8)])
      (use posted mon in \<open>auto simp: held_delta_def settles_within_def is_settlement_def\<close>)
  moreover from posted(7,8) obtain t ws where
    "d' = d\<lparr>wallets := ws, wallet_txs := wallet_txs d @ [t]\<rparr>" "tx_client t = tx_client p"
    "tx_type t = tx_type p" "tx_sms_message t = tx_sms_message p" "tx_lookup_job t = tx_lookup_job p"
    "tx_key t = tx_key p"
    by (rule post_frame)
  moreover have "li_client i = lj_client job" if "i \<in> set (lookup_items d)" "li_job i = lj_id job" for i
    using D(2) j that by (simp add: links_ok_def)
  ultimately show ?thesis
    using D(2,3) posted
    by (auto simp: db_ok_def prices_ok_post settle_key_ok_def intro!: links_ok_post)
qed (use inv in simp)

section \<open>The reaper\<close>

lemma reap_item_keeps: "db_ok d \<Longrightarrow> db_ok (fst (reap_item ids now item d))"
  by (auto simp: reap_item_def Let_def CaptureForLookupItem_def ReleaseForLookupItem_def
      split: sum.splits dest: settleLookupItem_keeps)

lemma fst_reap_items_Cons:
  "fst (reap_items ids now k (i # is) d) =
   fst (reap_items ids now (Suc k) is (fst (reap_item (ids k) now i d)))"
  by (simp add: Let_def split_beta)

lemma reap_items_keeps: "db_ok d \<Longrightarrow> db_ok (fst (reap_items ids now k is d))"
proof (induction "is" arbitrary: k d)
  case (Cons i "is")
  then show ?case unfolding fst_reap_items_Cons by (intro Cons.IH reap_item_keeps)
qed simp

lemma reap_job_keeps: "db_ok d \<Longrightarrow> db_ok (fst (reap_job ids now row d))"
  using reap_items_keeps [of d]
  by (fastforce simp: reap_job_def Let_def split_beta split: option.splits sum.splits
      dest: ReleaseLookupJobRemainder_keeps)

lemma fst_reap_jobs_Cons:
  "fst (reap_jobs ids now k (row # rows) d) =
   fst (reap_jobs ids now (Suc k) rows (fst (reap_job (ids k) now row d)))"
  by (simp add: Let_def split_beta)

lemma reap_jobs_keeps: "db_ok d \<Longrightarrow> db_ok (fst (reap_jobs ids now k rows d))"
proof (induction rows arbitrary: k d)
  case (Cons row rows)
  then show ?case unfolding fst_reap_jobs_Cons by (intro Cons.IH reap_job_keeps)
qed simp

lemma ReapOpenLookupHolds_keeps: "db_ok d \<Longrightarrow> db_ok (fst (ReapOpenLookupHolds ids now limit d))"
  by (simp add: ReapOpenLookupHolds_def Let_def reap_jobs_keeps)

end
