(* ===== verification/WalletSystem.thy ===== *)
theory WalletSystem
  imports LookupLedger
begin

text \<open>
  The wallet operations of both products as one transition system: each rule is one
  committed transaction of \<open>internal/billing\<close> (a reservation runs inside the transaction of
  its caller, which inserted the message or job it is for). The theorems are about every
  finite sequence of such transactions, in any order and with any arguments. The flag says
  whether adjustments may ask for \<open>allow_negative\<close>.
\<close>

section \<open>The system\<close>

inductive wallet_step :: "bool \<Rightarrow> db \<Rightarrow> db \<Rightarrow> bool" for neg :: bool where
  open_wallet: "InsertWallet i cid cur d = Inr (w, d') \<Longrightarrow> wallet_step neg d d'"
| reserve: "msg \<in> set (sms_messages d) \<Longrightarrow> ReserveForMessage i now (Some d) msg = Inr d' \<Longrightarrow>
    wallet_step neg d d'"
| capture: "CaptureForMessage i now mid d = Inr d' \<Longrightarrow> wallet_step neg d d'"
| release: "ReleaseForMessage i now mid d = Inr d' \<Longrightarrow> wallet_step neg d d'"
| topup: "TopUp parse i now inp d = Inr d' \<Longrightarrow> wallet_step neg d d'"
| adjust: "(ad_allow_negative ainp \<longrightarrow> neg) \<Longrightarrow> Adjust parse i now ainp d = Inr d' \<Longrightarrow> wallet_step neg d d'"
| reap: "ReapOpenHolds ids now limit d = (d', n) \<Longrightarrow> wallet_step neg d d'"
| reserve_lookup: "job \<in> set (lookup_jobs d) \<Longrightarrow> ReserveForLookupJob i now (Some d) job = Inr d' \<Longrightarrow>
    wallet_step neg d d'"
| capture_lookup: "CaptureForLookupItem ids now iid d = Inr d' \<Longrightarrow> wallet_step neg d d'"
| release_lookup: "ReleaseForLookupItem ids now iid d = Inr d' \<Longrightarrow> wallet_step neg d d'"
| remainder: "ReleaseLookupJobRemainder ids now jid d = Inr d' \<Longrightarrow> wallet_step neg d d'"
| reap_lookup: "ReapOpenLookupHolds idss now limit d = (d', n) \<Longrightarrow> wallet_step neg d d'"

lemma InsertWallet_keeps:
  assumes "InsertWallet i cid cur d = Inr (w, d')" and inv: "db_ok d"
  shows "db_ok d'"
proof (cases "d' = d")
  case False
  with assms(1) have new: "d' = d\<lparr>wallets := wallets d @ [w]\<rparr>" "w_id w \<notin> w_id ` set (wallets d)"
    "w_client w = cid" "cid \<notin> w_client ` set (wallets d)" "w_available w = 0" "w_held w = 0"
    by (auto simp: InsertWallet_def Let_def find_None_iff split: sum.splits option.splits if_splits)
  note D = ledger_okD [OF db_okD(1) [OF inv]]
  have none: "tx_client t \<noteq> cid" if "t \<in> set (wallet_txs d)" for t
    using D(10) [OF that] new(4) by auto
  then have "sum_amounts (client_holds cid) (wallet_txs d) = 0"
    "sum_amounts (client_settlements cid) (wallet_txs d) = 0"
    by (auto simp: sum_amounts_def client_holds_def client_settlements_def filter_empty_conv
        intro!: sum_list_nonneg_eq_0_iff [THEN iffD2])
  then have "wallet_balanced (wallet_txs d) w" "wallet_stored w"
    using new by (simp_all add: wallet_balanced_def wallet_stored_def storable_def)
  then have "ledger_ok (wallets d') (wallet_txs d')"
    using db_okD(1) [OF inv] new by (auto simp: ledger_ok_def)
  then show ?thesis
    using db_okD(2,3) [OF inv] new(1) by (simp add: db_ok_def links_ok_def prices_ok_def)
qed (use inv in simp)

lemma wallet_step_keeps: "wallet_step neg d d' \<Longrightarrow> db_ok d \<Longrightarrow> db_ok d'"
proof (induction rule: wallet_step.induct)
  case (reap ids now limit d d' n)
  then show ?case using ReapOpenHolds_keeps [of d ids now limit] by simp
next
  case (reap_lookup idss now limit d d' n)
  then show ?case using ReapOpenLookupHolds_keeps [of d idss now limit] by simp
qed (auto simp: CaptureForMessage_def ReleaseForMessage_def CaptureForLookupItem_def
    ReleaseForLookupItem_def intro: InsertWallet_keeps ReserveForMessage_keeps settle_keeps
    TopUp_keeps Adjust_keeps ReserveForLookupJob_keeps settleLookupItem_keeps
    ReleaseLookupJobRemainder_keeps)

interpretation wallet: safe_system "wallet_step neg" db_ok for neg
  by unfold_locales (rule wallet_step_keeps)

section \<open>No overdraft\<close>

definition no_overdraft :: "db \<Rightarrow> bool" where
  "no_overdraft d = (\<forall>w \<in> set (wallets d). 0 \<le> w_available w)"

lemma no_overdraft_frame [simp]:
  "no_overdraft (d\<lparr>wallet_txs := ts\<rparr>) = no_overdraft d"
  "no_overdraft (d\<lparr>sms_messages := ms\<rparr>) = no_overdraft d"
  "no_overdraft (d\<lparr>lookup_items := is\<rparr>) = no_overdraft d"
  by (simp_all add: no_overdraft_def)

lemma post_no_overdraft:
  assumes "no_overdraft d" "UpdateWalletBalances avail held wid ver d = Inr d1" "0 \<le> avail"
    "InsertWalletTransaction i now p d1 = Inr d2"
  shows "no_overdraft d2"
proof -
  have "no_overdraft d1"
    using assms(1) round6_nonneg [OF assms(3)] unfolding UpdateWalletBalances_OK(1) [OF assms(2)]
    by (auto simp: no_overdraft_def set_update_where)
  moreover from assms(4) obtain t where "d2 = d1\<lparr>wallet_txs := wallet_txs d1 @ [t]\<rparr>"
    by (rule InsertWalletTransaction_OK)
  ultimately show ?thesis by simp
qed

lemma lock_nonneg: "no_overdraft d \<Longrightarrow> LockWalletByClientID cid d = Inr w \<Longrightarrow> 0 \<le> w_available w"
  by (auto simp: no_overdraft_def dest: LockWallet_OK)

lemma reserve_no_overdraft:
  "ReserveForMessage i now (Some d) msg = Inr d' \<Longrightarrow> no_overdraft d \<Longrightarrow> no_overdraft d'"
  by (erule ReserveForMessage_OK) (auto elim!: post_no_overdraft)

lemma reserve_lookup_no_overdraft:
  "ReserveForLookupJob i now (Some d) job = Inr d' \<Longrightarrow> no_overdraft d \<Longrightarrow> no_overdraft d'"
  by (erule ReserveForLookupJob_OK) (auto elim!: post_no_overdraft)

lemma credit_no_overdraft:
  assumes "credit i now cid amt kind dir com key by neg d = Inr d'" "0 \<le> amt" "no_overdraft d"
    "kind = ''CREDIT'' \<or> \<not> neg"
  shows "no_overdraft d'"
  using assms(1)
proof (cases rule: credit_OK)
  case (posted w avail d1 p)
  from lock_nonneg [OF assms(3) posted(1)] posted(2,3) assms(2,4) have "0 \<le> avail" by (auto split: if_splits)
  with post_no_overdraft [OF assms(3) posted(4) _ posted(5)] show ?thesis by simp
qed (use assms in simp)

lemma settle_no_overdraft:
  assumes "settle i now mid c d = Inr d'" "db_ok d" "no_overdraft d"
  shows "no_overdraft d'"
proof (cases "settle_read mid c d")
  case (SettleDone d0)
  with assms settle_read_Done [OF SettleDone] show ?thesis
    by (auto simp: settle_def dest: SetSmsMessageBillingAction_OK)
next
  case (SettleProceed cid msg hold)
  then have "settle_write i now mid c cid msg hold d = Inr d'" using assms(1) by (simp add: settle_def)
  then show ?thesis
  proof (rule settle_write_OK)
    fix w avail d1 d2 p
    assume A: "LockWalletByClientID cid d = Inr w"
      "avail = w_available w + (if c then 0 else tx_amount hold)"
      "UpdateWalletBalances avail (w_held w - tx_amount hold) (w_id w) (w_version w) d = Inr d1"
      "InsertWalletTransaction i now p d1 = Inr d2"
      "SetSmsMessageBillingAction (settle_action c) mid d2 = Inr d'"
    have "0 \<le> tx_amount hold"
      using ledger_okD(7) [OF db_okD(1) [OF assms(2)] settle_read_Proceed(6) [OF SettleProceed]] .
    with A(2) lock_nonneg [OF assms(3) A(1)] have "0 \<le> avail" by simp
    from post_no_overdraft [OF assms(3) A(3) this A(4)] SetSmsMessageBillingAction_OK [OF A(5)]
    show ?thesis by simp
  qed
qed

lemma mark_no_overdraft:
  "markLookupItemPosted iid c share d = Inr d' \<Longrightarrow> no_overdraft d \<Longrightarrow> no_overdraft d'"
  by (auto simp: markLookupItemPosted_def SetLookupItemBillingAction_def split: sum.splits)

lemma lookup_settle_no_overdraft:
  assumes "settleLookupItemOnce i now iid c d = Inr d'" "no_overdraft d"
  shows "no_overdraft d'"
proof (cases "lookup_settle_read iid c d")
  case (LookupDone d0)
  with assms lookup_settle_read_Done [OF LookupDone] show ?thesis
    by (auto simp: settleLookupItemOnce_def dest: mark_no_overdraft)
next
  case (LookupProceed item share hold)
  then have "lookup_settle_write i now iid c item share hold d = Inr d'"
    using assms(1) by (simp add: settleLookupItemOnce_def)
  then show ?thesis
  proof (rule lookup_settle_write_OK)
    fix w avail d1 d2 p
    assume A: "LockWalletByClientID (li_client item) d = Inr w"
      "avail = w_available w + (if c then 0 else share)"
      "UpdateWalletBalances avail (w_held w - share) (w_id w) (w_version w) d = Inr d1"
      "InsertWalletTransaction i now p d1 = Inr d2"
      "markLookupItemPosted (li_id item) c share d2 = Inr d'"
    from A(2) lock_nonneg [OF assms(2) A(1)] lookup_settle_read_Proceed(5) [OF LookupProceed]
    have "0 \<le> avail" by simp
    from mark_no_overdraft [OF A(5) post_no_overdraft [OF assms(2) A(3) this A(4)]]
    show ?thesis .
  qed
qed (use assms in \<open>simp add: settleLookupItemOnce_def\<close>)

lemma settle_attempts_no_overdraft:
  "settle_attempts ids now iid c n d = Inr d' \<Longrightarrow> no_overdraft d \<Longrightarrow> no_overdraft d'"
  by (induction n) (auto split: sum.splits if_splits dest: lookup_settle_no_overdraft)

lemma remainder_no_overdraft:
  assumes "releaseLookupJobRemainderOnce i now jid d = Inr d'" "no_overdraft d"
  shows "no_overdraft d'"
  using assms(1)
proof (cases rule: releaseRemainderOnce_OK)
  case (posted hold remaining)
  from posted(5) show ?thesis
    by (rule post_remainder_OK)
      (use posted(4) assms(2) lock_nonneg [OF assms(2)] in \<open>auto elim!: post_no_overdraft\<close>)
qed (use assms in simp)

lemma remainder_attempts_no_overdraft:
  "remainder_attempts ids now jid n d = Inr d' \<Longrightarrow> no_overdraft d \<Longrightarrow> no_overdraft d'"
  by (induction n) (auto split: sum.splits if_splits dest: remainder_no_overdraft)

definition sound :: "db \<Rightarrow> bool" where
  "sound d = (db_ok d \<and> no_overdraft d)"

lemma reap_rows_sound: "sound d \<Longrightarrow> sound (fst (reap_rows ids now k rows d))"
proof (induction rows arbitrary: k d)
  case (Cons row rows)
  then have "no_overdraft (fst (reap_row (ids k) now row d))"
    by (auto simp: sound_def reap_row_def Let_def CaptureForMessage_def ReleaseForMessage_def
        split: option.splits sum.splits dest: settle_no_overdraft)
  with Cons.prems have "sound (fst (reap_row (ids k) now row d))"
    by (simp add: sound_def reap_row_keeps)
  then show ?case unfolding fst_reap_rows_Cons by (rule Cons.IH)
qed simp

lemma reap_items_no_overdraft: "no_overdraft d \<Longrightarrow> no_overdraft (fst (reap_items ids now k is d))"
proof (induction "is" arbitrary: k d)
  case (Cons i "is")
  then have "no_overdraft (fst (reap_item (ids k) now i d))"
    by (auto simp: reap_item_def Let_def CaptureForLookupItem_def ReleaseForLookupItem_def
        settleLookupItem_def split: sum.splits dest: settle_attempts_no_overdraft)
  then show ?case unfolding fst_reap_items_Cons by (rule Cons.IH)
qed simp

lemma reap_jobs_no_overdraft: "no_overdraft d \<Longrightarrow> no_overdraft (fst (reap_jobs idss now k rows d))"
proof (induction rows arbitrary: k d)
  case (Cons row rows)
  then have "no_overdraft (fst (reap_job (idss k) now row d))"
    using reap_items_no_overdraft [of d]
    by (fastforce simp: reap_job_def Let_def split_beta ReleaseLookupJobRemainder_def
        split: option.splits sum.splits dest: remainder_attempts_no_overdraft)
  then show ?case unfolding fst_reap_jobs_Cons by (rule Cons.IH)
qed simp

lemma InsertWallet_no_overdraft:
  "InsertWallet i cid cur d = Inr (w, d') \<Longrightarrow> no_overdraft d \<Longrightarrow> no_overdraft d'"
  by (auto simp: InsertWallet_def Let_def no_overdraft_def split: sum.splits option.splits if_splits)

lemma TopUp_no_overdraft: "TopUp parse i now inp d = Inr d' \<Longrightarrow> no_overdraft d \<Longrightarrow> no_overdraft d'"
  by (auto simp: TopUp_def mustPositive_None split: sum.splits option.splits if_splits
      elim!: credit_no_overdraft)

lemma Adjust_no_overdraft:
  "Adjust parse i now inp d = Inr d' \<Longrightarrow> \<not> ad_allow_negative inp \<Longrightarrow> no_overdraft d \<Longrightarrow> no_overdraft d'"
  by (auto simp: Adjust_def Let_def mustPositive_None split: sum.splits option.splits if_splits
      elim!: credit_no_overdraft)

lemma prudent_step: "wallet_step False d d' \<Longrightarrow> sound d \<Longrightarrow> sound d'"
proof -
  assume st: "wallet_step False d d'" and s: "sound d"
  from s have n: "no_overdraft d" and ok: "db_ok d" by (simp_all add: sound_def)
  from st n ok have "no_overdraft d'"
  proof (induction rule: wallet_step.induct)
    case (reap ids now limit d d' n)
    then show ?case using reap_rows_sound [of d ids now 0]
      by (auto simp: ReapOpenHolds_def Let_def sound_def) (metis fst_conv)
  next
    case (reap_lookup idss now limit d d' n)
    then show ?case using reap_jobs_no_overdraft [of d idss now 0]
      by (auto simp: ReapOpenLookupHolds_def Let_def) (metis fst_conv)
  qed (auto simp: CaptureForMessage_def ReleaseForMessage_def CaptureForLookupItem_def
      ReleaseForLookupItem_def settleLookupItem_def ReleaseLookupJobRemainder_def
      intro: InsertWallet_no_overdraft reserve_no_overdraft settle_no_overdraft
      TopUp_no_overdraft Adjust_no_overdraft reserve_lookup_no_overdraft
      settle_attempts_no_overdraft remainder_attempts_no_overdraft)
  with wallet_step_keeps [OF st ok] show ?thesis by (simp add: sound_def)
qed

interpretation prudent: safe_system "wallet_step False" sound
  by unfold_locales (rule prudent_step)

section \<open>One hold and one settlement per message\<close>

lemma keyed_inj:
  assumes "distinct (keyed ts)" "t \<in> set ts" "u \<in> set ts" "tx_key t = Some k" "tx_key u = Some k"
    "tx_client t = tx_client u"
  shows "t = u"
  using distinct_map_inj [OF assms(1) [unfolded keyed_def], of t u] assms(2-6) by simp

lemma hold_unique:
  assumes inv: "db_ok d" and h: "h \<in> set (wallet_txs d)" "tx_type h = HOLD" "tx_sms_message h = Some mid"
    and g: "g \<in> set (wallet_txs d)" "tx_type g = HOLD" "tx_sms_message g = Some mid"
  shows "g = h"
proof -
  note L = db_okD(2) [OF inv, unfolded links_ok_def]
  from L h obtain m where m: "m \<in> set (sms_messages d)" "msg_id m = mid" by auto
  with L h g have "Some (tx_client h) = Some (tx_client g)" by metis
  moreover from L h g have "tx_key h = Some (HoldKey mid)" "tx_key g = Some (HoldKey mid)" by blast+
  ultimately show ?thesis
    by (intro keyed_inj [OF ledger_okD(4) [OF db_okD(1) [OF inv]] g(1) h(1)]) simp_all
qed

lemma settles_message:
  assumes inv: "db_ok d" and h: "h \<in> set (wallet_txs d)" "tx_type h = HOLD" "tx_sms_message h = Some mid"
    and t: "t \<in> set (wallet_txs d)" "is_settlement t" "tx_sms_message t = Some mid"
  shows "settles (tx_id h) t"
proof -
  from ledger_okD(8) [OF db_okD(1) [OF inv] t(1)] t(2,3) obtain g where
    "g \<in> set (wallet_txs d)" "tx_type g = HOLD" "tx_related_hold t = Some (tx_id g)"
    "tx_sms_message g = Some mid" by (auto simp: settlement_linked_def)
  with hold_unique [OF inv h] t(2) show ?thesis by (auto simp: settles_def is_settlement_def)
qed

lemma one_settlement:
  assumes inv: "db_ok d" and t: "t \<in> set (wallet_txs d)" "is_settlement t" "tx_sms_message t = Some mid"
    and u: "u \<in> set (wallet_txs d)" "is_settlement u" "tx_sms_message u = Some mid"
  shows "t = u"
proof -
  from ledger_okD(8) [OF db_okD(1) [OF inv] t(1)] t(2,3) obtain h where
    h: "h \<in> set (wallet_txs d)" "tx_type h = HOLD" "tx_sms_message h = Some mid"
    by (auto simp: settlement_linked_def)
  from ledger_okD(9) [OF db_okD(1) [OF inv] h(1)] h(2,3)
  have "length (filter (settles (tx_id h)) (wallet_txs d)) \<le> 1" by (auto simp: hold_covered_def)
  moreover have "t \<in> set (filter (settles (tx_id h)) (wallet_txs d))"
    "u \<in> set (filter (settles (tx_id h)) (wallet_txs d))"
    using settles_message [OF inv h] t u by auto
  ultimately show ?thesis
    by (cases "filter (settles (tx_id h)) (wallet_txs d)") auto
qed

lemma distinct_txs: "db_ok d \<Longrightarrow> distinct (wallet_txs d)"
  using ledger_okD(3) [OF db_okD(1)] by (simp add: distinct_map)

definition holds_of :: "uuid \<Rightarrow> db \<Rightarrow> wallet_tx list" where
  "holds_of mid d = filter (\<lambda>t. tx_type t = HOLD \<and> tx_sms_message t = Some mid) (wallet_txs d)"

definition settlements_of :: "uuid \<Rightarrow> db \<Rightarrow> wallet_tx list" where
  "settlements_of mid d = filter (\<lambda>t. is_settlement t \<and> tx_sms_message t = Some mid) (wallet_txs d)"

lemma holds_settlements_le_1:
  assumes "db_ok d"
  shows "length (holds_of mid d) \<le> 1" "length (settlements_of mid d) \<le> 1"
proof -
  show "length (holds_of mid d) \<le> 1"
    unfolding holds_of_def by (rule length_filter_le_1 [OF distinct_txs [OF assms]])
      (blast intro: hold_unique [OF assms])
  show "length (settlements_of mid d) \<le> 1"
    unfolding settlements_of_def by (rule length_filter_le_1 [OF distinct_txs [OF assms]])
      (blast intro: one_settlement [OF assms])
qed

lemma settlement_of_hold:
  assumes ok: "db_ok d" and "h \<in> set (holds_of mid d)" and "t \<in> set (settlements_of mid d)"
  shows "tx_related_hold t = Some (tx_id h) \<and> tx_amount t = tx_amount h"
proof -
  have h: "h \<in> set (wallet_txs d)" "tx_type h = HOLD" "tx_sms_message h = Some mid"
    and t: "t \<in> set (wallet_txs d)" "is_settlement t" "tx_sms_message t = Some mid"
    using assms(2,3) by (auto simp: holds_of_def settlements_of_def)
  have s: "settles (tx_id h) t" by (rule settles_message [OF ok h t])
  with t(1) have mem: "t \<in> set (filter (settles (tx_id h)) (wallet_txs d))" by simp
  then have "length (filter (settles (tx_id h)) (wallet_txs d)) = 1
      \<and> sum_amounts (settles (tx_id h)) (wallet_txs d) = tx_amount h"
    using ledger_okD(9) [OF db_okD(1) [OF ok] h(1)] h(2,3)
    by (auto simp: hold_covered_def filter_empty_conv)
  with mem have "tx_amount t = tx_amount h"
    by (cases "filter (settles (tx_id h)) (wallet_txs d)") (auto simp: sum_amounts_def)
  with s show ?thesis by (simp add: settles_def)
qed

section \<open>Settling twice\<close>

lemma tx_posted_row:
  "tx_posted cid key d \<Longrightarrow> \<exists>t \<in> set (wallet_txs d). tx_client t = cid \<and> tx_key t = Some key"
  by (auto simp: tx_posted_def GetWalletTxByIdempotency_def split: option.splits dest!: find_Some_mem)

lemma settle_read_not_both:
  assumes "settle_read mid c d = SettleDone d0" "settle_read mid c' d = SettleProceed cid msg hold"
  shows "tx_posted cid (settle_key c mid) d"
  using assms by (auto simp: settle_read_def split: sum.splits option.splits if_splits)

lemma settle_read_after_action:
  assumes "SetSmsMessageBillingAction act mid d = Inr d0"
    and "settle_read mid c d0 = SettleProceed cid msg hold"
  shows "\<exists>msg'. settle_read mid c d = SettleProceed cid msg' hold"
  using assms(2) unfolding SetSmsMessageBillingAction_OK [OF assms(1)]
  by (auto simp: settle_read_def GetSmsMessageByID_def clientDeleted_def GetClientByID_def
      tx_posted_def GetWalletTxByIdempotency_def GetOpenHoldForMessage_def
      SetSmsMessageBillingAction_def find_update_where split: sum.splits option.splits if_splits)

lemma settlement_closes:
  assumes inv: "db_ok d" and t: "t \<in> set (wallet_txs d)" "is_settlement t" "tx_sms_message t = Some mid"
  shows "settle_read mid c d \<noteq> SettleProceed cid msg hold"
proof
  assume "settle_read mid c d = SettleProceed cid msg hold"
  note R = settle_read_Proceed [OF this]
  from settles_message [OF inv R(6,7,8) t] R(9) t(1) show False by (auto simp: filter_empty_conv)
qed

lemma settle_write_row:
  assumes "settle_write i now mid c cid msg hold d = Inr d'"
  shows "\<exists>t \<in> set (wallet_txs d'). is_settlement t \<and> tx_sms_message t = Some mid"
  using assms
proof (rule settle_write_OK)
  fix w avail d1 d2 p
  assume u: "UpdateWalletBalances avail (w_held w - tx_amount hold) (w_id w) (w_version w) d = Inr d1"
    and i: "InsertWalletTransaction i now p d1 = Inr d2"
    and p: "tx_type p = (if c then DEBIT else RELEASE)" "tx_sms_message p = Some mid"
    and a: "SetSmsMessageBillingAction (settle_action c) mid d2 = Inr d'"
  from u i obtain t ws where "d2 = d\<lparr>wallets := ws, wallet_txs := wallet_txs d @ [t]\<rparr>"
    "tx_type t = tx_type p" "tx_sms_message t = tx_sms_message p" by (rule post_frame)
  with p SetSmsMessageBillingAction_OK [OF a] show ?thesis by (auto simp: is_settlement_def)
qed

lemma settle_settled:
  assumes inv: "db_ok d" and s: "settle i now mid c d = Inr d1"
  shows "settle_read mid c' d1 \<noteq> SettleProceed cid msg hold"
proof
  assume P: "settle_read mid c' d1 = SettleProceed cid msg hold"
  have inv1: "db_ok d1" by (rule settle_keeps [OF s inv])
  show False
  proof (cases "settle_read mid c d")
    case (SettleDone d0)
    with s have "d1 = d0" by (simp add: settle_def)
    with settle_read_Done [OF SettleDone] P have "\<exists>msg'. settle_read mid c' d = SettleProceed cid msg' hold"
      by (auto dest: settle_read_after_action)
    then obtain msg' where P': "settle_read mid c' d = SettleProceed cid msg' hold" by blast
    from tx_posted_row [OF settle_read_not_both [OF SettleDone P']] obtain t where
      "t \<in> set (wallet_txs d)" "tx_key t = Some (settle_key c mid)" by blast
    moreover from settle_key_row [OF inv this] have "is_settlement t" "tx_sms_message t = Some mid" .
    ultimately show False using settlement_closes [OF inv] P' by blast
  next
    case (SettleProceed cid' msg' hold')
    with s have "settle_write i now mid c cid' msg' hold' d = Inr d1" by (simp add: settle_def)
    from settle_write_row [OF this] settlement_closes [OF inv1] P show False by blast
  qed
qed

lemma settle_again:
  assumes "db_ok d" "settle i now mid c d = Inr d1"
  obtains d2 where "settle i' now' mid c' d1 = Inr d2" "wallets d2 = wallets d1"
    "wallet_txs d2 = wallet_txs d1"
proof (cases "settle_read mid c' d1")
  case (SettleDone d0)
  with settle_read_Done [OF SettleDone] show ?thesis
    by (intro that [of d0]) (auto simp: settle_def dest: SetSmsMessageBillingAction_OK)
next
  case (SettleProceed cid msg hold)
  with settle_settled [OF assms] show ?thesis by blast
qed

end
