(* ===== verification/WalletFlows.thy ===== *)
theory WalletFlows
  imports WalletSystem
begin

text \<open>
  The effect of whole flows of wallet transactions: what the wallet of the client looks
  like after a reservation and its settlement, what a repeated request does, and what two
  concurrent settlements can do.
\<close>

section \<open>The wallet after a posting\<close>

lemma post_wallet:
  assumes "LockWalletByClientID cid d = Inr w"
    and "UpdateWalletBalances avail held (w_id w) (w_version w) d = Inr d1"
  shows "GetWalletByClientID cid d1 =
    Inr (w\<lparr>w_available := round6 avail, w_held := round6 held, w_version := w_version w + 1\<rparr>)"
proof -
  have "find (\<lambda>v. w_client v = cid) (wallets d) = Some w"
    using assms(1) by (simp add: LockWalletByClientID_def GetWalletByClientID_def split: option.splits)
  then show ?thesis
    unfolding UpdateWalletBalances_OK(1) [OF assms(2)]
    by (simp add: GetWalletByClientID_def find_update_where)
qed

lemma GetWallet_txs [simp]:
  "GetWalletByClientID cid (d\<lparr>wallet_txs := ts\<rparr>) = GetWalletByClientID cid d"
  "GetWalletByClientID cid (d\<lparr>sms_messages := ms\<rparr>) = GetWalletByClientID cid d"
  by (simp_all add: GetWalletByClientID_def)

lemma post_other_wallet:
  assumes "ledger_ok (wallets d) (wallet_txs d)" and "LockWalletByClientID cid d = Inr w"
    and "UpdateWalletBalances avail held (w_id w) (w_version w) d = Inr d1" and "cid' \<noteq> cid"
  shows "GetWalletByClientID cid' d1 = GetWalletByClientID cid' d"
proof -
  have w: "w \<in> set (wallets d)" "w_client w = cid" using LockWallet_OK [OF assms(2)] by simp_all
  have ne: "w_id v \<noteq> w_id w" if "v \<in> set (wallets d)" "w_client v = cid'" for v
    using distinct_map_inj [OF ledger_okD(1) [OF assms(1)] that(1) w(1)] that(2) w(2) assms(4) by auto
  show ?thesis
  proof (cases "find (\<lambda>v. w_client v = cid') (wallets d)")
    case None
    then show ?thesis
      unfolding UpdateWalletBalances_OK(1) [OF assms(3)]
      by (simp add: GetWalletByClientID_def find_update_where)
  next
    case (Some v)
    with ne [of v] find_Some_mem [OF Some] show ?thesis
      unfolding UpdateWalletBalances_OK(1) [OF assms(3)]
      by (simp add: GetWalletByClientID_def find_update_where)
  qed
qed

lemma UpdateWalletBalances_succeeds:
  assumes "w \<in> set (wallets d)" "storable avail" "storable held" "0 \<le> held" "w_version w < int4_max"
  obtains d1 where "UpdateWalletBalances avail held (w_id w) (w_version w) d = Inr d1"
proof -
  have "find (\<lambda>v. w_id v = w_id w \<and> w_version v = w_version w) (wallets d) \<noteq> None"
    using assms(1) by (auto simp: find_None_iff)
  then obtain v where
    "find (\<lambda>v. w_id v = w_id w \<and> w_version v = w_version w) (wallets d) = Some v" by blast
  with assms(2-) show thesis
    by (intro that) (simp add: UpdateWalletBalances_def Let_def billing_money_storable)
qed

lemma InsertWalletTransaction_succeeds:
  assumes "storable (tx_amount p)" "0 \<le> tx_amount p" "char3 (tx_currency p) = Inr cur"
    "tx_after_available p = Some a" "storable a" "tx_after_held p = Some h" "storable h"
    "i \<notin> tx_id ` set (wallet_txs d)"
    "\<And>t. t \<in> set (wallet_txs d) \<Longrightarrow> tx_client t = tx_client p \<Longrightarrow> tx_key t \<noteq> tx_key p"
  obtains d2 where "InsertWalletTransaction i now p d = Inr d2"
  using assms by (intro that)
    (auto simp: InsertWalletTransaction_def billing_money_storable billing_money_opt_def list_ex_iff)

section \<open>A settlement that starts succeeds\<close>

lemma sum_list_member_le:
  fixes f :: "'a \<Rightarrow> decimal"
  shows "x \<in> set xs \<Longrightarrow> (\<And>y. y \<in> set xs \<Longrightarrow> 0 \<le> f y) \<Longrightarrow> f x \<le> sum_list (map f xs)"
proof (induction xs)
  case (Cons a xs)
  then show ?case
  proof (cases "x = a")
    case True
    have "0 \<le> sum_list (map f xs)" using Cons.prems(2) by (intro sum_list_nonneg) auto
    with True show ?thesis by simp
  next
    case False
    with Cons.prems have "f x \<le> sum_list (map f xs)" by (intro Cons.IH) auto
    moreover have "0 \<le> f a" using Cons.prems(2) by simp
    ultimately show ?thesis by simp
  qed
qed simp

lemma open_amount_le_held:
  assumes ok: "ledger_ok ws ts" and w: "w \<in> set ws"
    and h: "h \<in> set ts" "tx_type h = HOLD" "tx_client h = w_client w"
  shows "open_amount ts h \<le> w_held w"
  unfolding held_open_holds(1) [OF ok w]
  by (rule sum_list_member_le) (use h held_open_holds(2) [OF ok w] in \<open>auto simp: client_holds_def\<close>)

lemma settle_key_fresh:
  assumes inv: "db_ok d" and P: "settle_read mid c d = SettleProceed cid msg hold"
    and t: "t \<in> set (wallet_txs d)"
  shows "tx_key t \<noteq> Some (settle_key c' mid)"
  using settle_key_row [OF inv t] settlement_closes [OF inv t] P by blast

lemma settle_succeeds:
  assumes inv: "db_ok d" and P: "settle_read mid c d = SettleProceed cid msg hold"
    and lock: "LockWalletByClientID cid d = Inr w"
    and ver: "w_version w < int4_max" and fresh: "i \<notin> tx_id ` set (wallet_txs d)"
    and range: "storable (w_available w + (if c then 0 else tx_amount hold))"
  obtains d' where "settle i now mid c d = Inr d'"
    "GetWalletByClientID cid d' = Inr (w\<lparr>w_available := w_available w + (if c then 0 else tx_amount hold),
       w_held := w_held w - tx_amount hold, w_version := w_version w + 1\<rparr>)"
proof -
  note R = settle_read_Proceed [OF P] and L = db_okD(1) [OF inv]
  let ?avail = "w_available w + (if c then 0 else tx_amount hold)" and ?held = "w_held w - tx_amount hold"
  from LockWallet_OK [OF lock] have w: "w \<in> set (wallets d)" "w_client w = cid" by simp_all
  have "open_amount (wallet_txs d) hold \<le> w_held w"
    by (rule open_amount_le_held [OF L w(1) R(6,7)]) (simp add: w hold_client [OF inv P])
  then have le: "tx_amount hold \<le> w_held w" using R(9) by (simp add: open_amount_def sum_amounts_def)
  have sth: "storable (tx_amount hold)" "char3 (tx_currency hold) = Inr (tx_currency hold)"
    using ledger_okD(12) [OF L R(6)] by (simp_all add: tx_stored_def)
  have nn: "0 \<le> tx_amount hold" by (rule ledger_okD(7) [OF L R(6)])
  have sw: "storable (w_held w)" using ledger_okD(11) [OF L w(1)] by (simp add: wallet_stored_def)
  have st: "storable ?held" using sw sth le nn by (auto simp: storable_def is_money_diff)
  obtain d1 where upd: "UpdateWalletBalances ?avail ?held (w_id w) (w_version w) d = Inr d1"
    by (rule UpdateWalletBalances_succeeds [OF w(1) range st _ ver]) (use le in simp)
  have txs: "wallet_txs d1 = wallet_txs d" "sms_messages d1 = sms_messages d"
    using UpdateWalletBalances_OK(1) [OF upd] by simp_all
  let ?p = "settle_row now mid c cid msg hold (w_id w) ?avail ?held"
  obtain d2 where ins: "InsertWalletTransaction i now ?p d1 = Inr d2"
    by (rule InsertWalletTransaction_succeeds [of ?p "tx_currency hold" ?avail ?held i d1])
      (use sth nn st range fresh txs settle_key_fresh [OF inv P] in \<open>auto simp: settle_row_def\<close>)
  have "(if c then applyDebitFromHold (w_available w) (w_held w) (tx_amount hold)
          else applyRelease (w_available w) (w_held w) (tx_amount hold)) = Inr (?avail, ?held)"
    using le by (auto simp: applyDebit_OK applyRelease_OK)
  then have sett: "settle i now mid c d = SetSmsMessageBillingAction (settle_action c) mid d2"
    using upd ins by (simp add: settle_def P settle_write_def lock)
  from ins obtain t where d2: "d2 = d1\<lparr>wallet_txs := wallet_txs d1 @ [t]\<rparr>"
    by (rule InsertWalletTransaction_OK)
  have "find (\<lambda>m. msg_id m = mid) (sms_messages d2) \<noteq> None"
    using R(1,2) txs d2 by (auto simp: find_None_iff)
  then obtain d' where d': "SetSmsMessageBillingAction (settle_action c) mid d2 = Inr d'"
    by (auto simp: SetSmsMessageBillingAction_def)
  have r6: "round6 ?avail = ?avail" "round6 ?held = ?held"
    using range st by (simp_all add: storable_def round6_id)
  show thesis
  proof (rule that)
    show "settle i now mid c d = Inr d'" using sett d' by simp
    show "GetWalletByClientID cid d' = Inr (w\<lparr>w_available := ?avail, w_held := ?held,
        w_version := w_version w + 1\<rparr>)"
      using post_wallet [OF lock upd] r6 unfolding SetSmsMessageBillingAction_OK [OF d'] d2 by simp
  qed
qed

section \<open>Reservation followed by settlement\<close>

lemma GetSmsMessageByID_mem:
  "distinct (map msg_id (sms_messages d)) \<Longrightarrow> m \<in> set (sms_messages d) \<Longrightarrow>
   GetSmsMessageByID (msg_id m) d = Inr m"
  using distinct_map_find [of msg_id "sms_messages d" m] by (simp add: GetSmsMessageByID_def)

lemma tx_posted_settle:
  assumes "db_ok d" "settlements_of mid d = []"
  shows "\<not> tx_posted cid (settle_key c mid) d"
proof
  assume "tx_posted cid (settle_key c mid) d"
  from tx_posted_row [OF this] obtain t where t: "t \<in> set (wallet_txs d)"
    "tx_key t = Some (settle_key c mid)" by blast
  from settle_key_row [OF assms(1) t] t(1) assms(2) show False
    by (simp add: settlements_of_def filter_empty_conv)
qed

lemma settle_read_after_reserve:
  assumes inv: "db_ok d" and m: "m \<in> set (sms_messages d)" "msg_client m = Some cid"
      "msg_unit_sell_price m = Some price" "\<not> clientDeleted cid d"
    and new: "holds_of (msg_id m) d = []" "settlements_of (msg_id m) d = []"
    and d1: "d1 = d\<lparr>wallets := ws, wallet_txs := wallet_txs d @ [t]\<rparr>" "tx_id t \<notin> tx_id ` set (wallet_txs d)"
      "tx_type t = HOLD" "tx_sms_message t = Some (msg_id m)" "tx_key t = Some (HoldKey (msg_id m))"
  shows "settle_read (msg_id m) c d1 = SettleProceed cid m t"
proof -
  note L = db_okD(1,2) [OF inv]
  have "GetSmsMessageByID (msg_id m) d1 = Inr m"
    using GetSmsMessageByID_mem [OF _ m(1)] L(2) by (simp add: d1 GetSmsMessageByID_def links_ok_def)
  moreover have "\<not> clientDeleted cid d1"
    using m(4) by (simp add: d1 clientDeleted_def GetClientByID_def)
  moreover have "\<not> tx_posted cid (settle_key c (msg_id m)) d1"
    using tx_posted_settle [OF inv new(2), of cid c] d1(5)
    by (auto simp: d1(1) tx_posted_def GetWalletTxByIdempotency_def find_append split: option.splits)
  moreover have "GetOpenHoldForMessage (msg_id m) d1 = Inr t"
  proof -
    have none: "filter (settles (tx_id t)) (wallet_txs d) = []"
      by (rule no_settlement_of_fresh [OF _ d1(2)]) (use ledger_okD(8) [OF L(1)] in blast)
    have "\<not> list_ex (settles (tx_id t)) (wallet_txs d @ [t])"
      using none d1(3) by (auto simp: list_ex_iff filter_empty_conv settles_def)
    with new(1) d1(3,4) show ?thesis
      by (auto simp: d1(1) GetOpenHoldForMessage_def holds_of_def filter_empty_conv)
  qed
  ultimately show ?thesis using m by (simp add: settle_read_def)
qed

lemma ReserveForMessage_fresh:
  assumes inv: "db_ok d" and m: "m \<in> set (sms_messages d)" "msg_client m = Some cid" "\<not> clientDeleted cid d"
    and new: "holds_of (msg_id m) d = []" and r: "ReserveForMessage i now (Some d) m = Inr d1"
    and key: "\<not> tx_posted cid (HoldKey (msg_id m)) d"
  obtains price segs w ws t where "msg_unit_sell_price m = Some price" "msg_billed_segments m = Some segs"
    "LockWalletByClientID cid d = Inr w" "0 < price * of_int segs" "price * of_int segs \<le> w_available w"
    "d1 = d\<lparr>wallets := ws, wallet_txs := wallet_txs d @ [t]\<rparr>"
    "tx_id t = i" "i \<notin> tx_id ` set (wallet_txs d)" "tx_type t = HOLD" "tx_sms_message t = Some (msg_id m)"
    "tx_key t = Some (HoldKey (msg_id m))" "tx_amount t = price * of_int segs"
    "GetWalletByClientID cid d1 = Inr (w\<lparr>w_available := w_available w - price * of_int segs,
       w_held := w_held w + price * of_int segs, w_version := w_version w + 1\<rparr>)"
  using r
proof (cases rule: ReserveForMessage_OK)
  case noop
  with m key show ?thesis by simp
next
  case (posted cid' price segs amt w d0 p)
  then have cid: "cid' = cid" using m(2) by simp
  note D = db_okD [OF inv] and U = UpdateWalletBalances_OK [OF posted(9)]
  from LockWallet_OK [OF posted(8)] have w: "w \<in> set (wallets d)" by simp
  have "is_money price" using D(3) m(1) posted(3) by (auto simp: prices_ok_def)
  then have mon: "is_money amt" using posted(5) by (simp add: is_money_mult_int)
  have "is_money (w_available w)" "is_money (w_held w)"
    using ledger_okD(5) [OF D(1) w] by (auto simp: wallet_balanced_def)
  then have r6: "round6 (w_available w - amt) = w_available w - amt" "round6 (w_held w + amt) = w_held w + amt"
    "round6 amt = amt" using mon by (simp_all add: round6_id is_money_add is_money_diff)
  from posted(10) obtain t where t: "d1 = d0\<lparr>wallet_txs := wallet_txs d0 @ [t]\<rparr>" "tx_id t = i"
    "tx_type t = tx_type p" "tx_amount t = round6 (tx_amount p)" "tx_sms_message t = tx_sms_message p"
    "tx_key t = tx_key p" "i \<notin> tx_id ` set (wallet_txs d0)"
    by (rule InsertWalletTransaction_OK)
  show ?thesis
  proof (rule that [OF posted(3,4) _ _ _ _ t(2)])
    show "GetWalletByClientID cid d1 = Inr (w\<lparr>w_available := w_available w - price * of_int segs,
       w_held := w_held w + price * of_int segs, w_version := w_version w + 1\<rparr>)"
      using post_wallet [OF posted(8,9)] r6 posted(5) unfolding t(1) cid by simp
    show "d1 = d\<lparr>wallets := wallets d0, wallet_txs := wallet_txs d @ [t]\<rparr>"
      using t(1) U(1) by simp
  qed (use posted cid t r6 U(1) in auto)
qed

lemma reserve_settle:
  assumes inv: "db_ok d" and m: "m \<in> set (sms_messages d)" "msg_client m = Some cid" "\<not> clientDeleted cid d"
    and new: "holds_of (msg_id m) d = []" "settlements_of (msg_id m) d = []"
    and key: "\<not> tx_posted cid (HoldKey (msg_id m)) d"
    and w: "LockWalletByClientID cid d = Inr w" "w_version w + 1 < int4_max"
    and r: "ReserveForMessage i now (Some d) m = Inr d1"
    and j: "j \<notin> insert i (tx_id ` set (wallet_txs d))"
  obtains d2 w2 where "settle j now' (msg_id m) c d1 = Inr d2" "GetWalletByClientID cid d2 = Inr w2"
    "w_held w2 = w_held w"
    "w_available w2 = w_available w -
       (if c then the (msg_unit_sell_price m) * of_int (the (msg_billed_segments m)) else 0)"
  using ReserveForMessage_fresh [OF inv m new(1) r key]
proof cases
  case (1 price segs v ws t)
  then have v: "v = w" using w(1) by simp
  have inv1: "db_ok d1" by (rule ReserveForMessage_keeps [OF r inv m(1)])
  have P: "settle_read (msg_id m) c d1 = SettleProceed cid m t"
    by (rule settle_read_after_reserve [OF inv m(1,2) 1(1) m(3) new 1(6)]) (use 1 in auto)
  let ?amt = "price * of_int segs"
  let ?w1 = "w\<lparr>w_available := w_available w - ?amt, w_held := w_held w + ?amt, w_version := w_version w + 1\<rparr>"
  have lock1: "LockWalletByClientID cid d1 = Inr ?w1" using 1(13) v by (simp add: LockWalletByClientID_def)
  have "w \<in> set (wallets d)" "?w1 \<in> set (wallets d1)"
    using LockWallet_OK [OF w(1)] LockWallet_OK [OF lock1] by simp_all
  then have st: "wallet_stored w" "wallet_stored ?w1"
    using ledger_okD(11) [OF db_okD(1)] inv inv1 by blast+
  obtain d2 where "settle j now' (msg_id m) c d1 = Inr d2" "GetWalletByClientID cid d2 =
      Inr (?w1\<lparr>w_available := w_available ?w1 + (if c then 0 else tx_amount t),
       w_held := w_held ?w1 - tx_amount t, w_version := w_version ?w1 + 1\<rparr>)"
    by (rule settle_succeeds [OF inv1 P lock1]) (use w(2) j 1 st in \<open>auto simp: wallet_stored_def\<close>)
  then show ?thesis by (rule that) (simp_all add: 1)
qed

section \<open>Repeated requests\<close>

lemma inserted_posted:
  assumes "InsertWalletTransaction i now p d = Inr d'" "tx_key p = Some key" "tx_client p = cid"
    "i \<noteq> uuid_Nil"
  shows "tx_posted cid key d'"
  using assms(1)
proof (rule InsertWalletTransaction_OK)
  fix t
  assume t: "d' = d\<lparr>wallet_txs := wallet_txs d @ [t]\<rparr>" "tx_id t = i" "tx_client t = tx_client p"
    "tx_key t = tx_key p"
    and u: "tx_key p \<noteq> None \<Longrightarrow> \<forall>u \<in> set (wallet_txs d). tx_client u = tx_client p \<longrightarrow> tx_key u \<noteq> tx_key p"
  have "find (\<lambda>t. tx_client t = cid \<and> tx_key t = Some key) (wallet_txs d) = None"
    using u assms(2,3) by (auto simp: find_None_iff)
  with t assms(2-) show ?thesis
    by (simp add: tx_posted_def GetWalletTxByIdempotency_def find_append)
qed

lemma reserve_posted:
  assumes "ReserveForMessage i now (Some d) msg = Inr d'" "msg_client msg = Some cid"
    "\<not> clientDeleted cid d" "i \<noteq> uuid_Nil"
  shows "tx_posted cid (HoldKey (msg_id msg)) d'"
  using assms(1) by (rule ReserveForMessage_OK) (use assms in \<open>auto intro: inserted_posted\<close>)

lemma credit_posted:
  "credit i now cid amt kind dir com key by neg d = Inr d' \<Longrightarrow> i \<noteq> uuid_Nil \<Longrightarrow> tx_posted cid key d'"
  by (erule credit_OK) (auto intro: inserted_posted)

lemma credit_replay: "tx_posted cid key d \<Longrightarrow> credit i now cid amt kind dir com key by neg d = Inr d"
  by (simp add: credit_def)

lemma TopUp_credit:
  assumes "TopUp parse i now inp d = Inr d'"
  obtains amt where "credit i now (tu_client inp) amt ''CREDIT'' ''credit'' (tu_comment inp)
    (topup_key (tu_client inp) (tu_key inp)) (tu_created_by inp) False d = Inr d'" "tu_key inp \<noteq> []"
  using assms by (auto simp: TopUp_def split: sum.splits option.splits if_splits)

lemma Adjust_credit:
  assumes "Adjust parse i now inp d = Inr d'"
  obtains amt dir where "credit i now (ad_client inp) amt ''ADJUSTMENT'' dir (ad_comment inp)
    (adjustment_key (ad_client inp) (ad_key inp)) (ad_created_by inp) (ad_allow_negative inp) d = Inr d'"
  using assms by (auto simp: Adjust_def Let_def split: sum.splits option.splits if_splits)

lemma TopUp_replay:
  assumes "TopUp parse i now inp d = Inr d'" "i \<noteq> uuid_Nil"
    and "tu_client inp' = tu_client inp" "tu_key inp' = tu_key inp"
    and "money parse (tu_amount inp') = Inr amt" "0 < amt"
  shows "TopUp parse j now' inp' d' = Inr d'"
  using assms(1)
proof (rule TopUp_credit)
  fix a
  assume c: "credit i now (tu_client inp) a ''CREDIT'' ''credit'' (tu_comment inp)
    (topup_key (tu_client inp) (tu_key inp)) (tu_created_by inp) False d = Inr d'" and k: "tu_key inp \<noteq> []"
  from credit_posted [OF c assms(2)] k assms(3-) show ?thesis
    by (simp add: TopUp_def mustPositive_None [THEN iffD2] credit_replay)
qed

lemma Adjust_replay:
  assumes "Adjust parse i now inp d = Inr d'" "i \<noteq> uuid_Nil"
  shows "Adjust parse j now' inp d' = Inr d'"
  using assms(1)
proof (rule Adjust_credit)
  fix a dir
  assume c: "credit i now (ad_client inp) a ''ADJUSTMENT'' dir (ad_comment inp)
    (adjustment_key (ad_client inp) (ad_key inp)) (ad_created_by inp) (ad_allow_negative inp) d = Inr d'"
  from credit_posted [OF c assms(2)] assms(1) show ?thesis
    by (auto simp: Adjust_def Let_def credit_replay split: sum.splits option.splits if_splits)
qed

section \<open>The remainder of a lookup job\<close>

lemma post_remainder_closes:
  assumes inv: "db_ok d" and h: "GetLookupJobHold jid d = Inr hold"
    and rem: "remaining = tx_amount hold - settled_sum (tx_id hold) d"
    and p: "post_remainder i now jid hold remaining d = Inr d'"
  shows "settled_sum (tx_id hold) d' = tx_amount hold \<and>
    (\<exists>w. GetWalletByClientID (tx_client hold) d = Inr w \<and>
      GetWalletByClientID (tx_client hold) d' = Inr (w\<lparr>w_available := w_available w + remaining,
        w_held := w_held w - remaining, w_version := w_version w + 1\<rparr>))"
  using p
proof (rule post_remainder_OK)
  fix w d1 q
  assume A: "LockWalletByClientID (tx_client hold) d = Inr w"
    "UpdateWalletBalances (w_available w + remaining) (w_held w - remaining) (w_id w) (w_version w) d = Inr d1"
    "InsertWalletTransaction i now q d1 = Inr d'" "tx_type q = RELEASE" "tx_amount q = remaining"
    "tx_related_hold q = Some (tx_id hold)"
  note D = db_okD(1) [OF inv] and H = GetLookupJobHold_OK [OF h]
  from LockWallet_OK [OF A(1)] have w: "w \<in> set (wallets d)" by simp
  have m: "is_money remaining" "is_money (w_available w)" "is_money (w_held w)"
    using ledger_okD(5) [OF D w] ledger_okD(6) [OF D]
    by (auto simp: rem wallet_balanced_def settled_sum_amounts H(1) intro!: is_money_diff is_money_sum_amounts)
  then have r6: "round6 (w_available w + remaining) = w_available w + remaining"
    "round6 (w_held w - remaining) = w_held w - remaining" "round6 remaining = remaining"
    by (simp_all add: round6_id is_money_add is_money_diff)
  from A(3) obtain t where t: "d' = d1\<lparr>wallet_txs := wallet_txs d1 @ [t]\<rparr>" "tx_type t = tx_type q"
    "tx_amount t = round6 (tx_amount q)" "tx_related_hold t = tx_related_hold q"
    by (rule InsertWalletTransaction_OK)
  have "wallet_txs d1 = wallet_txs d" using UpdateWalletBalances_OK(1) [OF A(2)] by simp
  then have "settled_sum (tx_id hold) d' = settled_sum (tx_id hold) d + remaining"
    using t A(4-) r6 by (simp add: settled_sum_def settles_def)
  moreover have "GetWalletByClientID (tx_client hold) d' = Inr (w\<lparr>w_available := w_available w + remaining,
        w_held := w_held w - remaining, w_version := w_version w + 1\<rparr>)"
    using post_wallet [OF A(1,2)] r6 unfolding t(1) by simp
  ultimately show ?thesis using A(1) rem by (simp add: LockWalletByClientID_def)
qed

lemma remainder_attempts_once:
  "remainder_attempts ids now jid n d = Inr d' \<Longrightarrow>
   \<exists>k. releaseLookupJobRemainderOnce (ids k) now jid d = Inr d'"
  by (induction n) (auto split: sum.splits if_splits)

lemma remainder_closes:
  assumes inv: "db_ok d" and h: "GetLookupJobHold jid d = Inr hold"
    and go: "CountLookupItemsBlockingRemainder jid d = 0" "\<not> clientDeleted (tx_client hold) d"
      "\<not> tx_posted (tx_client hold) (LookupReleaseRemainderKey jid) d"
    and r: "releaseLookupJobRemainderOnce i now jid d = Inr d'"
  shows "settled_sum (tx_id hold) d' = tx_amount hold"
proof -
  note D = db_okD(1) [OF inv] and H = GetLookupJobHold_OK [OF h]
  have le: "settled_sum (tx_id hold) d \<le> tx_amount hold"
    using ledger_okD(9) [OF D H(1)] H(3) by (simp add: hold_covered_def settled_sum_amounts)
  have eq: "round6 (settled_sum (tx_id hold) d) = settled_sum (tx_id hold) d"
    by (rule settled_sum_exact [OF D])
  show ?thesis
  proof (cases "settled_sum (tx_id hold) d = tx_amount hold")
    case True
    with eq have "round6 (tx_amount hold) = tx_amount hold" by simp
    with True r h go show ?thesis
      by (auto simp: releaseLookupJobRemainderOnce_def LookupRemainderBlocked_def RemainingOnHold_def
          HoldIsOpen_def SumSettledAgainstHold_def Let_def split: sum.splits if_splits
          dest!: billing_money_OK)
  next
    case False
    with r h go le eq have "post_remainder i now jid hold
        (tx_amount hold - settled_sum (tx_id hold) d) d = Inr d'"
      by (auto simp: releaseLookupJobRemainderOnce_def LookupRemainderBlocked_def RemainingOnHold_def
          HoldIsOpen_def SumSettledAgainstHold_def Let_def split: sum.splits if_splits
          dest!: billing_money_OK)
    with post_remainder_closes [OF inv h refl this] show ?thesis by simp
  qed
qed

end
