(* ===== verification/Msisdn.thy ===== *)
theory Msisdn
  imports GoStrings
begin

text \<open>
  Package \<open>internal/msisdn\<close>: normalisation of sender and destination numbers. Every
  component that accepts a number (messaging, campaigns, ingress, inventory) goes
  through \<open>NormalizeSender\<close> or \<open>NormalizeDest\<close>.
\<close>

definition digitsOnly :: "string \<Rightarrow> string" where
  "digitsOnly raw =
     concat (map (encode_rune \<circ> fst) (filter (\<lambda>(r, _). unicode_IsDigit r) (runes raw)))"

text \<open>The error texts are the ones the functions return, both plain \<open>fmt.Errorf\<close> values.\<close>

definition want7 :: goerr where
  "want7 = Plain ''want 7XXXXXXXXXX''"

definition invalid_destination :: goerr where
  "invalid_destination = Plain ''invalid destination''"

definition NormalizeSender :: "string \<Rightarrow> string result" where
  "NormalizeSender raw =
     (let digits = digitsOnly raw in
      if length digits = 11 \<and> hd digits = CHR ''7'' then Inr digits
      else if length digits = 11 \<and> hd digits = CHR ''8'' then Inr (CHR ''7'' # tl digits)
      else if length digits = 10 \<and> hd digits = CHR ''9'' then Inr (CHR ''7'' # digits)
      else Inl want7)"

definition IsSender :: "string \<Rightarrow> bool" where
  "IsSender m =
     (if length m \<noteq> 11 \<or> hd m \<noteq> CHR ''7'' then False else list_all ascii_digit m)"

record dest =
  MSISDN :: string
  International :: bool

definition NormalizeDest :: "string \<Rightarrow> dest result" where
  "NormalizeDest raw =
     (case NormalizeSender raw of
        Inr n \<Rightarrow> Inr \<lparr>MSISDN = n, International = False\<rparr>
      | Inl _ \<Rightarrow>
          let digits = digitsOnly raw in
          if length digits < 8 \<or> length digits > 15 then Inl invalid_destination
          else if hd digits = CHR ''0'' then Inl invalid_destination
          else if IsSender digits then Inr \<lparr>MSISDN = digits, International = False\<rparr>
          else Inr \<lparr>MSISDN = digits, International = True\<rparr>)"

definition Canonical :: "string \<Rightarrow> string" where
  "Canonical raw = digitsOnly raw"

definition FromManagement :: "string \<Rightarrow> string \<Rightarrow> string result" where
  "FromManagement code number =
     (let num = digitsOnly number in
      if length num = 11 \<and> hd num = CHR ''7'' then Inr num
      else
        let combined = digitsOnly code @ num in
        if length combined = 11 \<and> hd combined = CHR ''7'' then Inr combined
        else if length combined = 10 then Inr (CHR ''7'' # combined)
        else Inl want7)"

section \<open>Facts on digit extraction\<close>

lemma digitsOnly_ascii: "is_ascii raw \<Longrightarrow> digitsOnly raw = filter ascii_digit raw"
  by (simp add: digitsOnly_def filter_digits_ascii)

lemma all_digits_ascii: "list_all ascii_digit s \<Longrightarrow> is_ascii s"
  by (auto simp: is_ascii_def list_all_iff ascii_digit_ascii)

lemma digitsOnly_id: "list_all ascii_digit s \<Longrightarrow> digitsOnly s = s"
  by (simp add: digitsOnly_ascii all_digits_ascii filter_id_conv list_all_iff)

lemma digitsOnly_ascii_digits: "is_ascii raw \<Longrightarrow> list_all ascii_digit (digitsOnly raw)"
  by (simp add: digitsOnly_ascii list_all_iff)

lemma ascii_digit_7 [simp]: "ascii_digit (CHR ''7'')"
  by (simp add: ascii_digit_def)

lemma list_all_tl: "list_all p xs \<Longrightarrow> list_all p (tl xs)"
  by (cases xs) auto

text \<open>An \<open>IsSender\<close> number is its own canonical form.\<close>

lemma IsSender_iff: "IsSender m \<longleftrightarrow> length m = 11 \<and> hd m = CHR ''7'' \<and> list_all ascii_digit m"
  by (auto simp: IsSender_def)

lemma NormalizeSender_IsSender: "IsSender m \<Longrightarrow> NormalizeSender m = Inr m"
  by (simp add: IsSender_iff NormalizeSender_def digitsOnly_id)

lemma NormalizeSender_ascii_IsSender:
  "is_ascii raw \<Longrightarrow> NormalizeSender raw = Inr n \<Longrightarrow> IsSender n"
  using digitsOnly_ascii_digits [of raw]
  by (auto simp: NormalizeSender_def IsSender_iff Let_def list_all_tl split: if_splits)

section \<open>Correctness of the normalisation\<close>

text \<open>
  Normalising an ASCII sender gives a canonical Russian number (eleven ASCII digits
  starting with 7), and normalising the result again changes nothing.
\<close>

theorem NormalizeSender_canonical:
  assumes "is_ascii raw" and "NormalizeSender raw = Inr n"
  shows "IsSender n \<and> NormalizeSender n = Inr n"
  using NormalizeSender_ascii_IsSender [OF assms] by (simp add: NormalizeSender_IsSender)

theorem NormalizeSender_canonical_witness:
  "IsSender ''79161234567'' \<and> NormalizeSender ''79161234567'' = Inr ''79161234567''"
proof -
  have "NormalizeSender ''8 (916) 123-45-67'' = Inr ''79161234567''"
    by (simp add: NormalizeSender_def digitsOnly_ascii ascii_digit_def)
  then show ?thesis
    by (rule NormalizeSender_canonical [rotated]) simp
qed


lemma NormalizeDest_cases:
  assumes "NormalizeDest raw = Inr d"
  obtains (sender) n where "NormalizeSender raw = Inr n" "d = \<lparr>MSISDN = n, International = False\<rparr>"
  | (other) e where "NormalizeSender raw = Inl e" "8 \<le> length (digitsOnly raw)"
      "length (digitsOnly raw) \<le> 15" "hd (digitsOnly raw) \<noteq> CHR ''0''"
      "d = \<lparr>MSISDN = digitsOnly raw, International = (\<not> IsSender (digitsOnly raw))\<rparr>"
  using assms by (auto simp: NormalizeDest_def Let_def split: sum.splits if_splits)

lemma digitsOnly_idem: "is_ascii raw \<Longrightarrow> digitsOnly (digitsOnly raw) = digitsOnly raw"
  by (simp add: digitsOnly_id digitsOnly_ascii_digits)

lemma NormalizeSender_digitsOnly:
  "is_ascii raw \<Longrightarrow> NormalizeSender (digitsOnly raw) = NormalizeSender raw"
  by (simp add: NormalizeSender_def digitsOnly_idem)

lemma NormalizeDest_digitsOnly:
  "is_ascii raw \<Longrightarrow> NormalizeDest (digitsOnly raw) = NormalizeDest raw"
  by (cases "NormalizeSender raw")
    (simp_all add: NormalizeDest_def NormalizeSender_digitsOnly digitsOnly_idem)

lemma NormalizeDest_IsSender:
  "IsSender n \<Longrightarrow> NormalizeDest n = Inr \<lparr>MSISDN = n, International = False\<rparr>"
  by (simp add: NormalizeDest_def NormalizeSender_IsSender)

text \<open>
  C21. A destination accepted from ASCII input satisfies the schema's CHECK on
  \<open>to_msisdn\<close> (8 to 15 ASCII digits), does not start with 0, is flagged international
  exactly when it is not a canonical Russian number, and is a fixed point of the
  normalisation, so that re-normalising a stored recipient (as the campaign fan-out
  does) cannot change its number or its tariff product.
\<close>

theorem NormalizeDest_canonical:
  assumes "is_ascii raw" and "NormalizeDest raw = Inr d"
  shows "list_all ascii_digit (MSISDN d) \<and> 8 \<le> length (MSISDN d) \<and> length (MSISDN d) \<le> 15
    \<and> hd (MSISDN d) \<noteq> CHR ''0'' \<and> International d = (\<not> IsSender (MSISDN d))
    \<and> NormalizeDest (MSISDN d) = Inr d"
  using assms(2)
proof (cases rule: NormalizeDest_cases)
  case (sender n)
  with assms(1) have "IsSender n" by (blast intro: NormalizeSender_ascii_IsSender)
  with sender show ?thesis by (simp add: NormalizeDest_IsSender) (simp add: IsSender_iff)
next
  case (other e)
  with assms show ?thesis
    by (simp add: NormalizeDest_digitsOnly digitsOnly_ascii_digits)
qed

theorem NormalizeDest_canonical_witness:
  "NormalizeDest ''442071234567'' = Inr \<lparr>MSISDN = ''442071234567'', International = True\<rparr>"
proof -
  have "NormalizeDest ''+44 20 7123-4567'' = Inr \<lparr>MSISDN = ''442071234567'', International = True\<rparr>"
    by (simp add: NormalizeDest_def NormalizeSender_def digitsOnly_ascii ascii_digit_def
        want7_def IsSender_def)
  then show ?thesis using NormalizeDest_canonical [of "''+44 20 7123-4567''"] by simp
qed

definition arabic_one :: string where
  "arabic_one = [CHR 0xD9, CHR 0xA1]"

definition arabic_sender :: string where
  "arabic_sender = CHR ''7'' # arabic_one @ arabic_one @ arabic_one @ arabic_one @ arabic_one @ []"

lemma runes_arabic_one: "runes (arabic_one @ s) = (0x661, arabic_one) # runes s"
  by (simp add: arabic_one_def runes.simps decode_rune_def decode2_def is_cont_def)

lemma digitsOnly_Cons_ascii:
  "ascii_digit c \<Longrightarrow> digitsOnly (c # s) = c # digitsOnly s"
  using ascii_digit_ascii [of c] by (simp add: digitsOnly_def IsDigit_ascii ascii_digit_def)

lemma digitsOnly_arabic_one: "digitsOnly (arabic_one @ s) = arabic_one @ digitsOnly s"
proof -
  have "encode_rune 0x661 = arabic_one"
    by (simp add: encode_rune_def arabic_one_def char_of_def bit_0)
  moreover have "unicode_IsDigit 0x661"
    by (simp add: unicode_IsDigit_def nd_zeros_def)
  ultimately show ?thesis by (simp add: digitsOnly_def runes_arabic_one)
qed

lemma digitsOnly_arabic_sender: "digitsOnly arabic_sender = arabic_sender"
proof -
  have "digitsOnly [] = []" by (simp add: digitsOnly_def)
  then show ?thesis
    unfolding arabic_sender_def by (simp only: digitsOnly_Cons_ascii ascii_digit_7 digitsOnly_arabic_one)
qed

text \<open>
  Without the ASCII hypothesis the sender contract fails: \<open>digitsOnly\<close> keeps every
  Unicode decimal digit and \<open>NormalizeSender\<close> counts bytes, so the digit 7 followed by
  five Arabic-Indic digits (two bytes each) is accepted unchanged as a sender although it
  is not of the form 7XXXXXXXXXX.
\<close>

theorem NormalizeSender_accepts_non_ascii_digits:
  "NormalizeSender arabic_sender = Inr arabic_sender \<and> \<not> IsSender arabic_sender"
  unfolding NormalizeSender_def digitsOnly_arabic_sender
  by (simp add: IsSender_def arabic_sender_def arabic_one_def ascii_digit_def)

text \<open>
  \<open>FromManagement\<close> on ASCII fields returns a canonical number (the sender format), and
  applying it again to its own result, with an empty code, changes nothing.
\<close>

theorem FromManagement_canonical:
  assumes "is_ascii code" and "is_ascii number" and "FromManagement code number = Inr n"
  shows "IsSender n \<and> FromManagement [] n = Inr n"
proof -
  have d: "list_all ascii_digit (digitsOnly code @ digitsOnly number)"
    using assms(1,2) by (simp add: digitsOnly_ascii_digits)
  then have "IsSender n"
    using assms(3)
    by (auto simp: FromManagement_def IsSender_iff Let_def split: if_splits)
  then show ?thesis by (simp add: FromManagement_def IsSender_iff digitsOnly_id)
qed

theorem FromManagement_canonical_witness:
  "IsSender ''74951234567'' \<and> FromManagement [] ''74951234567'' = Inr ''74951234567''"
proof -
  have "FromManagement ''495'' ''123-45-67'' = Inr ''74951234567''"
    by (simp add: FromManagement_def digitsOnly_ascii ascii_digit_def)
  then show ?thesis
    using FromManagement_canonical [of "''495''" "''123-45-67''" "''74951234567''"] by simp
qed

end
