(* ===== verification/Pdu.thy ===== *)
theory Pdu
  imports GoStrings
begin

text \<open>
  \<open>internal/billing/pdu.go\<close>: how many SMS segments (PDUs) a text is billed for. The
  count is frozen into the message at enqueue and multiplies the unit price, so it is
  part of the money path.
\<close>

text \<open>The GSM-7 default alphabet (\<open>basic\<close>) and extension table of \<open>init\<close>, as code points.\<close>

definition gsm7Basic :: "rune list" where
  "gsm7Basic = [
    0x40, 0xA3, 0x24, 0xA5, 0xE8, 0xE9, 0xF9, 0xEC, 0xF2, 0xC7, 0xA, 0xD8, 0xF8, 0xD, 0xC5,
    0xE5, 0x394, 0x5F, 0x3A6, 0x393, 0x39B, 0x3A9, 0x3A0, 0x3A8, 0x3A3, 0x398, 0x39E, 0xC6,
    0xE6, 0xDF, 0xC9, 0x20, 0x21, 0x22, 0x23, 0xA4, 0x25, 0x26, 0x27, 0x28, 0x29, 0x2A, 0x2B,
    0x2C, 0x2D, 0x2E, 0x2F, 0x30, 0x31, 0x32, 0x33, 0x34, 0x35, 0x36, 0x37, 0x38, 0x39, 0x3A,
    0x3B, 0x3C, 0x3D, 0x3E, 0x3F, 0xA1, 0x41, 0x42, 0x43, 0x44, 0x45, 0x46, 0x47, 0x48, 0x49,
    0x4A, 0x4B, 0x4C, 0x4D, 0x4E, 0x4F, 0x50, 0x51, 0x52, 0x53, 0x54, 0x55, 0x56, 0x57, 0x58,
    0x59, 0x5A, 0xC4, 0xD6, 0xD1, 0xDC, 0xA7, 0xBF, 0x61, 0x62, 0x63, 0x64, 0x65, 0x66, 0x67,
    0x68, 0x69, 0x6A, 0x6B, 0x6C, 0x6D, 0x6E, 0x6F, 0x70, 0x71, 0x72, 0x73, 0x74, 0x75, 0x76,
    0x77, 0x78, 0x79, 0x7A, 0xE4, 0xF6, 0xF1, 0xFC, 0xE0]"

definition gsm7Escape :: "rune list" where
  "gsm7Escape = [0x7C, 0x5E, 0x20AC, 0x7B, 0x7D, 0x5B, 0x5D, 0x7E, 0x5C]"

definition isGSM7 :: "string \<Rightarrow> bool" where
  "isGSM7 text = list_all (\<lambda>r. r \<in> set gsm7Basic \<or> r \<in> set gsm7Escape) (runes_of text)"

definition gsm7Septets :: "string \<Rightarrow> nat" where
  "gsm7Septets text =
     foldl (\<lambda>n r. if r \<in> set gsm7Escape then n + 2 else n + 1) 0 (runes_of text)"

text \<open>
  \<open>utf16.Encode\<close>: a rune beyond the basic plane takes a surrogate pair; a lone surrogate
  or a value past U+10FFFF is written as one unit (U+FFFD).
\<close>

definition utf16_len :: "rune \<Rightarrow> nat" where
  "utf16_len r = (if 0x10000 \<le> r \<and> r \<le> 0x10FFFF then 2 else 1)"

definition utf16Units :: "string \<Rightarrow> nat" where
  "utf16Units text = sum_list (map utf16_len (runes_of text))"

definition SegmentCount :: "string \<Rightarrow> nat" where
  "SegmentCount text =
     (if text = [] then 1
      else if isGSM7 text then
        let n = gsm7Septets text in
        if n \<le> 160 then 1 else (n + 152) div 153
      else
        let n = utf16Units text in
        if n \<le> 70 then 1 else (n + 66) div 67)"

section \<open>Size of a text in its encoding\<close>

definition septet_len :: "rune \<Rightarrow> nat" where
  "septet_len r = (if r \<in> set gsm7Escape then 2 else 1)"

lemma gsm7Septets_sum: "gsm7Septets text = sum_list (map septet_len (runes_of text))"
proof -
  have "foldl (\<lambda>n r. if r \<in> set gsm7Escape then n + 2 else n + 1) m rs =
      m + sum_list (map septet_len rs)" for m :: nat and rs
    by (induction rs arbitrary: m) (simp_all add: septet_len_def)
  then show ?thesis by (simp add: gsm7Septets_def)
qed

text \<open>Units of the chosen encoding, the single-message limit and the payload of one segment of many.\<close>

definition text_units :: "string \<Rightarrow> nat" where
  "text_units text = (if isGSM7 text then gsm7Septets text else utf16Units text)"

definition single_limit :: "string \<Rightarrow> nat" where
  "single_limit text = (if isGSM7 text then 160 else 70)"

definition segment_payload :: "string \<Rightarrow> nat" where
  "segment_payload text = (if isGSM7 text then 153 else 67)"

lemma ceil_div_least:
  fixes n c :: nat
  assumes "0 < c" and "0 < n"
  shows "n \<le> c * ((n + (c - 1)) div c)" and "c * ((n + (c - 1)) div c - 1) < n"
proof -
  have q: "(n + (c - 1)) div c = (n - 1) div c + 1"
    using assms div_add_self1 [of c "n - 1"] by (simp add: add.commute)
  have "n - 1 < c * ((n - 1) div c + 1)"
    using assms dividend_less_times_div [of c "n - 1"] by simp
  then show "n \<le> c * ((n + (c - 1)) div c)"
    unfolding q using assms by linarith
  have "c * ((n - 1) div c) \<le> n - 1" by simp
  then show "c * ((n + (c - 1)) div c - 1) < n"
    unfolding q add_diff_cancel_right' using assms by linarith
qed

lemma SegmentCount_many:
  assumes "single_limit text < text_units text"
  shows "SegmentCount text =
    (text_units text + (segment_payload text - 1)) div segment_payload text"
proof -
  have "text \<noteq> []"
    using assms by (auto simp: text_units_def single_limit_def gsm7Septets_sum utf16Units_def
        runes_of_def isGSM7_def)
  with assms show ?thesis
    by (simp add: SegmentCount_def text_units_def single_limit_def segment_payload_def Let_def
        split: if_splits)
qed

lemma SegmentCount_one: "text_units text \<le> single_limit text \<Longrightarrow> SegmentCount text = 1"
  by (simp add: SegmentCount_def text_units_def single_limit_def Let_def split: if_splits)

text \<open>
  C20. The billed segment count is exact: at least one; one whenever the text fits the
  single-message limit of its encoding (160 septets or 70 UTF-16 units); otherwise the
  least number of segments whose payload (153 septets or 67 units each) holds the text.
\<close>

theorem SegmentCount_exact:
  "1 \<le> SegmentCount text
   \<and> (text_units text \<le> single_limit text \<longrightarrow> SegmentCount text = 1)
   \<and> (single_limit text < text_units text \<longrightarrow>
        text_units text \<le> segment_payload text * SegmentCount text
        \<and> (\<forall>k. text_units text \<le> segment_payload text * k \<longrightarrow> SegmentCount text \<le> k))"
proof (cases "text_units text \<le> single_limit text")
  case True
  then show ?thesis by (simp add: SegmentCount_one)
next
  case False
  let ?n = "text_units text" and ?c = "segment_payload text"
  have c: "0 < ?c" and n: "0 < ?n"
    using False by (auto simp: segment_payload_def single_limit_def)
  have s: "SegmentCount text = (?n + (?c - 1)) div ?c"
    using False by (simp add: SegmentCount_many)
  have up: "?n \<le> ?c * SegmentCount text" and low: "?c * (SegmentCount text - 1) < ?n"
    using ceil_div_least [OF c n] s by simp_all
  have "SegmentCount text \<le> k" if "?n \<le> ?c * k" for k
  proof -
    from low that have "?c * (SegmentCount text - 1) < ?c * k" by linarith
    then show ?thesis using c by simp
  qed
  moreover have "1 \<le> SegmentCount text"
    using up n by (cases "SegmentCount text") auto
  ultimately show ?thesis using False up by simp
qed

theorem SegmentCount_exact_witness:
  "SegmentCount (replicate 161 CHR ''|'') = 3"
proof -
  let ?t = "replicate 161 CHR ''|''"
  have r: "runes_of ?t = replicate 161 124"
    by (simp add: runes_of_def runes_ascii is_ascii_def list_all_iff)
  have g: "isGSM7 ?t" by (simp add: isGSM7_def r list_all_iff gsm7Escape_def)
  have u: "text_units ?t = 322"
    using g by (simp add: text_units_def gsm7Septets_sum r septet_len_def gsm7Escape_def
        sum_list_replicate)
  have l: "single_limit ?t = 160" "segment_payload ?t = 153"
    using g by (simp_all add: single_limit_def segment_payload_def)
  from SegmentCount_exact [of ?t] u l have up: "322 \<le> 153 * SegmentCount ?t"
    and le: "SegmentCount ?t \<le> 3" by simp_all
  from up have "3 \<le> SegmentCount ?t" by linarith
  with le show ?thesis by simp
qed

section \<open>Bound\<close>

lemma sum_list_le_twice:
  "(\<And>x. f x \<le> (2::nat)) \<Longrightarrow> sum_list (map f xs) \<le> 2 * length xs"
proof (induction xs)
  case (Cons a xs)
  then have "f a \<le> 2" "sum_list (map f xs) \<le> 2 * length xs" by simp_all
  then show ?case by simp
qed simp

lemma text_units_le: "text_units s \<le> 2 * RuneCountInString s"
proof -
  have "length (runes_of s) = RuneCountInString s"
    by (simp add: runes_of_def RuneCountInString_def)
  moreover have "sum_list (map septet_len (runes_of s)) \<le> 2 * length (runes_of s)"
    by (rule sum_list_le_twice) (simp add: septet_len_def)
  moreover have "sum_list (map utf16_len (runes_of s)) \<le> 2 * length (runes_of s)"
    by (rule sum_list_le_twice) (simp add: utf16_len_def)
  ultimately show ?thesis by (simp add: text_units_def gsm7Septets_sum utf16Units_def)
qed

lemma SegmentCount_pos: "1 \<le> SegmentCount s"
proof (cases "text_units s \<le> single_limit s")
  case True
  then show ?thesis by (simp add: SegmentCount_one)
next
  case False
  then show ?thesis
    by (simp add: SegmentCount_many segment_payload_def single_limit_def split: if_splits)
qed

lemma SegmentCount_le:
  assumes "RuneCountInString s \<le> n"
  shows "SegmentCount s \<le> (2 * n + 66) div 67 + 1"
proof (cases "text_units s \<le> single_limit s")
  case True
  then show ?thesis by (simp add: SegmentCount_one)
next
  case False
  have u: "text_units s \<le> 2 * n" using text_units_le [of s] assms by linarith
  show ?thesis
  proof (cases "isGSM7 s")
    case True
    have "(text_units s + 152) div 153 \<le> (2 * n + 66) div 67 + 1" using u by linarith
    with False True show ?thesis by (simp add: SegmentCount_many segment_payload_def)
  next
    case ucs: False
    have "(text_units s + 66) div 67 \<le> (2 * n + 66) div 67" using u by (intro div_le_mono) simp
    with False ucs show ?thesis by (simp add: SegmentCount_many segment_payload_def)
  qed
qed

end
