(* ===== verification/Tariffs.thy ===== *)
theory Tariffs
  imports WalletFlows Msisdn Pdu
begin

text \<open>
  \<open>internal/billing/tariffs.go\<close> and the estimates of \<open>lookup_billing.go\<close>: which price a client
  pays for a product, and what a message or a lookup job will cost. The clock
  (\<open>time.Now\<close>) is an argument.
\<close>

section \<open>Resolution of a tariff\<close>

record client_tariff_row =
  cr_id :: uuid
  cr_client :: uuid
  cr_product :: billing_product
  cr_plan :: uuid
  cr_price_override :: "decimal option"
  cr_effective_from :: time
  cr_effective_to :: "time option"
  cr_plan_code :: string
  cr_plan_sell_price :: decimal
  cr_currency :: string
  cr_plan_is_active :: bool

text \<open>The columns the query selects from an assignment and its plan.\<close>

definition tariff_row :: "client_tariff \<Rightarrow> tariff_plan \<Rightarrow> client_tariff_row" where
  "tariff_row a p =
     \<lparr>cr_id = ct_id a, cr_client = ct_client a, cr_product = ct_product a,
      cr_plan = ct_plan a, cr_price_override = ct_price_override a,
      cr_effective_from = ct_effective_from a, cr_effective_to = ct_effective_to a,
      cr_plan_code = tp_code p, cr_plan_sell_price = tp_sell_price p,
      cr_currency = tp_currency p, cr_plan_is_active = tp_is_active p\<rparr>"

definition GetClientTariff :: "uuid \<Rightarrow> billing_product \<Rightarrow> db \<Rightarrow> client_tariff_row result" where
  "GetClientTariff cid product d =
     first_row (concat (map (\<lambda>a. map (tariff_row a)
          (filter (\<lambda>p. tp_id p = ct_plan a) (tariff_plans d)))
        (filter (\<lambda>a. ct_client a = cid \<and> ct_product a = product) (client_tariffs d))))"

record resolved_tariff =
  rt_plan_id :: uuid
  rt_plan_code :: string
  rt_product :: billing_product
  rt_sell_price :: decimal
  rt_currency :: string
  rt_assignment :: uuid

definition ProductForDest :: "dest \<Rightarrow> billing_product" where
  "ProductForDest dst = (if International dst then SmsInternational else SmsDomestic)"

abbreviation invalid_tariff :: "string \<Rightarrow> goerr" where
  "invalid_tariff text \<equiv> wrap BillingErrInvalidTariff ''invalid_tariff'' text"

definition ResolveTariff :: "time \<Rightarrow> uuid \<Rightarrow> billing_product \<Rightarrow> db \<Rightarrow> resolved_tariff result" where
  "ResolveTariff now cid product d =
     (case GetClientTariff cid product d of
        Inl _ \<Rightarrow> Inl (wrap BillingErrTariffNotConfigured ''tariff_not_configured'' ''tariff not configured'')
      | Inr row \<Rightarrow>
      if \<not> cr_plan_is_active row then Inl (invalid_tariff ''tariff plan is inactive'')
      else if cr_effective_from row > now then Inl (invalid_tariff ''tariff not yet effective'')
      else if (case cr_effective_to row of None \<Rightarrow> False | Some t \<Rightarrow> \<not> t > now)
      then Inl (invalid_tariff ''tariff expired'')
      else
        let sell = (case cr_price_override row of None \<Rightarrow> cr_plan_sell_price row | Some p \<Rightarrow> p) in
        (case mustPositive sell ''sell_price'' of Some e \<Rightarrow> Inl e | None \<Rightarrow>
        (case GetWalletByClientID cid d of Inl _ \<Rightarrow> Inl wallet_not_found | Inr w \<Rightarrow>
         if trimCurrency (w_currency w) \<noteq> trimCurrency (cr_currency row)
         then Inl (invalid_tariff ''wallet and tariff currency mismatch'')
         else Inr \<lparr>rt_plan_id = cr_plan row, rt_plan_code = cr_plan_code row,
                   rt_product = cr_product row, rt_sell_price = sell,
                   rt_currency = trimCurrency (cr_currency row), rt_assignment = cr_id row\<rparr>)))"

definition AssertPlanAssignable :: "tariff_plan \<Rightarrow> billing_product \<Rightarrow> goerr option" where
  "AssertPlanAssignable plan product =
     (if tp_product plan \<noteq> product
      then Some (wrap BillingErrValidation ''validation'' ''tariff plan product mismatch'')
      else if \<not> tp_is_active plan then Some (invalid_tariff ''tariff plan is inactive'')
      else None)"

section \<open>Estimates\<close>

record estimate =
  es_product :: billing_product
  es_segments :: int
  es_unit_sell_price :: decimal
  es_total :: decimal
  es_currency :: string
  es_tariff_plan_id :: uuid
  es_tariff_plan_code :: string

definition Estimate :: "time \<Rightarrow> uuid \<Rightarrow> dest \<Rightarrow> string \<Rightarrow> db \<Rightarrow> estimate result" where
  "Estimate now cid dst text d =
     (let product = ProductForDest dst in
      case ResolveTariff now cid product d of Inl e \<Rightarrow> Inl e | Inr tariff \<Rightarrow>
      let seg = int (SegmentCount text) in
      Inr \<lparr>es_product = product, es_segments = seg, es_unit_sell_price = rt_sell_price tariff,
           es_total = rt_sell_price tariff * of_int seg, es_currency = rt_currency tariff,
           es_tariff_plan_id = rt_plan_id tariff, es_tariff_plan_code = rt_plan_code tariff\<rparr>)"

definition EstimateLookup :: "time \<Rightarrow> uuid \<Rightarrow> lookup_check_type \<Rightarrow> int \<Rightarrow> db \<Rightarrow> estimate result" where
  "EstimateLookup now cid checkType unitCount d =
     (if unitCount < 1 then Inl (wrap BillingErrValidation ''validation'' ''unit count must be >= 1'')
      else
        let product = ProductForCheckType checkType in
        (case ResolveTariff now cid product d of Inl e \<Rightarrow> Inl e | Inr tariff \<Rightarrow>
         Inr \<lparr>es_product = product, es_segments = unitCount, es_unit_sell_price = rt_sell_price tariff,
           es_total = rt_sell_price tariff * of_int unitCount, es_currency = rt_currency tariff,
           es_tariff_plan_id = rt_plan_id tariff, es_tariff_plan_code = rt_plan_code tariff\<rparr>))"

definition AssertLookupAssignment :: "time \<Rightarrow> uuid \<Rightarrow> lookup_check_type \<Rightarrow> db \<Rightarrow> goerr option" where
  "AssertLookupAssignment now cid checkType d =
     (case ResolveTariff now cid (ProductForCheckType checkType) d of Inl e \<Rightarrow> Some e | Inr _ \<Rightarrow> None)"

text \<open>The message of the error also shows the two amounts, rendered by the decimal package.\<close>

definition AssertCanAfford :: "uuid \<Rightarrow> decimal \<Rightarrow> db \<Rightarrow> goerr option" where
  "AssertCanAfford cid required d =
     (case GetWalletByClientID cid d of
        Inl _ \<Rightarrow> Some wallet_not_found
      | Inr w \<Rightarrow> if w_available w < required then Some insufficient_funds else None)"

section \<open>Properties\<close>

lemma ResolveTariff_OK:
  assumes "ResolveTariff now cid product d = Inr t"
  obtains a p w where "a \<in> set (client_tariffs d)" "ct_client a = cid" "ct_product a = product"
    "p \<in> set (tariff_plans d)" "tp_id p = ct_plan a" "tp_is_active p"
    "ct_effective_from a \<le> now" "\<And>e. ct_effective_to a = Some e \<Longrightarrow> now < e"
    "rt_sell_price t = (case ct_price_override a of None \<Rightarrow> tp_sell_price p | Some x \<Rightarrow> x)"
    "0 < rt_sell_price t" "GetWalletByClientID cid d = Inr w"
    "rt_currency t = trimCurrency (tp_currency p)" "trimCurrency (w_currency w) = rt_currency t"
    "rt_plan_id t = tp_id p" "rt_plan_code t = tp_code p" "rt_product t = product"
proof -
  from assms obtain row where row: "GetClientTariff cid product d = Inr row"
    by (auto simp: ResolveTariff_def split: sum.splits)
  from assms row obtain w where w: "GetWalletByClientID cid d = Inr w"
    by (auto simp: ResolveTariff_def Let_def split: sum.splits if_splits option.splits)
  have R: "cr_plan_is_active row" "cr_effective_from row \<le> now"
      "\<And>e. cr_effective_to row = Some e \<Longrightarrow> now < e"
      "rt_sell_price t = (case cr_price_override row of None \<Rightarrow> cr_plan_sell_price row | Some x \<Rightarrow> x)"
      "0 < rt_sell_price t" "rt_currency t = trimCurrency (cr_currency row)"
      "trimCurrency (w_currency w) = rt_currency t"
      "rt_plan_id t = cr_plan row" "rt_plan_code t = cr_plan_code row" "rt_product t = cr_product row"
    using assms row w
    by (auto simp: ResolveTariff_def Let_def mustPositive_None split: if_splits option.splits)
  from first_row_OK [OF row [unfolded GetClientTariff_def]] obtain a p where
    "a \<in> set (client_tariffs d)" "ct_client a = cid" "ct_product a = product"
    "p \<in> set (tariff_plans d)" "tp_id p = ct_plan a" "row = tariff_row a p" by auto
  with R w show thesis by (intro that [of a p w]) (auto simp: tariff_row_def split: option.splits)
qed

end
