(* ===== verification/Messaging.thy ===== *)
theory Messaging
  imports Tariffs
begin

text \<open>
  \<open>internal/messaging\<close>: validation and enqueueing of an outbound message (\<open>service.go\<close>) and
  the matching of a message with the provider's statistic rows (\<open>match.go\<close>). A message,
  its send job and the reservation of its price are written in one transaction.
\<close>

section \<open>Transactions\<close>

text \<open>
  A PostgreSQL transaction that has executed a failing statement is aborted: every later
  statement fails with \<open>in_failed_sql_transaction\<close> and a commit rolls back. A query that
  finds no row is not a failing statement.
\<close>

datatype pgtx = Live db | Aborted

definition after_error :: "goerr \<Rightarrow> db \<Rightarrow> pgtx" where
  "after_error e d = (case e of PgError _ \<Rightarrow> Aborted | _ \<Rightarrow> Live d)"

definition tx_read :: "(db \<Rightarrow> 'a result) \<Rightarrow> pgtx \<Rightarrow> 'a result" where
  "tx_read f t = (case t of Live d \<Rightarrow> f d | Aborted \<Rightarrow> Inl (PgError InFailedSQLTransaction))"

definition tx_write :: "(db \<Rightarrow> db result) \<Rightarrow> pgtx \<Rightarrow> unit result \<times> pgtx" where
  "tx_write f t =
     (case t of
        Live d \<Rightarrow> (case f d of Inl e \<Rightarrow> (Inl e, after_error e d) | Inr d' \<Rightarrow> (Inr (), Live d'))
      | Aborted \<Rightarrow> (Inl (PgError InFailedSQLTransaction), Aborted))"

definition tx_commit :: "pgtx \<Rightarrow> db result" where
  "tx_commit t =
     (case t of Live d \<Rightarrow> Inr d
      | Aborted \<Rightarrow> Inl (Plain ''commit unexpectedly resulted in rollback''))"

section \<open>Queries\<close>

definition GetAssignedNumberForClient :: "string \<Rightarrow> uuid \<Rightarrow> db \<Rightarrow> def_number result" where
  "GetAssignedNumberForClient msisdn cid d =
     first_row (filter (\<lambda>n. dn_msisdn n = msisdn \<and> dn_status n = NumberAssigned \<and>
         list_ex (\<lambda>a. na_number a = dn_id n \<and> na_unassigned_at a = None \<and> na_client a = cid)
           (number_assignments d)) (def_numbers d))"

definition to_msisdn_chk :: "string \<Rightarrow> bool" where
  "to_msisdn_chk s = (list_all ascii_digit s \<and> 8 \<le> length s \<and> length s \<le> 15)"

text \<open>
  The columns of \<open>p\<close> that the statement names; id, status and creation time are the
  table's, every other column is NULL.
\<close>

definition InsertSmsMessage :: "uuid \<Rightarrow> time \<Rightarrow> sms_message \<Rightarrow> db \<Rightarrow> (sms_message \<times> db) result" where
  "InsertSmsMessage new_id now p d =
     (case billing_money_opt (msg_unit_sell_price p) of Inl e \<Rightarrow> Inl e | Inr price \<Rightarrow>
     (case (case msg_currency p of None \<Rightarrow> Inr None
            | Some c \<Rightarrow> (case char3 c of Inl e \<Rightarrow> Inl e | Inr c' \<Rightarrow> Inr (Some c'))) of
        Inl e \<Rightarrow> Inl e
      | Inr cur \<Rightarrow>
      if \<not> to_msisdn_chk (msg_to p) then Inl (PgError CheckViolation)
      else if (case msg_billed_segments p of None \<Rightarrow> False | Some n \<Rightarrow> n < 1)
      then Inl (PgError CheckViolation)
      else if new_id \<in> set (map msg_id (sms_messages d)) then Inl (PgError UniqueViolation)
      else if msg_idempotency_key p \<noteq> None \<and> msg_client p \<noteq> None \<and>
        list_ex (\<lambda>m. msg_client m = msg_client p \<and> msg_idempotency_key m = msg_idempotency_key p)
          (sms_messages d)
      then Inl (PgError UniqueViolation)
      else
        let m = \<lparr>msg_id = new_id, msg_client = msg_client p, msg_direction = msg_direction p,
            msg_from = msg_from p, msg_to = msg_to p, msg_text = msg_text p,
            msg_provider_sms_id = None, msg_provider_status = None, msg_pdu_count = None,
            msg_campaign = msg_campaign p, msg_status = SmsQueued,
            msg_idempotency_key = msg_idempotency_key p, msg_created_at = now,
            msg_accepted_at = None, msg_sent_at = None, msg_delivered_at = None,
            msg_failed_at = None, msg_unit_sell_price = price,
            msg_billed_segments = msg_billed_segments p,
            msg_tariff_plan_id = msg_tariff_plan_id p,
            msg_tariff_plan_code = msg_tariff_plan_code p, msg_currency = cur,
            msg_billing_action = None\<rparr>
        in Inr (m, d\<lparr>sms_messages := sms_messages d @ [m]\<rparr>)))"

definition GetSmsMessageByIdempotency :: "uuid \<Rightarrow> string option \<Rightarrow> db \<Rightarrow> sms_message result" where
  "GetSmsMessageByIdempotency cid key d =
     first_row (filter (\<lambda>m. msg_client m = Some cid \<and> key \<noteq> None \<and> msg_idempotency_key m = key)
       (sms_messages d))"

definition InsertSendJob :: "uuid \<Rightarrow> time \<Rightarrow> uuid \<Rightarrow> uuid option \<Rightarrow> db \<Rightarrow> db result" where
  "InsertSendJob new_id now mid cid d =
     (if new_id \<in> set (map sj_id (send_jobs d)) \<or> mid \<in> set (map sj_message (send_jobs d))
      then Inl (PgError UniqueViolation)
      else Inr (d\<lparr>send_jobs := send_jobs d @
        [\<lparr>sj_id = new_id, sj_message = mid, sj_client = cid, sj_status = JobPending,
          sj_attempt = 0, sj_available_at = now, sj_locked_at = None, sj_locked_by = None,
          sj_last_error = None\<rparr>]\<rparr>))"

definition GetSmsMessageForClient :: "uuid \<Rightarrow> uuid \<Rightarrow> db \<Rightarrow> sms_message result" where
  "GetSmsMessageForClient mid cid d =
     first_row (filter (\<lambda>m. msg_id m = mid \<and> msg_client m = Some cid) (sms_messages d))"

definition ListSmsMessagesForClient ::
    "uuid \<Rightarrow> sms_direction option \<Rightarrow> bool \<Rightarrow> nat \<Rightarrow> nat \<Rightarrow> db \<Rightarrow> sms_message list" where
  "ListSmsMessagesForClient cid dir onlyDirect offset limit d =
     take limit (drop offset (sort_key (\<lambda>m. - msg_created_at m)
       (filter (\<lambda>m. msg_client m = Some cid \<and> (dir = None \<or> dir = Some (msg_direction m)) \<and>
          (\<not> onlyDirect \<or> msg_campaign m = None)) (sms_messages d))))"

section \<open>Enqueueing\<close>

definition maxTextRunes :: nat where
  "maxTextRunes = 1000"

record enqueue_input =
  ei_client :: uuid
  ei_from :: string
  ei_to :: string
  ei_text :: string
  ei_key :: "string option"
  ei_campaign :: "uuid option"

text \<open>\<open>err.Error()\<close> of the errors of the \<open>msisdn\<close> package.\<close>

fun error_text :: "goerr \<Rightarrow> string" where
  "error_text (Plain s) = s"
| "error_text _ = []"

text \<open>
  The checks before the transaction. \<open>dirs\<close> is the direction policy: absent, failing, or
  whether international messages may be sent.
\<close>

definition enqueue_checks ::
    "bool result option \<Rightarrow> enqueue_input \<Rightarrow> db \<Rightarrow> (string \<times> dest \<times> string) result" where
  "enqueue_checks dirs i d =
     (case NormalizeSender (ei_from i) of
        Inl e \<Rightarrow> Inl (Fmt MessagingErrValidation (''from: '' @ error_text e))
      | Inr from \<Rightarrow>
     (case NormalizeDest (ei_to i) of
        Inl e \<Rightarrow> Inl (Fmt MessagingErrValidation (''to: '' @ error_text e))
      | Inr dst \<Rightarrow>
      let text = TrimSpace (ei_text i) in
      if text = [] then Inl (Fmt MessagingErrValidation ''text required'')
      else if RuneCountInString text > maxTextRunes
      then Inl (Fmt MessagingErrValidation ''text too long'')
      else if International dst \<and> \<not> (case dirs of Some (Inr intOut) \<Rightarrow> intOut | _ \<Rightarrow> False)
      then Inl (Sentinel MessagingErrInternationalOff)
      else
     (case GetAssignedNumberForClient from (ei_client i) d of
        Inl _ \<Rightarrow> Inl (Sentinel MessagingErrNotAssigned)
      | Inr _ \<Rightarrow> Inr (from, dst, text))))"

definition isUniqueViolation :: "goerr \<Rightarrow> bool" where
  "isUniqueViolation e = (e = PgError UniqueViolation)"

definition enqueue_params ::
    "enqueue_input \<Rightarrow> string \<Rightarrow> dest \<Rightarrow> string \<Rightarrow> estimate \<Rightarrow> sms_message" where
  "enqueue_params i from dst text est =
     \<lparr>msg_id = [], msg_client = Some (ei_client i), msg_direction = Outbound, msg_from = from,
      msg_to = MSISDN dst, msg_text = text, msg_provider_sms_id = None,
      msg_provider_status = None, msg_pdu_count = None, msg_campaign = ei_campaign i,
      msg_status = SmsQueued, msg_idempotency_key = ei_key i, msg_created_at = 0,
      msg_accepted_at = None, msg_sent_at = None, msg_delivered_at = None, msg_failed_at = None,
      msg_unit_sell_price = Some (es_unit_sell_price est),
      msg_billed_segments = Some (sint (word_of_int (es_segments est) :: int32)),
      msg_tariff_plan_id = Some (es_tariff_plan_id est),
      msg_tariff_plan_code = Some (es_tariff_plan_code est),
      msg_currency = Some (es_currency est), msg_billing_action = None\<rparr>"

text \<open>
  \<open>enqueue\<close> with the transaction it runs in: \<open>d\<close> is what the transaction sees, \<open>pool\<close> what a
  query outside it sees (\<open>Estimate\<close> reads through the pool). \<open>ids\<close> are the ids generated for
  the message, the job and the hold; \<open>bill\<close> says whether the billing service is there.
\<close>

record enqueue_ids =
  id_message :: uuid
  id_job :: uuid
  id_hold :: uuid

definition enqueue ::
    "enqueue_ids \<Rightarrow> time \<Rightarrow> bool result option \<Rightarrow> bool \<Rightarrow> enqueue_input \<Rightarrow> db \<Rightarrow> db \<Rightarrow>
     sms_message result \<times> pgtx" where
  "enqueue ids now dirs bill i pool d =
     (case enqueue_checks dirs i d of Inl e \<Rightarrow> (Inl e, Live d) | Inr (from, dst, text) \<Rightarrow>
      if \<not> bill then (Inl (Fmt MessagingErrValidation ''billing unavailable''), Live d) else
     (case Estimate now (ei_client i) dst text pool of Inl e \<Rightarrow> (Inl e, Live d) | Inr est \<Rightarrow>
     (case InsertSmsMessage (id_message ids) now (enqueue_params i from dst text est) d of
        Inl e \<Rightarrow>
          (let t = after_error e d in
           if ei_key i \<noteq> None \<and> isUniqueViolation e then
             (case tx_read (GetSmsMessageByIdempotency (ei_client i) (ei_key i)) t of
                Inl _ \<Rightarrow> (Inl e, t)
              | Inr existing \<Rightarrow>
                  if msg_unit_sell_price existing = None
                  then (Inl (Sentinel BillingErrPriceSnapshotMissing), t)
                  else
                    (case tx_write (\<lambda>d. ReserveForMessage (id_hold ids) now (Some d) existing) t of
                       (Inl e', t') \<Rightarrow> (Inl e', t') | (Inr _, t') \<Rightarrow> (Inr existing, t')))
           else (Inl e, t))
      | Inr (msg, d1) \<Rightarrow>
     (case InsertSendJob (id_job ids) now (msg_id msg) (Some (ei_client i)) d1 of
        Inl e \<Rightarrow> (Inl e, after_error e d1)
      | Inr d2 \<Rightarrow>
     (case ReserveForMessage (id_hold ids) now (Some d2) msg of
        Inl e \<Rightarrow> (Inl e, after_error e d2)
      | Inr d3 \<Rightarrow> (Inr msg, Live d3))))))"

definition EnqueueWith ::
    "enqueue_ids \<Rightarrow> time \<Rightarrow> bool result option \<Rightarrow> bool \<Rightarrow> enqueue_input \<Rightarrow> db \<Rightarrow> db \<Rightarrow>
     sms_message result \<times> pgtx" where
  "EnqueueWith ids now dirs bill i pool d = enqueue ids now dirs bill i pool d"

text \<open>\<open>Enqueue\<close> opens and commits its own transaction; an error rolls it back.\<close>

definition Enqueue ::
    "enqueue_ids \<Rightarrow> time \<Rightarrow> bool result option \<Rightarrow> bool \<Rightarrow> enqueue_input \<Rightarrow> db \<Rightarrow>
     (sms_message \<times> db) result" where
  "Enqueue ids now dirs bill i d =
     (case enqueue ids now dirs bill i d d of
        (Inl e, _) \<Rightarrow> Inl e
      | (Inr msg, t) \<Rightarrow> (case tx_commit t of Inl e \<Rightarrow> Inl e | Inr d' \<Rightarrow> Inr (msg, d')))"

definition GetForClient :: "uuid \<Rightarrow> uuid \<Rightarrow> db \<Rightarrow> sms_message result" where
  "GetForClient cid mid d =
     (case GetSmsMessageForClient mid cid d of
        Inl e \<Rightarrow> Inl (if e = NoRows then Sentinel MessagingErrNotFound else e) | Inr m \<Rightarrow> Inr m)"

record list_filter =
  lf_direction :: "sms_direction option"
  lf_only_direct :: bool
  lf_limit :: int
  lf_offset :: int

definition ListForClient :: "uuid \<Rightarrow> list_filter \<Rightarrow> db \<Rightarrow> sms_message list" where
  "ListForClient cid f d =
     (let limit = (if lf_limit f \<le> 0 \<or> lf_limit f > 100 then 50 else lf_limit f);
          offset = (if lf_offset f < 0 then 0 else lf_offset f)
      in ListSmsMessagesForClient cid (lf_direction f) (lf_only_direct f) (nat offset) (nat limit) d)"

section \<open>Matching with the provider's statistic\<close>

record statistic_row =
  st_sms_id :: string
  st_date :: string
  st_sender :: string
  st_receiver :: string
  st_message :: string
  st_incoming :: bool
  st_pdu :: int
  st_sent :: bool
  st_delivered :: bool

text \<open>The loop of \<open>MatchStatistic\<close>, with the two slices it builds; \<open>used\<close> lists the keys of the map.\<close>

fun match_loop ::
    "string \<Rightarrow> string \<Rightarrow> string \<Rightarrow> string list \<Rightarrow> statistic_row list \<Rightarrow>
     statistic_row list \<Rightarrow> statistic_row list \<Rightarrow> statistic_row list \<times> statistic_row list" where
  "match_loop wantFrom wantTo wantText used [] exact blank = (exact, blank)"
| "match_loop wantFrom wantTo wantText used (row # rows) exact blank =
     (if st_incoming row \<or> Canonical (st_sender row) \<noteq> wantFrom
        \<or> Canonical (st_receiver row) \<noteq> wantTo
        \<or> st_sms_id row \<noteq> [] \<and> st_sms_id row \<in> set used
      then match_loop wantFrom wantTo wantText used rows exact blank
      else
        let msg = TrimSpace (st_message row) in
        if msg \<noteq> [] then
          if msg \<noteq> wantText then match_loop wantFrom wantTo wantText used rows exact blank
          else match_loop wantFrom wantTo wantText used rows (exact @ [row]) blank
        else match_loop wantFrom wantTo wantText used rows exact (blank @ [row]))"

definition MatchStatistic ::
    "string \<Rightarrow> string \<Rightarrow> string \<Rightarrow> statistic_row list \<Rightarrow> string list \<Rightarrow> statistic_row option" where
  "MatchStatistic from to text rows used =
     (case match_loop (Canonical from) (Canonical to) (TrimSpace text) used rows [] [] of
        (exact, blank) \<Rightarrow>
          if length exact > 0 then Some (exact ! 0)
          else if length blank = 1 \<and> st_sms_id (blank ! 0) \<noteq> [] then Some (blank ! 0)
          else None)"

section \<open>The transaction of a message\<close>

lemma billing_money_opt_money: "billing_money_opt x = Inr (Some y) \<Longrightarrow> is_money y"
  by (auto simp: billing_money_opt_def split: option.splits sum.splits dest: billing_money_is_money)

lemma InsertSmsMessage_OK:
  assumes "InsertSmsMessage i now p d = Inr (m, d')"
  shows "d' = d\<lparr>sms_messages := sms_messages d @ [m]\<rparr>" "msg_id m = i" "i \<notin> msg_id ` set (sms_messages d)"
    "msg_client m = msg_client p" "msg_from m = msg_from p" "msg_to m = msg_to p" "msg_text m = msg_text p"
    "msg_status m = SmsQueued" "msg_billed_segments m = msg_billed_segments p"
    "msg_idempotency_key m = msg_idempotency_key p" "msg_campaign m = msg_campaign p"
    "to_msisdn_chk (msg_to m)" "billing_money_opt (msg_unit_sell_price p) = Inr (msg_unit_sell_price m)"
    "msg_billing_action m = None" "msg_direction m = msg_direction p"
  using assms by (auto simp: InsertSmsMessage_def Let_def split: sum.splits if_splits)

lemma InsertSmsMessage_keeps:
  assumes i: "InsertSmsMessage i now p d = Inr (m, d')" and inv: "db_ok d"
  shows "db_ok d'"
proof -
  note I = InsertSmsMessage_OK [OF i] and D = db_okD [OF inv]
  have "tx_sms_message h \<noteq> Some i" if "h \<in> set (wallet_txs d)" for h
    using D(2) I(3) that by (auto simp: links_ok_def)
  then have "links_ok d'" using D(2) I(1-3) by (auto simp: links_ok_def)
  moreover have "prices_ok d'"
    using D(3) I(1) I(13) by (auto simp: prices_ok_def dest: billing_money_opt_money)
  ultimately show ?thesis using D(1) I(1) by (simp add: db_ok_def)
qed

lemma InsertSendJob_OK:
  assumes "InsertSendJob i now mid cid d = Inr d'"
  obtains j where "d' = d\<lparr>send_jobs := send_jobs d @ [j]\<rparr>" "sj_id j = i" "sj_message j = mid"
    "sj_client j = cid" "sj_status j = JobPending" "sj_attempt j = 0" "sj_locked_by j = None"
    "i \<notin> sj_id ` set (send_jobs d)" "mid \<notin> sj_message ` set (send_jobs d)"
  using assms by (auto simp: InsertSendJob_def split: if_splits)

lemma db_ok_send_jobs [simp]: "db_ok (d\<lparr>send_jobs := js\<rparr>) = db_ok d"
  by (simp add: db_ok_def links_ok_def prices_ok_def)

lemma enqueue_checks_OK:
  assumes "enqueue_checks dirs i d = Inr (frm, dst, body)"
  shows "NormalizeSender (ei_from i) = Inr frm" "NormalizeDest (ei_to i) = Inr dst"
    "body = TrimSpace (ei_text i)" "body \<noteq> []" "RuneCountInString body \<le> maxTextRunes"
    "International dst \<Longrightarrow> dirs = Some (Inr True)"
    "\<exists>n. GetAssignedNumberForClient frm (ei_client i) d = Inr n"
  using assms
  by (auto simp: enqueue_checks_def Let_def split: sum.splits if_splits option.splits)

text \<open>What a successful call has done: the recovery branch never contributes.\<close>

lemma enqueue_OK:
  assumes "enqueue ids now dirs bill i pool d = (Inr m, t)"
  obtains frm dst body est d1 d2 d3 where "t = Live d3" "enqueue_checks dirs i d = Inr (frm, dst, body)"
    "Estimate now (ei_client i) dst body pool = Inr est"
    "InsertSmsMessage (id_message ids) now (enqueue_params i frm dst body est) d = Inr (m, d1)"
    "InsertSendJob (id_job ids) now (msg_id m) (Some (ei_client i)) d1 = Inr d2"
    "ReserveForMessage (id_hold ids) now (Some d2) m = Inr d3"
  using assms
  by (auto simp: enqueue_def Let_def isUniqueViolation_def after_error_def tx_read_def
      split: sum.splits prod.splits if_splits goerr.splits)

lemma Enqueue_OK:
  assumes "Enqueue ids now dirs bill i d = Inr (m, d')"
  shows "enqueue ids now dirs bill i d d = (Inr m, Live d')"
  using assms by (auto simp: Enqueue_def tx_commit_def split: sum.splits prod.splits pgtx.splits)

lemma enqueue_keeps:
  assumes "enqueue ids now dirs bill i pool d = (Inr m, Live d')" and "db_ok d"
  shows "db_ok d'"
  using assms(1)
proof (rule enqueue_OK)
  fix frm dst body est d1 d2 d3
  assume "Live d' = Live d3"
    and m: "InsertSmsMessage (id_message ids) now (enqueue_params i frm dst body est) d = Inr (m, d1)"
    and j: "InsertSendJob (id_job ids) now (msg_id m) (Some (ei_client i)) d1 = Inr d2"
    and r: "ReserveForMessage (id_hold ids) now (Some d2) m = Inr d3"
  have "db_ok d1" by (rule InsertSmsMessage_keeps [OF m assms(2)])
  moreover from j obtain k where d2: "d2 = d1\<lparr>send_jobs := send_jobs d1 @ [k]\<rparr>" by (rule InsertSendJob_OK)
  moreover have "m \<in> set (sms_messages d2)" using d2 InsertSmsMessage_OK(1) [OF m] by simp
  ultimately show ?thesis using ReserveForMessage_keeps [OF r] \<open>Live d' = Live d3\<close> by simp
qed

lemma holds_of_fresh:
  assumes "db_ok d" "mid \<notin> msg_id ` set (sms_messages d)"
  shows "holds_of mid d = []" "\<not> tx_posted cid (HoldKey mid) d"
proof -
  have fresh: "tx_sms_message t \<noteq> Some mid" if "t \<in> set (wallet_txs d)" for t
    using db_okD(2) [OF assms(1)] assms(2) that unfolding links_ok_def by blast
  then show "holds_of mid d = []" by (simp add: holds_of_def filter_empty_conv)
  show "\<not> tx_posted cid (HoldKey mid) d"
  proof
    assume "tx_posted cid (HoldKey mid) d"
    from tx_posted_row [OF this] hold_key_row(2) [OF assms(1)] fresh show False by blast
  qed
qed

lemma Estimate_OK:
  assumes "Estimate now cid dst body d = Inr est"
  shows "es_segments est = int (SegmentCount body)" "0 < es_unit_sell_price est"
proof -
  from assms obtain t where "ResolveTariff now cid (ProductForDest dst) d = Inr t"
    "es_segments est = int (SegmentCount body)" "es_unit_sell_price est = rt_sell_price t"
    by (auto simp: Estimate_def Let_def split: sum.splits)
  then show "es_segments est = int (SegmentCount body)" "0 < es_unit_sell_price est"
    by (auto elim: ResolveTariff_OK)
qed

lemma enqueue_segments:
  assumes "enqueue_checks dirs i d = Inr (frm, dst, body)" "Estimate now cid dst body pool = Inr est"
  shows "sint (word_of_int (es_segments est) :: int32) = int (SegmentCount body)"
proof -
  from SegmentCount_le [of body maxTextRunes] enqueue_checks_OK(5) [OF assms(1)]
  have "SegmentCount body \<le> 31" by (simp add: maxTextRunes_def)
  then show ?thesis
    unfolding Estimate_OK(1) [OF assms(2)] by (intro sint_of_int_small) simp_all
qed

lemma enqueue_effect:
  assumes e: "enqueue ids now dirs bill i pool d = (Inr m, Live d')" and inv: "db_ok d"
    and live: "\<not> clientDeleted (ei_client i) d"
  obtains j h ws price where
    "d' = d\<lparr>sms_messages := sms_messages d @ [m], send_jobs := send_jobs d @ [j], wallets := ws,
       wallet_txs := wallet_txs d @ [h]\<rparr>"
    "msg_client m = Some (ei_client i)" "msg_status m = SmsQueued" "msg_unit_sell_price m = Some price"
    "msg_billed_segments m = Some (int (SegmentCount (msg_text m)))"
    "msg_idempotency_key m = ei_key i"
    "sj_message j = msg_id m" "sj_status j = JobPending" "sj_attempt j = 0" "sj_locked_by j = None"
    "tx_type h = HOLD" "tx_sms_message h = Some (msg_id m)"
    "tx_amount h = price * of_nat (SegmentCount (msg_text m))" "0 < tx_amount h"
  using e
proof (rule enqueue_OK)
  fix frm dst body est d1 d2 d3
  assume C: "Live d' = Live d3" "enqueue_checks dirs i d = Inr (frm, dst, body)"
      "Estimate now (ei_client i) dst body pool = Inr est"
    and m: "InsertSmsMessage (id_message ids) now (enqueue_params i frm dst body est) d = Inr (m, d1)"
    and j: "InsertSendJob (id_job ids) now (msg_id m) (Some (ei_client i)) d1 = Inr d2"
    and r: "ReserveForMessage (id_hold ids) now (Some d2) m = Inr d3"
  note M = InsertSmsMessage_OK [OF m]
  from j obtain k where k: "d2 = d1\<lparr>send_jobs := send_jobs d1 @ [k]\<rparr>" "sj_message k = msg_id m"
    "sj_status k = JobPending" "sj_attempt k = 0" "sj_locked_by k = None" by (rule InsertSendJob_OK)
  have inv2: "db_ok d2" using InsertSmsMessage_keeps [OF m inv] k(1) by simp
  have mem: "m \<in> set (sms_messages d2)" using k(1) M(1) by simp
  have cl: "msg_client m = Some (ei_client i)" using M(4) by (simp add: enqueue_params_def)
  have live2: "\<not> clientDeleted (ei_client i) d2"
    using live k(1) M(1) by (simp add: clientDeleted_def GetClientByID_def)
  have "holds_of (msg_id m) d2 = []" "\<not> tx_posted (ei_client i) (HoldKey (msg_id m)) d2"
    using holds_of_fresh [OF inv M(3)] k(1) M(1,2)
    by (auto simp: holds_of_def tx_posted_def GetWalletTxByIdempotency_def)
  from ReserveForMessage_fresh [OF inv2 mem cl live2 this(1) r this(2)] show ?thesis
  proof cases
    case (1 price segs w ws t)
    have "msg_billed_segments m = Some (int (SegmentCount body))" "msg_text m = body"
      using M(7,9) enqueue_segments [OF C(2,3)] by (simp_all add: enqueue_params_def)
    with 1 have "segs = int (SegmentCount (msg_text m))" by simp
    then show ?thesis using 1 C(1) k M cl
      by (intro that [where j = k and h = t and ws = ws and price = price]) (simp_all add: enqueue_params_def)
  qed
qed

section \<open>The matching\<close>

definition candidate :: "string \<Rightarrow> string \<Rightarrow> string list \<Rightarrow> statistic_row \<Rightarrow> bool" where
  "candidate wantFrom wantTo used row =
     (\<not> st_incoming row \<and> Canonical (st_sender row) = wantFrom \<and> Canonical (st_receiver row) = wantTo
      \<and> (st_sms_id row = [] \<or> st_sms_id row \<notin> set used))"

lemma match_loop_filters:
  "match_loop f t x used rows es bs =
   (es @ filter (\<lambda>r. candidate f t used r \<and> TrimSpace (st_message r) \<noteq> [] \<and> TrimSpace (st_message r) = x) rows,
    bs @ filter (\<lambda>r. candidate f t used r \<and> TrimSpace (st_message r) = []) rows)"
  by (induction rows arbitrary: es bs) (auto simp: candidate_def Let_def)

end
