(* ===== verification/Outbox.thy ===== *)
theory Outbox
  imports Messaging "HOL-Library.List_Lexorder" "HOL-Library.Char_ord"
begin

text \<open>
  \<open>internal/outbox/worker.go\<close>: the worker that takes send jobs, posts the messages to the
  provider and settles their price, with the SQL of \<open>internal/db/queries/outbox.sql\<close>. Each
  statement commits on its own. What the provider, the rate limiter and the settings
  answer during one call is an argument (\<open>outbox_env\<close>).
\<close>

section \<open>Queries on jobs\<close>

definition waiting :: "send_job_status \<Rightarrow> bool" where
  "waiting st = (st \<in> {JobPending, JobRetry, JobUncertain})"

definition claimable :: "time \<Rightarrow> db \<Rightarrow> send_job \<Rightarrow> bool" where
  "claimable now d j =
     (waiting (sj_status j) \<and> sj_available_at j \<le> now \<and>
      (case sj_client j of None \<Rightarrow> True
       | Some cid \<Rightarrow> list_ex (\<lambda>c. cl_id c = cid \<and> cl_status c = ClientActive) (clients d)))"

definition claim_rank :: "send_job_status \<Rightarrow> nat" where
  "claim_rank st = (case st of JobUncertain \<Rightarrow> 0 | JobRetry \<Rightarrow> 1 | _ \<Rightarrow> 2)"

text \<open>The clients with a claimable job, by their oldest one, at most \<open>limit\<close> of them.\<close>

definition claim_clients :: "time \<Rightarrow> nat \<Rightarrow> db \<Rightarrow> uuid option list" where
  "claim_clients now limit d =
     (let js = filter (claimable now d) (send_jobs d) in
      take limit (sort_key (\<lambda>c. Min (set (map sj_available_at (filter (\<lambda>j. sj_client j = c) js))))
        (remdups (map sj_client js))))"

text \<open>The job of one client that is taken: by rank of the status, then by age, then by id.\<close>

definition claim_of :: "time \<Rightarrow> db \<Rightarrow> uuid option \<Rightarrow> send_job list" where
  "claim_of now d c =
     take 1 (sort_key (\<lambda>j. claim_rank (sj_status j)) (sort_key sj_available_at (sort_key sj_id
       (filter (\<lambda>j. sj_client j = c \<and> claimable now d j) (send_jobs d)))))"

definition ClaimSendJobsFair :: "string \<Rightarrow> nat \<Rightarrow> time \<Rightarrow> db \<Rightarrow> send_job list \<times> db" where
  "ClaimSendJobsFair wid limit now d =
     (let ids = map sj_id (concat (map (claim_of now d) (claim_clients now limit d)));
          f = (\<lambda>j. j\<lparr>sj_status := JobProcessing, sj_locked_at := Some now, sj_locked_by := Some wid\<rparr>)
      in (map f (filter (\<lambda>j. sj_id j \<in> set ids) (send_jobs d)),
          d\<lparr>send_jobs := update_where (\<lambda>j. sj_id j \<in> set ids) f (send_jobs d)\<rparr>))"

text \<open>The condition of the statements that need the lock of the worker on the job.\<close>

definition owned :: "uuid \<Rightarrow> string \<Rightarrow> send_job \<Rightarrow> bool" where
  "owned jid wid j = (sj_id j = jid \<and> sj_status j = JobProcessing \<and> sj_locked_by j = Some wid)"

definition TouchSendJobLock :: "uuid \<Rightarrow> string \<Rightarrow> time \<Rightarrow> db \<Rightarrow> db result" where
  "TouchSendJobLock jid wid now d =
     (if list_ex (owned jid wid) (send_jobs d)
      then Inr (d\<lparr>send_jobs := update_where (owned jid wid) (\<lambda>j. j\<lparr>sj_locked_at := Some now\<rparr>)
                  (send_jobs d)\<rparr>)
      else Inl NoRows)"

definition CompleteSendJob :: "uuid \<Rightarrow> string \<Rightarrow> db \<Rightarrow> nat \<times> db" where
  "CompleteSendJob jid wid d =
     (length (filter (owned jid wid) (send_jobs d)),
      d\<lparr>send_jobs := update_where (owned jid wid)
          (\<lambda>j. j\<lparr>sj_status := JobDone, sj_locked_at := None, sj_locked_by := None,
               sj_last_error := None\<rparr>) (send_jobs d)\<rparr>)"

definition ParkSendJob ::
    "send_job_status \<Rightarrow> int \<Rightarrow> time \<Rightarrow> string option \<Rightarrow> uuid \<Rightarrow> string \<Rightarrow> db \<Rightarrow> nat \<times> db" where
  "ParkSendJob st attempt avail_at err jid wid d =
     (length (filter (owned jid wid) (send_jobs d)),
      d\<lparr>send_jobs := update_where (owned jid wid)
          (\<lambda>j. j\<lparr>sj_status := st, sj_attempt := attempt, sj_available_at := avail_at,
               sj_locked_at := None, sj_locked_by := None, sj_last_error := err\<rparr>) (send_jobs d)\<rparr>)"

definition needStat :: string where "needStat = ''uncertain:need_stat''"
definition needRetry :: string where "needRetry = ''uncertain:need_retry''"

definition stale_job :: "time \<Rightarrow> send_job \<Rightarrow> bool" where
  "stale_job before j =
     (sj_status j = JobProcessing \<and> (case sj_locked_at j of None \<Rightarrow> False | Some t \<Rightarrow> t < before))"

definition ReclaimStaleSendJobs :: "time \<Rightarrow> time \<Rightarrow> db \<Rightarrow> db" where
  "ReclaimStaleSendJobs before now d =
     d\<lparr>send_jobs := update_where (stale_job before)
         (\<lambda>j. j\<lparr>sj_status := JobUncertain, sj_last_error := Some needStat,
              sj_attempt := max (sj_attempt j) 1, sj_locked_at := None, sj_locked_by := None,
              sj_available_at := now\<rparr>) (send_jobs d)\<rparr>"

definition InsertSendAttempt :: "send_attempt \<Rightarrow> db \<Rightarrow> db" where
  "InsertSendAttempt a d = d\<lparr>send_attempts := send_attempts d @ [a]\<rparr>"

definition GetLatestSendAttempt :: "uuid \<Rightarrow> db \<Rightarrow> send_attempt result" where
  "GetLatestSendAttempt jid d =
     first_row (sort_key (\<lambda>a. - sa_attempt a) (sort_key (\<lambda>a. - sa_created_at a)
       (filter (\<lambda>a. sa_job a = jid) (send_attempts d))))"

section \<open>Queries on messages\<close>

text \<open>The partial unique index on \<open>provider_sms_id\<close>: another message has the id already.\<close>

definition provider_id_taken :: "uuid \<Rightarrow> string option \<Rightarrow> db \<Rightarrow> bool" where
  "provider_id_taken mid pid d =
     (pid \<noteq> None \<and> list_ex (\<lambda>m. msg_id m \<noteq> mid \<and> msg_provider_sms_id m = pid) (sms_messages d))"

definition accept_message :: "time \<Rightarrow> string option \<Rightarrow> int option \<Rightarrow> sms_message \<Rightarrow> sms_message" where
  "accept_message now pid pdu m =
     m\<lparr>msg_status := SmsAccepted, msg_provider_sms_id := coalesce pid (msg_provider_sms_id m),
       msg_pdu_count := coalesce pdu (msg_pdu_count m),
       msg_accepted_at := coalesce (msg_accepted_at m) (Some now)\<rparr>"

definition UpdateSmsMessageAccepted ::
    "time \<Rightarrow> string option \<Rightarrow> int option \<Rightarrow> uuid \<Rightarrow> db \<Rightarrow> db result" where
  "UpdateSmsMessageAccepted now pid pdu mid d =
     (let hit = (\<lambda>m. msg_id m = mid \<and> msg_status m \<in> {SmsQueued, SmsAccepted}) in
      if \<not> list_ex hit (sms_messages d) then Inl NoRows
      else if provider_id_taken mid pid d then Inl (PgError UniqueViolation)
      else Inr (d\<lparr>sms_messages := update_where hit (accept_message now pid pdu) (sms_messages d)\<rparr>))"

definition fail_message :: "time \<Rightarrow> string option \<Rightarrow> sms_message \<Rightarrow> sms_message" where
  "fail_message now st m =
     m\<lparr>msg_status := SmsFailed, msg_provider_status := st,
       msg_failed_at := coalesce (msg_failed_at m) (Some now)\<rparr>"

definition UpdateSmsMessageFailed :: "time \<Rightarrow> string option \<Rightarrow> uuid \<Rightarrow> db \<Rightarrow> db result" where
  "UpdateSmsMessageFailed now st mid d =
     (let hit = (\<lambda>m. msg_id m = mid \<and> msg_status m \<in> {SmsQueued, SmsAccepted, SmsSent}) in
      if \<not> list_ex hit (sms_messages d) then Inl NoRows
      else Inr (d\<lparr>sms_messages := update_where hit (fail_message now st) (sms_messages d)\<rparr>))"

definition statistic_message ::
    "time \<Rightarrow> string option \<Rightarrow> string option \<Rightarrow> int option \<Rightarrow> bool \<Rightarrow> bool \<Rightarrow> sms_message \<Rightarrow> sms_message" where
  "statistic_message now pid st pdu delivered sent m =
     m\<lparr>msg_provider_sms_id := coalesce (msg_provider_sms_id m) pid,
       msg_provider_status := coalesce st (msg_provider_status m),
       msg_pdu_count := coalesce pdu (msg_pdu_count m),
       msg_status := (if delivered then SmsDelivered else if sent then SmsSent else msg_status m),
       msg_accepted_at := coalesce (msg_accepted_at m) (Some now),
       msg_sent_at := (if sent \<or> delivered then coalesce (msg_sent_at m) (Some now) else msg_sent_at m),
       msg_delivered_at :=
         (if delivered then coalesce (msg_delivered_at m) (Some now) else msg_delivered_at m)\<rparr>"

definition UpdateSmsMessageFromStatistic ::
    "time \<Rightarrow> string option \<Rightarrow> string option \<Rightarrow> int option \<Rightarrow> bool \<Rightarrow> bool \<Rightarrow> uuid \<Rightarrow> db \<Rightarrow> db result" where
  "UpdateSmsMessageFromStatistic now pid st pdu delivered sent mid d =
     (let hit = (\<lambda>m. msg_id m = mid \<and> msg_status m \<in> {SmsQueued, SmsAccepted, SmsSent}) in
      if \<not> list_ex hit (sms_messages d) then Inl NoRows
      else if list_ex (\<lambda>m. hit m \<and> msg_provider_sms_id m = None) (sms_messages d)
        \<and> provider_id_taken mid pid d
      then Inl (PgError UniqueViolation)
      else Inr (d\<lparr>sms_messages := update_where hit (statistic_message now pid st pdu delivered sent)
                  (sms_messages d)\<rparr>))"

definition ListStaleOutbound :: "time \<Rightarrow> nat \<Rightarrow> db \<Rightarrow> sms_message list" where
  "ListStaleOutbound before limit d =
     take limit (sort_key msg_created_at
       (filter (\<lambda>m. msg_direction m = Outbound \<and> msg_status m \<in> {SmsAccepted, SmsSent}
          \<and> msg_created_at m < before) (sms_messages d)))"

definition GetOpenAssignmentByMSISDN :: "string \<Rightarrow> db \<Rightarrow> number_assignment result" where
  "GetOpenAssignmentByMSISDN msisdn d =
     first_row (concat (map (\<lambda>n. filter (\<lambda>a. na_number a = dn_id n \<and> na_unassigned_at a = None)
         (number_assignments d)) (filter (\<lambda>n. dn_msisdn n = msisdn) (def_numbers d))))"

definition InsertInboundMessage ::
    "uuid \<Rightarrow> time \<Rightarrow> uuid option \<Rightarrow> string \<Rightarrow> string \<Rightarrow> string \<Rightarrow> string option \<Rightarrow> int option \<Rightarrow> db \<Rightarrow>
     (sms_message \<times> db) result" where
  "InsertInboundMessage new_id now cid frm to body pid pdu d =
     (if \<not> to_msisdn_chk to then Inl (PgError CheckViolation)
      else if pid \<noteq> None \<and> list_ex (\<lambda>m. msg_provider_sms_id m = pid) (sms_messages d) then Inl NoRows
      else if new_id \<in> set (map msg_id (sms_messages d)) then Inl (PgError UniqueViolation)
      else
        let m = \<lparr>msg_id = new_id, msg_client = cid, msg_direction = Inbound, msg_from = frm,
            msg_to = to, msg_text = body, msg_provider_sms_id = pid, msg_provider_status = None,
            msg_pdu_count = pdu, msg_campaign = None, msg_status = SmsDelivered,
            msg_idempotency_key = None, msg_created_at = now, msg_accepted_at = Some now,
            msg_sent_at = None, msg_delivered_at = Some now, msg_failed_at = None,
            msg_unit_sell_price = None, msg_billed_segments = None, msg_tariff_plan_id = None,
            msg_tariff_plan_code = None, msg_currency = None, msg_billing_action = None\<rparr>
        in Inr (m, d\<lparr>sms_messages := sms_messages d @ [m]\<rparr>))"

section \<open>Provider answers\<close>

text \<open>
  The errors of the provider client as \<open>classify\<close> sees them: credentials missing, an
  \<open>APIError\<close> with its HTTP status and text, a timeout, any other error.
\<close>

datatype rx_err = RxNotConfigured | RxAPI int string | RxTimeout string | RxOther string

fun HTTPStatus :: "rx_err \<Rightarrow> int" where
  "HTTPStatus (RxAPI st _) = st"
| "HTTPStatus _ = 0"

fun IsTimeout :: "rx_err \<Rightarrow> bool" where
  "IsTimeout (RxTimeout _) = True"
| "IsTimeout _ = False"

fun rx_text :: "rx_err \<Rightarrow> string" where
  "rx_text RxNotConfigured = ''runexis credentials not configured''"
| "rx_text (RxAPI _ s) = s"
| "rx_text (RxTimeout s) = s"
| "rx_text (RxOther s) = s"

record send_result =
  sr_provider_sms_id :: string
  sr_raw :: string

definition classify :: "rx_err option \<Rightarrow> send_attempt_kind \<times> int" where
  "classify err =
     (case err of None \<Rightarrow> (KindAccepted, 200) | Some e \<Rightarrow>
      let st = HTTPStatus e in
      if st = 429 then (KindRateLimited, st)
      else if st \<ge> 400 \<and> st < 500 then (KindRejected4xx, st)
      else if st \<ge> 500 then (Kind5xx, st)
      else if IsTimeout e then (KindTimeout, st)
      else if st = 0 then (KindTimeout, 0)
      else (Kind5xx, st))"

definition Classify :: "rx_err option \<Rightarrow> send_attempt_kind" where
  "Classify err = fst (classify err)"

section \<open>Constants and pure decisions\<close>

definition maxUncertainSends :: int where "maxUncertainSends = 2"
definition staleProcessing :: time where "staleProcessing = 120 * second"
definition uncertainPause :: time where "uncertainPause = 15 * second"
definition retryAfterStat :: time where "retryAfterStat = 5 * second"
definition claimBatch :: nat where "claimBatch = 8"
definition bodyTruncateRunes :: nat where "bodyTruncateRunes = 2048"
definition reconcileAge :: time where "reconcileAge = 120 * second"
definition inboxStatLimit :: nat where "inboxStatLimit = 50"
definition inboxStatPages :: nat where "inboxStatPages = 20"

definition deref :: "string option \<Rightarrow> string" where
  "deref s = (case s of None \<Rightarrow> [] | Some x \<Rightarrow> x)"

definition needStatistic :: "send_job \<Rightarrow> bool" where
  "needStatistic job =
     (let e = deref (sj_last_error job) in e = needStat \<or> e = needRetry)"

text \<open>\<open>None\<close> is the empty kind \<open>latestAttemptKind\<close> returns when there is no attempt.\<close>

definition allowUncertainRetry :: "int \<Rightarrow> send_attempt_kind option \<Rightarrow> bool" where
  "allowUncertainRetry attempt kind =
     (if attempt \<ge> maxUncertainSends then False else if kind = Some Kind5xx then False else True)"

definition burst :: "rat \<Rightarrow> rat" where
  "burst rate =
     (let rate = (if rate < 1 / 10 then 1 / 10 else rate); b = rate * 2 in if b < 1 then 1 else b)"

text \<open>\<open>time.Duration(attempt) * 2 * time.Second\<close> in 64-bit arithmetic.\<close>

definition backoff429 :: "int32 \<Rightarrow> int64" where
  "backoff429 attempt =
     (let attempt = (if sint attempt < 1 then 1 else attempt);
          d = scast attempt * 2 * 1000000000 :: int64
      in if sint d > 60000000000 then 60000000000 else d)"

definition int32_inc :: "int \<Rightarrow> int" where
  "int32_inc n = sint (word_of_int (n + 1) :: int32)"

definition truncateRunes :: "string \<Rightarrow> nat \<Rightarrow> string" where
  "truncateRunes s n =
     (if RuneCountInString s \<le> n then s else concat (map encode_rune (take n (runes_of s))))"

section \<open>What the provider complained about\<close>

text \<open>\<open>unmarshal\<close> is \<open>json.Unmarshal\<close> into the \<open>message\<close> and \<open>request_id\<close> fields.\<close>

definition extractProviderComplaint ::
    "(string \<Rightarrow> (string \<times> string) option) \<Rightarrow> string \<Rightarrow> string \<times> string" where
  "extractProviderComplaint unmarshal raw =
     (if raw = [] then ([], [])
      else
        let plain = (if HasPrefix raw ''{'' then ([], []) else (raw, [])) in
        (case unmarshal raw of
           Some (message, request_id) \<Rightarrow>
             if message \<noteq> [] \<or> request_id \<noteq> [] then (message, request_id) else plain
         | None \<Rightarrow> plain))"

definition ProviderStatusFromAttempt ::
    "(string \<Rightarrow> (string \<times> string) option) \<Rightarrow> int option \<Rightarrow> string option \<Rightarrow> string" where
  "ProviderStatusFromAttempt unmarshal httpStatus body =
     (let raw = TrimSpace (deref body);
          status = (case httpStatus of None \<Rightarrow> 0 | Some v \<Rightarrow> v);
          (msg, reqID) = extractProviderComplaint unmarshal raw
      in if msg = [] then []
         else
           let msg = TrimPrefix msg ''runexis: '';
               mark = '' (request_id='';
               (msg, reqID) =
                 (case strings_Index msg mark of
                    Some k \<Rightarrow>
                      if k > 0
                      then (take k msg,
                            if reqID = [] then TrimSuffix (drop (k + length mark) msg) '')'' else reqID)
                      else (msg, reqID)
                  | None \<Rightarrow> (msg, reqID));
               out = (if status > 0 then ''runexis http '' @ itoa status @ '': '' @ msg
                      else ''runexis: '' @ msg)
           in if reqID \<noteq> [] \<and> \<not> strings_Contains out reqID then out @ mark @ reqID @ '')'' else out)"

definition providerStatusForJob ::
    "(string \<Rightarrow> (string \<times> string) option) \<Rightarrow> uuid \<Rightarrow> string \<Rightarrow> db \<Rightarrow> string" where
  "providerStatusForJob unmarshal jid fallback d =
     (case GetLatestSendAttempt jid d of
        Inl _ \<Rightarrow> fallback
      | Inr att \<Rightarrow>
          let s = ProviderStatusFromAttempt unmarshal (sa_http_status att) (sa_body att)
          in if s \<noteq> [] then s else fallback)"

section \<open>The worker\<close>

text \<open>
  The state of a worker: the database, the POST requests made so far (the job each was
  for, the newest last), the provider ids seen in this tick and the time of the last
  reconciliation.
\<close>

record ob_state =
  ob_db :: db
  ob_posts :: "uuid list"
  ob_used :: "string list"
  ob_last_rec :: "time option"

text \<open>
  The answers of the surroundings during one call: the adapter and what it answers, the
  settings (\<open>ClientRPSDefault\<close>, \<open>ProviderRPS\<close>), the rate limiter (\<open>None\<close> for an error),
  whether there is a billing service, the redaction of a body and the JSON decoder.
\<close>

record outbox_env =
  oe_worker :: string
  oe_rx :: bool
  oe_send :: "send_result \<times> rx_err option"
  oe_stat :: "rx_err + statistic_row list"
  oe_settings :: "(rat \<times> rat) option"
  oe_limiter :: bool
  oe_allow :: "string \<Rightarrow> rat \<Rightarrow> rat \<Rightarrow> (bool \<times> time) option"
  oe_bill :: bool
  oe_redact :: "string \<Rightarrow> string"
  oe_unmarshal :: "string \<Rightarrow> (string \<times> string) option"

abbreviation on_db :: "(db \<Rightarrow> db) \<Rightarrow> ob_state \<Rightarrow> ob_state" where
  "on_db f s \<equiv> s\<lparr>ob_db := f (ob_db s)\<rparr>"

definition park ::
    "outbox_env \<Rightarrow> time \<Rightarrow> send_job \<Rightarrow> send_job_status \<Rightarrow> int \<Rightarrow> string \<Rightarrow> time \<Rightarrow> ob_state \<Rightarrow>
     bool \<times> ob_state" where
  "park env now job status attempt lastErr delay s =
     (let errp = (if lastErr \<noteq> [] then Some lastErr else None);
          avail_at = (if delay > 0 then now + delay else now);
          (n, d') = ParkSendJob status attempt avail_at errp (sj_id job) (oe_worker env) (ob_db s)
      in (n \<noteq> 0, s\<lparr>ob_db := d'\<rparr>))"

definition complete :: "outbox_env \<Rightarrow> send_job \<Rightarrow> ob_state \<Rightarrow> ob_state" where
  "complete env job s = on_db (\<lambda>d. snd (CompleteSendJob (sj_id job) (oe_worker env) d)) s"

definition touchLock :: "outbox_env \<Rightarrow> time \<Rightarrow> send_job \<Rightarrow> ob_state \<Rightarrow> bool \<times> ob_state" where
  "touchLock env now job s =
     (case TouchSendJobLock (sj_id job) (oe_worker env) now (ob_db s) of
        Inl _ \<Rightarrow> (False, s) | Inr d' \<Rightarrow> (True, s\<lparr>ob_db := d'\<rparr>))"

definition capture :: "outbox_env \<Rightarrow> uuid \<Rightarrow> time \<Rightarrow> uuid \<Rightarrow> ob_state \<Rightarrow> ob_state" where
  "capture env i now mid s =
     (if \<not> oe_bill env then s
      else on_db (\<lambda>d. case CaptureForMessage i now mid d of Inl _ \<Rightarrow> d | Inr d' \<Rightarrow> d') s)"

definition release :: "outbox_env \<Rightarrow> uuid \<Rightarrow> time \<Rightarrow> uuid \<Rightarrow> ob_state \<Rightarrow> ob_state" where
  "release env i now mid s =
     (if \<not> oe_bill env then s
      else on_db (\<lambda>d. case ReleaseForMessage i now mid d of Inl _ \<Rightarrow> d | Inr d' \<Rightarrow> d') s)"

definition noteSMSID :: "string \<Rightarrow> ob_state \<Rightarrow> ob_state" where
  "noteSMSID pid s = (if pid = [] then s else s\<lparr>ob_used := pid # ob_used s\<rparr>)"

text \<open>An update of the message, repeated without the provider id when that id is taken.\<close>

definition markAccepted :: "time \<Rightarrow> uuid \<Rightarrow> string option \<Rightarrow> db \<Rightarrow> db result" where
  "markAccepted now mid pid d =
     (case UpdateSmsMessageAccepted now pid None mid d of
        Inr d' \<Rightarrow> Inr d'
      | Inl e \<Rightarrow>
          if e = NoRows then Inr d
          else if isUniqueViolation e \<and> pid \<noteq> None then
            (case UpdateSmsMessageAccepted now None None mid d of
               Inr d' \<Rightarrow> Inr d' | Inl e' \<Rightarrow> if e' = NoRows then Inr d else Inl e')
          else Inl e)"

definition stat_pdu :: "statistic_row \<Rightarrow> int option" where
  "stat_pdu row = (if st_pdu row > 0 then Some (sint (word_of_int (st_pdu row) :: int32)) else None)"

definition applyStatistic :: "time \<Rightarrow> uuid \<Rightarrow> statistic_row \<Rightarrow> db \<Rightarrow> db result" where
  "applyStatistic now mid row d =
     (let pid = (if st_sms_id row \<noteq> [] then Some (st_sms_id row) else None); pdu = stat_pdu row in
      case UpdateSmsMessageFromStatistic now pid None pdu (st_delivered row) (st_sent row) mid d of
        Inr d' \<Rightarrow> Inr d'
      | Inl e \<Rightarrow>
          if e = NoRows then Inr d
          else if isUniqueViolation e \<and> pid \<noteq> None then
            (case UpdateSmsMessageFromStatistic now None None pdu (st_delivered row) (st_sent row) mid d of
               Inr d' \<Rightarrow> Inr d' | Inl e' \<Rightarrow> if e' = NoRows then Inr d else Inl e')
          else Inl e)"

definition accept ::
    "outbox_env \<Rightarrow> uuid \<Rightarrow> time \<Rightarrow> send_job \<Rightarrow> sms_message \<Rightarrow> string \<Rightarrow> int \<Rightarrow> ob_state \<Rightarrow> ob_state" where
  "accept env i now job msg providerID attempt s =
     (case markAccepted now (msg_id msg) (if providerID \<noteq> [] then Some providerID else None) (ob_db s) of
        Inl _ \<Rightarrow> snd (park env now job JobUncertain attempt needStat uncertainPause s)
      | Inr d1 \<Rightarrow>
          complete env job (noteSMSID providerID (capture env i now (msg_id msg) (s\<lparr>ob_db := d1\<rparr>))))"

definition acceptFromStat ::
    "outbox_env \<Rightarrow> uuid \<Rightarrow> time \<Rightarrow> send_job \<Rightarrow> sms_message \<Rightarrow> statistic_row \<Rightarrow> ob_state \<Rightarrow> ob_state" where
  "acceptFromStat env i now job msg row s0 =
     (let s = noteSMSID (st_sms_id row) s0 in
      case applyStatistic now (msg_id msg) row (ob_db s) of
        Inl _ \<Rightarrow> snd (park env now job JobUncertain (sj_attempt job) needStat uncertainPause s)
      | Inr d1 \<Rightarrow>
     (case markAccepted now (msg_id msg) (if st_sms_id row \<noteq> [] then Some (st_sms_id row) else None) d1 of
        Inl _ \<Rightarrow>
          snd (park env now job JobUncertain (sj_attempt job) needStat uncertainPause (s\<lparr>ob_db := d1\<rparr>))
      | Inr d2 \<Rightarrow> complete env job (capture env i now (msg_id msg) (s\<lparr>ob_db := d2\<rparr>))))"

definition failDead ::
    "outbox_env \<Rightarrow> uuid \<Rightarrow> time \<Rightarrow> send_job \<Rightarrow> sms_message \<Rightarrow> int \<Rightarrow> string \<Rightarrow> ob_state \<Rightarrow> ob_state" where
  "failDead env i now job msg attempt reason s =
     (case park env now job JobDead attempt reason 0 s of (parked, s1) \<Rightarrow>
      if \<not> parked then s1
      else
        let st = providerStatusForJob (oe_unmarshal env) (sj_id job) reason (ob_db s1);
            s2 = on_db (\<lambda>d. case UpdateSmsMessageFailed now (Some st) (msg_id msg) d of
                             Inl _ \<Rightarrow> d | Inr d' \<Rightarrow> d') s1
        in release env i now (msg_id msg) s2)"

definition recordAttempt ::
    "outbox_env \<Rightarrow> time \<Rightarrow> uuid \<Rightarrow> int \<Rightarrow> int \<Rightarrow> send_result \<Rightarrow> rx_err option \<Rightarrow> send_attempt_kind \<Rightarrow>
     ob_state \<Rightarrow> ob_state" where
  "recordAttempt env now jid attempt httpStatus res sendErr kind s =
     (let body =
        (if length (sr_raw res) > 0
         then Some (truncateRunes (oe_redact env (sr_raw res)) bodyTruncateRunes)
         else case sendErr of None \<Rightarrow> None
              | Some e \<Rightarrow> Some (truncateRunes (rx_text e) bodyTruncateRunes))
      in on_db (InsertSendAttempt
           \<lparr>sa_job = jid, sa_attempt = attempt,
            sa_http_status = (if httpStatus > 0 then Some httpStatus else None), sa_body = body,
            sa_kind = Some kind, sa_created_at = now\<rparr>) s)"

definition allowSend :: "outbox_env \<Rightarrow> time \<Rightarrow> send_job \<Rightarrow> ob_state \<Rightarrow> bool \<times> ob_state" where
  "allowSend env now job s =
     (let refuse = (\<lambda>why delay. (False, snd (park env now job JobRetry (sj_attempt job) why delay s)));
          provider = (\<lambda>rate.
            case oe_allow env ''rl:provider'' rate (burst rate) of
              None \<Rightarrow> refuse ''rate limiter unavailable'' (5 * second)
            | Some (ok, retry) \<Rightarrow> if ok then (True, s) else refuse ''provider_rps'' retry)
      in case oe_settings env of
           None \<Rightarrow> refuse ''settings unavailable'' (5 * second)
         | Some (clientRPS, providerRPS) \<Rightarrow>
             if \<not> oe_limiter env then (True, s)
             else
               case sj_client job of
                 None \<Rightarrow> provider providerRPS
               | Some cid \<Rightarrow>
                   (case oe_allow env (''rl:worker:client:'' @ cid) clientRPS (burst clientRPS) of
                      None \<Rightarrow> refuse ''rate limiter unavailable'' (5 * second)
                    | Some (ok, retry) \<Rightarrow>
                        if ok then provider providerRPS else refuse ''client_rps'' retry))"

text \<open>
  \<open>send\<close> up to and including the POST (\<open>Some\<close>: the request has been made), and the rest,
  which records the answer and moves the job. A worker may die between the two.
\<close>

definition send_post :: "outbox_env \<Rightarrow> time \<Rightarrow> send_job \<Rightarrow> ob_state \<Rightarrow> bool \<times> ob_state" where
  "send_post env now job s =
     (case touchLock env now job s of (locked, s1) \<Rightarrow>
      if \<not> locked then (False, s1)
      else
        (case allowSend env now job s1 of (ok, s2) \<Rightarrow>
         if \<not> ok then (False, s2)
         else if \<not> oe_rx env
         then (False, snd (park env now job JobRetry (sj_attempt job) ''runexis adapter unavailable''
                (30 * second) s2))
         else (True, s2\<lparr>ob_posts := ob_posts s2 @ [sj_id job]\<rparr>)))"

definition send_answer ::
    "outbox_env \<Rightarrow> uuid \<Rightarrow> time \<Rightarrow> send_job \<Rightarrow> sms_message \<Rightarrow> ob_state \<Rightarrow> ob_state" where
  "send_answer env i now job msg s =
     (case oe_send env of (res, err) \<Rightarrow>
      let attempt = int32_inc (sj_attempt job);
          (kind, status) = classify err;
          s1 = recordAttempt env now (sj_id job) attempt status res err kind s
      in case err of
           None \<Rightarrow> accept env i now job msg (sr_provider_sms_id res) attempt s1
         | Some e \<Rightarrow>
             if e = RxNotConfigured
             then snd (park env now job JobRetry (sj_attempt job) (rx_text e) (30 * second) s1)
             else if kind = KindRejected4xx then failDead env i now job msg attempt (rx_text e) s1
             else if kind = KindRateLimited
             then snd (park env now job JobRetry attempt (rx_text e)
                    (sint (backoff429 (word_of_int attempt))) s1)
             else snd (park env now job JobUncertain attempt needStat uncertainPause s1))"

definition send ::
    "outbox_env \<Rightarrow> uuid \<Rightarrow> time \<Rightarrow> send_job \<Rightarrow> sms_message \<Rightarrow> ob_state \<Rightarrow> ob_state" where
  "send env i now job msg s =
     (case send_post env now job s of (posted, s1) \<Rightarrow>
      if posted then send_answer env i now job msg s1 else s1)"

definition lookupStatistic ::
    "outbox_env \<Rightarrow> sms_message \<Rightarrow> ob_state \<Rightarrow> rx_err + statistic_row option" where
  "lookupStatistic env msg s =
     (if \<not> oe_rx env then Inl RxNotConfigured
      else case oe_stat env of Inl e \<Rightarrow> Inl e
           | Inr items \<Rightarrow> Inr (MatchStatistic (msg_from msg) (msg_to msg) (msg_text msg) items (ob_used s)))"

definition latestAttemptKind :: "uuid \<Rightarrow> db \<Rightarrow> send_attempt_kind option" where
  "latestAttemptKind jid d =
     (case GetLatestSendAttempt jid d of Inl _ \<Rightarrow> None | Inr att \<Rightarrow> sa_kind att)"

definition handleUncertain ::
    "outbox_env \<Rightarrow> uuid \<Rightarrow> time \<Rightarrow> send_job \<Rightarrow> sms_message \<Rightarrow> ob_state \<Rightarrow> ob_state" where
  "handleUncertain env i now job msg s =
     (case lookupStatistic env msg s of
        Inl e \<Rightarrow>
          if e = RxNotConfigured
          then snd (park env now job JobUncertain (sj_attempt job) needStat (30 * second) s)
          else snd (park env now job JobUncertain (sj_attempt job) needStat uncertainPause s)
      | Inr (Some row) \<Rightarrow> acceptFromStat env i now job msg row s
      | Inr None \<Rightarrow>
          if \<not> allowUncertainRetry (sj_attempt job) (latestAttemptKind (sj_id job) (ob_db s))
          then failDead env i now job msg (sj_attempt job) ''uncertain: not found in statistic after retry'' s
          else if deref (sj_last_error job) = needRetry then send env i now job msg s
          else snd (park env now job JobUncertain (sj_attempt job) needRetry retryAfterStat s))"

definition process :: "outbox_env \<Rightarrow> uuid \<Rightarrow> time \<Rightarrow> send_job \<Rightarrow> ob_state \<Rightarrow> ob_state" where
  "process env i now job s =
     (case GetSmsMessageByID (sj_message job) (ob_db s) of
        Inl _ \<Rightarrow> snd (park env now job JobDead (sj_attempt job) (deref (sj_last_error job)) 0 s)
      | Inr msg \<Rightarrow>
          if (case sj_client job of None \<Rightarrow> False | Some cid \<Rightarrow> clientDeleted cid (ob_db s))
          then snd (park env now job JobDead (sj_attempt job) ''client deleted'' 0 s)
          else if needStatistic job then handleUncertain env i now job msg s
          else send env i now job msg s)"

section \<open>Reconciliation and the tick\<close>

definition reconcile_msg :: "outbox_env \<Rightarrow> uuid \<Rightarrow> time \<Rightarrow> sms_message \<Rightarrow> ob_state \<Rightarrow> ob_state" where
  "reconcile_msg env i now msg s0 =
     (case lookupStatistic env msg s0 of
        Inr (Some row) \<Rightarrow>
          let s1 = noteSMSID (st_sms_id row) s0;
              s2 = on_db (\<lambda>d. case applyStatistic now (msg_id msg) row d of Inl _ \<Rightarrow> d | Inr d' \<Rightarrow> d') s1
          in capture env i now (msg_id msg) s2
      | _ \<Rightarrow> s0)"

definition nextInboxStatisticPage :: "nat \<Rightarrow> nat \<Rightarrow> nat \<Rightarrow> nat \<Rightarrow> bool \<times> bool" where
  "nextInboxStatisticPage n limit page capPages =
     (if n < limit then (False, False) else if page \<ge> capPages then (False, True) else (True, False))"

definition inbox_row :: "uuid \<Rightarrow> time \<Rightarrow> statistic_row \<Rightarrow> db \<Rightarrow> db" where
  "inbox_row i now row d =
     (if \<not> st_incoming row \<or> st_sms_id row = [] then d
      else
        let toMSISDN = Canonical (st_receiver row); fromMSISDN = Canonical (st_sender row) in
        if toMSISDN = [] \<or> fromMSISDN = [] then d
        else
          let cid = (case GetOpenAssignmentByMSISDN toMSISDN d of Inl _ \<Rightarrow> None | Inr a \<Rightarrow> Some (na_client a))
          in (case InsertInboundMessage i now cid fromMSISDN toMSISDN (st_message row)
                     (Some (st_sms_id row)) (stat_pdu row) d of
                Inl _ \<Rightarrow> d | Inr (_, d') \<Rightarrow> d'))"

fun inbox_rows :: "(nat \<Rightarrow> uuid) \<Rightarrow> time \<Rightarrow> nat \<Rightarrow> statistic_row list \<Rightarrow> db \<Rightarrow> db" where
  "inbox_rows ids now k [] d = d"
| "inbox_rows ids now k (row # rows) d = inbox_rows ids now (Suc k) rows (inbox_row (ids k) now row d)"

text \<open>
  The page loop of \<open>backfillInbox\<close>, with the answer to the request for each page; \<open>fuel\<close> is
  the number of pages the loop may still ask for. The result is the state and whether a
  request failed.
\<close>

fun inbox_pages ::
    "(nat \<Rightarrow> rx_err + statistic_row list) \<Rightarrow> (nat \<Rightarrow> nat \<Rightarrow> uuid) \<Rightarrow> time \<Rightarrow> nat \<Rightarrow> nat \<Rightarrow> db \<Rightarrow> db \<times> bool" where
  "inbox_pages answer ids now 0 page d = (d, False)"
| "inbox_pages answer ids now (Suc fuel) page d =
     (case answer page of
        Inl _ \<Rightarrow> (d, True)
      | Inr items \<Rightarrow>
          let d1 = inbox_rows (ids page) now 0 items d in
          if fst (nextInboxStatisticPage (length items) inboxStatLimit page inboxStatPages)
          then inbox_pages answer ids now fuel (Suc page) d1
          else (d1, False))"

definition backfillInbox ::
    "outbox_env \<Rightarrow> (nat \<Rightarrow> rx_err + statistic_row list) \<Rightarrow> (nat \<Rightarrow> nat \<Rightarrow> uuid) \<Rightarrow> time \<Rightarrow> ob_state \<Rightarrow>
     ob_state" where
  "backfillInbox env answer ids now s =
     (if \<not> oe_rx env then s
      else on_db (\<lambda>d. fst (inbox_pages answer ids now inboxStatPages 1 d)) s)"

fun reconcile_msgs ::
    "(nat \<Rightarrow> outbox_env) \<Rightarrow> (nat \<Rightarrow> uuid) \<Rightarrow> time \<Rightarrow> nat \<Rightarrow> sms_message list \<Rightarrow> ob_state \<Rightarrow> ob_state" where
  "reconcile_msgs envs ids now k [] s = s"
| "reconcile_msgs envs ids now k (m # ms) s =
     reconcile_msgs envs ids now (Suc k) ms (reconcile_msg (envs k) (ids k) now m s)"

record tick_env =
  te_job :: "nat \<Rightarrow> outbox_env"
  te_job_ids :: "nat \<Rightarrow> uuid"
  te_msg :: "nat \<Rightarrow> outbox_env"
  te_msg_ids :: "nat \<Rightarrow> uuid"
  te_page :: "nat \<Rightarrow> rx_err + statistic_row list"
  te_page_ids :: "nat \<Rightarrow> nat \<Rightarrow> uuid"
  te_reap_ids :: "nat \<Rightarrow> uuid"
  te_worker :: string
  te_bill :: bool

definition reconcile :: "tick_env \<Rightarrow> time \<Rightarrow> ob_state \<Rightarrow> ob_state" where
  "reconcile te now s =
     backfillInbox (te_msg te 0) (te_page te) (te_page_ids te) now
       (reconcile_msgs (te_msg te) (te_msg_ids te) now 0
         (ListStaleOutbound (now - reconcileAge) 20 (ob_db s)) s)"

fun process_all ::
    "(nat \<Rightarrow> outbox_env) \<Rightarrow> (nat \<Rightarrow> uuid) \<Rightarrow> time \<Rightarrow> nat \<Rightarrow> send_job list \<Rightarrow> ob_state \<Rightarrow> ob_state" where
  "process_all envs ids now k [] s = s"
| "process_all envs ids now k (j # js) s =
     process_all envs ids now (Suc k) js (process (envs k) (ids k) now j s)"

definition Tick :: "tick_env \<Rightarrow> time \<Rightarrow> ob_state \<Rightarrow> nat \<times> ob_state" where
  "Tick te now s =
     (let s1 = on_db (ReclaimStaleSendJobs (now - staleProcessing) now) (s\<lparr>ob_used := []\<rparr>);
          (jobs, d2) = ClaimSendJobsFair (te_worker te) claimBatch now (ob_db s1);
          s3 = process_all (te_job te) (te_job_ids te) now 0 jobs (s1\<lparr>ob_db := d2\<rparr>);
          s4 = (if (case ob_last_rec s3 of None \<Rightarrow> True | Some t \<Rightarrow> now - t \<ge> 15 * second)
                then (reconcile te now s3)\<lparr>ob_last_rec := Some now\<rparr> else s3);
          s5 = (if te_bill te then on_db (\<lambda>d. fst (ReapOpenHolds (te_reap_ids te) now 50 d)) s4 else s4)
      in (length jobs, s5))"

end
