(* ===== verification/OutboxInv.thy ===== *)
theory OutboxInv
  imports Outbox
begin

text \<open>
  What the worker of \<open>Outbox\<close> keeps. The statements on send jobs act for the owner of the
  lock only (\<open>locked_update\<close>), the updates of messages and the settlements leave the jobs
  alone, and every call of \<open>process\<close> is one move of the job protocol \<open>job_move\<close>.
\<close>

section \<open>The lock\<close>

definition same_job :: "send_job \<Rightarrow> send_job \<Rightarrow> bool" where
  "same_job j j' = (sj_id j' = sj_id j \<and> sj_message j' = sj_message j \<and> sj_client j' = sj_client j)"

lemma same_job_refl [simp]: "same_job j j"
  by (simp add: same_job_def)

locale locked_update =
  fixes op :: "uuid \<Rightarrow> string \<Rightarrow> db \<Rightarrow> db" and f :: "send_job \<Rightarrow> send_job"
  assumes acts: "op jid wid d = d\<lparr>send_jobs := update_where (owned jid wid) f (send_jobs d)\<rparr>"
    and keeps: "same_job j (f j)"
begin

lemma op_jobs: "send_jobs (op jid wid d) = update_where (owned jid wid) f (send_jobs d)"
  by (simp add: acts)

lemma op_inv [simp]: "db_ok (op jid wid d) = db_ok d"
  by (simp add: acts)

lemma op_rest [simp]:
  "sms_messages (op jid wid d) = sms_messages d" "send_attempts (op jid wid d) = send_attempts d"
  "clients (op jid wid d) = clients d" "wallet_txs (op jid wid d) = wallet_txs d"
  "wallets (op jid wid d) = wallets d"
  by (simp_all add: acts)

lemma op_ids: "map sj_id (send_jobs (op jid wid d)) = map sj_id (send_jobs d)"
  using keeps by (simp add: op_jobs same_job_def map_update_where_inv)

lemma op_not_owner: "\<not> list_ex (owned jid wid) (send_jobs d) \<Longrightarrow> op jid wid d = d"
  by (simp add: acts update_where_none list_ex_iff)

end

lemma TouchSendJobLock_Inr:
  "TouchSendJobLock jid wid now d = Inr d' \<longleftrightarrow>
   list_ex (owned jid wid) (send_jobs d) \<and>
   d' = d\<lparr>send_jobs := update_where (owned jid wid) (\<lambda>j. j\<lparr>sj_locked_at := Some now\<rparr>) (send_jobs d)\<rparr>"
  by (auto simp: TouchSendJobLock_def)

lemma db_send_jobs_id [simp]: "d\<lparr>send_jobs := send_jobs d\<rparr> = d"
  by simp

interpretation parking: locked_update "\<lambda>jid wid d. snd (ParkSendJob st a t e jid wid d)"
    "\<lambda>j. j\<lparr>sj_status := st, sj_attempt := a, sj_available_at := t, sj_locked_at := None,
         sj_locked_by := None, sj_last_error := e\<rparr>" for st a t e
  by unfold_locales (simp_all add: ParkSendJob_def same_job_def)

interpretation completing: locked_update "\<lambda>jid wid d. snd (CompleteSendJob jid wid d)"
    "\<lambda>j. j\<lparr>sj_status := JobDone, sj_locked_at := None, sj_locked_by := None, sj_last_error := None\<rparr>"
  by unfold_locales (simp_all add: CompleteSendJob_def same_job_def)

interpretation touching: locked_update
    "\<lambda>jid wid d. case TouchSendJobLock jid wid now d of Inl _ \<Rightarrow> d | Inr d' \<Rightarrow> d'"
    "\<lambda>j. j\<lparr>sj_locked_at := Some now\<rparr>" for now
  by unfold_locales
    (simp_all add: TouchSendJobLock_def same_job_def update_where_none list_ex_iff)

section \<open>What does not touch the jobs\<close>

text \<open>The tables the outbox reads that a settlement leaves alone.\<close>

definition job_tables :: "db \<Rightarrow> send_job list \<times> send_attempt list \<times> client list" where
  "job_tables d = (send_jobs d, send_attempts d, clients d)"

lemma job_tables_eq [simp]:
  "job_tables d' = job_tables d \<longleftrightarrow>
   send_jobs d' = send_jobs d \<and> send_attempts d' = send_attempts d \<and> clients d' = clients d"
  by (simp add: job_tables_def)

lemma settle_job_tables: "settle i now mid c d = Inr d' \<Longrightarrow> job_tables d' = job_tables d"
proof (cases "settle_read mid c d")
  case (SettleDone d0)
  moreover assume "settle i now mid c d = Inr d'"
  ultimately show ?thesis using settle_read_Done [OF SettleDone]
    by (auto simp: settle_def dest: SetSmsMessageBillingAction_OK)
next
  case (SettleProceed cid msg hold)
  moreover assume "settle i now mid c d = Inr d'"
  ultimately have "settle_write i now mid c cid msg hold d = Inr d'" by (simp add: settle_def)
  then show ?thesis
    by (rule settle_write_OK)
      (auto dest!: SetSmsMessageBillingAction_OK elim!: post_frame)
qed

lemma capture_jobs [simp]: "job_tables (ob_db (capture env i now mid s)) = job_tables (ob_db s)"
  by (auto simp: capture_def CaptureForMessage_def simp del: job_tables_eq split: sum.split
      dest: settle_job_tables)

lemma release_jobs [simp]: "job_tables (ob_db (release env i now mid s)) = job_tables (ob_db s)"
  by (auto simp: release_def ReleaseForMessage_def simp del: job_tables_eq split: sum.split
      dest: settle_job_tables)

lemma capture_frame [simp]:
  "send_jobs (ob_db (capture env i now mid s)) = send_jobs (ob_db s)"
  "send_attempts (ob_db (capture env i now mid s)) = send_attempts (ob_db s)"
  "clients (ob_db (capture env i now mid s)) = clients (ob_db s)"
  "ob_posts (capture env i now mid s) = ob_posts s" "ob_used (capture env i now mid s) = ob_used s"
  "ob_last_rec (capture env i now mid s) = ob_last_rec s"
  using capture_jobs [of env i now mid s] by (simp_all add: capture_def)

lemma release_frame [simp]:
  "send_jobs (ob_db (release env i now mid s)) = send_jobs (ob_db s)"
  "send_attempts (ob_db (release env i now mid s)) = send_attempts (ob_db s)"
  "clients (ob_db (release env i now mid s)) = clients (ob_db s)"
  "ob_posts (release env i now mid s) = ob_posts s" "ob_used (release env i now mid s) = ob_used s"
  "ob_last_rec (release env i now mid s) = ob_last_rec s"
  using release_jobs [of env i now mid s] by (simp_all add: release_def)

lemma noteSMSID_frame [simp]:
  "ob_db (noteSMSID pid s) = ob_db s" "ob_posts (noteSMSID pid s) = ob_posts s"
  "ob_last_rec (noteSMSID pid s) = ob_last_rec s"
  by (simp_all add: noteSMSID_def)

section \<open>Updates of messages\<close>

text \<open>
  The updates of the outbox on messages: the id, what was sent and what is billed stay, and
  the status only moves forward.
\<close>

fun sms_rank :: "sms_status \<Rightarrow> nat" where
  "sms_rank SmsQueued = 0"
| "sms_rank SmsAccepted = 1"
| "sms_rank SmsSent = 2"
| "sms_rank SmsDelivered = 3"
| "sms_rank SmsFailed = 3"

definition status_forward :: "sms_status \<Rightarrow> sms_status \<Rightarrow> bool" where
  "status_forward a b = (b = a \<or> sms_rank a < sms_rank b)"

definition message_forward :: "sms_message \<Rightarrow> sms_message \<Rightarrow> bool" where
  "message_forward m m' =
     (msg_id m' = msg_id m \<and> msg_client m' = msg_client m \<and> msg_direction m' = msg_direction m
      \<and> msg_from m' = msg_from m \<and> msg_to m' = msg_to m \<and> msg_text m' = msg_text m
      \<and> msg_unit_sell_price m' = msg_unit_sell_price m \<and> msg_billed_segments m' = msg_billed_segments m
      \<and> msg_idempotency_key m' = msg_idempotency_key m \<and> msg_campaign m' = msg_campaign m
      \<and> status_forward (msg_status m) (msg_status m'))"

lemma status_forward_refl [simp]: "status_forward a a"
  by (simp add: status_forward_def)

lemma status_forward_trans: "status_forward a b \<Longrightarrow> status_forward b c \<Longrightarrow> status_forward a c"
  by (auto simp: status_forward_def)

lemma message_forward_refl [simp]: "message_forward m m"
  by (simp add: message_forward_def)

lemma message_forward_trans: "message_forward m n \<Longrightarrow> message_forward n k \<Longrightarrow> message_forward m k"
  by (auto simp: message_forward_def intro: status_forward_trans)

lemma message_forward_steps [simp]:
  "msg_status m \<in> {SmsQueued, SmsAccepted} \<Longrightarrow> message_forward m (accept_message now pid pdu m)"
  "msg_status m \<in> {SmsQueued, SmsAccepted, SmsSent} \<Longrightarrow> message_forward m (fail_message now st m)"
  "msg_status m \<in> {SmsQueued, SmsAccepted, SmsSent} \<Longrightarrow>
   message_forward m (statistic_message now pid st pdu delivered sent m)"
  by (auto simp: message_forward_def accept_message_def fail_message_def statistic_message_def
      status_forward_def)

text \<open>An update of the messages of that kind, as a relation between databases.\<close>

definition msgs_forward :: "sms_message list \<Rightarrow> sms_message list \<Rightarrow> bool" where
  "msgs_forward ms ms' = (length ms \<le> length ms' \<and> list_all2 message_forward ms (take (length ms) ms'))"

lemma msgs_forward_refl [simp]: "msgs_forward ms ms"
  by (simp add: msgs_forward_def list_all2_same)

lemma msgs_forward_trans:
  assumes "msgs_forward ms ns" "msgs_forward ns ks"
  shows "msgs_forward ms ks"
  using assms message_forward_trans unfolding msgs_forward_def list_all2_conv_all_nth
  by (smt (verit, best) length_take min.absorb2 nth_take order.strict_trans2 order.trans)

lemma msgs_forward_update:
  "(\<And>m. p m \<Longrightarrow> message_forward m (f m)) \<Longrightarrow> msgs_forward ms (update_where p f ms)"
  by (auto simp: msgs_forward_def list_all2_conv_all_nth update_where_def)

lemma msgs_forward_append [simp]: "msgs_forward ms (ms @ ns)"
  by (simp add: msgs_forward_def list_all2_same)

lemma msgs_forward_mem:
  assumes "msgs_forward ms ms'" "m \<in> set ms"
  obtains m' where "m' \<in> set ms'" "message_forward m m'"
proof -
  from assms(2) obtain k where k: "k < length ms" "m = ms ! k" by (auto simp: in_set_conv_nth)
  with assms(1) have "message_forward m (ms' ! k)" "k < length ms'"
    by (auto simp: msgs_forward_def list_all2_conv_all_nth)
  then show ?thesis using that [of "ms' ! k"] by simp
qed

definition message_step :: "db \<Rightarrow> db \<Rightarrow> bool" where
  "message_step d d' =
     (d' = d\<lparr>sms_messages := sms_messages d'\<rparr> \<and> msgs_forward (sms_messages d) (sms_messages d')
      \<and> (db_ok d \<longrightarrow> db_ok d'))"

lemma message_step_refl [simp]: "message_step d d"
  by (simp add: message_step_def)

lemma message_stepD:
  assumes "message_step d d'"
  shows "send_jobs d' = send_jobs d" "send_attempts d' = send_attempts d" "clients d' = clients d"
    "wallets d' = wallets d" "wallet_txs d' = wallet_txs d"
    "msgs_forward (sms_messages d) (sms_messages d')" "db_ok d \<Longrightarrow> db_ok d'"
proof -
  define ms where "ms = sms_messages d'"
  have eq: "d' = d\<lparr>sms_messages := ms\<rparr>" using assms by (simp add: message_step_def ms_def)
  show "send_jobs d' = send_jobs d" "send_attempts d' = send_attempts d" "clients d' = clients d"
    "wallets d' = wallets d" "wallet_txs d' = wallet_txs d"
    unfolding eq by simp_all
qed (use assms in \<open>simp_all add: message_step_def\<close>)

lemma message_step_update:
  assumes "\<And>m. msg_id (f m) = msg_id m" "\<And>m. msg_client (f m) = msg_client m"
      "\<And>m. msg_unit_sell_price (f m) = msg_unit_sell_price m"
    and "\<And>m. p m \<Longrightarrow> message_forward m (f m)"
  shows "message_step d (d\<lparr>sms_messages := update_where p f (sms_messages d)\<rparr>)"
  using db_ok_message_update [of f d p, OF assms(1-3)] msgs_forward_update [of p f, OF assms(4)]
  by (simp add: message_step_def)

lemma UpdateSmsMessageAccepted_step:
  "UpdateSmsMessageAccepted now pid pdu mid d = Inr d' \<Longrightarrow> message_step d d'"
  by (auto simp: UpdateSmsMessageAccepted_def Let_def split: if_splits intro!: message_step_update)
    (simp_all add: accept_message_def)

lemma UpdateSmsMessageFailed_step:
  "UpdateSmsMessageFailed now st mid d = Inr d' \<Longrightarrow> message_step d d'"
  by (auto simp: UpdateSmsMessageFailed_def Let_def split: if_splits intro!: message_step_update)
    (simp_all add: fail_message_def)

lemma UpdateSmsMessageFromStatistic_step:
  "UpdateSmsMessageFromStatistic now pid st pdu dl sn mid d = Inr d' \<Longrightarrow> message_step d d'"
  by (auto simp: UpdateSmsMessageFromStatistic_def Let_def split: if_splits intro!: message_step_update)
    (simp_all add: statistic_message_def)

text \<open>Both updates of a message always end well: the repeated statement has no id to clash.\<close>

lemma retry_total:
  assumes "\<And>e. x = Inl e \<Longrightarrow> e = NoRows \<or> e = PgError UniqueViolation \<and> b" "\<And>d'. x = Inr d' \<Longrightarrow> P d'"
    and "\<And>e. y = Inl e \<Longrightarrow> e = NoRows" "\<And>d'. y = Inr d' \<Longrightarrow> P d'" and "P d"
  shows "\<exists>d'. (case x of Inr d' \<Rightarrow> Inr d'
    | Inl e \<Rightarrow> if e = NoRows then Inr d
        else if isUniqueViolation e \<and> b then
          (case y of Inr d' \<Rightarrow> Inr d' | Inl e' \<Rightarrow> if e' = NoRows then Inr d else Inl e')
        else Inl e) = Inr d' \<and> P d'"
  using assms by (cases x; cases y) (auto simp: isUniqueViolation_def)

lemma UpdateSmsMessageAccepted_Inl:
  "UpdateSmsMessageAccepted now pid pdu mid d = Inl e \<Longrightarrow>
   e = NoRows \<or> e = PgError UniqueViolation \<and> pid \<noteq> None"
  by (auto simp: UpdateSmsMessageAccepted_def Let_def provider_id_taken_def split: if_splits)

lemma UpdateSmsMessageFromStatistic_Inl:
  "UpdateSmsMessageFromStatistic now pid st pdu dl sn mid d = Inl e \<Longrightarrow>
   e = NoRows \<or> e = PgError UniqueViolation \<and> pid \<noteq> None"
  by (auto simp: UpdateSmsMessageFromStatistic_def Let_def provider_id_taken_def split: if_splits)

lemma markAccepted_total:
  obtains d' where "markAccepted now mid pid d = Inr d'" "message_step d d'"
proof -
  have "\<exists>d'. markAccepted now mid pid d = Inr d' \<and> message_step d d'"
    unfolding markAccepted_def
    by (rule retry_total) (auto dest: UpdateSmsMessageAccepted_Inl UpdateSmsMessageAccepted_step)
  then show ?thesis using that by blast
qed

lemma applyStatistic_total:
  obtains d' where "applyStatistic now mid row d = Inr d'" "message_step d d'"
proof -
  have "\<exists>d'. applyStatistic now mid row d = Inr d' \<and> message_step d d'"
    unfolding applyStatistic_def Let_def
    by (rule retry_total)
      (auto dest: UpdateSmsMessageFromStatistic_Inl UpdateSmsMessageFromStatistic_step)
  then show ?thesis using that by blast
qed

end
