(* ===== verification/JobProtocol.thy ===== *)
theory JobProtocol
  imports OutboxInv
begin

text \<open>
  The protocol of a send job, stated without messages, wallets or provider: what one call of
  the worker may do to the job it holds. \<open>process\<close> of \<open>internal/outbox/worker.go\<close> refines it.
\<close>

section \<open>The protocol\<close>

datatype outcome = Finished | Parked send_job_status int "string option" time

fun apply_outcome :: "outcome \<Rightarrow> send_job \<Rightarrow> send_job" where
  "apply_outcome Finished j =
     j\<lparr>sj_status := JobDone, sj_locked_at := None, sj_locked_by := None, sj_last_error := None\<rparr>"
| "apply_outcome (Parked st a e t) j =
     j\<lparr>sj_status := st, sj_attempt := a, sj_available_at := t, sj_locked_at := None,
       sj_locked_by := None, sj_last_error := e\<rparr>"

text \<open>
  A job may be posted when its outcome is not open, or when it is, the statistic did not
  have it twice and the rules allow the repetition.
\<close>

definition may_post :: "send_job \<Rightarrow> send_attempt_kind option \<Rightarrow> bool" where
  "may_post job latest =
     (needStatistic job \<longrightarrow>
      sj_last_error job = Some needRetry \<and> allowUncertainRetry (sj_attempt job) latest)"

text \<open>
  \<open>job_move configured job latest posted out\<close>: the worker holds \<open>job\<close>, whose newest recorded
  attempt is of the kind \<open>latest\<close>; it posts the message and gets an answer of the kind \<open>posted\<close>
  (\<open>None\<close>: it does not post); the job ends with \<open>out\<close>. Only without credentials
  (\<open>configured\<close>) can an attempt be recorded that does not count.
\<close>

inductive job_move ::
    "bool \<Rightarrow> send_job \<Rightarrow> send_attempt_kind option \<Rightarrow> send_attempt_kind option \<Rightarrow> outcome \<Rightarrow> bool"
  for configured :: bool and job :: send_job and latest :: "send_attempt_kind option" where
  orphan: "job_move configured job latest None (Parked JobDead (sj_attempt job) e t)"
| unanswered: "needStatistic job \<Longrightarrow> job_move configured job latest None (Parked JobUncertain (sj_attempt job) (Some needStat) t)"
| found: "needStatistic job \<Longrightarrow> job_move configured job latest None Finished"
| ask_again: "needStatistic job \<Longrightarrow> allowUncertainRetry (sj_attempt job) latest \<Longrightarrow>
    job_move configured job latest None (Parked JobUncertain (sj_attempt job) (Some needRetry) t)"
| given_up: "needStatistic job \<Longrightarrow> \<not> allowUncertainRetry (sj_attempt job) latest \<Longrightarrow>
    job_move configured job latest None (Parked JobDead (sj_attempt job) e t)"
| refused: "may_post job latest \<Longrightarrow> job_move configured job latest None (Parked JobRetry (sj_attempt job) e t)"
| accepted: "may_post job latest \<Longrightarrow> job_move configured job latest (Some KindAccepted) Finished"
| rejected: "may_post job latest \<Longrightarrow>
    job_move configured job latest (Some KindRejected4xx) (Parked JobDead (int32_inc (sj_attempt job)) e t)"
| limited: "may_post job latest \<Longrightarrow>
    job_move configured job latest (Some KindRateLimited) (Parked JobRetry (int32_inc (sj_attempt job)) e t)"
| uncertain: "may_post job latest \<Longrightarrow> k \<in> {KindTimeout, Kind5xx} \<Longrightarrow>
    job_move configured job latest (Some k) (Parked JobUncertain (int32_inc (sj_attempt job)) (Some needStat) t)"
| unconfigured: "\<not> configured \<Longrightarrow> may_post job latest \<Longrightarrow>
    job_move configured job latest (Some KindTimeout) (Parked JobRetry (sj_attempt job) e t)"

definition job_update :: "uuid \<Rightarrow> string \<Rightarrow> outcome \<Rightarrow> db \<Rightarrow> db" where
  "job_update jid wid out d =
     d\<lparr>send_jobs := update_where (owned jid wid) (apply_outcome out) (send_jobs d)\<rparr>"

abbreviation touch :: "time \<Rightarrow> send_job \<Rightarrow> send_job" where
  "touch now j \<equiv> j\<lparr>sj_locked_at := Some now\<rparr>"

lemma owned_touch [simp]: "owned jid wid (touch now j) = owned jid wid j"
  by (simp add: owned_def)

lemma apply_outcome_touch [simp]: "apply_outcome out (touch now j) = apply_outcome out j"
  by (cases out) simp_all

lemma update_where_touch [simp]:
  "update_where (owned jid wid) (apply_outcome out) (update_where (owned jid wid) (touch now) js) =
   update_where (owned jid wid) (apply_outcome out) js"
  by (simp add: update_where_def)

lemma list_ex_touch [simp]:
  "list_ex (owned jid wid) (update_where (owned jid wid) (touch now) js) = list_ex (owned jid wid) js"
  by (induction js) simp_all

lemma apply_outcome_fun:
  "apply_outcome Finished =
     (\<lambda>j. j\<lparr>sj_status := JobDone, sj_locked_at := None, sj_locked_by := None, sj_last_error := None\<rparr>)"
  "apply_outcome (Parked st a e t) =
     (\<lambda>j. j\<lparr>sj_status := st, sj_attempt := a, sj_available_at := t, sj_locked_at := None,
       sj_locked_by := None, sj_last_error := e\<rparr>)"
  by (simp_all add: fun_eq_iff)

lemma park_eq:
  "park env now job st a e dl s =
   (list_ex (owned (sj_id job) (oe_worker env)) (send_jobs (ob_db s)),
    on_db (job_update (sj_id job) (oe_worker env)
      (Parked st a (if e \<noteq> [] then Some e else None) (if dl > 0 then now + dl else now))) s)"
  by (auto simp: park_def ParkSendJob_def job_update_def apply_outcome_fun Let_def list_ex_iff
      filter_empty_conv)

lemma complete_eq: "complete env job s = on_db (job_update (sj_id job) (oe_worker env) Finished) s"
  by (simp add: complete_def CompleteSendJob_def job_update_def apply_outcome_fun)

lemma touchLock_eq:
  "touchLock env now job s =
   (list_ex (owned (sj_id job) (oe_worker env)) (send_jobs (ob_db s)),
    on_db (\<lambda>d. d\<lparr>send_jobs := update_where (owned (sj_id job) (oe_worker env)) (touch now) (send_jobs d)\<rparr>) s)"
  by (auto simp: touchLock_def TouchSendJobLock_def update_where_none list_ex_iff)

section \<open>Refinement\<close>

text \<open>
  The effect of a move on the state of the worker: the rows the worker has locked get the
  outcome, and a POST leaves its entry in the log and one recorded attempt.
\<close>

definition job_effect ::
    "send_job \<Rightarrow> string \<Rightarrow> send_attempt_kind option \<Rightarrow> outcome \<Rightarrow> ob_state \<Rightarrow> ob_state \<Rightarrow> bool" where
  "job_effect job wid posted out s s' =
     (send_jobs (ob_db s') = update_where (owned (sj_id job) wid) (apply_outcome out) (send_jobs (ob_db s))
      \<and> (\<exists>new. send_attempts (ob_db s') = send_attempts (ob_db s) @ new
           \<and> map (\<lambda>a. (sa_job a, sa_attempt a, sa_kind a)) new =
             (case posted of None \<Rightarrow> [] | Some k \<Rightarrow> [(sj_id job, int32_inc (sj_attempt job), Some k)]))
      \<and> ob_posts s' = ob_posts s @ (if posted = None then [] else [sj_id job])
      \<and> clients (ob_db s') = clients (ob_db s))"

lemma job_update_frame [simp]:
  "send_jobs (job_update jid wid out d) = update_where (owned jid wid) (apply_outcome out) (send_jobs d)"
  "send_attempts (job_update jid wid out d) = send_attempts d"
  "clients (job_update jid wid out d) = clients d"
  "sms_messages (job_update jid wid out d) = sms_messages d"
  "db_ok (job_update jid wid out d) = db_ok d"
  by (simp_all add: job_update_def)

lemma job_effect_park [simp]:
  "job_effect job (oe_worker env) None (Parked st a (if e \<noteq> [] then Some e else None) (if dl > 0 then now + dl else now))
     s (snd (park env now job st a e dl s))"
  by (simp add: job_effect_def park_eq)

definition one_move ::
    "bool \<Rightarrow> send_job \<Rightarrow> send_attempt_kind option \<Rightarrow> string \<Rightarrow> ob_state \<Rightarrow> ob_state \<Rightarrow> bool" where
  "one_move configured job latest wid s s' =
     (\<exists>posted out. job_move configured job latest posted out \<and> job_effect job wid posted out s s')"

lemma one_moveI: "job_move conf job latest p out \<Longrightarrow> job_effect job wid p out s s' \<Longrightarrow> one_move conf job latest wid s s'"
  by (auto simp: one_move_def)

lemma one_move_park:
  "job_move conf job latest None (Parked st a (if e \<noteq> [] then Some e else None) (if dl > 0 then now + dl else now)) \<Longrightarrow>
   one_move conf job latest (oe_worker env) s (snd (park env now job st a e dl s))"
  by (rule one_moveI [OF _ job_effect_park])

definition configured :: "outbox_env \<Rightarrow> bool" where
  "configured env = (snd (oe_send env) \<noteq> Some RxNotConfigured)"

lemma needs_nonempty [simp]: "needStat \<noteq> []" "needRetry \<noteq> []"
  by (simp_all add: needStat_def needRetry_def)

lemma failed_step:
  "message_step d (case UpdateSmsMessageFailed now st mid d of Inl _ \<Rightarrow> d | Inr d' \<Rightarrow> d')"
  by (auto split: sum.split dest: UpdateSmsMessageFailed_step)

lemma failDead_effect:
  assumes "list_ex (owned (sj_id job) (oe_worker env)) (send_jobs (ob_db s))"
  shows "job_effect job (oe_worker env) None (Parked JobDead a (if reason \<noteq> [] then Some reason else None) now)
    s (failDead env i now job msg a reason s)"
  using assms
  by (simp add: failDead_def park_eq job_effect_def Let_def message_stepD(1-3) [OF failed_step]
      split del: if_split cong del: sum.case_cong_weak)

lemma accept_effect:
  "job_effect job (oe_worker env) None Finished s (accept env i now job msg pid a s)"
  by (rule markAccepted_total [of now "msg_id msg" "if pid \<noteq> [] then Some pid else None" "ob_db s"])
    (auto simp: accept_def complete_eq job_effect_def dest: message_stepD(1-3))

lemma acceptFromStat_effect:
  "job_effect job (oe_worker env) None Finished s (acceptFromStat env i now job msg row s)"
proof -
  obtain d1 where 1: "applyStatistic now (msg_id msg) row (ob_db s) = Inr d1" "message_step (ob_db s) d1"
    by (rule applyStatistic_total)
  obtain d2 where 2: "markAccepted now (msg_id msg) (if st_sms_id row \<noteq> [] then Some (st_sms_id row) else None) d1
      = Inr d2" "message_step d1 d2"
    by (rule markAccepted_total)
  from 1 2 show ?thesis
    using message_stepD(1-3) [OF 1(2)] message_stepD(1-3) [OF 2(2)]
    by (simp add: acceptFromStat_def complete_eq job_effect_def Let_def split del: if_split)
qed

text \<open>A refusal of the rate limits parks the job for a retry; otherwise nothing has happened.\<close>

lemma allowSend_cases:
  obtains (go) "allowSend env now job s = (True, s)"
  | (stop) e t where "allowSend env now job s =
      (False, on_db (job_update (sj_id job) (oe_worker env) (Parked JobRetry (sj_attempt job) e t)) s)"
proof (cases "fst (allowSend env now job s)")
  case True
  then have "allowSend env now job s = (True, s)"
    by (auto simp: allowSend_def Let_def park_eq split: option.splits prod.splits if_splits)
  then show ?thesis by (rule go)
next
  case False
  then have "\<exists>e dl. allowSend env now job s = (False, snd (park env now job JobRetry (sj_attempt job) e dl s))"
    by (auto simp: allowSend_def Let_def split: option.splits prod.splits if_splits)
  then show ?thesis using stop by (auto simp: park_eq)
qed

text \<open>The state after the POST and the recorded attempt.\<close>

definition posted_state :: "send_job \<Rightarrow> string \<Rightarrow> send_attempt_kind \<Rightarrow> ob_state \<Rightarrow> ob_state \<Rightarrow> bool" where
  "posted_state job wid k s s1 =
     (\<exists>now a. sa_job a = sj_id job \<and> sa_attempt a = int32_inc (sj_attempt job) \<and> sa_kind a = Some k
      \<and> send_jobs (ob_db s1) = update_where (owned (sj_id job) wid) (touch now) (send_jobs (ob_db s))
      \<and> send_attempts (ob_db s1) = send_attempts (ob_db s) @ [a]
      \<and> ob_posts s1 = ob_posts s @ [sj_id job] \<and> clients (ob_db s1) = clients (ob_db s))"

lemma job_effect_posted:
  "posted_state job wid k s s1 \<Longrightarrow> job_effect job wid None out s1 s' \<Longrightarrow> job_effect job wid (Some k) out s s'"
  by (auto simp: posted_state_def job_effect_def)

lemma posted_owned:
  "posted_state job wid k s s1 \<Longrightarrow> list_ex (owned jid wid) (send_jobs (ob_db s)) \<Longrightarrow> jid = sj_id job \<Longrightarrow>
   list_ex (owned jid wid) (send_jobs (ob_db s1))"
  by (auto simp: posted_state_def)

lemma classify_kind:
  "fst (classify None) = KindAccepted"
  "fst (classify (Some RxNotConfigured)) = KindTimeout"
  "fst (classify (Some e)) \<noteq> KindAccepted"
  by (auto simp: classify_def Let_def)

lemma send_answer_effect:
  assumes own: "list_ex (owned (sj_id job) (oe_worker env)) (send_jobs (ob_db s))"
    and jobs: "send_jobs (ob_db s0) = update_where (owned (sj_id job) (oe_worker env)) (touch t) (send_jobs (ob_db s))"
    and rest: "send_attempts (ob_db s0) = send_attempts (ob_db s)" "clients (ob_db s0) = clients (ob_db s)"
      "ob_posts s0 = ob_posts s @ [sj_id job]"
    and may: "may_post job latest"
  shows "one_move (configured env) job latest (oe_worker env) s (send_answer env i now job msg s0)"
proof -
  obtain res err where answer: "oe_send env = (res, err)" by fastforce
  define a where "a = int32_inc (sj_attempt job)"
  define k where "k = fst (classify err)"
  define s1 where "s1 = recordAttempt env now (sj_id job) a (snd (classify err)) res err k s0"
  have s1: "posted_state job (oe_worker env) k s s1"
    using jobs rest
    by (auto simp: posted_state_def s1_def a_def recordAttempt_def InsertSendAttempt_def Let_def)
  note own1 = posted_owned [OF s1 own refl]
  note eff = job_effect_posted [OF s1]
  have unfold: "send_answer env i now job msg s0 =
     (case err of None \<Rightarrow> accept env i now job msg (sr_provider_sms_id res) a s1
      | Some e \<Rightarrow>
          if e = RxNotConfigured
          then snd (park env now job JobRetry (sj_attempt job) (rx_text e) (30 * second) s1)
          else if k = KindRejected4xx then failDead env i now job msg a (rx_text e) s1
          else if k = KindRateLimited
          then snd (park env now job JobRetry a (rx_text e) (sint (backoff429 (word_of_int a))) s1)
          else snd (park env now job JobUncertain a needStat uncertainPause s1))"
    by (cases err) (simp_all add: send_answer_def answer Let_def s1_def k_def a_def case_prod_beta)
  show ?thesis
  proof (cases err)
    case None
    then have "k = KindAccepted" by (simp add: k_def classify_kind)
    then have "one_move (configured env) job latest (oe_worker env) s (accept env i now job msg (sr_provider_sms_id res) a s1)"
      by (intro one_moveI [OF job_move.accepted [OF may]]) (use eff [OF accept_effect] in simp)
    with None show ?thesis unfolding unfold by simp
  next
    case (Some e)
    then have not_acc: "k \<noteq> KindAccepted" by (simp add: k_def classify_kind)
    have park: "one_move (configured env) job latest (oe_worker env) s (snd (park env now job st b r dl s1))"
      if "\<And>e t. job_move (configured env) job latest (Some k) (Parked st b (if r \<noteq> [] then Some r else e) t)" for st b r dl
      by (rule one_moveI [OF that [of None] eff [OF job_effect_park]])
    consider "e = RxNotConfigured" | "e \<noteq> RxNotConfigured" "k = KindRejected4xx"
      | "e \<noteq> RxNotConfigured" "k = KindRateLimited" | "e \<noteq> RxNotConfigured" "k \<in> {KindTimeout, Kind5xx}"
      using not_acc by (cases k) auto
    then show ?thesis
    proof cases
      case 1
      with Some have "k = KindTimeout" by (simp add: k_def classify_kind)
      moreover have "\<not> configured env" using 1 Some answer by (simp add: configured_def)
      ultimately show ?thesis
        using 1 Some park [of JobRetry "sj_attempt job"] job_move.unconfigured [OF _ may] unfolding unfold by simp
    next
      case 2
      have "one_move (configured env) job latest (oe_worker env) s (failDead env i now job msg a (rx_text e) s1)"
        by (rule one_moveI [OF job_move.rejected [OF may]])
          (use eff [OF failDead_effect [OF own1]] 2 a_def in simp)
      with 2 Some show ?thesis unfolding unfold by simp
    next
      case 3
      with Some park [of JobRetry a] job_move.limited [OF may] show ?thesis
        unfolding unfold a_def by simp
    next
      case 4
      then have "job_move (configured env) job latest (Some k) (Parked JobUncertain a (Some needStat) t')" for t'
        using job_move.uncertain [OF may] by (simp add: a_def)
      with 4 Some park [of JobUncertain a needStat] show ?thesis unfolding unfold by auto
    qed
  qed
qed

lemma send_effect:
  assumes own: "list_ex (owned (sj_id job) (oe_worker env)) (send_jobs (ob_db s))"
    and may: "may_post job latest"
  shows "one_move (configured env) job latest (oe_worker env) s (send env i now job msg s)"
proof -
  define s1 where "s1 = snd (touchLock env now job s)"
  have s1: "touchLock env now job s = (True, s1)"
    "send_jobs (ob_db s1) = update_where (owned (sj_id job) (oe_worker env)) (touch now) (send_jobs (ob_db s))"
    "send_attempts (ob_db s1) = send_attempts (ob_db s)" "clients (ob_db s1) = clients (ob_db s)"
    "ob_posts s1 = ob_posts s"
    using own by (simp_all add: touchLock_eq s1_def)
  have refuse: "job_effect job (oe_worker env) None (Parked JobRetry (sj_attempt job) e t) s
      (on_db (job_update (sj_id job) (oe_worker env) (Parked JobRetry (sj_attempt job) e t)) s1)" for e t
    using s1 by (simp add: job_effect_def)
  note move = job_move.refused [OF may]
  show ?thesis
  proof (cases rule: allowSend_cases [of env now job s1])
    case go
    show ?thesis
    proof (cases "oe_rx env")
      case True
      with go s1(1) have "send env i now job msg s =
          send_answer env i now job msg (s1\<lparr>ob_posts := ob_posts s1 @ [sj_id job]\<rparr>)"
        by (simp add: send_def send_post_def)
      then show ?thesis using s1 send_answer_effect [OF own _ _ _ _ may] by simp
    next
      case False
      with go s1(1) have "send env i now job msg s =
          snd (park env now job JobRetry (sj_attempt job) ''runexis adapter unavailable'' (30 * second) s1)"
        by (simp add: send_def send_post_def)
      then show ?thesis unfolding park_eq by (auto intro: one_moveI [OF move refuse])
    qed
  next
    case (stop e t)
    with s1(1) have "send env i now job msg s =
        on_db (job_update (sj_id job) (oe_worker env) (Parked JobRetry (sj_attempt job) e t)) s1"
      by (simp add: send_def send_post_def)
    then show ?thesis using one_moveI [OF move refuse] by simp
  qed
qed

lemma handleUncertain_effect:
  assumes own: "list_ex (owned (sj_id job) (oe_worker env)) (send_jobs (ob_db s))"
    and need: "needStatistic job"
  shows "one_move (configured env) job (latestAttemptKind (sj_id job) (ob_db s)) (oe_worker env) s (handleUncertain env i now job msg s)"
proof -
  let ?latest = "latestAttemptKind (sj_id job) (ob_db s)"
  show ?thesis
  proof (cases "lookupStatistic env msg s")
    case (Inl e)
    then have "handleUncertain env i now job msg s = snd (park env now job JobUncertain (sj_attempt job)
        needStat (if e = RxNotConfigured then 30 * second else uncertainPause) s)"
      by (simp add: handleUncertain_def)
    then show ?thesis using job_move.unanswered [OF need] by (auto intro!: one_move_park)
  next
    case (Inr found)
    show ?thesis
    proof (cases found)
      case (Some row)
      with Inr one_moveI [OF job_move.found [OF need] acceptFromStat_effect] show ?thesis
        by (simp add: handleUncertain_def)
    next
      case None
      consider "\<not> allowUncertainRetry (sj_attempt job) ?latest"
        | "allowUncertainRetry (sj_attempt job) ?latest" "deref (sj_last_error job) = needRetry"
        | "allowUncertainRetry (sj_attempt job) ?latest" "deref (sj_last_error job) \<noteq> needRetry" by blast
      then show ?thesis
      proof cases
        case 1
        with Inr None one_moveI [OF job_move.given_up [OF need 1] failDead_effect [OF own]] show ?thesis
          by (simp add: handleUncertain_def)
      next
        case 2
        then have "sj_last_error job = Some needRetry"
          by (auto simp: deref_def needRetry_def split: option.splits)
        with 2 have "may_post job ?latest" by (simp add: may_post_def)
        with Inr None 2 send_effect [OF own] show ?thesis by (simp add: handleUncertain_def)
      next
        case 3
        with Inr None have "handleUncertain env i now job msg s =
            snd (park env now job JobUncertain (sj_attempt job) needRetry retryAfterStat s)"
          by (simp add: handleUncertain_def)
        then show ?thesis using job_move.ask_again [OF need 3(1)] by (auto intro!: one_move_park)
      qed
    qed
  qed
qed

lemma process_effect:
  assumes own: "list_ex (owned (sj_id job) (oe_worker env)) (send_jobs (ob_db s))"
  shows "one_move (configured env) job (latestAttemptKind (sj_id job) (ob_db s)) (oe_worker env) s (process env i now job s)"
proof (cases "GetSmsMessageByID (sj_message job) (ob_db s)")
  case (Inl e)
  then show ?thesis by (simp add: process_def one_move_park [OF job_move.orphan])
next
  case (Inr msg)
  show ?thesis
  proof (cases "case sj_client job of None \<Rightarrow> False | Some cid \<Rightarrow> clientDeleted cid (ob_db s)")
    case True
    with Inr show ?thesis by (simp add: process_def one_move_park [OF job_move.orphan])
  next
    case False
    with Inr have "process env i now job s =
        (if needStatistic job then handleUncertain env i now job msg s else send env i now job msg s)"
      by (simp add: process_def)
    then show ?thesis
      using handleUncertain_effect [OF own] send_effect [OF own] by (auto simp: may_post_def)
  qed
qed

text \<open>A worker that has lost the lock neither posts nor touches a job or an attempt.\<close>

lemma process_not_owner:
  assumes "\<not> list_ex (owned (sj_id job) (oe_worker env)) (send_jobs (ob_db s))"
  shows "send_jobs (ob_db (process env i now job s)) = send_jobs (ob_db s)"
    "send_attempts (ob_db (process env i now job s)) = send_attempts (ob_db s)"
    "ob_posts (process env i now job s) = ob_posts s"
    "clients (ob_db (process env i now job s)) = clients (ob_db s)"
proof -
  have none: "update_where (owned (sj_id job) (oe_worker env)) f (send_jobs (ob_db s)) = send_jobs (ob_db s)" for f
    using assms by (simp add: update_where_none list_ex_iff)
  then have park: "snd (park env now job st a e dl s) = s" for st a e dl
    by (simp add: park_eq job_update_def)
  have send: "send env i now job msg s = s" for msg
    using assms none by (simp add: send_def send_post_def touchLock_eq)
  have fail: "failDead env i now job msg a e s = s" for msg a e
    using assms park [of JobDead a e 0] by (simp add: failDead_def park_eq)
  have "process env i now job s = s \<or> (\<exists>msg row. process env i now job s = acceptFromStat env i now job msg row s)"
    by (auto simp: process_def handleUncertain_def park send fail split: sum.split option.split)
  then show "send_jobs (ob_db (process env i now job s)) = send_jobs (ob_db s)"
    "send_attempts (ob_db (process env i now job s)) = send_attempts (ob_db s)"
    "ob_posts (process env i now job s) = ob_posts s"
    "clients (ob_db (process env i now job s)) = clients (ob_db s)"
    using acceptFromStat_effect [of job env s i now] none by (auto simp: job_effect_def)
qed

end
