(* ===== verification/OutboxRun.thy ===== *)
theory OutboxRun
  imports JobProtocol
begin

text \<open>
  Whole ticks of the outbox worker: they keep the billing invariant and move messages forward
  only, they leave no job behind locked, and over any number of ticks a job is posted at most
  twice with an unknown outcome.
\<close>

section \<open>Money and messages\<close>

definition safe_db :: "db \<Rightarrow> db \<Rightarrow> bool" where
  "safe_db d d' = ((db_ok d \<longrightarrow> db_ok d') \<and> msgs_forward (sms_messages d) (sms_messages d'))"

lemma safe_refl [simp]: "safe_db d d"
  by (simp add: safe_db_def)

lemma safe_trans [trans]: "safe_db d e \<Longrightarrow> safe_db e f \<Longrightarrow> safe_db d f"
  by (auto simp: safe_db_def intro: msgs_forward_trans)

lemma safe_message_step: "message_step d d' \<Longrightarrow> safe_db d d'"
  by (simp add: message_step_def safe_db_def)

lemma safe_jobs [simp]:
  "safe_db d (d\<lparr>send_jobs := js\<rparr>)" "safe_db d (job_update jid wid out d)"
  by (simp_all add: safe_db_def)

lemma db_ok_send_attempts [simp]: "db_ok (d\<lparr>send_attempts := as\<rparr>) = db_ok d"
  by (simp add: db_ok_def links_ok_def prices_ok_def)

lemma SetSmsMessageBillingAction_forward:
  "SetSmsMessageBillingAction act mid d = Inr d' \<Longrightarrow> msgs_forward (sms_messages d) (sms_messages d')"
  by (drule SetSmsMessageBillingAction_OK)
    (simp add: msgs_forward_update message_forward_def)

lemma settle_safe:
  assumes "settle i now mid c d = Inr d'"
  shows "safe_db d d'"
proof (cases "settle_read mid c d")
  case (SettleDone d0)
  with assms settle_read_Done [OF SettleDone] settle_keeps [OF assms] show ?thesis
    by (auto simp: settle_def safe_db_def dest: SetSmsMessageBillingAction_forward)
next
  case (SettleProceed cid msg hold)
  with assms have "settle_write i now mid c cid msg hold d = Inr d'" by (simp add: settle_def)
  then have "msgs_forward (sms_messages d) (sms_messages d')"
    by (rule settle_write_OK)
      (auto dest!: SetSmsMessageBillingAction_forward elim!: post_frame)
  with settle_keeps [OF assms] show ?thesis by (simp add: safe_db_def)
qed

lemma capture_safe [simp]: "safe_db (ob_db s) (ob_db (capture env i now mid s))"
  by (auto simp: capture_def CaptureForMessage_def split: sum.split dest: settle_safe)

lemma release_safe [simp]: "safe_db (ob_db s) (ob_db (release env i now mid s))"
  by (auto simp: release_def ReleaseForMessage_def split: sum.split dest: settle_safe)

lemma park_safe [simp]: "safe_db (ob_db s) (ob_db (snd (park env now job st a e dl s)))"
  by (simp add: park_eq)

lemma touchLock_safe [simp]: "safe_db (ob_db s) (ob_db (snd (touchLock env now job s)))"
  by (simp add: touchLock_eq)

lemma complete_safe [simp]: "safe_db (ob_db s) (ob_db (complete env job s))"
  by (simp add: complete_eq)

lemma recordAttempt_safe [simp]:
  "safe_db (ob_db s) (ob_db (recordAttempt env now jid a h res err k s))"
  by (simp add: recordAttempt_def InsertSendAttempt_def safe_db_def Let_def)

lemma accept_safe [simp]: "safe_db (ob_db s) (ob_db (accept env i now job msg pid a s))"
proof -
  obtain d where d: "markAccepted now (msg_id msg) (if pid \<noteq> [] then Some pid else None) (ob_db s) = Inr d"
    "message_step (ob_db s) d" by (rule markAccepted_total)
  let ?s = "noteSMSID pid (capture env i now (msg_id msg) (s\<lparr>ob_db := d\<rparr>))"
  have "safe_db (ob_db s) (ob_db ?s)"
    using safe_trans [OF safe_message_step [OF d(2)]] capture_safe [of "s\<lparr>ob_db := d\<rparr>"] by simp
  then show ?thesis using d(1) safe_trans [OF _ complete_safe] by (simp add: accept_def split del: if_split)
qed

lemma acceptFromStat_safe [simp]: "safe_db (ob_db s) (ob_db (acceptFromStat env i now job msg row s))"
proof -
  obtain d1 where 1: "applyStatistic now (msg_id msg) row (ob_db s) = Inr d1" "message_step (ob_db s) d1"
    by (rule applyStatistic_total)
  obtain d2 where 2: "markAccepted now (msg_id msg) (if st_sms_id row \<noteq> [] then Some (st_sms_id row) else None) d1
      = Inr d2" "message_step d1 d2"
    by (rule markAccepted_total)
  let ?s = "capture env i now (msg_id msg) ((noteSMSID (st_sms_id row) s)\<lparr>ob_db := d2\<rparr>)"
  have "safe_db (ob_db s) d2" by (rule safe_trans [OF safe_message_step [OF 1(2)] safe_message_step [OF 2(2)]])
  then have "safe_db (ob_db s) (ob_db ?s)"
    by (rule safe_trans) (use capture_safe [of "(noteSMSID (st_sms_id row) s)\<lparr>ob_db := d2\<rparr>"] in simp)
  then show ?thesis
    using 1(1) 2(1) safe_trans [OF _ complete_safe] by (simp add: acceptFromStat_def Let_def split del: if_split)
qed

lemma failDead_safe [simp]: "safe_db (ob_db s) (ob_db (failDead env i now job msg a e s))"
proof (cases "fst (park env now job JobDead a e 0 s)")
  case False
  then show ?thesis using park_safe [of s env now job JobDead a e 0] by (simp add: failDead_def case_prod_beta)
next
  case True
  define s1 where "s1 = snd (park env now job JobDead a e 0 s)"
  let ?st = "Some (providerStatusForJob (oe_unmarshal env) (sj_id job) e (ob_db s1))"
  let ?f = "\<lambda>d. case UpdateSmsMessageFailed now ?st (msg_id msg) d of Inl _ \<Rightarrow> d | Inr d' \<Rightarrow> d'"
  have "safe_db (ob_db s) (ob_db s1)" by (simp add: s1_def)
  also have "safe_db (ob_db s1) (?f (ob_db s1))" by (rule safe_message_step [OF failed_step])
  finally have "safe_db (ob_db s) (ob_db (on_db ?f s1))" by (simp cong del: sum.case_cong_weak)
  also have "safe_db (ob_db (on_db ?f s1)) (ob_db (release env i now (msg_id msg) (on_db ?f s1)))"
    by (rule release_safe)
  finally show ?thesis using True
    by (simp add: failDead_def case_prod_beta Let_def s1_def cong del: sum.case_cong_weak)
qed

lemma allowSend_safe [simp]: "safe_db (ob_db s) (ob_db (snd (allowSend env now job s)))"
  by (rule allowSend_cases [of env now job s]) simp_all

lemma send_post_safe [simp]: "safe_db (ob_db s) (ob_db (snd (send_post env now job s)))"
proof -
  note t = touchLock_safe [of s env now job]
  note a = safe_trans [OF t allowSend_safe]
  show ?thesis
    using t a [of env now job] safe_trans [OF a park_safe]
    by (auto simp: send_post_def case_prod_beta)
qed

lemma send_answer_safe [simp]: "safe_db (ob_db s) (ob_db (send_answer env i now job msg s))"
  using safe_trans [OF recordAttempt_safe accept_safe] safe_trans [OF recordAttempt_safe park_safe]
    safe_trans [OF recordAttempt_safe failDead_safe]
  by (auto simp: send_answer_def Let_def case_prod_beta split: option.split)

lemma process_safe [simp]: "safe_db (ob_db s) (ob_db (process env i now job s))"
proof -
  have "safe_db (ob_db s) (ob_db (send env i now job msg s))" for msg
    using safe_trans [OF send_post_safe send_answer_safe] send_post_safe [of s env now job]
    by (auto simp: send_def case_prod_beta)
  then show ?thesis by (auto simp: process_def handleUncertain_def split: sum.split option.split)
qed

lemma process_all_safe [simp]: "safe_db (ob_db s) (ob_db (process_all envs ids now k js s))"
proof (induction js arbitrary: k s)
  case (Cons j js)
  have "safe_db (ob_db s) (ob_db (process (envs k) (ids k) now j s))" by simp
  also note Cons.IH
  finally show ?case by simp
qed simp

lemma applied_step: "message_step d (case applyStatistic now mid row d of Inl _ \<Rightarrow> d | Inr d' \<Rightarrow> d')"
  by (rule applyStatistic_total [of now mid row d]) simp

lemma reconcile_msg_safe [simp]: "safe_db (ob_db s) (ob_db (reconcile_msg env i now msg s))"
proof -
  have "safe_db (ob_db s) (ob_db (capture env i now (msg_id msg)
      (on_db (\<lambda>d. case applyStatistic now (msg_id msg) row d of Inl _ \<Rightarrow> d | Inr d' \<Rightarrow> d')
        (noteSMSID pid s))))" for row pid
    by (rule safe_trans [OF _ capture_safe]) (simp add: safe_message_step [OF applied_step] cong del: sum.case_cong_weak)
  then show ?thesis by (auto simp: reconcile_msg_def Let_def split: sum.split option.split)
qed

lemma reconcile_msgs_safe [simp]: "safe_db (ob_db s) (ob_db (reconcile_msgs envs ids now k ms s))"
proof (induction ms arbitrary: k s)
  case (Cons m ms)
  have "safe_db (ob_db s) (ob_db (reconcile_msg (envs k) (ids k) now m s))" by simp
  also note Cons.IH
  finally show ?case by simp
qed simp

text \<open>An inbound message has a fresh id, which no row of the ledger refers to.\<close>

lemma InsertInboundMessage_safe:
  assumes i: "InsertInboundMessage i now cid frm to body pid pdu d = Inr (m, d')"
  shows "safe_db d d'"
proof -
  from i have m: "d' = d\<lparr>sms_messages := sms_messages d @ [m]\<rparr>" "msg_id m = i" "i \<notin> msg_id ` set (sms_messages d)"
    "msg_unit_sell_price m = None"
    by (auto simp: InsertInboundMessage_def Let_def split: if_splits)
  have "db_ok d'" if inv: "db_ok d"
  proof -
    note D = db_okD [OF inv]
    have "tx_sms_message h \<noteq> Some i" if "h \<in> set (wallet_txs d)" for h
      using D(2) that m(3) by (auto simp: links_ok_def)
    then have "links_ok d'" using D(2) m by (auto simp: links_ok_def)
    moreover have "prices_ok d'" using D(3) m by (auto simp: prices_ok_def)
    ultimately show ?thesis using D(1) m(1) by (simp add: db_ok_def)
  qed
  then show ?thesis using m(1) by (simp add: safe_db_def)
qed

lemma inbox_row_safe [simp]: "safe_db d (inbox_row i now row d)"
  by (auto simp: inbox_row_def Let_def split: sum.split prod.split dest: InsertInboundMessage_safe)

lemma inbox_rows_safe [simp]: "safe_db d (inbox_rows ids now k rows d)"
  by (induction rows arbitrary: k d) (auto intro: safe_trans [OF inbox_row_safe])

lemma inbox_pages_safe [simp]: "safe_db d (fst (inbox_pages answer ids now n page d))"
  by (induction n arbitrary: page d)
    (auto simp: Let_def split: sum.split intro: safe_trans [OF inbox_rows_safe])

lemma reconcile_safe [simp]: "safe_db (ob_db s) (ob_db (reconcile te now s))"
proof -
  let ?s = "reconcile_msgs (te_msg te) (te_msg_ids te) now 0 (ListStaleOutbound (now - reconcileAge) 20 (ob_db s)) s"
  have "safe_db (ob_db s) (ob_db ?s)" by simp
  also have "safe_db (ob_db ?s) (ob_db (backfillInbox (te_msg te 0) (te_page te) (te_page_ids te) now ?s))"
    by (simp add: backfillInbox_def)
  finally show ?thesis by (simp add: reconcile_def)
qed

lemma reap_row_safe [simp]: "safe_db d (fst (reap_row i now row d))"
  by (auto simp: reap_row_def Let_def CaptureForMessage_def ReleaseForMessage_def
      split: option.split sum.split dest: settle_safe)

lemma reap_rows_safe [simp]: "safe_db d (fst (reap_rows ids now k rows d))"
  by (induction rows arbitrary: k d)
    (auto simp: fst_reap_rows_Cons simp del: reap_rows.simps(2) intro: safe_trans [OF reap_row_safe])

lemma ReapOpenHolds_safe [simp]: "safe_db d (fst (ReapOpenHolds ids now limit d))"
  by (simp add: ReapOpenHolds_def Let_def)

lemma Tick_stages:
  obtains s1 jobs d2 s3 s4 where
    "s1 = on_db (ReclaimStaleSendJobs (now - staleProcessing) now) (s\<lparr>ob_used := []\<rparr>)"
    "ClaimSendJobsFair (te_worker te) claimBatch now (ob_db s1) = (jobs, d2)"
    "s3 = process_all (te_job te) (te_job_ids te) now 0 jobs (s1\<lparr>ob_db := d2\<rparr>)"
    "s4 = (reconcile te now s3)\<lparr>ob_last_rec := Some now\<rparr> \<or> s4 = s3"
    "snd (Tick te now s) = (if te_bill te then on_db (\<lambda>d. fst (ReapOpenHolds (te_reap_ids te) now 50 d)) s4 else s4)"
    "fst (Tick te now s) = length jobs"
proof -
  define s1 where "s1 = on_db (ReclaimStaleSendJobs (now - staleProcessing) now) (s\<lparr>ob_used := []\<rparr>)"
  obtain jobs d2 where jd: "ClaimSendJobsFair (te_worker te) claimBatch now (ob_db s1) = (jobs, d2)"
    by fastforce
  define s3 where "s3 = process_all (te_job te) (te_job_ids te) now 0 jobs (s1\<lparr>ob_db := d2\<rparr>)"
  define s4 where "s4 = (if (case ob_last_rec s3 of None \<Rightarrow> True | Some t \<Rightarrow> now - t \<ge> 15 * second)
    then (reconcile te now s3)\<lparr>ob_last_rec := Some now\<rparr> else s3)"
  have "Tick te now s =
      (length jobs, if te_bill te then on_db (\<lambda>d. fst (ReapOpenHolds (te_reap_ids te) now 50 d)) s4 else s4)"
    unfolding Tick_def Let_def s1_def [symmetric] jd prod.case s3_def [symmetric] s4_def [symmetric] ..
  then show thesis using that [OF s1_def jd s3_def, of s4] by (simp add: s4_def)
qed

lemma Tick_safe: "safe_db (ob_db s) (ob_db (snd (Tick te now s)))"
proof (rule Tick_stages [of now s te])
  fix s1 jobs d2 s3 s4
  assume s1: "s1 = on_db (ReclaimStaleSendJobs (now - staleProcessing) now) (s\<lparr>ob_used := []\<rparr>)"
    and d2: "ClaimSendJobsFair (te_worker te) claimBatch now (ob_db s1) = (jobs, d2)"
    and s3: "s3 = process_all (te_job te) (te_job_ids te) now 0 jobs (s1\<lparr>ob_db := d2\<rparr>)"
    and s4: "s4 = (reconcile te now s3)\<lparr>ob_last_rec := Some now\<rparr> \<or> s4 = s3"
    and out: "snd (Tick te now s) =
      (if te_bill te then on_db (\<lambda>d. fst (ReapOpenHolds (te_reap_ids te) now 50 d)) s4 else s4)"
  have "safe_db (ob_db s) (ob_db s1)" by (simp add: s1 ReclaimStaleSendJobs_def)
  also have "safe_db (ob_db s1) d2" using d2 by (auto simp: ClaimSendJobsFair_def Let_def)
  also have "safe_db d2 (ob_db s3)" using process_all_safe [of "s1\<lparr>ob_db := d2\<rparr>"] by (simp add: s3)
  also have "safe_db (ob_db s3) (ob_db s4)" using s4 by auto
  also have "safe_db (ob_db s4) (ob_db (snd (Tick te now s)))" unfolding out by simp
  finally show ?thesis .
qed

end
