(* ===== verification/PostBound.thy ===== *)
theory PostBound
  imports OutboxRun
begin

text \<open>
  How often a job can be posted. The system is a sequence of enqueued messages and whole
  ticks of workers; the counter of attempts and the marker in \<open>last_error\<close> bound the POSTs.
\<close>

section \<open>The rest of a tick and the jobs\<close>

lemma reconcile_msg_frame [simp]:
  "send_jobs (ob_db (reconcile_msg env i now m s)) = send_jobs (ob_db s)"
  "send_attempts (ob_db (reconcile_msg env i now m s)) = send_attempts (ob_db s)"
  "ob_posts (reconcile_msg env i now m s) = ob_posts s"
  by (auto simp: reconcile_msg_def Let_def message_stepD(1,2) [OF applied_step] cong del: sum.case_cong_weak
      split: sum.split option.split)

lemma reconcile_msgs_frame [simp]:
  "send_jobs (ob_db (reconcile_msgs envs ids now k ms s)) = send_jobs (ob_db s)"
  "send_attempts (ob_db (reconcile_msgs envs ids now k ms s)) = send_attempts (ob_db s)"
  "ob_posts (reconcile_msgs envs ids now k ms s) = ob_posts s"
  by (induction ms arbitrary: k s) simp_all

lemma inbox_row_frame [simp]:
  "send_jobs (inbox_row i now row d) = send_jobs d" "send_attempts (inbox_row i now row d) = send_attempts d"
  by (auto simp: inbox_row_def InsertInboundMessage_def Let_def split: sum.splits if_splits)

lemma inbox_rows_frame [simp]:
  "send_jobs (inbox_rows ids now k rows d) = send_jobs d"
  "send_attempts (inbox_rows ids now k rows d) = send_attempts d"
  by (induction rows arbitrary: k d) simp_all

lemma inbox_pages_frame [simp]:
  "send_jobs (fst (inbox_pages answer ids now n page d)) = send_jobs d"
  "send_attempts (fst (inbox_pages answer ids now n page d)) = send_attempts d"
  by (induction n arbitrary: page d) (auto simp: Let_def split: sum.split)

lemma reconcile_frame [simp]:
  "send_jobs (ob_db (reconcile te now s)) = send_jobs (ob_db s)"
  "send_attempts (ob_db (reconcile te now s)) = send_attempts (ob_db s)"
  "ob_posts (reconcile te now s) = ob_posts s"
  by (simp_all add: reconcile_def backfillInbox_def)

lemma reap_row_jobs: "job_tables (fst (reap_row i now row d)) = job_tables d"
  by (auto simp: reap_row_def Let_def CaptureForMessage_def ReleaseForMessage_def simp del: job_tables_eq
      split: option.split sum.split dest: settle_job_tables)

lemma reap_rows_jobs: "job_tables (fst (reap_rows ids now k rows d)) = job_tables d"
  by (induction rows arbitrary: k d)
    (auto simp: fst_reap_rows_Cons reap_row_jobs simp del: reap_rows.simps(2) job_tables_eq)

lemma ReapOpenHolds_frame [simp]:
  "send_jobs (fst (ReapOpenHolds ids now limit d)) = send_jobs d"
  "send_attempts (fst (ReapOpenHolds ids now limit d)) = send_attempts d"
  using reap_rows_jobs by (simp_all add: ReapOpenHolds_def Let_def)

section \<open>Counting\<close>

definition attempts_of :: "uuid \<Rightarrow> send_attempt_kind set \<Rightarrow> db \<Rightarrow> nat" where
  "attempts_of jid ks d = length (filter (\<lambda>a. sa_job a = jid \<and> sa_kind a \<in> Some ` ks) (send_attempts d))"

abbreviation unknown :: "uuid \<Rightarrow> db \<Rightarrow> nat" where
  "unknown jid d \<equiv> attempts_of jid {KindTimeout, Kind5xx} d"

abbreviation decided :: "uuid \<Rightarrow> db \<Rightarrow> nat" where
  "decided jid d \<equiv> attempts_of jid {KindAccepted, KindRejected4xx} d"

definition final :: "send_job \<Rightarrow> bool" where
  "final j = (sj_status j \<in> {JobDone, JobDead})"

definition bounded :: "db \<Rightarrow> send_job \<Rightarrow> bool" where
  "bounded d j =
     (0 \<le> sj_attempt j
      \<and> (unknown (sj_id j) d = 0 \<or> unknown (sj_id j) d = 1 \<and> 1 \<le> sj_attempt j
         \<or> unknown (sj_id j) d = 2 \<and> 2 \<le> sj_attempt j \<and> (needStatistic j \<or> final j))
      \<and> (decided (sj_id j) d = 0 \<or> decided (sj_id j) d = 1 \<and> final j))"

lemma int32_inc_small: "0 \<le> n \<Longrightarrow> n < 2147483647 \<Longrightarrow> int32_inc n = n + 1"
  unfolding int32_inc_def by (rule sint_of_int_small) simp_all

lemma apply_outcome_keys [simp]: "sj_id (apply_outcome out j) = sj_id j"
  by (cases out) simp_all

lemma needStatistic_marks [simp]:
  "sj_last_error j = Some needStat \<Longrightarrow> needStatistic j" "sj_last_error j = Some needRetry \<Longrightarrow> needStatistic j"
  by (simp_all add: needStatistic_def deref_def)

lemma may_post_below: "may_post j latest \<Longrightarrow> needStatistic j \<Longrightarrow> sj_attempt j < 2"
  by (auto simp: may_post_def allowUncertainRetry_def maxUncertainSends_def split: if_splits)

text \<open>One move on a job whose POSTs are bounded keeps them bounded.\<close>

lemma move_bounded:
  assumes m: "job_move True j latest posted out" and b: "bounded d j" and live: "\<not> final j"
    and small: "sj_attempt j < 2147483647"
    and counts: "\<And>ks. attempts_of (sj_id j) ks d' =
      attempts_of (sj_id j) ks d + (case posted of None \<Rightarrow> 0 | Some k \<Rightarrow> if k \<in> ks then 1 else 0)"
  shows "bounded d' (apply_outcome out j)"
proof -
  have a: "0 \<le> sj_attempt j" and inc: "int32_inc (sj_attempt j) = sj_attempt j + 1"
    using b small by (simp_all add: bounded_def int32_inc_small)
  have few: "unknown (sj_id j) d \<le> 1" if "may_post j latest"
    using b live may_post_below [OF that] by (auto simp: bounded_def)
  show ?thesis
    using m b live inc a few
    by cases (auto simp: bounded_def counts final_def)
qed

section \<open>Processing the claimed jobs\<close>

text \<open>
  The state while a worker goes through the jobs \<open>js\<close> it has claimed: exactly they are being
  processed, the worker has their locks, and \<open>n\<close> bounds their counters.
\<close>

definition claimed :: "string \<Rightarrow> int \<Rightarrow> send_job list \<Rightarrow> db \<Rightarrow> bool" where
  "claimed wid n js d =
     (distinct (map sj_id (send_jobs d)) \<and> distinct (map sj_id js) \<and> set js \<subseteq> set (send_jobs d)
      \<and> (\<forall>j \<in> set js. sj_status j = JobProcessing \<and> sj_locked_by j = Some wid \<and> sj_attempt j \<le> n)
      \<and> (\<forall>j \<in> set (send_jobs d). sj_status j = JobProcessing \<longrightarrow> j \<in> set js)
      \<and> (\<forall>j \<in> set (send_jobs d). bounded d j \<and> sj_attempt j \<le> n + 1)
      \<and> sa_job ` set (send_attempts d) \<subseteq> sj_id ` set (send_jobs d))"

lemma update_owned:
  assumes "distinct (map sj_id js)" "j \<in> set js" "owned (sj_id j) wid j"
  shows "update_where (owned (sj_id j) wid) f js = update_where (\<lambda>k. k = j) f js"
  using assms by (auto simp: update_where_def owned_def dest: distinct_map_inj)

lemma job_move_not_processing:
  "job_move c j latest posted out \<Longrightarrow> sj_status (apply_outcome out j) \<noteq> JobProcessing"
  by (erule job_move.cases) auto

lemma job_move_attempt:
  "job_move c j latest posted out \<Longrightarrow> sj_attempt (apply_outcome out j) \<in> {sj_attempt j, int32_inc (sj_attempt j)}"
  by (erule job_move.cases) auto

lemma bounded_other:
  "(\<And>ks. attempts_of (sj_id j) ks d' = attempts_of (sj_id j) ks d) \<Longrightarrow> bounded d' j = bounded d j"
  by (simp add: bounded_def)

lemma job_effect_counts:
  assumes "job_effect j wid posted out s s'"
  shows "attempts_of jid ks (ob_db s') = attempts_of jid ks (ob_db s) +
      (case posted of None \<Rightarrow> 0 | Some k \<Rightarrow> if k \<in> ks \<and> jid = sj_id j then 1 else 0)"
    "sa_job ` set (send_attempts (ob_db s')) \<subseteq> insert (sj_id j) (sa_job ` set (send_attempts (ob_db s)))"
  using assms by (auto simp: job_effect_def attempts_of_def split: option.splits)

lemma process_claimed:
  assumes c: "claimed wid n (j # js) (ob_db s)" and env: "oe_worker env = wid" "configured env"
    and n: "n < 2147483647"
  shows "claimed wid n js (ob_db (process env i now j s))"
proof -
  let ?d = "ob_db s" and ?s' = "process env i now j s"
  have dist: "distinct (map sj_id (send_jobs ?d))" "distinct (map sj_id (j # js))"
    and mem: "j \<in> set (send_jobs ?d)" "set js \<subseteq> set (send_jobs ?d)"
    and own: "owned (sj_id j) wid j" and rows: "\<And>k. k \<in> set js \<Longrightarrow> sj_status k = JobProcessing
      \<and> sj_locked_by k = Some wid \<and> sj_attempt k \<le> n" and le: "sj_attempt j \<le> n"
    and proc: "\<And>k. k \<in> set (send_jobs ?d) \<Longrightarrow> sj_status k = JobProcessing \<Longrightarrow> k \<in> set (j # js)"
    and bd: "\<And>k. k \<in> set (send_jobs ?d) \<Longrightarrow> bounded ?d k \<and> sj_attempt k \<le> n + 1"
    and fk: "sa_job ` set (send_attempts ?d) \<subseteq> sj_id ` set (send_jobs ?d)"
    using c by (auto simp: claimed_def owned_def)
  from process_effect [of j env s i now] mem own env obtain posted out where
    move: "job_move True j (latestAttemptKind (sj_id j) ?d) posted out"
    and eff: "job_effect j wid posted out s ?s'"
    by (auto simp: one_move_def list_ex_iff)
  note cnt = job_effect_counts [OF eff]
  have jobs: "send_jobs (ob_db ?s') = update_where (\<lambda>k. k = j) (apply_outcome out) (send_jobs ?d)"
    using eff update_owned [OF dist(1) mem(1) own] by (simp add: job_effect_def)
  have others: "k \<in> set js \<Longrightarrow> sj_id k \<noteq> sj_id j" for k using dist(2) by (auto simp: image_iff)
  have new: "k = apply_outcome out j \<or> k \<in> set (send_jobs ?d) \<and> k \<noteq> j" if "k \<in> set (send_jobs (ob_db ?s'))" for k
    using that by (auto simp: jobs set_update_where)
  have live: "\<not> final j" using own by (simp add: final_def owned_def)
  have nonneg: "0 \<le> sj_attempt j" using bd [OF mem(1)] by (simp add: bounded_def)
  have "bounded (ob_db ?s') (apply_outcome out j)"
    by (rule move_bounded [OF move conjunct1 [OF bd [OF mem(1)]] live]) (use le n cnt(1) in \<open>auto split: option.split\<close>)
  moreover have "bounded (ob_db ?s') k" if "k \<in> set (send_jobs ?d)" "k \<noteq> j" for k
  proof -
    have "sj_id k \<noteq> sj_id j" using that mem(1) dist(1) by (auto dest: distinct_map_inj)
    then show ?thesis using bd [OF that(1)] cnt(1) by (subst bounded_other) (auto split: option.split)
  qed
  moreover have "sj_attempt (apply_outcome out j) \<le> n + 1"
    using job_move_attempt [OF move] int32_inc_small [OF nonneg] le n by auto
  ultimately have "\<forall>k \<in> set (send_jobs (ob_db ?s')). bounded (ob_db ?s') k \<and> sj_attempt k \<le> n + 1"
    using new bd by blast
  moreover have "set js \<subseteq> set (send_jobs (ob_db ?s'))"
    using mem(2) others by (fastforce simp: jobs set_update_where)
  moreover have "\<forall>k \<in> set (send_jobs (ob_db ?s')). sj_status k = JobProcessing \<longrightarrow> k \<in> set js"
    using new proc job_move_not_processing [OF move] by fastforce
  moreover have "map sj_id (send_jobs (ob_db ?s')) = map sj_id (send_jobs ?d)"
    by (simp add: jobs map_update_where_inv)
  moreover have "sa_job ` set (send_attempts (ob_db ?s')) \<subseteq> sj_id ` set (send_jobs (ob_db ?s'))"
    using cnt(2) fk mem(1) by (auto simp: jobs image_update_where)
  ultimately show ?thesis using dist rows by (simp add: claimed_def)
qed

lemma process_all_claimed:
  assumes "\<And>k. oe_worker (envs k) = wid \<and> configured (envs k)" "n < 2147483647"
  shows "claimed wid n js (ob_db s) \<Longrightarrow> claimed wid n [] (ob_db (process_all envs ids now k js s))"
proof (induction js arbitrary: k s)
  case (Cons j js)
  from process_claimed [OF Cons.prems] assms show ?case by (auto intro: Cons.IH)
qed simp

section \<open>Claiming\<close>

definition lock_for :: "string \<Rightarrow> time \<Rightarrow> send_job \<Rightarrow> send_job" where
  "lock_for wid now j = j\<lparr>sj_status := JobProcessing, sj_locked_at := Some now, sj_locked_by := Some wid\<rparr>"

lemma lock_for_simps [simp]:
  "sj_id (lock_for wid now j) = sj_id j" "sj_status (lock_for wid now j) = JobProcessing"
  "sj_locked_by (lock_for wid now j) = Some wid" "sj_attempt (lock_for wid now j) = sj_attempt j"
  "needStatistic (lock_for wid now j) = needStatistic j"
  by (simp_all add: lock_for_def needStatistic_def Let_def)

definition claim_ids :: "nat \<Rightarrow> time \<Rightarrow> db \<Rightarrow> uuid list" where
  "claim_ids limit now d = map sj_id (concat (map (claim_of now d) (claim_clients now limit d)))"

lemma ClaimSendJobsFair_eq:
  "ClaimSendJobsFair wid limit now d =
   (map (lock_for wid now) (filter (\<lambda>j. sj_id j \<in> set (claim_ids limit now d)) (send_jobs d)),
    d\<lparr>send_jobs := update_where (\<lambda>j. sj_id j \<in> set (claim_ids limit now d)) (lock_for wid now) (send_jobs d)\<rparr>)"
proof -
  have "lock_for wid now = (\<lambda>j. j\<lparr>sj_status := JobProcessing, sj_locked_at := Some now, sj_locked_by := Some wid\<rparr>)"
    by (simp add: fun_eq_iff lock_for_def)
  then show ?thesis by (simp add: ClaimSendJobsFair_def claim_ids_def Let_def)
qed

lemma claim_of_mem: "j \<in> set (claim_of now d c) \<Longrightarrow> j \<in> set (send_jobs d) \<and> claimable now d j \<and> sj_client j = c"
  by (auto simp: claim_of_def dest: in_set_takeD)

lemma claim_ids_claimable:
  assumes "sj_id j \<in> set (claim_ids limit now d)" "j \<in> set (send_jobs d)" "distinct (map sj_id (send_jobs d))"
  shows "claimable now d j"
  using assms by (auto simp: claim_ids_def dest!: claim_of_mem dest: distinct_map_inj)

lemma claim_claimed:
  assumes q: "claimed w (n - 1) [] d" and c: "ClaimSendJobsFair wid limit now d = (jobs, d')"
  shows "claimed wid n jobs d'"
proof -
  let ?p = "\<lambda>j. sj_id j \<in> set (claim_ids limit now d)" and ?f = "lock_for wid now"
  from c have jobs: "jobs = map ?f (filter ?p (send_jobs d))" and d': "send_jobs d' = update_where ?p ?f (send_jobs d)"
    "send_attempts d' = send_attempts d"
    by (auto simp: ClaimSendJobsFair_eq)
  have dist: "distinct (map sj_id (send_jobs d))" and none: "\<And>j. j \<in> set (send_jobs d) \<Longrightarrow> sj_status j \<noteq> JobProcessing"
    and bd: "\<And>j. j \<in> set (send_jobs d) \<Longrightarrow> bounded d j \<and> sj_attempt j \<le> n"
    and fk: "sa_job ` set (send_attempts d) \<subseteq> sj_id ` set (send_jobs d)"
    using q by (auto simp: claimed_def)
  have cnt: "attempts_of jid ks d' = attempts_of jid ks d" for jid ks by (simp add: attempts_of_def d'(2))
  have "\<not> final j" if "j \<in> set (send_jobs d)" "?p j" for j
    using claim_ids_claimable [OF that(2,1) dist] by (auto simp: claimable_def waiting_def final_def)
  then have "bounded d' (?f j) \<and> sj_attempt j \<le> n" if "j \<in> set (send_jobs d)" "?p j" for j
    using bd [OF that(1)] that by (auto simp: bounded_def cnt)
  moreover have "bounded d' j" if "j \<in> set (send_jobs d)" for j
    using bd [OF that] by (simp add: bounded_def cnt)
  ultimately have rows: "\<forall>k \<in> set (send_jobs d'). bounded d' k \<and> sj_attempt k \<le> n + 1"
    using bd by (force simp: d'(1) set_update_where)
  have ids: "map sj_id jobs = filter (\<lambda>i. i \<in> set (claim_ids limit now d)) (map sj_id (send_jobs d))"
    by (simp add: jobs filter_map comp_def)
  have "distinct (map sj_id jobs)" unfolding ids using dist by (rule distinct_filter)
  moreover have "\<forall>k \<in> set (send_jobs d'). sj_status k = JobProcessing \<longrightarrow> k \<in> set jobs" "set jobs \<subseteq> set (send_jobs d')"
    using none by (auto simp: d'(1) jobs set_update_where)
  ultimately show ?thesis
    using dist rows fk bd
    by (auto simp: claimed_def d' jobs map_update_where_inv image_update_where)
qed

section \<open>Whole ticks\<close>

lemma reclaim_quiet: "claimed w n [] d \<Longrightarrow> ReclaimStaleSendJobs before now d = d"
proof -
  assume "claimed w n [] d"
  then have "\<not> stale_job before j" if "j \<in> set (send_jobs d)" for j
    using that by (auto simp: claimed_def stale_job_def)
  then show ?thesis by (simp add: ReclaimStaleSendJobs_def update_where_none)
qed

lemma claimed_jobs_cong:
  "send_jobs d' = send_jobs d \<Longrightarrow> send_attempts d' = send_attempts d \<Longrightarrow> claimed w n js d' = claimed w' n js d"
  if "js = []" for js
  using that by (simp add: claimed_def bounded_def attempts_of_def)

lemma Tick_quiet:
  assumes q: "claimed w (n - 1) [] (ob_db s)" and n: "n < 2147483647"
    and env: "\<And>k. oe_worker (te_job te k) = te_worker te \<and> configured (te_job te k)"
  shows "claimed w n [] (ob_db (snd (Tick te now s)))"
proof (rule Tick_stages [of now s te])
  fix s1 jobs d2 s3 s4
  assume s1: "s1 = on_db (ReclaimStaleSendJobs (now - staleProcessing) now) (s\<lparr>ob_used := []\<rparr>)"
    and d2: "ClaimSendJobsFair (te_worker te) claimBatch now (ob_db s1) = (jobs, d2)"
    and s3: "s3 = process_all (te_job te) (te_job_ids te) now 0 jobs (s1\<lparr>ob_db := d2\<rparr>)"
    and s4: "s4 = (reconcile te now s3)\<lparr>ob_last_rec := Some now\<rparr> \<or> s4 = s3"
    and out: "snd (Tick te now s) =
      (if te_bill te then on_db (\<lambda>d. fst (ReapOpenHolds (te_reap_ids te) now 50 d)) s4 else s4)"
  have "ob_db s1 = ob_db s" using reclaim_quiet [OF q] by (simp add: s1)
  with claim_claimed [OF q] d2 have "claimed (te_worker te) n jobs d2" by simp
  then have "claimed (te_worker te) n [] (ob_db s3)"
    unfolding s3 by (intro process_all_claimed [OF env n]) simp
  moreover have "send_jobs (ob_db (snd (Tick te now s))) = send_jobs (ob_db s3)"
    "send_attempts (ob_db (snd (Tick te now s))) = send_attempts (ob_db s3)"
    using s4 unfolding out by auto
  ultimately show ?thesis using claimed_jobs_cong [OF refl] by blast
qed

section \<open>The system\<close>

inductive outbox_step :: "ob_state \<Rightarrow> ob_state \<Rightarrow> bool" where
  tick: "(\<And>k. oe_worker (te_job te k) = te_worker te \<and> configured (te_job te k)) \<Longrightarrow>
    outbox_step s (snd (Tick te now s))"
| enqueue: "Enqueue ids now dirs bill inp (ob_db s) = Inr (m, d') \<Longrightarrow> outbox_step s (s\<lparr>ob_db := d'\<rparr>)"

lemma Enqueue_jobs:
  assumes "Enqueue ids now dirs bill inp d = Inr (m, d')"
  obtains j where "send_jobs d' = send_jobs d @ [j]" "send_attempts d' = send_attempts d"
    "sj_status j = JobPending" "sj_attempt j = 0" "sj_id j \<notin> sj_id ` set (send_jobs d)"
  using Enqueue_OK [OF assms]
proof (rule enqueue_OK)
  fix frm dst body est d1 d2 d3
  assume live: "Live d' = Live d3"
    and m: "InsertSmsMessage (id_message ids) now (enqueue_params inp frm dst body est) d = Inr (m, d1)"
    and j: "InsertSendJob (id_job ids) now (msg_id m) (Some (ei_client inp)) d1 = Inr d2"
    and r: "ReserveForMessage (id_hold ids) now (Some d2) m = Inr d3"
  have "job_tables d3 = job_tables d2" using r by (rule ReserveForMessage_OK) (auto elim: post_frame)
  moreover from j obtain k where "d2 = d1\<lparr>send_jobs := send_jobs d1 @ [k]\<rparr>" "sj_id k = id_job ids"
    "sj_status k = JobPending" "sj_attempt k = 0" "id_job ids \<notin> sj_id ` set (send_jobs d1)"
    by (rule InsertSendJob_OK)
  ultimately show thesis using that [of k] live InsertSmsMessage_OK(1) [OF m] by simp
qed

lemma Enqueue_quiet:
  assumes q: "claimed w n [] d" and n: "-1 \<le> n" and e: "Enqueue ids now dirs bill inp d = Inr (m, d')"
  shows "claimed w n [] d'"
  using e
proof (rule Enqueue_jobs)
  fix j
  assume j: "send_jobs d' = send_jobs d @ [j]" "send_attempts d' = send_attempts d" "sj_status j = JobPending"
    "sj_attempt j = 0" "sj_id j \<notin> sj_id ` set (send_jobs d)"
  have cnt: "attempts_of jid ks d' = attempts_of jid ks d" for jid ks by (simp add: attempts_of_def j(2))
  have "sa_job a \<noteq> sj_id j" if "a \<in> set (send_attempts d)" for a
    using q imageI [OF that, of sa_job] j(5) by (auto simp: claimed_def)
  then have "attempts_of (sj_id j) ks d = 0" for ks by (auto simp: attempts_of_def filter_empty_conv)
  then have "bounded d' j" by (simp add: bounded_def cnt j(4))
  moreover have "bounded d' k = bounded d k" for k by (simp add: bounded_def cnt)
  ultimately show ?thesis using q j n by (auto simp: claimed_def)
qed

lemma outbox_steps_quiet:
  assumes "(outbox_step ^^ n) s t" "claimed w (-1) [] (ob_db s)" "n < 2147483647"
  shows "claimed w (int n - 1) [] (ob_db t)"
  using assms
proof (induction n arbitrary: t)
  case (Suc n)
  then obtain u where u: "claimed w (int n - 1) [] (ob_db u)" "outbox_step u t" by auto
  from u(2) show ?case
  proof cases
    case (tick te now)
    with Tick_quiet [OF u(1)] Suc.prems(3) show ?thesis by simp
  next
    case (enqueue ids now dirs bill inp m d')
    have "claimed w (int n) [] (ob_db u)" using u(1) by (force simp: claimed_def)
    from Enqueue_quiet [OF this _ enqueue(2)] enqueue(1) show ?thesis by simp
  qed
qed simp

lemma claimed_bound:
  assumes "claimed w n [] d"
  shows "unknown jid d \<le> 2" "decided jid d \<le> 1"
proof -
  have "unknown jid d \<le> 2 \<and> decided jid d \<le> 1"
  proof (cases "jid \<in> sj_id ` set (send_jobs d)")
    case True
    then show ?thesis using assms by (auto simp: claimed_def bounded_def)
  next
    case False
    then have "\<forall>a \<in> set (send_attempts d). sa_job a \<noteq> jid" using assms by (auto simp: claimed_def)
    then have "attempts_of jid ks d = 0" for ks by (auto simp: attempts_of_def filter_empty_conv)
    then show ?thesis by simp
  qed
  then show "unknown jid d \<le> 2" "decided jid d \<le> 1" by simp_all
qed

end
