(* ===== verification/WalletProps.thy ===== *)
theory WalletProps
  imports WalletFlows
begin

text \<open>
  The correctness theorems of the wallet, with the states on which the witnesses evaluate
  the operations: \<open>demo_db\<close> has a client with a wallet of 10.00, two priced messages and a
  lookup job of two items.
\<close>

section \<open>Example states\<close>

definition demo_msg :: "uuid \<Rightarrow> sms_message" where
  "demo_msg mid = \<lparr>msg_id = mid, msg_client = Some ''c1'', msg_direction = Outbound,
     msg_from = ''79000000001'', msg_to = ''79000000002'', msg_text = ''hi'',
     msg_provider_sms_id = None, msg_provider_status = None, msg_pdu_count = None,
     msg_campaign = None, msg_status = SmsQueued, msg_idempotency_key = None,
     msg_created_at = 0, msg_accepted_at = None, msg_sent_at = None, msg_delivered_at = None,
     msg_failed_at = None, msg_unit_sell_price = Some 2, msg_billed_segments = Some 2,
     msg_tariff_plan_id = Some ''p1'', msg_tariff_plan_code = Some ''std'',
     msg_currency = Some ''RUB'', msg_billing_action = None\<rparr>"

definition demo_item :: "uuid \<Rightarrow> lookup_item_status \<Rightarrow> lookup_item" where
  "demo_item iid st = \<lparr>li_id = iid, li_job = ''j1'', li_client = ''c1'', li_check_type = CheckHlr, li_status = st,
     li_phone = ''+79000000002'', li_phone_digits = ''79000000002'', li_provider_code = ''smsc'',
     li_provider_message_id = None, li_unit_sell_price = Some 1, li_tariff_plan_id = Some ''p2'',
     li_tariff_plan_code = Some ''hlr'', li_currency = Some ''RUB'', li_estimated_cost = Some 1,
     li_actual_cost = None, li_result_status = None, li_is_reachable = None, li_imsi = None,
     li_mcc = None, li_mnc = None, li_operator_name = None, li_country_code = None, li_ported = None,
     li_roaming = None, li_normalized_result = ''{}'', li_error_code = None, li_error_message = None,
     li_billing_action = None, li_next_poll_at = None, li_poll_attempts = 0, li_sent_at = None,
     li_completed_at = None, li_created_at = 0, li_updated_at = 0, li_enrich_attempts = 0\<rparr>"

definition demo_job :: lookup_job where
  "demo_job = \<lparr>lj_id = ''j1'', lj_client = ''c1'', lj_check_type = CheckHlr, lj_source = SourceBulk,
     lj_status = LJobProcessing, lj_item_count = 2, lj_success_count = 0, lj_failure_count = 0,
     lj_unit_sell_price = Some 1, lj_tariff_plan_id = Some ''p2'', lj_tariff_plan_code = Some ''hlr'',
     lj_currency = ''RUB'', lj_estimated_cost = Some 2, lj_actual_cost = None, lj_original_filename = None,
     lj_idempotency_key = None, lj_created_by = None, lj_api_credential_id = None, lj_error_code = None,
     lj_error_message = None, lj_started_at = None, lj_completed_at = None, lj_metadata = ''{}'',
     lj_created_at = 0, lj_updated_at = 0, lj_reachable_count = 0, lj_unreachable_count = 0\<rparr>"

definition demo_db :: db where
  "demo_db = empty_db
     \<lparr>clients := [\<lparr>cl_id = ''c1'', cl_status = ClientActive\<rparr>],
      wallets := [\<lparr>w_id = ''w1'', w_client = ''c1'', w_currency = ''RUB'', w_available = 10,
                   w_held = 0, w_version = 0\<rparr>],
      sms_messages := [demo_msg ''m1'', demo_msg ''m2''],
      lookup_jobs := [demo_job],
      lookup_items := [demo_item ''i1'' ItemCompleted, demo_item ''i2'' ItemFailed]\<rparr>"

lemma is_money_numerals [simp]:
  "is_money 1" "is_money (numeral n)"
  by (simp_all add: is_money_def)

lemmas demo_defs = demo_db_def demo_msg_def demo_item_def demo_job_def empty_db_def
lemmas invariant_defs = db_ok_def ledger_ok_def links_ok_def prices_ok_def keyed_def wallet_balanced_def
  wallet_stored_def storable_def sum_amounts_def

lemma demo_db_ok: "db_ok demo_db"
  by (simp add: demo_defs invariant_defs)

lemmas wallet_eval = ReserveForMessage_def clientDeleted_def GetClientByID_def Let_def mustPositive_def
  tx_posted_def GetWalletTxByIdempotency_def LockWalletByClientID_def GetWalletByClientID_def
  applyHold_def UpdateWalletBalances_def InsertWalletTransaction_def billing_money_def
  billing_money_opt_def round6_id int4_max_def char3_def trimCurrency_def key_defs uuidPtr_def
  uuid_Nil_def

lemma TrimSpace_RUB [simp]: "TrimSpace ''RUB'' = ''RUB''"
  by (simp add: TrimSpace_def Let_def unicode_IsSpace_def)

definition demo_hold :: "uuid \<Rightarrow> uuid \<Rightarrow> decimal \<Rightarrow> decimal \<Rightarrow> wallet_tx" where
  "demo_hold i mid avail held = \<lparr>tx_id = i, tx_wallet = ''w1'', tx_client = ''c1'', tx_type = HOLD,
     tx_amount = 4, tx_currency = ''RUB'', tx_after_available = Some avail, tx_after_held = Some held,
     tx_related_hold = None, tx_sms_message = Some mid, tx_lookup_job = None, tx_lookup_item = None,
     tx_key = Some (HoldKey mid), tx_description = Some ''Reserve SMS'',
     tx_metadata = [(''sms_message_id'', JString mid), (''to_msisdn'', JString ''79000000002''),
       (''billed_segments'', JInt 2), (''unit_sell_price'', JMoney 2),
       (''tariff_plan_id'', JString ''p1''), (''tariff_plan_code'', JString ''std''),
       (''price_source'', JString ''message_snapshot''), (''campaign_id'', JNull)],
     tx_created_by = None, tx_created_at = 5\<rparr>"

definition demo_held :: db where
  "demo_held = demo_db
     \<lparr>wallets := [\<lparr>w_id = ''w1'', w_client = ''c1'', w_currency = ''RUB'', w_available = 6,
                   w_held = 4, w_version = 1\<rparr>],
      wallet_txs := [demo_hold ''t1'' ''m1'' 6 4]\<rparr>"

definition demo_held2 :: db where
  "demo_held2 = demo_db
     \<lparr>wallets := [\<lparr>w_id = ''w1'', w_client = ''c1'', w_currency = ''RUB'', w_available = 2,
                   w_held = 8, w_version = 2\<rparr>],
      wallet_txs := [demo_hold ''t1'' ''m1'' 6 4, demo_hold ''t2'' ''m2'' 2 8]\<rparr>"

lemma demo_reserve: "ReserveForMessage ''t1'' 5 (Some demo_db) (demo_msg ''m1'') = Inr demo_held"
  by (simp add: demo_defs demo_held_def demo_hold_def wallet_eval)

lemma demo_reserve2: "ReserveForMessage ''t2'' 5 (Some demo_held) (demo_msg ''m2'') = Inr demo_held2"
  by (simp add: demo_defs demo_held_def demo_held2_def demo_hold_def wallet_eval)

lemma demo_steps: "(wallet_step False)\<^sup>*\<^sup>* demo_db demo_held2"
proof -
  have "wallet_step False demo_db demo_held" by (rule reserve [OF _ demo_reserve]) (simp add: demo_db_def)
  moreover have "wallet_step False demo_held demo_held2"
    by (rule reserve [OF _ demo_reserve2]) (simp add: demo_held_def demo_db_def)
  ultimately show ?thesis by simp
qed

lemma demo_held2_ok: "db_ok demo_held2"
  by (rule wallet.steps_keep [OF demo_steps demo_db_ok])

section \<open>The ledger\<close>

text \<open>
  C1. Whatever sequence of wallet transactions commits (wallet creation, reservations,
  captures, releases, top-ups, adjustments, the reapers, for SMS and for lookup jobs), the
  billing invariant is kept and the held balance of every wallet is exactly the sum of
  what is still open of the holds of its client; no hold is settled beyond its amount and
  no held balance is negative.
\<close>

theorem held_balance_is_open_holds:
  assumes "db_ok d" and "(wallet_step neg)\<^sup>*\<^sup>* d d'" and "w \<in> set (wallets d')"
  shows "db_ok d' \<and> 0 \<le> w_held w \<and>
    w_held w = (\<Sum>h\<leftarrow>filter (client_holds (w_client w)) (wallet_txs d'). open_amount (wallet_txs d') h) \<and>
    (\<forall>h \<in> set (wallet_txs d'). tx_type h = HOLD \<longrightarrow> 0 \<le> open_amount (wallet_txs d') h)"
proof (intro conjI)
  show ok: "db_ok d'" by (rule wallet.steps_keep [OF assms(2,1)])
  show "w_held w = (\<Sum>h\<leftarrow>filter (client_holds (w_client w)) (wallet_txs d'). open_amount (wallet_txs d') h)"
    by (rule held_open_holds(1) [OF db_okD(1) [OF ok] assms(3)])
  show "\<forall>h \<in> set (wallet_txs d'). tx_type h = HOLD \<longrightarrow> 0 \<le> open_amount (wallet_txs d') h"
    using held_open_holds(2) [OF db_okD(1) [OF ok] assms(3)] by blast
  show "0 \<le> w_held w" by (rule held_open_holds(3) [OF db_okD(1) [OF ok] assms(3)])
qed

theorem held_balance_is_open_holds_witness:
  "\<exists>w \<in> set (wallets demo_held2). w_held w = 8 \<and> db_ok demo_held2 \<and> 0 \<le> w_held w \<and>
     w_held w = (\<Sum>h\<leftarrow>filter (client_holds (w_client w)) (wallet_txs demo_held2).
       open_amount (wallet_txs demo_held2) h)"
proof (rule bexI)
  let ?w = "hd (wallets demo_held2)"
  show w: "?w \<in> set (wallets demo_held2)" by (simp add: demo_held2_def)
  show "w_held ?w = 8 \<and> db_ok demo_held2 \<and> 0 \<le> w_held ?w \<and>
     w_held ?w = (\<Sum>h\<leftarrow>filter (client_holds (w_client ?w)) (wallet_txs demo_held2).
       open_amount (wallet_txs demo_held2) h)"
    using held_balance_is_open_holds [OF demo_db_ok demo_steps w] by (simp add: demo_held2_def)
qed

text \<open>
  C2. A message is never reserved twice and never settled twice: after any sequence of
  wallet transactions it has at most one hold and at most one settlement row (a debit or
  a release), whose amount is the whole hold.
\<close>

theorem message_settled_at_most_once:
  assumes "db_ok d" and "(wallet_step neg)\<^sup>*\<^sup>* d d'"
  shows "length (holds_of mid d') \<le> 1 \<and> length (settlements_of mid d') \<le> 1 \<and>
    (\<forall>h \<in> set (holds_of mid d'). \<forall>t \<in> set (settlements_of mid d').
       tx_related_hold t = Some (tx_id h) \<and> tx_amount t = tx_amount h)"
proof -
  have ok: "db_ok d'" by (rule wallet.steps_keep [OF assms(2,1)])
  moreover have "tx_related_hold t = Some (tx_id h) \<and> tx_amount t = tx_amount h"
    if "h \<in> set (holds_of mid d')" "t \<in> set (settlements_of mid d')" for h t
    by (rule settlement_of_hold [OF ok that])
  ultimately show ?thesis using holds_settlements_le_1 [OF ok] by blast
qed

theorem message_settled_at_most_once_witness:
  "length (holds_of ''m1'' demo_held2) = 1 \<and> length (settlements_of ''m1'' demo_held2) \<le> 1"
  using message_settled_at_most_once [OF demo_db_ok demo_steps, of "''m1''"]
  by (simp add: holds_of_def demo_held2_def demo_hold_def)

text \<open>
  C3. Starting from wallets without debt, no sequence of wallet transactions makes an
  available balance negative, unless an adjustment asks for it with \<open>allow_negative\<close>: a
  reservation that the balance does not cover is refused.
\<close>

theorem available_never_negative:
  assumes "sound d" and "(wallet_step False)\<^sup>*\<^sup>* d d'" and "w \<in> set (wallets d')"
  shows "0 \<le> w_available w"
  using prudent.steps_keep [OF assms(2,1)] assms(3) by (simp add: sound_def no_overdraft_def)

theorem available_never_negative_witness:
  "\<exists>w \<in> set (wallets demo_held2). w_available w = 2 \<and> 0 \<le> w_available w"
proof (rule bexI)
  let ?w = "hd (wallets demo_held2)"
  show w: "?w \<in> set (wallets demo_held2)" by (simp add: demo_held2_def)
  have "sound demo_db" using demo_db_ok by (simp add: sound_def no_overdraft_def demo_db_def)
  from available_never_negative [OF this demo_steps w]
  show "w_available ?w = 2 \<and> 0 \<le> w_available ?w" by (simp add: demo_held2_def)
qed

text \<open>
  C4. A reservation followed by a settlement always goes through and has the exact
  effect: a release restores both balances, a capture takes the price times the number of
  segments from the client and leaves the held balance as it was before the reservation.
  (Generated ids are new, and the wallet's version counter is below its maximum.)
\<close>

theorem reserve_then_settle:
  assumes "db_ok d" "m \<in> set (sms_messages d)" "msg_client m = Some cid" "\<not> clientDeleted cid d"
    "holds_of (msg_id m) d = []" "settlements_of (msg_id m) d = []"
    "\<not> tx_posted cid (HoldKey (msg_id m)) d"
    "LockWalletByClientID cid d = Inr w" "w_version w + 1 < int4_max"
    "ReserveForMessage i now (Some d) m = Inr d1" "j \<notin> insert i (tx_id ` set (wallet_txs d))"
  shows "\<exists>d2 w2. settle j now' (msg_id m) capture d1 = Inr d2 \<and> GetWalletByClientID cid d2 = Inr w2 \<and>
    w_held w2 = w_held w \<and> w_available w2 = w_available w -
      (if capture then the (msg_unit_sell_price m) * of_int (the (msg_billed_segments m)) else 0)"
  by (rule reserve_settle [OF assms]) blast

theorem reserve_then_settle_witness:
  "\<exists>d2 w2. settle ''t9'' 7 ''m1'' True demo_held = Inr d2 \<and> GetWalletByClientID ''c1'' d2 = Inr w2 \<and>
    w_held w2 = 0 \<and> w_available w2 = 6"
proof -
  let ?w = "hd (wallets demo_db)"
  have "\<exists>d2 w2. settle ''t9'' 7 (msg_id (demo_msg ''m1'')) True demo_held = Inr d2 \<and>
    GetWalletByClientID ''c1'' d2 = Inr w2 \<and> w_held w2 = w_held ?w \<and> w_available w2 = w_available ?w -
      (if True then the (msg_unit_sell_price (demo_msg ''m1''))
        * of_int (the (msg_billed_segments (demo_msg ''m1''))) else 0)"
    by (rule reserve_then_settle [OF demo_db_ok _ _ _ _ _ _ _ _ demo_reserve])
      (simp_all add: demo_defs holds_of_def settlements_of_def clientDeleted_def GetClientByID_def
        tx_posted_def GetWalletTxByIdempotency_def LockWalletByClientID_def GetWalletByClientID_def
        int4_max_def)
  then show ?thesis by (simp add: demo_defs)
qed

text \<open>
  C5. Settlement is idempotent and exclusive: once a capture or a release of a message
  has returned without error, every further capture or release of that message succeeds
  and changes neither a balance nor the ledger, whichever of the two it asks for.
\<close>

theorem settle_twice_is_settle_once:
  assumes "db_ok d" and "settle i now mid capture d = Inr d1"
  shows "\<exists>d2. settle j now' mid capture' d1 = Inr d2 \<and> wallets d2 = wallets d1 \<and>
    wallet_txs d2 = wallet_txs d1"
  by (rule settle_again [OF assms]) blast

lemmas settle_eval = settle_def settle_read_def settle_write_def settle_row_def settle_key_def
  settle_action_def GetSmsMessageByID_def GetOpenHoldForMessage_def settles_def
  SetSmsMessageBillingAction_def applyDebitFromHold_def applyRelease_def

lemma demo_held_ok: "db_ok demo_held"
  by (rule ReserveForMessage_keeps [OF demo_reserve demo_db_ok]) (simp add: demo_db_def)

lemma demo_settle: "\<exists>d1. settle ''t9'' 7 ''m1'' True demo_held = Inr d1"
  by (simp add: demo_defs demo_held_def demo_hold_def settle_eval wallet_eval)

theorem settle_twice_is_settle_once_witness:
  "\<exists>d1 d2. settle ''t9'' 7 ''m1'' True demo_held = Inr d1 \<and>
    settle ''t10'' 8 ''m1'' False d1 = Inr d2 \<and> wallets d2 = wallets d1"
proof -
  from demo_settle obtain d1 where "settle ''t9'' 7 ''m1'' True demo_held = Inr d1" by blast
  with settle_twice_is_settle_once [OF demo_held_ok this, of "''t10''" 8 False] show ?thesis by blast
qed

text \<open>
  C19. Two settlements of one message that run concurrently can both take effect. \<open>settle\<close>
  reads the idempotency key and the open hold before it locks the wallet; a capture and
  a release that have both read the hold (their keys differ) then commit one after the
  other. In the state reached the message is settled twice, the ledger is out of balance,
  and a settlement of another message of the same client fails.
\<close>

theorem concurrent_capture_and_release_both_commit:
  "\<exists>d cid msg hold d1 d2 e.
     db_ok d \<and>
     settle_read ''m1'' True d = SettleProceed cid msg hold \<and>
     settle_read ''m1'' False d = SettleProceed cid msg hold \<and>
     settle_write ''t3'' 8 ''m1'' True cid msg hold d = Inr d1 \<and>
     settle_write ''t4'' 9 ''m1'' False cid msg hold d1 = Inr d2 \<and>
     length (settlements_of ''m1'' d2) = 2 \<and> \<not> db_ok d2 \<and>
     settlements_of ''m2'' d2 = [] \<and> CaptureForMessage ''t5'' 10 ''m2'' d2 = Inl e"
proof -
  let ?h = "demo_hold ''t1'' ''m1'' 6 4" and ?m = "demo_msg ''m1''"
  have r: "settle_read ''m1'' c demo_held2 = SettleProceed ''c1'' ?m ?h" for c
    by (cases c) (simp_all add: demo_defs demo_held2_def demo_hold_def settle_eval wallet_eval)
  obtain d1 d2 where w: "settle_write ''t3'' 8 ''m1'' True ''c1'' ?m ?h demo_held2 = Inr d1"
    "settle_write ''t4'' 9 ''m1'' False ''c1'' ?m ?h d1 = Inr d2"
    and two: "length (settlements_of ''m1'' d2) = 2" and none: "settlements_of ''m2'' d2 = []"
    and fails: "\<exists>e. CaptureForMessage ''t5'' 10 ''m2'' d2 = Inl e"
    by (simp add: demo_defs demo_held2_def demo_hold_def settle_eval wallet_eval settlements_of_def
        is_settlement_def CaptureForMessage_def)
  have "\<not> db_ok d2" using holds_settlements_le_1(2) [of d2 "''m1''"] two by auto
  with demo_held2_ok r w two none fails show ?thesis by blast
qed

text \<open>
  A top-up is applied at most once per client and idempotency key: a request with the
  key of one that succeeded succeeds and changes nothing, whatever amount it names.
\<close>

theorem topup_replay_changes_nothing:
  assumes "TopUp parse i now inp d = Inr d'" "i \<noteq> uuid_Nil"
    and "tu_client inp' = tu_client inp" "tu_key inp' = tu_key inp"
    and "money parse (tu_amount inp') = Inr amt" "0 < amt"
  shows "TopUp parse j now' inp' d' = Inr d'"
  by (rule TopUp_replay [OF assms])

definition demo_topup :: "string \<Rightarrow> topup_input" where
  "demo_topup amt = \<lparr>tu_client = ''c1'', tu_amount = amt, tu_comment = ''bank'', tu_key = ''k1'',
     tu_created_by = None\<rparr>"

definition demo_parse :: "string \<Rightarrow> decimal option" where
  "demo_parse s = (if s = ''5'' then Some 5 else if s = ''7'' then Some 7 else None)"

lemma TrimSpace_digits [simp]: "TrimSpace ''5'' = ''5''" "TrimSpace ''7'' = ''7''"
  by (simp_all add: TrimSpace_def Let_def unicode_IsSpace_def)

theorem topup_replay_changes_nothing_witness:
  "\<exists>d'. TopUp demo_parse ''t1'' 5 (demo_topup ''5'') demo_db = Inr d' \<and>
     TopUp demo_parse ''t2'' 6 (demo_topup ''7'') d' = Inr d'"
proof -
  obtain d' where d': "TopUp demo_parse ''t1'' 5 (demo_topup ''5'') demo_db = Inr d'"
    by (simp add: TopUp_def demo_topup_def demo_parse_def demo_defs money_def credit_def wallet_eval topup_key_def)
  have "TopUp demo_parse ''t2'' 6 (demo_topup ''7'') d' = Inr d'"
    by (rule topup_replay_changes_nothing [OF d', where amt = 7])
      (simp_all add: demo_topup_def uuid_Nil_def money_def demo_parse_def)
  with d' show ?thesis by blast
qed

text \<open>
  When no item of a lookup job can claim its share any more, releasing the remainder
  closes the job's hold: what was debited and released against it adds up to exactly the
  amount reserved.
\<close>

theorem lookup_remainder_closes_hold:
  assumes "db_ok d" "GetLookupJobHold jid d = Inr hold" "CountLookupItemsBlockingRemainder jid d = 0"
    "\<not> clientDeleted (tx_client hold) d"
    "\<not> tx_posted (tx_client hold) (LookupReleaseRemainderKey jid) d"
    "ReleaseLookupJobRemainder ids now jid d = Inr d'"
  shows "settled_sum (tx_id hold) d' = tx_amount hold"
proof -
  from assms(6) obtain k where "releaseLookupJobRemainderOnce (ids k) now jid d = Inr d'"
    unfolding ReleaseLookupJobRemainder_def using remainder_attempts_once by blast
  from remainder_closes [OF assms(1-5) this] show ?thesis .
qed

definition demo_lookup :: db where
  "demo_lookup = demo_db\<lparr>lookup_items := [],
     wallets := [\<lparr>w_id = ''w1'', w_client = ''c1'', w_currency = ''RUB'', w_available = 6,
                  w_held = 4, w_version = 1\<rparr>],
     wallet_txs := [(demo_hold ''t1'' ''m1'' 6 4)\<lparr>tx_sms_message := None, tx_lookup_job := Some ''j1'',
       tx_key := Some (LookupHoldKey ''j1'')\<rparr>]\<rparr>"

lemma demo_lookup_ok: "db_ok demo_lookup"
  by (simp add: demo_lookup_def demo_defs demo_hold_def invariant_defs client_holds_def
      client_settlements_def is_settlement_def settlement_linked_def hold_covered_def settles_def
      tx_stored_def char3_def settle_key_ok_def key_defs settle_key_def)

theorem lookup_remainder_closes_hold_witness:
  "\<exists>d'. ReleaseLookupJobRemainder (\<lambda>k. ''t2'') 6 ''j1'' demo_lookup = Inr d' \<and> settled_sum ''t1'' d' = 4"
proof -
  let ?h = "hd (wallet_txs demo_lookup)"
  have h: "GetLookupJobHold ''j1'' demo_lookup = Inr ?h"
    by (simp add: GetLookupJobHold_def demo_lookup_def demo_hold_def)
  obtain d' where d': "ReleaseLookupJobRemainder (\<lambda>k. ''t2'') 6 ''j1'' demo_lookup = Inr d'"
    by (simp add: ReleaseLookupJobRemainder_def walletVersionRetries_def numeral_eq_Suc
        releaseLookupJobRemainderOnce_def GetLookupJobHold_def LookupRemainderBlocked_def RemainingOnHold_def HoldIsOpen_def
        CountLookupItemsBlockingRemainder_def SumSettledAgainstHold_def settled_sum_def settles_def
        post_remainder_def applyRelease_def demo_lookup_def demo_defs demo_hold_def wallet_eval)
  have "settled_sum (tx_id ?h) d' = tx_amount ?h"
    by (rule lookup_remainder_closes_hold [OF demo_lookup_ok h _ _ _ d'])
      (simp_all add: CountLookupItemsBlockingRemainder_def demo_lookup_def demo_defs demo_hold_def
        clientDeleted_def GetClientByID_def tx_posted_def GetWalletTxByIdempotency_def key_defs)
  then have "settled_sum ''t1'' d' = 4" by (simp add: demo_lookup_def demo_hold_def)
  with d' show ?thesis by blast
qed

end
