(* ===== verification/OutboxCrash.thy ===== *)
theory OutboxCrash
  imports PostBound WalletProps
begin

text \<open>
  A worker that dies in the middle of a POST. The request may have reached the provider, but
  no attempt is recorded and the counter of the job is not increased; when the lock is stale
  another worker takes the job over (\<open>ReclaimStaleSendJobs\<close>).
\<close>

section \<open>Dying during the POST\<close>

text \<open>The state of \<open>process\<close> at the moment its POST has been made, when it makes one.\<close>

definition post_reached :: "outbox_env \<Rightarrow> time \<Rightarrow> send_job \<Rightarrow> ob_state \<Rightarrow> ob_state option" where
  "post_reached env now job s =
     (case GetSmsMessageByID (sj_message job) (ob_db s) of
        Inl _ \<Rightarrow> None
      | Inr msg \<Rightarrow>
          if (case sj_client job of None \<Rightarrow> False | Some cid \<Rightarrow> clientDeleted cid (ob_db s)) then None
          else if needStatistic job \<and>
            \<not> (lookupStatistic env msg s = Inr None
               \<and> allowUncertainRetry (sj_attempt job) (latestAttemptKind (sj_id job) (ob_db s))
               \<and> deref (sj_last_error job) = needRetry)
          then None
          else (case send_post env now job s of (posted, s1) \<Rightarrow> if posted then Some s1 else None))"

text \<open>A call of \<open>process\<close> that lives on handles the answer from that very state.\<close>

lemma post_reached_process:
  assumes "post_reached env now job s = Some s1"
  obtains msg where "process env i now job s = send_answer env i now job msg s1"
  using assms
  by (auto simp: post_reached_def process_def handleUncertain_def send_def
      split: sum.splits prod.splits if_splits)

inductive crash_step :: "ob_state \<Rightarrow> ob_state \<Rightarrow> bool" where
  whole: "outbox_step s t \<Longrightarrow> crash_step s t"
| crash: "ClaimSendJobsFair wid claimBatch now (ob_db s) = (job # jobs, d2) \<Longrightarrow> oe_worker env = wid \<Longrightarrow>
    post_reached env now job (s\<lparr>ob_db := d2\<rparr>) = Some t \<Longrightarrow> crash_step s t"

section \<open>A job that is posted again and again\<close>

definition again_job :: "send_job_status \<Rightarrow> int \<Rightarrow> time \<Rightarrow> time option \<Rightarrow> string option \<Rightarrow> string option \<Rightarrow> send_job" where
  "again_job st a t lk by e = \<lparr>sj_id = ''sj1'', sj_message = ''m1'', sj_client = Some ''c1'', sj_status = st,
     sj_attempt = a, sj_available_at = t, sj_locked_at = lk, sj_locked_by = by, sj_last_error = e\<rparr>"

definition again_state :: "send_job \<Rightarrow> nat \<Rightarrow> time option \<Rightarrow> ob_state" where
  "again_state job n rec = \<lparr>ob_db = demo_db\<lparr>sms_messages := [demo_msg ''m1''], send_jobs := [job]\<rparr>,
     ob_posts = replicate n ''sj1'', ob_used = [], ob_last_rec = rec\<rparr>"

definition again_env :: outbox_env where
  "again_env = \<lparr>oe_worker = ''w'', oe_rx = True, oe_send = (\<lparr>sr_provider_sms_id = [], sr_raw = []\<rparr>, None),
     oe_stat = Inr [], oe_settings = Some (1, 1), oe_limiter = False,
     oe_allow = (\<lambda>_ _ _. Some (True, 0)), oe_bill = False, oe_redact = id, oe_unmarshal = (\<lambda>_. None)\<rparr>"

definition again_tick :: tick_env where
  "again_tick = \<lparr>te_job = (\<lambda>_. again_env), te_job_ids = (\<lambda>_. ''x''), te_msg = (\<lambda>_. again_env),
     te_msg_ids = (\<lambda>_. ''x''), te_page = (\<lambda>_. Inr []), te_page_ids = (\<lambda>_ _. ''x''),
     te_reap_ids = (\<lambda>_. ''x''), te_worker = ''w'', te_bill = False\<rparr>"

lemmas again_defs = again_job_def again_state_def again_env_def again_tick_def demo_db_def empty_db_def demo_msg_def

abbreviation again_ready :: "time \<Rightarrow> send_job" where
  "again_ready t \<equiv> again_job JobUncertain 1 t None None (Some needRetry)"

lemma again_claim:
  assumes "j = again_job st a t None None e" "waiting st" "t \<le> now"
  shows "ClaimSendJobsFair ''w'' claimBatch now (ob_db (again_state j n rec)) =
    ([again_job JobProcessing a t (Some now) (Some ''w'') e],
     ob_db (again_state (again_job JobProcessing a t (Some now) (Some ''w'') e) n rec))"
  using assms
  by (simp add: ClaimSendJobsFair_def claim_clients_def claim_of_def claimable_def claimBatch_def again_defs Let_def)

lemma again_post:
  assumes "\<not> (e = Some needStat) \<and> (needStatistic (again_job st a t lk by e) \<longrightarrow> a < 2 \<and> e = Some needRetry)"
  shows "post_reached again_env now (again_job JobProcessing a t (Some now) (Some ''w'') e)
      (again_state (again_job JobProcessing a t (Some now) (Some ''w'') e) n rec) =
    Some (again_state (again_job JobProcessing a t (Some now) (Some ''w'') e) (Suc n) rec)"
  using assms
  by (auto simp: post_reached_def GetSmsMessageByID_def clientDeleted_def GetClientByID_def lookupStatistic_def
      MatchStatistic_def allowUncertainRetry_def maxUncertainSends_def latestAttemptKind_def
      GetLatestSendAttempt_def send_post_def touchLock_eq allowSend_def owned_def needStatistic_def deref_def
      again_defs Let_def replicate_append_same)

lemma again_reclaim:
  assumes "lk < now - staleProcessing" "a \<le> 1"
  shows "ReclaimStaleSendJobs (now - staleProcessing) now
      (ob_db (again_state (again_job JobProcessing a t (Some lk) (Some ''w'') e) n rec)) =
    ob_db (again_state (again_job JobUncertain 1 now None None (Some needStat)) n rec)"
  using assms by (simp add: ReclaimStaleSendJobs_def stale_job_def again_defs max_def)

lemma again_process:
  "process again_env i now (again_job JobProcessing 1 t (Some now) (Some ''w'') (Some needStat))
     (again_state (again_job JobProcessing 1 t (Some now) (Some ''w'') (Some needStat)) n rec) =
   again_state (again_ready (now + retryAfterStat)) n rec"
  by (simp add: process_def GetSmsMessageByID_def clientDeleted_def GetClientByID_def handleUncertain_def
      lookupStatistic_def MatchStatistic_def allowUncertainRetry_def maxUncertainSends_def latestAttemptKind_def
      GetLatestSendAttempt_def park_eq owned_def needStatistic_def deref_def needStat_def needRetry_def
      job_update_def retryAfterStat_def second_def again_defs Let_def)

lemma again_reconcile: "reconcile again_tick now (again_state j n rec) = again_state j n rec"
  by (simp add: reconcile_def ListStaleOutbound_def backfillInbox_def inboxStatPages_def eval_nat_numeral
      nextInboxStatisticPage_def inboxStatLimit_def again_defs Let_def)

lemma again_state_upd [simp]:
  "again_state j n rec\<lparr>ob_used := []\<rparr> = again_state j n rec"
  "again_state j n rec\<lparr>ob_db := ob_db (again_state j' n' rec')\<rparr> = again_state j' n rec"
  "again_state j n rec\<lparr>ob_last_rec := rec'\<rparr> = again_state j n rec'"
  "ob_last_rec (again_state j n rec) = rec" "ob_posts (again_state j n rec) = replicate n ''sj1''"
  by (simp_all add: again_state_def)

lemma again_tick_state:
  assumes lk: "lk < now - staleProcessing" and a: "a \<le> 1" and rec: "\<And>t. rec = Some t \<Longrightarrow> t + 15 * second \<le> now"
  shows "snd (Tick again_tick now (again_state (again_job JobProcessing a t (Some lk) (Some ''w'') e) n rec)) =
    again_state (again_ready (now + retryAfterStat)) n (Some now)"
proof -
  have tick: "te_job again_tick = (\<lambda>_. again_env)" "te_worker again_tick = ''w''" "\<not> te_bill again_tick"
    by (simp_all add: again_tick_def)
  have due: "case rec of None \<Rightarrow> True | Some t \<Rightarrow> now - t \<ge> 15 * second"
    using rec by (auto split: option.split)
  show ?thesis
    unfolding Tick_def Let_def again_state_upd again_reclaim [OF lk a] tick
    using again_claim [of "again_job JobUncertain 1 now None None (Some needStat)" JobUncertain 1 now "Some needStat" now n rec] due
    by (simp add: waiting_def again_process again_reconcile tick)
qed

lemma again_crash:
  assumes "a < 2" "st = JobUncertain \<and> e = Some needRetry \<or> st = JobPending \<and> e = None"
  shows "crash_step (again_state (again_job st a t None None e) n rec)
     (again_state (again_job JobProcessing a t (Some t) (Some ''w'') e) (Suc n) rec)"
proof (rule crash_step.crash)
  show "ClaimSendJobsFair ''w'' claimBatch t (ob_db (again_state (again_job st a t None None e) n rec)) =
      (again_job JobProcessing a t (Some t) (Some ''w'') e # [],
       ob_db (again_state (again_job JobProcessing a t (Some t) (Some ''w'') e) n rec))"
    by (rule again_claim) (use assms(2) in \<open>auto simp: waiting_def\<close>)
  show "oe_worker again_env = ''w''" by (simp add: again_env_def)
  have "\<not> (e = Some needStat) \<and> (needStatistic (again_job st a t None None e) \<longrightarrow> a < 2 \<and> e = Some needRetry)"
    using assms by (auto simp: again_job_def needStatistic_def deref_def needStat_def needRetry_def Let_def)
  from again_post [OF this] show "post_reached again_env t (again_job JobProcessing a t (Some t) (Some ''w'') e)
      (again_state (again_job st a t None None e) n rec
        \<lparr>ob_db := ob_db (again_state (again_job JobProcessing a t (Some t) (Some ''w'') e) n rec)\<rparr>) =
    Some (again_state (again_job JobProcessing a t (Some t) (Some ''w'') e) (Suc n) rec)"
    by simp
qed

text \<open>A crash, and the tick of 121 seconds later that finds the stale lock.\<close>

lemma again_round:
  assumes "0 \<le> a" "a \<le> 1" "st = JobUncertain \<and> e = Some needRetry \<or> st = JobPending \<and> e = None"
    and "\<And>u. rec = Some u \<Longrightarrow> u \<le> t"
  shows "crash_step\<^sup>*\<^sup>* (again_state (again_job st a t None None e) n rec)
     (again_state (again_ready (t + 126 * second)) (Suc n) (Some (t + 121 * second)))"
proof -
  let ?p = "again_state (again_job JobProcessing a t (Some t) (Some ''w'') e) (Suc n) rec"
  have 1: "crash_step (again_state (again_job st a t None None e) n rec) ?p"
    by (rule again_crash) (use assms in auto)
  have "outbox_step ?p (snd (Tick again_tick (t + 121 * second) ?p))"
    by (rule outbox_step.tick) (simp add: again_tick_def again_env_def configured_def)
  moreover have "snd (Tick again_tick (t + 121 * second) ?p) =
      again_state (again_ready (t + 121 * second + retryAfterStat)) (Suc n) (Some (t + 121 * second))"
    by (rule again_tick_state) (use assms(2,4) in \<open>fastforce simp: staleProcessing_def second_def\<close>)+
  ultimately have "crash_step ?p (again_state (again_ready (t + 126 * second)) (Suc n) (Some (t + 121 * second)))"
    using crash_step.whole by (simp add: retryAfterStat_def second_def add.assoc)
  with 1 show ?thesis by (meson converse_rtranclp_into_rtranclp r_into_rtranclp)
qed

definition again_start :: ob_state where
  "again_start = again_state (again_job JobPending 0 0 None None None) 0 None"

lemma again_rounds:
  "\<exists>t rec. (\<forall>u. rec = Some u \<longrightarrow> u \<le> t) \<and> crash_step\<^sup>*\<^sup>* again_start (again_state (again_ready t) (Suc n) rec)"
proof (induction n)
  case 0
  show ?case using again_round [of 0 JobPending None None 0 0]
    by (auto simp: again_start_def second_def intro!: exI [of _ "126 * second"] exI [of _ "Some (121 * second)"])
next
  case (Suc n)
  then obtain t rec where "\<forall>u. rec = Some u \<longrightarrow> u \<le> t"
    "crash_step\<^sup>*\<^sup>* again_start (again_state (again_ready t) (Suc n) rec)" by blast
  with again_round [of 1 JobUncertain "Some needRetry" rec t "Suc n"]
  have "crash_step\<^sup>*\<^sup>* again_start
      (again_state (again_ready (t + 126 * second)) (Suc (Suc n)) (Some (t + 121 * second)))"
    by (auto intro: rtranclp_trans)
  then show ?case by (auto simp: second_def intro!: exI [of _ "t + 126 * second"] exI [of _ "Some (t + 121 * second)"])
qed

end
