(* ===== verification/OutboxFlows.thy ===== *)
theory OutboxFlows
  imports OutboxRun WalletFlows
begin

text \<open>
  From the answer of the provider to the wallet: an accepted POST charges the hold of the
  message, a rejected one gives it back.
\<close>

section \<open>Settling after the message has moved on\<close>

lemma find_forward:
  assumes "list_all2 message_forward ms ns" "find (\<lambda>m. msg_id m = mid) ms = Some m"
  obtains m' where "find (\<lambda>m. msg_id m = mid) (ns @ rest) = Some m'" "message_forward m m'"
proof -
  have "\<exists>m'. find (\<lambda>m. msg_id m = mid) (ns @ rest) = Some m' \<and> message_forward m m'"
    using assms by (induction rule: list_all2_induct) (auto simp: message_forward_def split: if_splits)
  then show ?thesis using that by blast
qed

lemma GetSmsMessageByID_forward:
  assumes "msgs_forward (sms_messages d) (sms_messages d')" "GetSmsMessageByID mid d = Inr m"
  obtains m' where "GetSmsMessageByID mid d' = Inr m'" "message_forward m m'"
proof -
  let ?n = "length (sms_messages d)"
  from assms have "list_all2 message_forward (sms_messages d) (take ?n (sms_messages d'))"
    "find (\<lambda>m. msg_id m = mid) (sms_messages d) = Some m"
    by (auto simp: msgs_forward_def GetSmsMessageByID_def split: option.splits)
  then obtain m' where "find (\<lambda>m. msg_id m = mid) (take ?n (sms_messages d') @ drop ?n (sms_messages d')) = Some m'"
    "message_forward m m'" by (rule find_forward)
  with that [of m'] show ?thesis by (simp add: GetSmsMessageByID_def)
qed

text \<open>Two databases that agree on what a settlement reads.\<close>

definition same_money :: "db \<Rightarrow> db \<Rightarrow> bool" where
  "same_money d d' =
     (wallets d' = wallets d \<and> wallet_txs d' = wallet_txs d \<and> clients d' = clients d
      \<and> msgs_forward (sms_messages d) (sms_messages d'))"

lemma same_money_refl [simp]: "same_money d d"
  by (simp add: same_money_def)

lemma same_money_trans [trans]: "same_money d e \<Longrightarrow> same_money e f \<Longrightarrow> same_money d f"
  by (auto simp: same_money_def intro: msgs_forward_trans)

lemma same_money_message_step: "message_step d d' \<Longrightarrow> same_money d d'"
  by (simp add: same_money_def message_stepD)

lemma settle_read_same_money:
  assumes m: "same_money d d'" and r: "settle_read mid c d = SettleProceed cid msg hold"
  obtains msg' where "settle_read mid c d' = SettleProceed cid msg' hold"
proof -
  from r have msg: "GetSmsMessageByID mid d = Inr msg"
    by (auto simp: settle_read_def split: sum.splits option.splits if_splits)
  from m have "msgs_forward (sms_messages d) (sms_messages d')" by (simp add: same_money_def)
  then obtain msg' where msg': "GetSmsMessageByID mid d' = Inr msg'" "message_forward msg msg'"
    using msg by (rule GetSmsMessageByID_forward)
  have "settle_read mid c d' = SettleProceed cid msg' hold"
    using r msg msg' m
    by (auto simp: settle_read_def same_money_def message_forward_def clientDeleted_def GetClientByID_def
        tx_posted_def GetWalletTxByIdempotency_def GetOpenHoldForMessage_def
        split: sum.splits option.splits if_splits)
  then show ?thesis by (rule that)
qed

text \<open>A hold of the message that a settlement can close.\<close>

definition can_settle :: "bool \<Rightarrow> uuid \<Rightarrow> uuid \<Rightarrow> uuid \<Rightarrow> wallet_tx \<Rightarrow> wallet \<Rightarrow> db \<Rightarrow> bool" where
  "can_settle c i mid cid hold w d =
     (db_ok d \<and> (\<exists>msg. settle_read mid c d = SettleProceed cid msg hold) \<and> LockWalletByClientID cid d = Inr w
      \<and> w_version w < int4_max \<and> i \<notin> tx_id ` set (wallet_txs d)
      \<and> storable (w_available w + (if c then 0 else tx_amount hold)))"

definition settled_wallet :: "bool \<Rightarrow> wallet_tx \<Rightarrow> wallet \<Rightarrow> wallet" where
  "settled_wallet c hold w = w\<lparr>w_available := w_available w + (if c then 0 else tx_amount hold),
     w_held := w_held w - tx_amount hold, w_version := w_version w + 1\<rparr>"

lemma settle_after:
  assumes can: "can_settle c i mid cid hold w d" and m: "same_money d d'" and inv: "db_ok d'"
  obtains d'' where "settle i now mid c d' = Inr d''"
    "GetWalletByClientID cid d'' = Inr (settled_wallet c hold w)"
proof -
  from can obtain msg where "settle_read mid c d = SettleProceed cid msg hold" by (auto simp: can_settle_def)
  with m obtain msg' where r: "settle_read mid c d' = SettleProceed cid msg' hold"
    by (rule settle_read_same_money)
  have lock: "LockWalletByClientID cid d' = Inr w" and ver: "w_version w < int4_max"
    and fresh: "i \<notin> tx_id ` set (wallet_txs d')" and st: "storable (w_available w + (if c then 0 else tx_amount hold))"
    using can m by (auto simp: can_settle_def same_money_def LockWalletByClientID_def GetWalletByClientID_def)
  from settle_succeeds [OF inv r lock ver fresh st] that show ?thesis by (auto simp: settled_wallet_def)
qed

lemma GetWallet_jobs [simp]:
  "GetWalletByClientID cid (job_update jid wid out d) = GetWalletByClientID cid d"
  by (simp add: job_update_def GetWalletByClientID_def)

lemma same_money_jobs [simp]:
  "same_money d (job_update jid wid out d)" "same_money d (d\<lparr>send_jobs := js\<rparr>)"
  "same_money d (InsertSendAttempt a d)"
  by (simp_all add: same_money_def job_update_def InsertSendAttempt_def)

section \<open>The answer of the provider\<close>

lemma accept_charges:
  assumes can: "can_settle True i (msg_id msg) cid hold w d" and m: "same_money d (ob_db s)"
    and inv: "db_ok (ob_db s)" and bill: "oe_bill env"
  shows "GetWalletByClientID cid (ob_db (accept env i now job msg pid a s)) = Inr (settled_wallet True hold w)"
proof -
  obtain d1 where d1: "markAccepted now (msg_id msg) (if pid \<noteq> [] then Some pid else None) (ob_db s) = Inr d1"
    "message_step (ob_db s) d1" by (rule markAccepted_total)
  have "same_money d d1" by (rule same_money_trans [OF m same_money_message_step [OF d1(2)]])
  from settle_after [OF can this message_stepD(7) [OF d1(2) inv], of now]
  obtain d2 where "settle i now (msg_id msg) True d1 = Inr d2"
    "GetWalletByClientID cid d2 = Inr (settled_wallet True hold w)" .
  with d1(1) bill show ?thesis
    by (simp add: accept_def capture_def CaptureForMessage_def complete_eq split del: if_split)
qed

lemma failDead_refunds:
  assumes can: "can_settle False i (msg_id msg) cid hold w d" and m: "same_money d (ob_db s)"
    and inv: "db_ok (ob_db s)" and bill: "oe_bill env"
    and own: "list_ex (owned (sj_id job) (oe_worker env)) (send_jobs (ob_db s))"
  shows "GetWalletByClientID cid (ob_db (failDead env i now job msg a e s)) = Inr (settled_wallet False hold w)"
proof -
  define s1 where "s1 = snd (park env now job JobDead a e 0 s)"
  have park: "park env now job JobDead a e 0 s = (True, s1)" using own by (simp add: park_eq s1_def)
  let ?st = "Some (providerStatusForJob (oe_unmarshal env) (sj_id job) e (ob_db s1))"
  let ?d = "case UpdateSmsMessageFailed now ?st (msg_id msg) (ob_db s1) of Inl _ \<Rightarrow> ob_db s1 | Inr d' \<Rightarrow> d'"
  have "same_money d (ob_db s1)" "db_ok (ob_db s1)"
    using m inv by (auto simp: s1_def park_eq intro: same_money_trans)
  with same_money_message_step [OF failed_step] message_stepD(7) [OF failed_step]
  have "same_money d ?d" "db_ok ?d" by (blast intro: same_money_trans)+
  from settle_after [OF can this, of now] obtain d2 where "settle i now (msg_id msg) False ?d = Inr d2"
    "GetWalletByClientID cid d2 = Inr (settled_wallet False hold w)" .
  with park bill show ?thesis
    by (simp add: failDead_def release_def ReleaseForMessage_def Let_def cong del: sum.case_cong_weak)
qed

lemma send_post_money:
  "same_money (ob_db s) (ob_db (snd (send_post env now job s)))"
  "fst (send_post env now job s) \<Longrightarrow>
   list_ex (owned (sj_id job) (oe_worker env)) (send_jobs (ob_db (snd (send_post env now job s))))"
proof -
  define s1 where "s1 = snd (touchLock env now job s)"
  have s1: "same_money (ob_db s) (ob_db s1)" by (simp add: s1_def touchLock_eq)
  show "same_money (ob_db s) (ob_db (snd (send_post env now job s)))"
    by (cases rule: allowSend_cases [of env now job s1])
      (use s1 in \<open>auto simp: send_post_def case_prod_beta s1_def [symmetric] park_eq
        intro: same_money_trans\<close>)
  show "fst (send_post env now job s) \<Longrightarrow>
     list_ex (owned (sj_id job) (oe_worker env)) (send_jobs (ob_db (snd (send_post env now job s))))"
    by (cases rule: allowSend_cases [of env now job s1])
      (auto simp: send_post_def case_prod_beta s1_def touchLock_eq split: if_splits)
qed

end
