(* ===== verification/Idempotency.thy ===== *)
theory Idempotency
  imports Messaging
begin

text \<open>
  \<open>internal/idempotency\<close> and the API request that uses it
  (\<open>internal/http/publicapi/messages.go\<close>): the key of a request is inserted in the
  transaction that enqueues the message and completed with the response before the commit.
\<close>

section \<open>Queries\<close>

definition same_key :: "actor_type \<Rightarrow> uuid \<Rightarrow> string \<Rightarrow> idempotency_key \<Rightarrow> bool" where
  "same_key pt pid key r = (ik_principal_type r = pt \<and> ik_principal_id r = pid \<and> ik_key r = key)"

text \<open>\<open>ON CONFLICT DO NOTHING\<close> returns no row when the key is taken.\<close>

definition InsertIdempotencyKey ::
    "uuid \<Rightarrow> actor_type \<Rightarrow> uuid \<Rightarrow> string \<Rightarrow> string \<Rightarrow> time \<Rightarrow> db \<Rightarrow> (idempotency_key \<times> db) result" where
  "InsertIdempotencyKey new_id pt pid key hash expires d =
     (if list_ex (same_key pt pid key) (idempotency_keys d) then Inl NoRows
      else if new_id \<in> set (map ik_id (idempotency_keys d)) then Inl (PgError UniqueViolation)
      else
        let r = \<lparr>ik_id = new_id, ik_principal_type = pt, ik_principal_id = pid, ik_key = key,
                 ik_request_hash = hash, ik_response_status = None, ik_response_body = [],
                 ik_expires_at = expires\<rparr>
        in Inr (r, d\<lparr>idempotency_keys := idempotency_keys d @ [r]\<rparr>))"

definition GetIdempotencyKeyForUpdate ::
    "actor_type \<Rightarrow> uuid \<Rightarrow> string \<Rightarrow> db \<Rightarrow> idempotency_key result" where
  "GetIdempotencyKeyForUpdate pt pid key d =
     first_row (filter (same_key pt pid key) (idempotency_keys d))"

text \<open>\<open>jsonb\<close> is how PostgreSQL renders the stored document when it is read back.\<close>

definition CompleteIdempotencyKey ::
    "(string \<Rightarrow> string) \<Rightarrow> int \<Rightarrow> string \<Rightarrow> uuid \<Rightarrow> db \<Rightarrow> db result" where
  "CompleteIdempotencyKey jsonb status body kid d =
     (let hit = (\<lambda>r. ik_id r = kid \<and> ik_response_status r = None) in
      if \<not> list_ex hit (idempotency_keys d) then Inl NoRows
      else Inr (d\<lparr>idempotency_keys := update_where hit
             (\<lambda>r. r\<lparr>ik_response_status := Some status, ik_response_body := jsonb body\<rparr>)
             (idempotency_keys d)\<rparr>))"

definition DeleteExpiredIdempotencyKeys :: "time \<Rightarrow> db \<Rightarrow> db" where
  "DeleteExpiredIdempotencyKeys now d =
     d\<lparr>idempotency_keys := filter (\<lambda>r. \<not> ik_expires_at r < now) (idempotency_keys d)\<rparr>"

section \<open>Reservation of a key\<close>

definition DefaultTTL :: time where
  "DefaultTTL = 24 * 3600 * 1000000000"

text \<open>The SHA-256 digest in hexadecimal is a parameter.\<close>

definition HashRequest :: "(string \<Rightarrow> string) \<Rightarrow> string \<Rightarrow> string \<Rightarrow> string \<Rightarrow> string" where
  "HashRequest sha256hex method path body = sha256hex (method @ ''\<newline>'' @ path @ ''\<newline>'' @ body)"

record idem_record =
  rec_id :: uuid
  rec_replay :: bool
  rec_status :: int
  rec_body :: string

definition Reserve ::
    "uuid \<Rightarrow> time \<Rightarrow> actor_type \<Rightarrow> uuid \<Rightarrow> string \<Rightarrow> string \<Rightarrow> time \<Rightarrow> db \<Rightarrow> (idem_record \<times> db) result" where
  "Reserve new_id now pt pid key requestHash ttl d =
     (let ttl = (if ttl \<le> 0 then DefaultTTL else ttl) in
      case InsertIdempotencyKey new_id pt pid key requestHash (now + ttl) d of
        Inr (row, d1) \<Rightarrow> Inr (\<lparr>rec_id = ik_id row, rec_replay = False, rec_status = 0, rec_body = []\<rparr>, d1)
      | Inl e \<Rightarrow>
          if e \<noteq> NoRows then Inl e
          else
            (case GetIdempotencyKeyForUpdate pt pid key d of Inl e' \<Rightarrow> Inl e' | Inr existing \<Rightarrow>
             if ik_request_hash existing \<noteq> requestHash then Inl (Sentinel IdempotencyErrConflict)
             else
               (case ik_response_status existing of
                  Some st \<Rightarrow> Inr (\<lparr>rec_id = ik_id existing, rec_replay = True, rec_status = st,
                                  rec_body = ik_response_body existing\<rparr>, d)
                | None \<Rightarrow> Inl (Sentinel IdempotencyErrInFlight))))"

definition Complete :: "(string \<Rightarrow> string) \<Rightarrow> uuid \<Rightarrow> int \<Rightarrow> string \<Rightarrow> db \<Rightarrow> db result" where
  "Complete jsonb kid status body d = CompleteIdempotencyKey jsonb status body kid d"

section \<open>The keyed send request\<close>

text \<open>
  The part of \<open>SendMessage\<close> from the reservation of the key to the commit, for a decoded
  request with an idempotency key. \<open>render\<close> is the JSON rendering of a message. Every
  refusal rolls the transaction back.
\<close>

datatype send_outcome = Replayed int string | AcceptedMsg sms_message | Refused goerr

record send_env =
  se_jsonb :: "string \<Rightarrow> string"
  se_render :: "sms_message \<Rightarrow> string"
  se_dirs :: "bool result option"
  se_bill :: bool

definition send_keyed ::
    "send_env \<Rightarrow> uuid \<Rightarrow> enqueue_ids \<Rightarrow> time \<Rightarrow> uuid \<Rightarrow> string \<Rightarrow> string \<Rightarrow> enqueue_input \<Rightarrow> db \<Rightarrow>
     send_outcome \<times> db" where
  "send_keyed env kid ids now apiKey key hash i d =
     (case Reserve kid now ActorApiKey apiKey key hash DefaultTTL d of
        Inl e \<Rightarrow> (Refused e, d)
      | Inr (r, d1) \<Rightarrow>
          if rec_replay r then (Replayed (rec_status r) (rec_body r), d1)
          else
            (case EnqueueWith ids now (se_dirs env) (se_bill env) (i\<lparr>ei_key := Some key\<rparr>) d d1 of
               (Inl e, _) \<Rightarrow> (Refused e, d)
             | (Inr msg, t) \<Rightarrow>
                 (case tx_write (Complete (se_jsonb env) (rec_id r) 202 (se_render env msg)) t of
                    (Inl e, _) \<Rightarrow> (Refused e, d)
                  | (Inr _, t') \<Rightarrow>
                      (case tx_commit t' of Inl e \<Rightarrow> (Refused e, d) | Inr d' \<Rightarrow> (AcceptedMsg msg, d')))))"

section \<open>Replay\<close>

lemma Reserve_new:
  assumes "Reserve kid now pt pid key hash ttl d = Inr (r, d1)" "\<not> rec_replay r"
  shows "d1 = d\<lparr>idempotency_keys := idempotency_keys d @
      [\<lparr>ik_id = kid, ik_principal_type = pt, ik_principal_id = pid, ik_key = key, ik_request_hash = hash,
        ik_response_status = None, ik_response_body = [],
        ik_expires_at = now + (if ttl \<le> 0 then DefaultTTL else ttl)\<rparr>]\<rparr>"
    "rec_id r = kid" "kid \<notin> ik_id ` set (idempotency_keys d)"
    "\<not> list_ex (same_key pt pid key) (idempotency_keys d)"
  using assms
  by (auto simp: Reserve_def InsertIdempotencyKey_def Let_def split: sum.splits if_splits option.splits)

lemma enqueue_frame:
  assumes "enqueue ids now dirs bill i pool d = (Inr m, Live d')"
  shows "idempotency_keys d' = idempotency_keys d"
  using assms
proof (rule enqueue_OK)
  fix frm dst body est d1 d2 d3
  assume "Live d' = Live d3"
    and m: "InsertSmsMessage (id_message ids) now (enqueue_params i frm dst body est) d = Inr (m, d1)"
    and j: "InsertSendJob (id_job ids) now (msg_id m) (Some (ei_client i)) d1 = Inr d2"
    and r: "ReserveForMessage (id_hold ids) now (Some d2) m = Inr d3"
  from j obtain k where "d2 = d1\<lparr>send_jobs := send_jobs d1 @ [k]\<rparr>" by (rule InsertSendJob_OK)
  then have "idempotency_keys d2 = idempotency_keys d" using InsertSmsMessage_OK(1) [OF m] by simp
  moreover from r have "idempotency_keys d3 = idempotency_keys d2"
  proof (cases rule: ReserveForMessage_OK)
    case (posted cid price segs amt w d0 p)
    from posted(9,10) obtain t ws where "d3 = d2\<lparr>wallets := ws, wallet_txs := wallet_txs d2 @ [t]\<rparr>"
      by (rule post_frame)
    then show ?thesis by simp
  qed simp
  ultimately show ?thesis using \<open>Live d' = Live d3\<close> by simp
qed

lemma send_keyed_Accepted:
  assumes "send_keyed env kid ids now apiKey key hash i d = (AcceptedMsg m, d')"
  obtains d1 d2 where
    "enqueue ids now (se_dirs env) (se_bill env) (i\<lparr>ei_key := Some key\<rparr>) d d1 = (Inr m, Live d2)"
    "d1 = d\<lparr>idempotency_keys := idempotency_keys d1\<rparr>"
    "d' = d2\<lparr>idempotency_keys := idempotency_keys d @
      [\<lparr>ik_id = kid, ik_principal_type = ActorApiKey, ik_principal_id = apiKey, ik_key = key,
        ik_request_hash = hash, ik_response_status = Some 202,
        ik_response_body = se_jsonb env (se_render env m), ik_expires_at = now + DefaultTTL\<rparr>]\<rparr>"
    "\<not> list_ex (same_key ActorApiKey apiKey key) (idempotency_keys d)"
proof -
  from assms obtain r d1 t where r: "Reserve kid now ActorApiKey apiKey key hash DefaultTTL d = Inr (r, d1)"
      "\<not> rec_replay r"
    and e: "enqueue ids now (se_dirs env) (se_bill env) (i\<lparr>ei_key := Some key\<rparr>) d d1 = (Inr m, t)"
    by (auto simp: send_keyed_def EnqueueWith_def split: sum.splits prod.splits if_splits)
  from e obtain d2 where t: "t = Live d2" by (rule enqueue_OK)
  note R = Reserve_new [OF r]
  from assms r e t have c: "Complete (se_jsonb env) kid 202 (se_render env m) d2 = Inr d'"
    by (auto simp: send_keyed_def EnqueueWith_def tx_write_def tx_commit_def R(2) split: sum.splits)
  have keys: "idempotency_keys d2 = idempotency_keys d1" by (rule enqueue_frame [OF e [unfolded t]])
  have old: "update_where (\<lambda>r. ik_id r = kid \<and> ik_response_status r = None) f (idempotency_keys d) =
      idempotency_keys d" for f
    using R(3) by (intro update_where_none) auto
  show thesis
  proof (rule that [OF e [unfolded t]])
    show "d1 = d\<lparr>idempotency_keys := idempotency_keys d1\<rparr>" using R(1) by simp
    show "d' = d2\<lparr>idempotency_keys := idempotency_keys d @
      [\<lparr>ik_id = kid, ik_principal_type = ActorApiKey, ik_principal_id = apiKey, ik_key = key,
        ik_request_hash = hash, ik_response_status = Some 202,
        ik_response_body = se_jsonb env (se_render env m), ik_expires_at = now + DefaultTTL\<rparr>]\<rparr>"
      using c old keys R(1)
      by (auto simp: Complete_def CompleteIdempotencyKey_def Let_def DefaultTTL_def
          split: if_splits)
  qed (use R(4) in simp)
qed

end
