(* ===== verification/MessagingProps.thy ===== *)
theory MessagingProps
  imports Idempotency WalletProps
begin

text \<open>
  The theorems on enqueueing and matching, with the state on which the witnesses evaluate
  them: \<open>demo_shop\<close> is \<open>demo_db\<close> with an assigned number and a tariff.
\<close>

definition demo_shop :: db where
  "demo_shop = demo_db
     \<lparr>sms_messages := [],
      tariff_plans := [\<lparr>tp_id = ''p1'', tp_code = ''std'', tp_product = SmsDomestic, tp_sell_price = 2,
         tp_currency = ''RUB'', tp_is_active = True\<rparr>],
      client_tariffs := [\<lparr>ct_id = ''a1'', ct_client = ''c1'', ct_product = SmsDomestic, ct_plan = ''p1'',
         ct_price_override = None, ct_effective_from = 0, ct_effective_to = None\<rparr>],
      def_numbers := [\<lparr>dn_id = ''n1'', dn_msisdn = ''79161234567'', dn_status = NumberAssigned\<rparr>],
      number_assignments := [\<lparr>na_id = ''na1'', na_number = ''n1'', na_client = ''c1'',
         na_unassigned_at = None\<rparr>]\<rparr>"

definition demo_input :: "string option \<Rightarrow> enqueue_input" where
  "demo_input key = \<lparr>ei_client = ''c1'', ei_from = ''8 (916) 123-45-67'', ei_to = ''+7 916 765-43-21'',
     ei_text = '' hi '', ei_key = key, ei_campaign = None\<rparr>"

lemma demo_input_client: "ei_client (demo_input key) = ''c1''"
  by (simp add: demo_input_def)

definition demo_ids :: "string \<Rightarrow> enqueue_ids" where
  "demo_ids s = \<lparr>id_message = ''m'' @ s, id_job = ''j'' @ s, id_hold = ''h'' @ s\<rparr>"

lemma TrimSpace_hi [simp]: "TrimSpace '' hi '' = ''hi''" "TrimSpace ''hi'' = ''hi''"
  by (simp_all add: TrimSpace_def Let_def unicode_IsSpace_def)

lemma demo_sender [simp]: "NormalizeSender ''8 (916) 123-45-67'' = Inr ''79161234567''"
  by (simp add: NormalizeSender_def digitsOnly_ascii ascii_digit_def)

lemma demo_dest [simp]:
  "NormalizeDest ''+7 916 765-43-21'' = Inr \<lparr>MSISDN = ''79167654321'', International = False\<rparr>"
  by (simp add: NormalizeDest_def NormalizeSender_def digitsOnly_ascii ascii_digit_def)

lemma SegmentCount_hi [simp]: "SegmentCount ''hi'' = 1"
  by (rule SegmentCount_one)
    (simp add: text_units_def single_limit_def isGSM7_def gsm7Septets_sum runes_of_def gsm7Basic_def
      septet_len_def gsm7Escape_def)

lemma demo_checks: "enqueue_checks None (demo_input key) demo_shop =
    Inr (''79161234567'', \<lparr>MSISDN = ''79167654321'', International = False\<rparr>, ''hi'')"
  by (simp add: enqueue_checks_def demo_input_def maxTextRunes_def RuneCountInString_def
      GetAssignedNumberForClient_def demo_shop_def)

definition demo_estimate :: estimate where
  "demo_estimate = \<lparr>es_product = SmsDomestic, es_segments = 1, es_unit_sell_price = 2, es_total = 2,
     es_currency = ''RUB'', es_tariff_plan_id = ''p1'', es_tariff_plan_code = ''std''\<rparr>"

lemma demo_Estimate:
  "Estimate 5 ''c1'' \<lparr>MSISDN = ''79167654321'', International = False\<rparr> ''hi'' demo_shop = Inr demo_estimate"
  by (simp add: Estimate_def Let_def ResolveTariff_def GetClientTariff_def tariff_row_def ProductForDest_def
      mustPositive_def GetWalletByClientID_def trimCurrency_def demo_estimate_def demo_shop_def demo_defs)

lemma demo_enqueue: "\<exists>m d'. Enqueue (demo_ids ''1'') 5 None True (demo_input key) demo_shop = Inr (m, d')"
  unfolding Enqueue_def enqueue_def demo_checks
  by (simp add: demo_input_client demo_Estimate)
    (simp add: demo_input_def InsertSmsMessage_def enqueue_params_def demo_estimate_def
      to_msisdn_chk_def ascii_digit_def demo_ids_def InsertSendJob_def tx_commit_def demo_shop_def
      demo_defs wallet_eval)

lemma demo_shop_ok: "db_ok demo_shop"
  by (simp add: demo_shop_def demo_defs invariant_defs)

lemma demo_client_live: "\<not> clientDeleted ''c1'' demo_shop"
  by (simp add: clientDeleted_def GetClientByID_def demo_shop_def demo_defs)

section \<open>Enqueueing\<close>

text \<open>
  C6. Enqueueing is one atomic step that keeps the billing invariant: on success exactly
  one queued message, one pending send job for it and one hold are added, the hold being
  the unit price times the segments of the text; nothing else changes but the wallets.
\<close>

theorem enqueue_is_atomic:
  assumes "Enqueue ids now dirs bill i d = Inr (m, d')" "db_ok d" "\<not> clientDeleted (ei_client i) d"
  shows "db_ok d' \<and> msg_client m = Some (ei_client i) \<and> msg_status m = SmsQueued \<and>
    (\<exists>j h ws price.
      d' = d\<lparr>sms_messages := sms_messages d @ [m], send_jobs := send_jobs d @ [j], wallets := ws,
             wallet_txs := wallet_txs d @ [h]\<rparr> \<and>
      sj_message j = msg_id m \<and> sj_status j = JobPending \<and> sj_attempt j = 0 \<and>
      tx_type h = HOLD \<and> tx_sms_message h = Some (msg_id m) \<and> msg_unit_sell_price m = Some price \<and>
      tx_amount h = price * of_nat (SegmentCount (msg_text m)) \<and> 0 < tx_amount h)"
proof -
  note e = Enqueue_OK [OF assms(1)]
  have "db_ok d'" by (rule enqueue_keeps [OF e assms(2)])
  then show ?thesis by (intro conjI) (rule enqueue_effect [OF e assms(2,3)], blast)+
qed

theorem enqueue_is_atomic_witness:
  "\<exists>m d'. Enqueue (demo_ids ''1'') 5 None True (demo_input None) demo_shop = Inr (m, d') \<and> db_ok d' \<and>
     sms_messages d' = [m] \<and> length (send_jobs d') = 1 \<and> length (wallet_txs d') = 1"
proof -
  from demo_enqueue [of None] obtain m d' where
    e: "Enqueue (demo_ids ''1'') 5 None True (demo_input None) demo_shop = Inr (m, d')" by blast
  from enqueue_is_atomic [OF e demo_shop_ok] demo_client_live demo_input_client [of None]
  have "db_ok d'" "sms_messages d' = sms_messages demo_shop @ [m]"
    "length (send_jobs d') = length (send_jobs demo_shop) + 1"
    "length (wallet_txs d') = length (wallet_txs demo_shop) + 1" by auto
  then have "db_ok d' \<and> sms_messages d' = [m] \<and> length (send_jobs d') = 1 \<and> length (wallet_txs d') = 1"
    by (simp add: demo_shop_def demo_defs)
  with e show ?thesis by blast
qed

text \<open>
  C8. Only a number that is assigned to the client at that moment can send, the stored
  destination satisfies the table's CHECK, an international destination is accepted only
  when the direction policy is readable and allows it, and the billed segment count is
  the exact count of the text, between 1 and 31 (so the conversion to \<open>int32\<close> is exact).
\<close>

theorem enqueue_guards:
  assumes "Enqueue ids now dirs bill i d = Inr (m, d')"
  shows "(\<exists>n \<in> set (def_numbers d). dn_msisdn n = msg_from m \<and> dn_status n = NumberAssigned \<and>
      (\<exists>a \<in> set (number_assignments d). na_number a = dn_id n \<and> na_client a = ei_client i \<and>
         na_unassigned_at a = None))
    \<and> to_msisdn_chk (msg_to m)
    \<and> (\<exists>dst. NormalizeDest (ei_to i) = Inr dst \<and> msg_to m = MSISDN dst \<and>
      (International dst \<longrightarrow> dirs = Some (Inr True)))
    \<and> msg_billed_segments m = Some (int (SegmentCount (msg_text m)))
    \<and> 1 \<le> SegmentCount (msg_text m) \<and> SegmentCount (msg_text m) \<le> 31"
  using Enqueue_OK [OF assms]
proof (rule enqueue_OK)
  fix frm dst body est d1 d2 d3
  assume c: "enqueue_checks dirs i d = Inr (frm, dst, body)"
    and e: "Estimate now (ei_client i) dst body d = Inr est"
    and m: "InsertSmsMessage (id_message ids) now (enqueue_params i frm dst body est) d = Inr (m, d1)"
  note C = enqueue_checks_OK [OF c] and M = InsertSmsMessage_OK [OF m]
  from C(7) obtain n where "GetAssignedNumberForClient frm (ei_client i) d = Inr n" by blast
  from first_row_OK [OF this [unfolded GetAssignedNumberForClient_def]]
  have "n \<in> set (def_numbers d) \<and> dn_msisdn n = frm \<and> dn_status n = NumberAssigned \<and>
      (\<exists>a \<in> set (number_assignments d). na_number a = dn_id n \<and> na_client a = ei_client i \<and>
         na_unassigned_at a = None)" by (auto simp: list_ex_iff)
  moreover have "msg_from m = frm" "msg_to m = MSISDN dst" "msg_text m = body"
    "msg_billed_segments m = Some (int (SegmentCount body))"
    using M(5,6,7,9) enqueue_segments [OF c e] by (simp_all add: enqueue_params_def)
  moreover have "1 \<le> SegmentCount body" by (rule SegmentCount_pos)
  moreover have "SegmentCount body \<le> 31"
    using SegmentCount_le [OF C(5)] by (simp add: maxTextRunes_def)
  ultimately show ?thesis using C(2,6) M(12) by auto
qed

theorem enqueue_guards_witness:
  "\<exists>m d'. Enqueue (demo_ids ''1'') 5 None True (demo_input None) demo_shop = Inr (m, d') \<and>
     to_msisdn_chk (msg_to m) \<and> msg_from m = ''79161234567''"
proof -
  from demo_enqueue [of None] obtain m d' where
    e: "Enqueue (demo_ids ''1'') 5 None True (demo_input None) demo_shop = Inr (m, d')" by blast
  from enqueue_guards [OF e] have "to_msisdn_chk (msg_to m) \<and> msg_from m = ''79161234567''"
    by (simp add: demo_shop_def)
  with e show ?thesis by blast
qed

text \<open>
  C9. A request that repeats the idempotency key of a stored message of the client is
  never answered with that message: the failing INSERT aborts the transaction, so the
  lookup of the existing message that follows it fails as well and every such call ends
  in an error.
\<close>

theorem enqueue_repeated_key_fails:
  assumes "m0 \<in> set (sms_messages d)" "msg_client m0 = Some (ei_client i)"
    "msg_idempotency_key m0 = ei_key i" "ei_key i \<noteq> None"
  shows "\<exists>e. Enqueue ids now dirs bill i d = Inl e"
proof (cases "Enqueue ids now dirs bill i d")
  case (Inr r)
  then obtain m d' where "Enqueue ids now dirs bill i d = Inr (m, d')" by (cases r) auto
  from Enqueue_OK [OF this] show ?thesis
  proof (rule enqueue_OK)
    fix frm dst body est d1
    assume "InsertSmsMessage (id_message ids) now (enqueue_params i frm dst body est) d = Inr (m, d1)"
    with assms show ?thesis
      by (auto simp: InsertSmsMessage_def enqueue_params_def Let_def list_ex_iff
          split: sum.splits if_splits)
  qed
qed simp

theorem enqueue_repeated_key_fails_witness:
  "\<exists>m d' e. Enqueue (demo_ids ''1'') 5 None True (demo_input (Some ''k'')) demo_shop = Inr (m, d') \<and>
     m \<in> set (sms_messages d') \<and>
     Enqueue (demo_ids ''2'') 6 None True (demo_input (Some ''k'')) d' = Inl e"
proof -
  from demo_enqueue [of "Some ''k''"] obtain m d' where
    e: "Enqueue (demo_ids ''1'') 5 None True (demo_input (Some ''k'')) demo_shop = Inr (m, d')" by blast
  have live: "\<not> clientDeleted (ei_client (demo_input (Some ''k''))) demo_shop"
    by (simp add: demo_input_client demo_client_live)
  have m: "m \<in> set (sms_messages d')" "msg_client m = Some (ei_client (demo_input (Some ''k'')))"
    "msg_idempotency_key m = ei_key (demo_input (Some ''k''))"
    by (rule enqueue_effect [OF Enqueue_OK [OF e] demo_shop_ok live], simp)+
  have "\<exists>e. Enqueue (demo_ids ''2'') 6 None True (demo_input (Some ''k'')) d' = Inl e"
    by (rule enqueue_repeated_key_fails [OF m]) (simp add: demo_input_def)
  with e m(1) show ?thesis by blast
qed

section \<open>Matching\<close>

text \<open>
  C10. The matching of a message with the provider's statistic is: among the outgoing rows
  between the same two numbers whose id is not taken, the first one with the same text
  if there is one; otherwise a row without text, provided it is the only one and has an
  id; otherwise nothing.
\<close>

theorem MatchStatistic_spec:
  "MatchStatistic sender receiver body rows used =
     (let cand = filter (candidate (Canonical sender) (Canonical receiver) used) rows;
          same = filter (\<lambda>r. TrimSpace (st_message r) \<noteq> [] \<and> TrimSpace (st_message r) = TrimSpace body) cand;
          blank = filter (\<lambda>r. TrimSpace (st_message r) = []) cand
      in case same of r # _ \<Rightarrow> Some r
         | [] \<Rightarrow> (case blank of [r] \<Rightarrow> if st_sms_id r \<noteq> [] then Some r else None | _ \<Rightarrow> None))"
  by (simp add: MatchStatistic_def match_loop_filters Let_def conj_commute split: list.splits)

section \<open>Idempotent requests\<close>

text \<open>
  C7. A keyed send request is executed at most once while its key is stored: after an
  accepted request, any repetition with the same API key, idempotency key and request
  (whatever the time, the generated ids or the settings, and whatever happened to the
  other tables in between) is answered with the stored response and changes nothing, and
  one with a different request under the same key is refused as a conflict.
\<close>

theorem keyed_send_is_replayed:
  assumes "send_keyed env kid ids now apiKey key hash i d = (AcceptedMsg m, d')"
    and "idempotency_keys d'' = idempotency_keys d'"
  shows "send_keyed env' kid' ids' now' apiKey key hash' i' d'' =
    (if hash' = hash then Replayed 202 (se_jsonb env (se_render env m))
     else Refused (Sentinel IdempotencyErrConflict), d'')"
  using assms(1)
proof (rule send_keyed_Accepted)
  fix d1 d2
  assume k: "d' = d2\<lparr>idempotency_keys := idempotency_keys d @
      [\<lparr>ik_id = kid, ik_principal_type = ActorApiKey, ik_principal_id = apiKey, ik_key = key,
        ik_request_hash = hash, ik_response_status = Some 202,
        ik_response_body = se_jsonb env (se_render env m), ik_expires_at = now + DefaultTTL\<rparr>]\<rparr>"
    and new: "\<not> list_ex (same_key ActorApiKey apiKey key) (idempotency_keys d)"
  from new have "filter (same_key ActorApiKey apiKey key) (idempotency_keys d) = []"
    by (auto simp: list_ex_iff filter_empty_conv)
  with k assms(2) show ?thesis
    by (auto simp: send_keyed_def Reserve_def InsertIdempotencyKey_def GetIdempotencyKeyForUpdate_def
        same_key_def Let_def)
qed

definition demo_env :: send_env where
  "demo_env = \<lparr>se_jsonb = id, se_render = msg_id, se_dirs = None, se_bill = True\<rparr>"

lemma demo_checks_keys: "enqueue_checks None (demo_input key) (demo_shop\<lparr>idempotency_keys := ks\<rparr>) =
    Inr (''79161234567'', \<lparr>MSISDN = ''79167654321'', International = False\<rparr>, ''hi'')"
  by (simp add: enqueue_checks_def demo_input_def maxTextRunes_def RuneCountInString_def
      GetAssignedNumberForClient_def demo_shop_def)

lemma demo_send: "\<exists>m d'. send_keyed demo_env ''k1'' (demo_ids ''1'') 5 ''ak'' ''key'' ''hash'' (demo_input None)
    demo_shop = (AcceptedMsg m, d')"
proof -
  have i: "(demo_input None)\<lparr>ei_key := Some ''key''\<rparr> = demo_input (Some ''key'')"
    by (simp add: demo_input_def)
  have k: "idempotency_keys demo_shop = []" by (simp add: demo_shop_def demo_defs)
  show ?thesis
    unfolding send_keyed_def EnqueueWith_def i
    apply (simp add: Reserve_def InsertIdempotencyKey_def k Let_def demo_env_def enqueue_def demo_checks_keys
        demo_input_client demo_Estimate)
    apply (simp add: demo_input_def InsertSmsMessage_def enqueue_params_def demo_estimate_def
      to_msisdn_chk_def ascii_digit_def demo_ids_def InsertSendJob_def tx_commit_def tx_write_def demo_shop_def
      Complete_def CompleteIdempotencyKey_def demo_defs wallet_eval)
    done
qed

theorem keyed_send_is_replayed_witness:
  "\<exists>m d'. send_keyed demo_env ''k1'' (demo_ids ''1'') 5 ''ak'' ''key'' ''hash'' (demo_input None) demo_shop
      = (AcceptedMsg m, d') \<and>
    send_keyed demo_env ''k2'' (demo_ids ''2'') 6 ''ak'' ''key'' ''hash'' (demo_input None) d'
      = (Replayed 202 (msg_id m), d')"
proof -
  from demo_send obtain m d' where s: "send_keyed demo_env ''k1'' (demo_ids ''1'') 5 ''ak'' ''key'' ''hash''
    (demo_input None) demo_shop = (AcceptedMsg m, d')" by blast
  from keyed_send_is_replayed [OF s refl, of demo_env "''k2''" "demo_ids ''2''" 6 "''hash''" "demo_input None"]
  have "send_keyed demo_env ''k2'' (demo_ids ''2'') 6 ''ak'' ''key'' ''hash'' (demo_input None) d'
      = (Replayed 202 (msg_id m), d')" by (simp add: demo_env_def)
  with s show ?thesis by blast
qed

end
