(* ===== verification/OutboxProps.thy ===== *)
theory OutboxProps
  imports OutboxCrash OutboxFlows MessagingProps
begin

text \<open>
  Properties of the outbox worker: its protocol, locks, bounds on POSTs, the money and the
  messages, the claim and the loops.
\<close>

section \<open>The claim\<close>

lemma claim_of_le_1: "length (claim_of now d c) \<le> 1"
  by (simp add: claim_of_def)

lemma length_concat_le:
  assumes "\<And>x. length (f x) \<le> 1"
  shows "length (concat (map f xs)) \<le> length xs"
proof (induction xs)
  case (Cons x xs)
  then show ?case using assms [of x] by simp
qed simp

lemma claim_ids_length: "length (claim_ids limit now d) \<le> limit"
  using length_concat_le [of "claim_of now d" "claim_clients now limit d", OF claim_of_le_1]
  by (auto simp: claim_ids_def claim_clients_def Let_def intro: order_trans)

lemma claimed_row:
  assumes dist: "distinct (map sj_id (send_jobs d))" and j: "j \<in> set (send_jobs d)" "sj_id j \<in> set (claim_ids limit now d)"
  shows "claim_of now d (sj_client j) = [j]" "sj_client j \<in> set (claim_clients now limit d)"
proof -
  from j(2) obtain c k where k: "c \<in> set (claim_clients now limit d)" "k \<in> set (claim_of now d c)" "sj_id k = sj_id j"
    by (auto simp: claim_ids_def)
  from claim_of_mem [OF k(2)] dist j(1) k(3) have "k = j" "c = sj_client j" by (auto dest: distinct_map_inj)
  with k claim_of_le_1 [of now d c] show "claim_of now d (sj_client j) = [j]" "sj_client j \<in> set (claim_clients now limit d)"
    by (cases "claim_of now d c"; auto)+
qed

lemma sort_key_first:
  assumes "sort_key f xs = y # ys" "x \<in> set xs"
  shows "f y \<le> f x"
proof -
  have "sorted (map f (y # ys))" using sorted_sort_key [of f xs] assms(1) by simp
  moreover have "x \<in> set (y # ys)" using assms(2) set_sort [of f xs] unfolding assms(1) by simp
  ultimately show ?thesis by auto
qed

lemma claim_of_first:
  assumes "claim_of now d c = [j]" "k \<in> set (send_jobs d)" "sj_client k = c" "claimable now d k"
  shows "claim_rank (sj_status j) \<le> claim_rank (sj_status k)"
proof -
  let ?xs = "sort_key sj_available_at (sort_key sj_id
       (filter (\<lambda>j. sj_client j = c \<and> claimable now d j) (send_jobs d)))"
  from assms(1) obtain ys where "sort_key (\<lambda>j. claim_rank (sj_status j)) ?xs = j # ys"
    by (cases "sort_key (\<lambda>j. claim_rank (sj_status j)) ?xs") (auto simp: claim_of_def)
  then show ?thesis by (rule sort_key_first) (use assms in simp)
qed

lemma claim_of_nonempty:
  assumes "k \<in> set (send_jobs d)" "sj_client k = c" "claimable now d k"
  obtains j where "claim_of now d c = [j]"
proof -
  let ?f = "filter (\<lambda>j. sj_client j = c \<and> claimable now d j) (send_jobs d)"
  let ?xs = "sort_key (\<lambda>j. claim_rank (sj_status j)) (sort_key sj_available_at (sort_key sj_id ?f))"
  have "set ?xs \<noteq> {}" using assms by (auto simp: filter_empty_conv)
  then obtain j ys where "?xs = j # ys" by (cases ?xs) auto
  then show ?thesis using that by (simp add: claim_of_def)
qed

lemma claim_clients_all:
  assumes "card (sj_client ` {j \<in> set (send_jobs d). claimable now d j}) \<le> limit"
  shows "set (claim_clients now limit d) = sj_client ` {j \<in> set (send_jobs d). claimable now d j}"
proof -
  let ?cs = "remdups (map sj_client (filter (claimable now d) (send_jobs d)))"
  have set: "set ?cs = sj_client ` {j \<in> set (send_jobs d). claimable now d j}" by auto
  have "length ?cs = card (set ?cs)" by (rule distinct_card [symmetric]) simp
  then have "length ?cs \<le> limit" using assms unfolding set by simp
  then show ?thesis using set by (simp add: claim_clients_def Let_def)
qed

text \<open>
  C16. The claim of a worker (\<open>ClaimSendJobsFair\<close>) takes at most \<open>limit\<close> jobs and at most one of
  each client. Every job it takes was claimable (waiting, due, its client active), becomes
  locked by the worker, and no claimable job of its client has a more urgent status. When at
  most \<open>limit\<close> clients have claimable jobs, every one of them gets a job taken.
\<close>

theorem claim_is_fair:
  assumes dist: "distinct (map sj_id (send_jobs d))"
    and claim: "ClaimSendJobsFair wid limit now d = (jobs, d')"
  shows "length jobs \<le> limit \<and> distinct (map sj_client jobs) \<and>
      (\<forall>j \<in> set jobs. \<exists>k \<in> set (send_jobs d). j = lock_for wid now k \<and> claimable now d k \<and>
      (\<forall>k' \<in> set (send_jobs d). sj_client k' = sj_client k \<and> claimable now d k' \<longrightarrow>
         claim_rank (sj_status k) \<le> claim_rank (sj_status k'))) \<and>
      (card (sj_client ` {j \<in> set (send_jobs d). claimable now d j}) \<le> limit \<longrightarrow>
      sj_client ` {j \<in> set (send_jobs d). claimable now d j} = sj_client ` set jobs)"
proof -
  let ?ids = "claim_ids limit now d" and ?f = "lock_for wid now"
  let ?js = "filter (\<lambda>j. sj_id j \<in> set ?ids) (send_jobs d)"
  have jobs: "jobs = map ?f ?js" using claim by (simp add: ClaimSendJobsFair_eq)
  have client: "sj_client (?f j) = sj_client j" for j by (simp add: lock_for_def)
  have "length jobs = length (map sj_id ?js)" by (simp add: jobs)
  also have "\<dots> = card (set (map sj_id ?js))"
    by (rule distinct_card [symmetric]) (rule distinct_map_filter [OF dist])
  also have "\<dots> \<le> card (set ?ids)" by (rule card_mono) auto
  also have "\<dots> \<le> limit" using claim_ids_length card_length order_trans by blast
  finally have few: "length jobs \<le> limit" .
  have "inj_on sj_client (set ?js)"
  proof (rule inj_onI)
    fix j k assume jk: "j \<in> set ?js" "k \<in> set ?js" and eq: "sj_client j = sj_client k"
    have "claim_of now d (sj_client j) = [j]" by (rule claimed_row(1) [OF dist, where limit = limit]) (use jk(1) in auto)
    moreover have "claim_of now d (sj_client k) = [k]"
      by (rule claimed_row(1) [OF dist, where limit = limit]) (use jk(2) in auto)
    ultimately show "j = k" unfolding eq by simp
  qed
  then have one: "distinct (map sj_client jobs)"
    using dist by (simp add: jobs comp_def client distinct_map)
  have first: "\<forall>j \<in> set jobs. \<exists>k \<in> set (send_jobs d). j = ?f k \<and> claimable now d k \<and>
      (\<forall>k' \<in> set (send_jobs d). sj_client k' = sj_client k \<and> claimable now d k' \<longrightarrow>
         claim_rank (sj_status k) \<le> claim_rank (sj_status k'))"
    using claim_ids_claimable [OF _ _ dist] claim_of_first [OF claimed_row(1) [OF dist]]
    by (fastforce simp: jobs)
  have "card (sj_client ` {j \<in> set (send_jobs d). claimable now d j}) \<le> limit \<longrightarrow>
      sj_client ` {j \<in> set (send_jobs d). claimable now d j} = sj_client ` set jobs"
  proof (intro impI equalityI subsetI)
    fix c assume few: "card (sj_client ` {j \<in> set (send_jobs d). claimable now d j}) \<le> limit"
      and c: "c \<in> sj_client ` {j \<in> set (send_jobs d). claimable now d j}"
    then obtain j where j: "claim_of now d c = [j]" by (auto elim: claim_of_nonempty)
    moreover have "c \<in> set (claim_clients now limit d)" using claim_clients_all [OF few] c by simp
    ultimately have "sj_id j \<in> set ?ids" by (force simp: claim_ids_def)
    moreover have "j \<in> set (send_jobs d)" "sj_client j = c" using claim_of_mem [of j now d c] j by simp_all
    ultimately have "?f j \<in> set jobs" "c = sj_client (?f j)" by (auto simp: jobs client)
    then show "c \<in> sj_client ` set jobs" by (rule rev_image_eqI)
  qed (use claim_ids_claimable [OF _ _ dist] in \<open>auto simp: jobs client\<close>)
  with few one first show ?thesis by blast
qed

definition demo_queue :: db where
  "demo_queue = demo_db\<lparr>send_jobs := [again_job JobPending 0 3 None None None]\<rparr>"

theorem claim_is_fair_witness:
  "length (fst (ClaimSendJobsFair ''w'' 8 5 demo_queue)) \<le> 8
   \<and> fst (ClaimSendJobsFair ''w'' 8 5 demo_queue) = [again_job JobProcessing 0 3 (Some 5) (Some ''w'') None]"
proof -
  have d: "distinct (map sj_id (send_jobs demo_queue))" by (simp add: demo_queue_def)
  have "fst (ClaimSendJobsFair ''w'' 8 5 demo_queue) = [again_job JobProcessing 0 3 (Some 5) (Some ''w'') None]"
    by (simp add: ClaimSendJobsFair_def claim_clients_def claim_of_def claimable_def waiting_def demo_queue_def
        again_defs Let_def)
  moreover obtain jobs d' where "ClaimSendJobsFair ''w'' 8 5 demo_queue = (jobs, d')" by fastforce
  ultimately show ?thesis using claim_is_fair [OF d, of "''w''" 8 5] by simp
qed

section \<open>The protocol and the lock\<close>


abbreviation demo_running :: send_job where
  "demo_running \<equiv> again_job JobProcessing 1 3 (Some 5) (Some ''w'') (Some needStat)"


text \<open>
  C15. A worker whose lock on the job is gone (the job was taken over, parked or finished by
  another worker) makes no POST, records no attempt and changes no send job, whatever it still
  remembers of the job.
\<close>

theorem stale_worker_is_harmless:
  assumes "\<not> list_ex (owned (sj_id job) (oe_worker env)) (send_jobs (ob_db s))"
  shows "send_jobs (ob_db (process env i now job s)) = send_jobs (ob_db s)
    \<and> send_attempts (ob_db (process env i now job s)) = send_attempts (ob_db s)
    \<and> ob_posts (process env i now job s) = ob_posts s"
  using process_not_owner [OF assms] by simp

theorem stale_worker_is_harmless_witness:
  "ob_posts (process again_env ''x'' 9 (again_job JobProcessing 0 3 (Some 5) (Some ''w'') None)
     (again_state (again_job JobProcessing 0 3 (Some 8) (Some ''w2'') None) 0 None)) = []"
proof -
  let ?j = "again_job JobProcessing 0 3 (Some 5) (Some ''w'') None"
  let ?s = "again_state (again_job JobProcessing 0 3 (Some 8) (Some ''w2'') None) 0 None"
  have "\<not> list_ex (owned (sj_id ?j) (oe_worker again_env)) (send_jobs (ob_db ?s))"
    by (simp add: owned_def again_defs)
  from stale_worker_is_harmless [OF this, of "''x''" 9] show ?thesis by simp
qed

section \<open>How often a job is posted\<close>



text \<open>
  C17. That bound needs workers that survive their POSTs. A job whose worker dies during the POST
  is taken over with its counter at one and no recorded attempt, so it is posted again; if the
  worker keeps dying the same message is posted any number of times.
\<close>

theorem crashes_repeat_posts:
  "\<exists>t. crash_step\<^sup>*\<^sup>* again_start t \<and> count_list (ob_posts t) ''sj1'' = n
     \<and> send_attempts (ob_db t) = [] \<and> list_all (\<lambda>j. sj_attempt j \<le> 1) (send_jobs (ob_db t))"
proof (cases n)
  case 0
  then show ?thesis by (intro exI [of _ again_start]) (simp add: again_start_def again_defs)
next
  case (Suc k)
  from again_rounds [of k] obtain t rec where
    "crash_step\<^sup>*\<^sup>* again_start (again_state (again_ready t) (Suc k) rec)" by blast
  moreover have "count_list (replicate m ''sj1'') ''sj1'' = m" for m by (induction m) simp_all
  ultimately show ?thesis using Suc
    by (intro exI [of _ "again_state (again_ready t) (Suc k) rec"]) (simp add: again_defs)
qed

section \<open>Money and messages\<close>

text \<open>
  C14. A tick of the worker, with any answers of the provider, keeps the billing invariant (balances
  equal to the ledger, at most one settlement of a hold, and the rest of \<open>db_ok\<close>) and moves every
  message only forward: queued, accepted, sent, then delivered or failed for good, with its
  addresses, text and price unchanged.
\<close>

theorem tick_keeps_books_and_messages:
  assumes "db_ok (ob_db s)"
  shows "db_ok (ob_db (snd (Tick te now s))) \<and>
    (\<forall>m \<in> set (sms_messages (ob_db s)). \<exists>m' \<in> set (sms_messages (ob_db (snd (Tick te now s)))).
       message_forward m m')"
proof -
  from Tick_safe [of s te now] have "msgs_forward (sms_messages (ob_db s)) (sms_messages (ob_db (snd (Tick te now s))))"
    "db_ok (ob_db s) \<longrightarrow> db_ok (ob_db (snd (Tick te now s)))" by (simp_all add: safe_db_def)
  then show ?thesis using assms by (blast elim: msgs_forward_mem)
qed

lemma again_start_ok: "db_ok (ob_db again_start)"
proof -
  have "db_ok (ob_db again_start) = db_ok (demo_db\<lparr>sms_messages := [demo_msg ''m1'']\<rparr>)"
    by (simp add: again_start_def again_state_def)
  moreover have "ledger_ok (wallets demo_db) (wallet_txs demo_db)" using db_okD(1) [OF demo_db_ok] .
  ultimately show ?thesis
    by (simp add: db_ok_def links_ok_def prices_ok_def demo_defs money_simps)
qed

theorem tick_keeps_books_and_messages_witness:
  "db_ok (ob_db (snd (Tick again_tick 5 again_start)))"
  using tick_keeps_books_and_messages [OF again_start_ok] by simp


definition demo_sending :: "send_job \<Rightarrow> ob_state" where
  "demo_sending j = \<lparr>ob_db = demo_held\<lparr>send_jobs := [j]\<rparr>, ob_posts = [], ob_used = [], ob_last_rec = None\<rparr>"


section \<open>Pauses and loops\<close>

text \<open>
  The pause after a 429 answer is two seconds per attempt, at least two seconds and at most a
  minute, for every 32-bit attempt counter: the 64-bit product never overflows.
\<close>

theorem backoff429_bounds:
  "sint (backoff429 a) = min 60 (2 * max 1 (sint a)) * second"
proof -
  have a: "- (2 ^ 31) \<le> sint a" "sint a < 2 ^ 31"
    using sint_ge [of a] sint_less [of a] by simp_all
  define b where "b = (if sint a < 1 then 1 else a)"
  have b: "sint b = max 1 (sint a)" by (simp add: b_def)
  have "(word_of_int n :: int64) * 2 * 1000000000 = word_of_int (n * 2000000000)" for n
    by (simp add: mult.assoc)
  then have "scast b * 2 * 1000000000 = (word_of_int (sint b * 2000000000) :: int64)"
    unfolding scast_eq .
  moreover have "sint (word_of_int (sint b * 2000000000) :: int64) = sint b * 2000000000"
    by (rule sint_of_int_small) (use a b in auto)
  ultimately show ?thesis
    using b by (auto simp: backoff429_def Let_def second_def b_def [symmetric] min_def)
qed


end
