(* ===== verification/LookupPhones.thy ===== *)
theory LookupPhones
  imports Msisdn
begin

text \<open>
  \<open>internal/lookup/phone.go\<close>: the phone numbers of a lookup request, normalised to E.164 and
  deduplicated, and the chunks of a list.
\<close>

section \<open>Normalisation of one number\<close>

definition lookup_validation :: "string \<Rightarrow> string list \<Rightarrow> goerr" where
  "lookup_validation msg rejected = Wrapped LookupErrValidation ''validation'' msg rejected"

text \<open>The runes of \<open>s\<close> that are digits; a plus sign stays when it is the first rune.\<close>

definition stripPhoneNoise :: "string \<Rightarrow> string" where
  "stripPhoneNoise s =
     (case runes s of [] \<Rightarrow> []
      | (r, _) # rs \<Rightarrow>
          (if r = 43 then ''+'' else if unicode_IsDigit r then encode_rune r else [])
          @ concat (map (encode_rune \<circ> fst) (filter (\<lambda>(r, _). unicode_IsDigit r) rs)))"

definition lookup_digitsOnly :: "string \<Rightarrow> string" where
  "lookup_digitsOnly s =
     concat (map (encode_rune \<circ> fst) (filter (\<lambda>(r, _). unicode_IsDigit r) (runes s)))"

definition validE164 :: "string \<Rightarrow> bool" where
  "validE164 e164 =
     (if \<not> HasPrefix e164 ''+'' then False
      else
        let d = tl e164 in
        if length d < 8 \<or> length d > 15 then False
        else if hd d = CHR ''0'' then False
        else list_all (\<lambda>r. \<not> (r < 48 \<or> r > 57)) (runes_of d))"

definition IsRUMobile79 :: "string \<Rightarrow> bool" where
  "IsRUMobile79 e164 =
     (let digits = lookup_digitsOnly e164 in length digits = 11 \<and> HasPrefix digits ''79'')"

definition CountNonRUMobile79 :: "string list \<Rightarrow> nat" where
  "CountNonRUMobile79 phones = length (filter (\<lambda>p. \<not> IsRUMobile79 p) phones)"

definition NormalizePhoneE164 :: "string \<Rightarrow> string result" where
  "NormalizePhoneE164 input =
     (let trimmed = TrimSpace input in
      if trimmed = [] then Inl (lookup_validation ''Phone number is empty'' [])
      else
        let compact = stripPhoneNoise trimmed; digits = lookup_digitsOnly compact in
        if length digits = 0 then Inl (lookup_validation ''Invalid phone number'' [])
        else
          let digits = (if \<not> HasPrefix compact ''+'' then
                if length digits = 11 \<and> hd digits = CHR ''8'' then CHR ''7'' # tl digits
                else if length digits = 10 \<and> hd digits = CHR ''9'' then CHR ''7'' # digits
                else digits
              else digits);
              compact = CHR ''+'' # digits
          in if \<not> validE164 compact then Inl (lookup_validation ''Invalid phone number'' []) else Inr compact)"

section \<open>Lists of numbers\<close>

record normalize_result =
  nr_phones :: "string list"
  nr_deduplicated :: nat
  nr_invalid :: "(string \<times> string) list"
  nr_rejected :: "string list"
  nr_has_non79 :: bool

text \<open>The message of a \<open>*lookup.Error\<close>, empty for any other error.\<close>

fun error_message :: "goerr \<Rightarrow> string" where
  "error_message (Wrapped _ _ msg _) = msg"
| "error_message _ = []"

definition appendUniqueToken :: "string list \<Rightarrow> string set \<Rightarrow> string \<Rightarrow> string list \<times> string set" where
  "appendUniqueToken dst seen token =
     (if token = [] then (dst, seen)
      else if token \<in> seen then (dst, seen)
      else (dst @ [token], insert token seen))"

text \<open>The loop of \<open>NormalizeAndDeduplicate\<close>, with its result and the two sets of seen strings.\<close>

fun normalize_loop ::
    "string list \<Rightarrow> normalize_result \<Rightarrow> string set \<Rightarrow> string set \<Rightarrow> normalize_result" where
  "normalize_loop [] out seenE164 seenOrig = out"
| "normalize_loop (input # inputs) out seenE164 seenOrig =
     (let trimmed = TrimSpace input in
      case NormalizePhoneE164 input of
        Inl e \<Rightarrow>
          let reason = (if error_message e \<noteq> [] then error_message e else ''Invalid phone number'');
              (rej, seen) = appendUniqueToken (nr_rejected out) seenOrig trimmed
          in normalize_loop inputs
               (out\<lparr>nr_invalid := nr_invalid out @ [(input, reason)], nr_rejected := rej\<rparr>) seenE164 seen
      | Inr e164 \<Rightarrow>
          let (out, seenOrig) =
                (if \<not> IsRUMobile79 e164
                 then let (rej, seen) = appendUniqueToken (nr_rejected out) seenOrig trimmed
                      in (out\<lparr>nr_has_non79 := True, nr_rejected := rej\<rparr>, seen)
                 else (out, seenOrig))
          in if e164 \<in> seenE164
             then normalize_loop inputs (out\<lparr>nr_deduplicated := nr_deduplicated out + 1\<rparr>) seenE164 seenOrig
             else normalize_loop inputs (out\<lparr>nr_phones := nr_phones out @ [e164]\<rparr>)
                    (insert e164 seenE164) seenOrig)"

definition NormalizeAndDeduplicate :: "string list \<Rightarrow> normalize_result" where
  "NormalizeAndDeduplicate inputs =
     normalize_loop inputs
       \<lparr>nr_phones = [], nr_deduplicated = 0, nr_invalid = [], nr_rejected = [], nr_has_non79 = False\<rparr> {} {}"

definition phoneCapLabel :: "string \<Rightarrow> string" where
  "phoneCapLabel name = (if TrimSpace name = [] then ''max_batch_phones'' else TrimSpace name)"

text \<open>The text of \<open>RUMobile79RequiredMessage\<close>, in its UTF-8 encoding, is an argument.\<close>

definition PreparePhones ::
    "string \<Rightarrow> string list \<Rightarrow> string \<Rightarrow> int \<Rightarrow> string \<Rightarrow> (string list \<times> nat) result" where
  "PreparePhones required79 inputs source maxPhones capName =
     (if length inputs = 0 then Inl (lookup_validation ''phones must be a non-empty array'' [])
      else
        let norm = NormalizeAndDeduplicate inputs in
        if length (nr_invalid norm) > 0 \<or> nr_has_non79 norm
        then Inl (lookup_validation
               (if nr_has_non79 norm then required79 else ''One or more phone numbers are invalid'')
               (nr_rejected norm))
        else if length (nr_phones norm) = 0
        then Inl (lookup_validation ''No valid phone numbers after normalization'' [])
        else if maxPhones > 0 \<and> int (length (nr_phones norm)) > maxPhones
        then Inl (lookup_validation (''Phone count exceeds '' @ phoneCapLabel capName) [])
        else if source = ''single'' \<and> length (nr_phones norm) \<noteq> 1
        then Inl (lookup_validation ''SINGLE source requires exactly one phone'' [])
        else Inr (nr_phones norm, nr_deduplicated norm))"

definition PhoneDigits :: "string \<Rightarrow> string" where
  "PhoneDigits e164 = lookup_digitsOnly e164"

function Chunk :: "nat \<Rightarrow> 'a list \<Rightarrow> 'a list list" where
  "Chunk n items = (if n = 0 \<or> items = [] then [] else take n items # Chunk n (drop n items))"
  by pat_completeness auto

termination by (relation "measure (\<lambda>(_, xs). length xs)") auto

declare Chunk.simps [simp del]

section \<open>Lemmas\<close>

lemma lookup_digitsOnly_eq: "lookup_digitsOnly = digitsOnly"
  by (simp add: fun_eq_iff lookup_digitsOnly_def digitsOnly_def)

lemma cont_mod:
  fixes y :: nat
  assumes "128 \<le> y" "y < 192"
  shows "y mod 64 = y - 128"
proof -
  from assms(1) obtain k where k: "y = k + 2 * 64" using le_Suc_ex [of 128 y] by auto
  then have "y mod 64 = k mod 64" by (simp only: mod_mult_self1)
  then show ?thesis using k assms(2) by simp
qed

text \<open>A rune below 0x80 is one byte.\<close>

lemma decode_rune_small:
  assumes "fst (decode_rune c cs) < 0x80"
  shows "(of_char c :: nat) < 0x80"
proof (rule ccontr)
  define b :: nat where "b = of_char c"
  assume "\<not> (of_char c :: nat) < 0x80"
  then have b: "0x80 \<le> b" by (simp add: b_def)
  have two: "128 \<le> (b mod 32) * 64 + x" if "0xC2 \<le> b" "b \<le> 0xDF" for x
  proof -
    have "b mod 32 = b - 192" using that by (simp add: mod_if le_mod_geq)
    then show ?thesis using that by simp
  qed
  have three: "128 \<le> (b mod 16) * 4096 + (y mod 64) * 64 + x" if "0xE0 \<le> b" "b \<le> 0xEF" "second_ok b y" for x y
  proof (cases "b = 0xE0")
    case True
    then have "0xA0 \<le> y \<and> y \<le> 0xBF" using that(3) by (simp add: second_ok_def)
    then have "y mod 64 = y - 128" by (simp add: cont_mod)
    then have "32 \<le> y mod 64" using \<open>0xA0 \<le> y \<and> y \<le> 0xBF\<close> by linarith
    then show ?thesis by linarith
  next
    case False
    have "b mod 16 = b - 224" using that by (simp add: mod_if le_mod_geq)
    then show ?thesis using that False by simp
  qed
  have four: "128 \<le> (b mod 8) * 262144 + (y mod 64) * 4096 + z + x" if "0xF0 \<le> b" "b \<le> 0xF4" "second_ok b y" for x y z
  proof (cases "b = 0xF0")
    case True
    then have "0x90 \<le> y \<and> y \<le> 0xBF" using that(3) by (simp add: second_ok_def)
    then have "y mod 64 = y - 128" by (simp add: cont_mod)
    then have "16 \<le> y mod 64" using \<open>0x90 \<le> y \<and> y \<le> 0xBF\<close> by linarith
    then show ?thesis by linarith
  next
    case False
    have "b mod 8 = b - 240" using that by (simp add: mod_if le_mod_geq)
    then show ?thesis using that False by simp
  qed
  have "128 \<le> fst (decode_rune c cs)"
    using b two three four
    by (auto simp: decode_rune_def decode2_def decode3_def decode4_def rune_error_def b_def [symmetric] Let_def
        split: list.split)
  with assms show False by simp
qed

lemma runes_digits: "list_all (\<lambda>r. \<not> (r < 48 \<or> r > 57)) (runes_of d) \<Longrightarrow> list_all ascii_digit d"
proof (induction d rule: runes.induct)
  case (2 c cs)
  then have "fst (decode_rune c cs) < 0x80"
    by (auto simp: runes_of_def runes.simps Let_def case_prod_beta)
  then have c: "(of_char c :: nat) < 0x80" by (rule decode_rune_small)
  then have dec: "decode_rune c cs = (of_char c, 1)" by (simp add: decode_rune_def)
  with 2 show ?case by (auto simp: runes_of_def runes.simps dec ascii_digit_def)
qed (simp add: runes_of_def)

lemma Chunk_concat: "0 < n \<Longrightarrow> concat (Chunk n xs) = xs"
  by (induction n xs rule: Chunk.induct) (simp add: Chunk.simps)

lemma Chunk_sizes: "c \<in> set (Chunk n xs) \<Longrightarrow> 0 < length c \<and> length c \<le> n"
  by (induction n xs rule: Chunk.induct) (subst (asm) (2) Chunk.simps, auto split: if_splits)

lemma validE164_iff:
  "validE164 e = (\<exists>d. e = CHR ''+'' # d \<and> 8 \<le> length d \<and> length d \<le> 15 \<and> hd d \<noteq> CHR ''0'' \<and> list_all ascii_digit d)"
proof -
  have "list_all (\<lambda>r. \<not> (r < 48 \<or> r > 57)) (runes_of d)" if "list_all ascii_digit d" for d
  proof -
    have "runes_of d = map of_char d" by (simp add: runes_of_def runes_ascii [OF all_digits_ascii [OF that]])
    then show ?thesis using that by (auto simp: list_all_iff ascii_digit_def not_less)
  qed
  then have eq: "list_all (\<lambda>r. \<not> (r < 48 \<or> r > 57)) (runes_of d) = list_all ascii_digit d" for d
    using runes_digits [of d] by blast
  show ?thesis
    by (cases e) (auto simp: validE164_def HasPrefix_def eq Let_def simp del: de_Morgan_disj)
qed

lemma NormalizePhoneE164_valid: "NormalizePhoneE164 input = Inr e \<Longrightarrow> validE164 e"
  by (auto simp: NormalizePhoneE164_def Let_def split: if_splits)

lemma RUMobile79_shape:
  assumes "validE164 e" "IsRUMobile79 e"
  shows "\<exists>d. e = ''+79'' @ d \<and> length d = 9 \<and> list_all ascii_digit d"
proof -
  from assms(1) obtain d where d: "e = CHR ''+'' # d" "list_all ascii_digit d" by (auto simp: validE164_iff)
  have "digitsOnly e = d"
    using d all_digits_ascii [OF d(2)] by (simp add: digitsOnly_ascii is_ascii_def ascii_digit_def list_all_iff filter_id_conv)
  with assms(2) have "length d = 11" "HasPrefix d ''79''"
    by (simp_all add: IsRUMobile79_def lookup_digitsOnly_eq Let_def)
  then have "take 2 d = ''79''" by (simp add: HasPrefix_def eval_nat_numeral)
  then have "d = ''79'' @ drop 2 d" by (metis append_take_drop_id)
  then show ?thesis using d \<open>length d = 11\<close>
    by (intro exI [of _ "drop 2 d"]) (auto simp: list_all_iff dest: in_set_dropD)
qed

definition nr_bad :: "normalize_result \<Rightarrow> bool" where
  "nr_bad out = (nr_invalid out \<noteq> [] \<or> nr_has_non79 out)"

definition nr_ok :: "string set \<Rightarrow> normalize_result \<Rightarrow> bool" where
  "nr_ok seen out = (set (nr_phones out) = seen \<and> distinct (nr_phones out))"

text \<open>One iteration: a refused input, a duplicate or a new number.\<close>

lemma normalize_loop_step:
  assumes "nr_ok seen out"
  obtains (bad) out' seen' orig' where "normalize_loop (x # xs) out seen orig = normalize_loop xs out' seen' orig'"
      "nr_bad out'" "nr_ok seen' out'"
  | (dup) e where "NormalizePhoneE164 x = Inr e" "IsRUMobile79 e" "e \<in> seen"
      "normalize_loop (x # xs) out seen orig = normalize_loop xs (out\<lparr>nr_deduplicated := nr_deduplicated out + 1\<rparr>) seen orig"
  | (new) e where "NormalizePhoneE164 x = Inr e" "IsRUMobile79 e" "e \<notin> seen"
      "normalize_loop (x # xs) out seen orig =
       normalize_loop xs (out\<lparr>nr_phones := nr_phones out @ [e]\<rparr>) (insert e seen) orig"
proof (cases "NormalizePhoneE164 x")
  case (Inl e)
  define out1 where "out1 = out\<lparr>nr_invalid := nr_invalid out
      @ [(x, if error_message e \<noteq> [] then error_message e else ''Invalid phone number'')],
    nr_rejected := fst (appendUniqueToken (nr_rejected out) orig (TrimSpace x))\<rparr>"
  show ?thesis
  proof (rule bad)
    show "normalize_loop (x # xs) out seen orig =
        normalize_loop xs out1 seen (snd (appendUniqueToken (nr_rejected out) orig (TrimSpace x)))"
      using Inl by (simp add: out1_def Let_def case_prod_beta)
    show "nr_bad out1" "nr_ok seen out1" using assms by (simp_all add: out1_def nr_bad_def nr_ok_def)
  qed
next
  case (Inr e)
  show ?thesis
  proof (cases "IsRUMobile79 e")
    case True
    with Inr dup new show ?thesis by (cases "e \<in> seen") auto
  next
    case False
    define out1 where "out1 = out\<lparr>nr_has_non79 := True, nr_rejected := fst (appendUniqueToken (nr_rejected out) orig (TrimSpace x))\<rparr>"
    define orig1 where "orig1 = snd (appendUniqueToken (nr_rejected out) orig (TrimSpace x))"
    have step: "normalize_loop (x # xs) out seen orig =
        (if e \<in> seen then normalize_loop xs (out1\<lparr>nr_deduplicated := nr_deduplicated out1 + 1\<rparr>) seen orig1
         else normalize_loop xs (out1\<lparr>nr_phones := nr_phones out1 @ [e]\<rparr>) (insert e seen) orig1)"
      using Inr False by (simp add: out1_def orig1_def Let_def case_prod_beta)
    show ?thesis
      using assms step bad [of "out1\<lparr>nr_deduplicated := nr_deduplicated out1 + 1\<rparr>" seen orig1]
        bad [of "out1\<lparr>nr_phones := nr_phones out1 @ [e]\<rparr>" "insert e seen" orig1]
      by (cases "e \<in> seen") (auto simp: out1_def nr_bad_def nr_ok_def)
  qed
qed

lemma normalize_loop_ok:
  "nr_ok seen out \<Longrightarrow> distinct (nr_phones (normalize_loop xs out seen orig))
     \<and> (nr_bad out \<longrightarrow> nr_bad (normalize_loop xs out seen orig))"
proof (induction xs arbitrary: out seen orig)
  case (Cons x xs)
  from Cons.prems show ?case
  proof (cases rule: normalize_loop_step [of seen out x xs orig])
    case (bad out' seen' orig')
    then show ?thesis using Cons.IH by simp
  next
    case (dup e)
    have "nr_ok seen (out\<lparr>nr_deduplicated := nr_deduplicated out + 1\<rparr>)" using Cons.prems by (simp add: nr_ok_def)
    from Cons.IH [OF this, of orig] dup(4) show ?thesis by (simp add: nr_bad_def)
  next
    case (new e)
    have "nr_ok (insert e seen) (out\<lparr>nr_phones := nr_phones out @ [e]\<rparr>)" using Cons.prems new(3) by (auto simp: nr_ok_def)
    from Cons.IH [OF this, of orig] new(4) show ?thesis by (simp add: nr_bad_def)
  qed
qed (simp add: nr_ok_def)

lemma normalize_loop_good:
  assumes "nr_ok seen out" "\<not> nr_bad (normalize_loop xs out seen orig)"
  shows "(\<forall>x \<in> set xs. \<exists>e. NormalizePhoneE164 x = Inr e \<and> IsRUMobile79 e)
    \<and> set (nr_phones (normalize_loop xs out seen orig)) = seen \<union> {e. \<exists>x \<in> set xs. NormalizePhoneE164 x = Inr e}
    \<and> nr_deduplicated (normalize_loop xs out seen orig) + length (nr_phones (normalize_loop xs out seen orig))
        = nr_deduplicated out + length (nr_phones out) + length xs"
  using assms
proof (induction xs arbitrary: out seen orig)
  case (Cons x xs)
  from Cons.prems(1) show ?case
  proof (cases rule: normalize_loop_step [of seen out x xs orig])
    case (bad out' seen' orig')
    then show ?thesis using normalize_loop_ok [OF bad(3)] Cons.prems(2) by auto
  next
    case (dup e)
    have "nr_ok seen (out\<lparr>nr_deduplicated := nr_deduplicated out + 1\<rparr>)" using Cons.prems by (simp add: nr_ok_def)
    from Cons.IH [OF this, of orig] dup Cons.prems(2) show ?thesis by auto
  next
    case (new e)
    have "nr_ok (insert e seen) (out\<lparr>nr_phones := nr_phones out @ [e]\<rparr>)" using Cons.prems new(3) by (auto simp: nr_ok_def)
    from Cons.IH [OF this, of orig] new Cons.prems(2) show ?thesis by auto
  qed
qed (simp add: nr_ok_def)

section \<open>Properties\<close>

lemma PreparePhones_OK:
  assumes "PreparePhones required79 inputs source maxPhones capName = Inr (phones, n)"
  shows "phones \<noteq> []" "distinct phones" "set phones = {e. \<exists>x \<in> set inputs. NormalizePhoneE164 x = Inr e}"
    "\<And>p. p \<in> set phones \<Longrightarrow> \<exists>d. p = ''+79'' @ d \<and> length d = 9 \<and> list_all ascii_digit d"
    "length phones + n = length inputs" "0 < maxPhones \<Longrightarrow> int (length phones) \<le> maxPhones"
    "source = ''single'' \<Longrightarrow> length phones = 1"
proof -
  define out where "out = \<lparr>nr_phones = [], nr_deduplicated = 0, nr_invalid = [], nr_rejected = [], nr_has_non79 = False\<rparr>"
  define norm where "norm = normalize_loop inputs out {} {}"
  have ok: "nr_ok {} out" by (simp add: nr_ok_def out_def)
  have P: "\<not> nr_bad norm" "phones = nr_phones norm" "n = nr_deduplicated norm" "nr_phones norm \<noteq> []"
    "\<not> (0 < maxPhones \<and> maxPhones < int (length (nr_phones norm)))"
    "\<not> (source = ''single'' \<and> length (nr_phones norm) \<noteq> 1)"
    using assms
    by (auto simp: PreparePhones_def NormalizeAndDeduplicate_def norm_def out_def nr_bad_def Let_def split: if_splits)
  from P(1) have good: "\<forall>x \<in> set inputs. \<exists>e. NormalizePhoneE164 x = Inr e \<and> IsRUMobile79 e"
    "set phones = {e. \<exists>x \<in> set inputs. NormalizePhoneE164 x = Inr e}" "n + length phones = length inputs"
    using normalize_loop_good [OF ok, of inputs "{}"] P(2,3) by (auto simp: norm_def out_def)
  show "distinct phones" using normalize_loop_ok [OF ok, of inputs "{}"] P(2) by (simp add: norm_def)
  show "\<exists>d. p = ''+79'' @ d \<and> length d = 9 \<and> list_all ascii_digit d" if "p \<in> set phones" for p
  proof (rule RUMobile79_shape)
    from that good(2) obtain x where "x \<in> set inputs" "NormalizePhoneE164 x = Inr p" by auto
    with good(1) show "validE164 p" "IsRUMobile79 p" by (auto dest: NormalizePhoneE164_valid)
  qed
  show "phones \<noteq> []" "set phones = {e. \<exists>x \<in> set inputs. NormalizePhoneE164 x = Inr e}"
    "length phones + n = length inputs" "0 < maxPhones \<Longrightarrow> int (length phones) \<le> maxPhones"
    "source = ''single'' \<Longrightarrow> length phones = 1"
    using P good by auto
qed

lemma PreparePhones_demo:
  "PreparePhones [] [''8 900 000-00-02'', ''+79000000002''] ''api'' 10 [] = Inr ([''+79000000002''], 1)"
proof -
  have n1: "NormalizePhoneE164 ''8 900 000-00-02'' = Inr ''+79000000002''"
    and n2: "NormalizePhoneE164 ''+79000000002'' = Inr ''+79000000002''"
    by (simp_all add: NormalizePhoneE164_def TrimSpace_def stripPhoneNoise_def lookup_digitsOnly_eq digitsOnly_ascii
        runes_ascii ascii_digit_def encode_rune_def char_of_def bit_0 IsDigit_ascii unicode_IsSpace_def validE164_def HasPrefix_def
        runes_of_def Let_def)
  have ru: "IsRUMobile79 ''+79000000002''"
    by (simp add: IsRUMobile79_def lookup_digitsOnly_eq digitsOnly_ascii ascii_digit_def HasPrefix_def)
  show ?thesis by (simp add: PreparePhones_def NormalizeAndDeduplicate_def n1 n2 ru)
qed

text \<open>
  C29. A list of phones that passes \<open>PreparePhones\<close> is not empty and has no duplicates; it holds
  exactly the normal forms of the inputs, each a Russian mobile number \<open>+79\<close> with nine more ASCII
  digits (whatever Unicode digits the input had). The duplicates are counted exactly, the limit on
  phones is respected, and a single check has one phone.
\<close>

theorem PreparePhones_spec:
  assumes "PreparePhones required79 inputs source maxPhones capName = Inr (phones, n)"
  shows "phones \<noteq> [] \<and> distinct phones \<and> set phones = {e. \<exists>x \<in> set inputs. NormalizePhoneE164 x = Inr e} \<and>
    list_all (\<lambda>p. \<exists>d. p = ''+79'' @ d \<and> length d = 9 \<and> list_all ascii_digit d) phones \<and>
    length phones + n = length inputs \<and>
    (0 < maxPhones \<longrightarrow> int (length phones) \<le> maxPhones) \<and> (source = ''single'' \<longrightarrow> length phones = 1)"
  using PreparePhones_OK [OF assms] unfolding list_all_iff by blast

theorem PreparePhones_spec_witness:
  "PreparePhones [] [''8 900 000-00-02'', ''+79000000002''] ''api'' 10 [] = Inr ([''+79000000002''], 1)
   \<and> distinct [''+79000000002'']"
  using PreparePhones_spec PreparePhones_demo by blast

text \<open>
  \<open>Chunk\<close> cuts a list into pieces of at most the given size, none of them empty, that give the
  list back when put together again.
\<close>

theorem Chunk_roundtrip:
  assumes "0 < n"
  shows "concat (Chunk n xs) = xs \<and> list_all (\<lambda>c. 0 < length c \<and> length c \<le> n) (Chunk n xs)"
  using Chunk_concat [OF assms] Chunk_sizes by (auto simp: list_all_iff)

theorem Chunk_roundtrip_witness: "concat (Chunk 2 [1, 2, 3 :: nat]) = [1, 2, 3]"
  using Chunk_roundtrip [of 2 "[1, 2, 3 :: nat]"] by simp

end
