(* ===== verification/LookupState.thy ===== *)
theory LookupState
  imports Outbox LookupPhones
begin

text \<open>
  The life of a lookup item and of its job: \<open>internal/lookup/state.go\<close> and the statements of
  \<open>internal/db/queries/lookup.sql\<close> that read and write jobs, items and stored callbacks. An
  \<open>int4\<close> column holds an \<open>int\<close>; the arithmetic the code does in \<open>int32\<close> wraps.
\<close>

section \<open>The state machine\<close>

definition itemTransitions :: "lookup_item_status \<Rightarrow> lookup_item_status list" where
  "itemTransitions st =
     (case st of
        ItemQueued \<Rightarrow> [ItemReserved, ItemFailed]
      | ItemReserved \<Rightarrow> [ItemPending, ItemCompleted, ItemFailed]
      | ItemPending \<Rightarrow> [ItemCompleted, ItemFailed]
      | ItemCompleted \<Rightarrow> []
      | ItemFailed \<Rightarrow> [])"

definition IsTerminalItem :: "lookup_item_status \<Rightarrow> bool" where
  "IsTerminalItem st = (st = ItemCompleted \<or> st = ItemFailed)"

definition IsTerminalJob :: "lookup_job_status \<Rightarrow> bool" where
  "IsTerminalJob st = (st = LJobCompleted \<or> st = LJobCompletedWithErrors \<or> st = LJobFailed)"

definition CanTransitionItem :: "lookup_item_status \<Rightarrow> lookup_item_status \<Rightarrow> bool" where
  "CanTransitionItem a b = (a = b \<or> list_ex (\<lambda>next. next = b) (itemTransitions a))"

definition LifecycleAccepted :: string where "LifecycleAccepted = ''accepted''"
definition LifecyclePending :: string where "LifecyclePending = ''pending''"
definition LifecycleCompleted :: string where "LifecycleCompleted = ''completed''"
definition LifecycleFailed :: string where "LifecycleFailed = ''failed''"

definition MapLifecycleToItemStatus ::
    "string \<Rightarrow> lookup_item_status \<Rightarrow> lookup_item_status option" where
  "MapLifecycleToItemStatus lifecycle current =
     (if lifecycle = LifecycleAccepted \<or> lifecycle = LifecyclePending
      then if current \<in> {ItemReserved, ItemQueued, ItemPending} then Some ItemPending else None
      else if lifecycle = LifecycleCompleted then Some ItemCompleted
      else if lifecycle = LifecycleFailed then Some ItemFailed
      else None)"

definition DeriveJobTerminalStatus :: "int \<Rightarrow> int \<Rightarrow> int \<Rightarrow> lookup_job_status" where
  "DeriveJobTerminalStatus n success failed =
     (if n = 0 then LJobFailed
      else if failed = 0 \<and> success = n then LJobCompleted
      else if success = 0 \<and> failed = n then LJobFailed
      else LJobCompletedWithErrors)"

record progress =
  pg_total :: int
  pg_processed :: int
  pg_success :: int
  pg_failed :: int
  pg_pending :: int

definition ComputeProgress :: "int \<Rightarrow> int \<Rightarrow> int \<Rightarrow> progress" where
  "ComputeProgress itemCount successCount failureCount =
     (let processed = int32_of (successCount + failureCount);
          pending = int32_of (itemCount - processed);
          pending = (if pending < 0 then 0 else pending)
      in \<lparr>pg_total = itemCount, pg_processed = processed, pg_success = successCount,
          pg_failed = failureCount, pg_pending = pending\<rparr>)"

definition PollMaxAttempts :: int where "PollMaxAttempts = 120"

section \<open>Queries on jobs\<close>

definition GetLookupJob :: "uuid \<Rightarrow> db \<Rightarrow> lookup_job result" where
  "GetLookupJob jid d =
     (case find (\<lambda>j. lj_id j = jid) (lookup_jobs d) of None \<Rightarrow> Inl NoRows | Some j \<Rightarrow> Inr j)"

definition GetLookupJobByIdempotency :: "uuid \<Rightarrow> string option \<Rightarrow> db \<Rightarrow> lookup_job result" where
  "GetLookupJobByIdempotency cid key d =
     first_row (filter (\<lambda>j. lj_client j = cid \<and> key \<noteq> None \<and> lj_idempotency_key j = key) (lookup_jobs d))"

text \<open>
  The columns of \<open>p\<close> that the statement names; the id and the times are the table's, the
  other columns have their defaults.
\<close>

definition InsertLookupJob :: "uuid \<Rightarrow> time \<Rightarrow> lookup_job \<Rightarrow> db \<Rightarrow> (lookup_job \<times> db) result" where
  "InsertLookupJob new_id now p d =
     (case billing_money_opt (lj_unit_sell_price p) of Inl e \<Rightarrow> Inl e | Inr price \<Rightarrow>
     (case billing_money_opt (lj_estimated_cost p) of Inl e \<Rightarrow> Inl e | Inr cost \<Rightarrow>
     (case char3 (lj_currency p) of Inl e \<Rightarrow> Inl e | Inr cur \<Rightarrow>
      if lj_item_count p < 0 then Inl (PgError CheckViolation)
      else if new_id \<in> set (map lj_id (lookup_jobs d)) then Inl (PgError UniqueViolation)
      else if lj_idempotency_key p \<noteq> None \<and>
        list_ex (\<lambda>j. lj_client j = lj_client p \<and> lj_idempotency_key j = lj_idempotency_key p) (lookup_jobs d)
      then Inl (PgError UniqueViolation)
      else
        let j = p\<lparr>lj_id := new_id, lj_success_count := 0, lj_failure_count := 0,
            lj_unit_sell_price := price, lj_currency := cur, lj_estimated_cost := cost,
            lj_actual_cost := None, lj_error_code := None, lj_error_message := None,
            lj_started_at := None, lj_completed_at := None, lj_created_at := now,
            lj_updated_at := now, lj_reachable_count := 0, lj_unreachable_count := 0\<rparr>
        in Inr (j, d\<lparr>lookup_jobs := lookup_jobs d @ [j]\<rparr>))))"

definition open_job :: "uuid \<Rightarrow> lookup_job \<Rightarrow> bool" where
  "open_job jid j = (lj_id j = jid \<and> lj_status j \<in> {LJobQueued, LJobProcessing})"

definition update_job ::
    "(lookup_job \<Rightarrow> bool) \<Rightarrow> (lookup_job \<Rightarrow> lookup_job) \<Rightarrow> db \<Rightarrow> (lookup_job \<times> db) result" where
  "update_job p f d =
     (case find p (lookup_jobs d) of
        None \<Rightarrow> Inl NoRows
      | Some j \<Rightarrow> Inr (f j, d\<lparr>lookup_jobs := update_where p f (lookup_jobs d)\<rparr>))"

definition MarkLookupJobProcessing :: "time \<Rightarrow> uuid \<Rightarrow> db \<Rightarrow> (lookup_job \<times> db) result" where
  "MarkLookupJobProcessing now jid d =
     update_job (open_job jid)
       (\<lambda>j. j\<lparr>lj_status := LJobProcessing, lj_started_at := coalesce (lj_started_at j) (Some now),
            lj_updated_at := now\<rparr>) d"

definition FinalizeLookupJob ::
    "time \<Rightarrow> lookup_job_status \<Rightarrow> string option \<Rightarrow> string option \<Rightarrow> uuid \<Rightarrow> db \<Rightarrow> (lookup_job \<times> db) result" where
  "FinalizeLookupJob now st code msg jid d =
     update_job (open_job jid)
       (\<lambda>j. j\<lparr>lj_status := st, lj_error_code := code, lj_error_message := msg,
            lj_completed_at := Some now, lj_updated_at := now\<rparr>) d"

definition job_items :: "uuid \<Rightarrow> db \<Rightarrow> lookup_item list" where
  "job_items jid d = filter (\<lambda>i. li_job i = jid) (lookup_items d)"

definition count_items :: "(lookup_item \<Rightarrow> bool) \<Rightarrow> uuid \<Rightarrow> db \<Rightarrow> int" where
  "count_items p jid d = int (length (filter p (job_items jid d)))"

definition captured_cost :: "uuid \<Rightarrow> db \<Rightarrow> decimal" where
  "captured_cost jid d =
     sum_list (map (\<lambda>i. case li_actual_cost i of None \<Rightarrow> 0 | Some c \<Rightarrow> c)
       (filter (\<lambda>i. li_billing_action i = Some ActionCapture) (job_items jid d)))"

definition RefreshLookupJobCounters :: "time \<Rightarrow> uuid \<Rightarrow> db \<Rightarrow> (lookup_job \<times> db) result" where
  "RefreshLookupJobCounters now jid d =
     (case find (\<lambda>j. lj_id j = jid) (lookup_jobs d) of None \<Rightarrow> Inl NoRows | Some _ \<Rightarrow>
     (case billing_money (captured_cost jid d) of Inl e \<Rightarrow> Inl e | Inr cost \<Rightarrow>
      update_job (\<lambda>j. lj_id j = jid)
        (\<lambda>j. j\<lparr>lj_success_count := count_items (\<lambda>i. li_status i = ItemCompleted) jid d,
             lj_failure_count := count_items (\<lambda>i. li_status i = ItemFailed) jid d,
             lj_reachable_count := count_items (\<lambda>i. li_result_status i = Some ''reachable'') jid d,
             lj_unreachable_count := count_items (\<lambda>i. li_result_status i = Some ''unreachable'') jid d,
             lj_actual_cost := Some cost, lj_updated_at := now\<rparr>) d))"

definition ListJobsNeedingFinalize :: "nat \<Rightarrow> db \<Rightarrow> lookup_job list" where
  "ListJobsNeedingFinalize limit d =
     take limit (sort_key lj_updated_at
       (filter (\<lambda>j. lj_status j \<in> {LJobQueued, LJobProcessing} \<and> lj_item_count j > 0 \<and>
          lj_item_count j = lj_success_count j + lj_failure_count j) (lookup_jobs d)))"

text \<open>\<open>metadata ? 'csv_file_path'\<close> is a parameter.\<close>

definition ListEmptyCsvLookupShells :: "(string \<Rightarrow> bool) \<Rightarrow> time \<Rightarrow> nat \<Rightarrow> db \<Rightarrow> lookup_job list" where
  "ListEmptyCsvLookupShells has_csv_path older limit d =
     take limit (sort_key lj_created_at
       (filter (\<lambda>j. lj_item_count j = 0 \<and> lj_status j = LJobQueued \<and> lj_created_at j \<le> older \<and>
          has_csv_path (lj_metadata j)) (lookup_jobs d)))"

section \<open>Queries on items\<close>

text \<open>The unique index on \<open>(provider_code, provider_message_id)\<close>, for a row other than \<open>iid\<close>.\<close>

definition provider_key_taken :: "uuid \<Rightarrow> string \<Rightarrow> string option \<Rightarrow> db \<Rightarrow> bool" where
  "provider_key_taken iid code pid d =
     (pid \<noteq> None \<and>
      list_ex (\<lambda>i. li_id i \<noteq> iid \<and> li_provider_code i = code \<and> li_provider_message_id i = pid)
        (lookup_items d))"

text \<open>One row of \<open>InsertLookupItems\<close> (a \<open>COPY\<close>): the named columns of \<open>p\<close>, defaults for the others.\<close>

definition new_item :: "uuid \<Rightarrow> time \<Rightarrow> lookup_item \<Rightarrow> lookup_item result" where
  "new_item new_id now p =
     (case billing_money_opt (li_unit_sell_price p) of Inl e \<Rightarrow> Inl e | Inr price \<Rightarrow>
     (case billing_money_opt (li_estimated_cost p) of Inl e \<Rightarrow> Inl e | Inr cost \<Rightarrow>
     (case (case li_currency p of None \<Rightarrow> Inr None
            | Some c \<Rightarrow> (case char3 c of Inl e \<Rightarrow> Inl e | Inr c' \<Rightarrow> Inr (Some c'))) of
        Inl e \<Rightarrow> Inl e
      | Inr cur \<Rightarrow>
      Inr \<lparr>li_id = new_id, li_job = li_job p, li_client = li_client p,
           li_check_type = li_check_type p, li_status = ItemQueued, li_phone = li_phone p,
           li_phone_digits = li_phone_digits p, li_provider_code = ''smsc'',
           li_provider_message_id = None, li_unit_sell_price = price,
           li_tariff_plan_id = li_tariff_plan_id p, li_tariff_plan_code = li_tariff_plan_code p,
           li_currency = cur, li_estimated_cost = cost, li_actual_cost = None,
           li_result_status = None, li_is_reachable = None, li_imsi = None, li_mcc = None,
           li_mnc = None, li_operator_name = None, li_country_code = None, li_ported = None,
           li_roaming = None, li_normalized_result = ''{}'', li_error_code = None,
           li_error_message = None, li_billing_action = None, li_next_poll_at = None,
           li_poll_attempts = 0, li_sent_at = None, li_completed_at = None,
           li_created_at = now, li_updated_at = now, li_enrich_attempts = 0\<rparr>)))"

fun InsertLookupItems :: "(nat \<Rightarrow> uuid) \<Rightarrow> time \<Rightarrow> nat \<Rightarrow> lookup_item list \<Rightarrow> db \<Rightarrow> db result" where
  "InsertLookupItems ids now k [] d = Inr d"
| "InsertLookupItems ids now k (p # ps) d =
     (case new_item (ids k) now p of Inl e \<Rightarrow> Inl e | Inr i \<Rightarrow>
      if ids k \<in> set (map li_id (lookup_items d)) then Inl (PgError UniqueViolation)
      else InsertLookupItems ids now (Suc k) ps (d\<lparr>lookup_items := lookup_items d @ [i]\<rparr>))"

definition ListLookupItemsByJob :: "uuid \<Rightarrow> db \<Rightarrow> lookup_item list" where
  "ListLookupItemsByJob jid d = sort_key li_created_at (sort_key li_id (job_items jid d))"

definition no_provider_id :: "lookup_item \<Rightarrow> bool" where
  "no_provider_id i = (li_provider_message_id i = None \<or> li_provider_message_id i = Some [])"

definition StampLookupItemClientSendID ::
    "time \<Rightarrow> string \<Rightarrow> string option \<Rightarrow> uuid \<Rightarrow> db \<Rightarrow> db result" where
  "StampLookupItemClientSendID now code pid iid d =
     (let hit = (\<lambda>i. li_id i = iid \<and> no_provider_id i) in
      if list_ex hit (lookup_items d) \<and> provider_key_taken iid code pid d
      then Inl (PgError UniqueViolation)
      else Inr (d\<lparr>lookup_items := update_where hit
             (\<lambda>i. i\<lparr>li_provider_code := code, li_provider_message_id := pid, li_updated_at := now\<rparr>)
             (lookup_items d)\<rparr>))"

text \<open>The parameters of \<open>TransitionLookupItem\<close>; \<open>None\<close> keeps the column.\<close>

record transition =
  tr_to_status :: lookup_item_status
  tr_provider_code :: "string option"
  tr_provider_message_id :: "string option"
  tr_result_status :: "string option"
  tr_is_reachable :: "bool option"
  tr_imsi :: "string option"
  tr_mcc :: "string option"
  tr_mnc :: "string option"
  tr_operator_name :: "string option"
  tr_country_code :: "string option"
  tr_ported :: "bool option"
  tr_roaming :: "bool option"
  tr_normalized_result :: "string option"
  tr_error_code :: "string option"
  tr_error_message :: "string option"
  tr_next_poll_at :: "time option"
  tr_poll_attempts :: "int option"
  tr_sent_at :: "time option"
  tr_completed_at :: "time option"
  tr_id :: uuid
  tr_from_statuses :: "lookup_item_status list"

definition transition_row :: "time \<Rightarrow> transition \<Rightarrow> lookup_item \<Rightarrow> lookup_item" where
  "transition_row now p i =
     i\<lparr>li_status := tr_to_status p,
       li_provider_code := (case tr_provider_code p of None \<Rightarrow> li_provider_code i | Some c \<Rightarrow> c),
       li_provider_message_id := coalesce (tr_provider_message_id p) (li_provider_message_id i),
       li_result_status := coalesce (tr_result_status p) (li_result_status i),
       li_is_reachable := coalesce (tr_is_reachable p) (li_is_reachable i),
       li_imsi := coalesce (tr_imsi p) (li_imsi i),
       li_mcc := coalesce (tr_mcc p) (li_mcc i),
       li_mnc := coalesce (tr_mnc p) (li_mnc i),
       li_operator_name := coalesce (tr_operator_name p) (li_operator_name i),
       li_country_code := coalesce (tr_country_code p) (li_country_code i),
       li_ported := coalesce (tr_ported p) (li_ported i),
       li_roaming := coalesce (tr_roaming p) (li_roaming i),
       li_normalized_result :=
         (case tr_normalized_result p of None \<Rightarrow> li_normalized_result i | Some r \<Rightarrow> r),
       li_error_code := coalesce (tr_error_code p) (li_error_code i),
       li_error_message := coalesce (tr_error_message p) (li_error_message i),
       li_next_poll_at := coalesce (tr_next_poll_at p) (li_next_poll_at i),
       li_poll_attempts := (case tr_poll_attempts p of None \<Rightarrow> li_poll_attempts i | Some n \<Rightarrow> n),
       li_sent_at := coalesce (tr_sent_at p) (li_sent_at i),
       li_completed_at := coalesce (tr_completed_at p) (li_completed_at i),
       li_updated_at := now\<rparr>"

definition transition_hit :: "transition \<Rightarrow> lookup_item \<Rightarrow> bool" where
  "transition_hit p i = (li_id i = tr_id p \<and> li_status i \<in> set (tr_from_statuses p))"

definition TransitionLookupItem :: "time \<Rightarrow> transition \<Rightarrow> db \<Rightarrow> (lookup_item \<times> db) result" where
  "TransitionLookupItem now p d =
     (case find (transition_hit p) (lookup_items d) of
        None \<Rightarrow> Inl NoRows
      | Some i \<Rightarrow>
          let i' = transition_row now p i in
          if provider_key_taken (li_id i) (li_provider_code i') (li_provider_message_id i') d
          then Inl (PgError UniqueViolation)
          else Inr (i', d\<lparr>lookup_items :=
             update_where (transition_hit p) (transition_row now p) (lookup_items d)\<rparr>))"

definition GetLookupItemByProviderMessage :: "string \<Rightarrow> string option \<Rightarrow> db \<Rightarrow> lookup_item result" where
  "GetLookupItemByProviderMessage code pid d =
     first_row (filter (\<lambda>i. li_provider_code i = code \<and> pid \<noteq> None \<and> li_provider_message_id i = pid)
       (lookup_items d))"

definition ListLookupItemsByProviderMessage :: "string \<Rightarrow> string option \<Rightarrow> db \<Rightarrow> lookup_item list" where
  "ListLookupItemsByProviderMessage code pid d =
     sort_key li_created_at (sort_key li_id
       (filter (\<lambda>i. li_provider_code i = code \<and> pid \<noteq> None \<and> li_provider_message_id i = pid)
         (lookup_items d)))"

definition open_item :: "lookup_item \<Rightarrow> bool" where
  "open_item i = (li_status i \<in> {ItemQueued, ItemReserved, ItemPending})"

definition callback_candidate :: "time \<Rightarrow> string option \<Rightarrow> lookup_item \<Rightarrow> bool" where
  "callback_candidate after pid i =
     (open_item i \<and> li_created_at i \<ge> after \<and>
      (no_provider_id i \<or> pid \<noteq> None \<and> li_provider_message_id i = pid))"

definition ListOpenLookupItemsForCallbackPhone ::
    "string \<Rightarrow> time \<Rightarrow> string option \<Rightarrow> db \<Rightarrow> lookup_item list" where
  "ListOpenLookupItemsForCallbackPhone digits after pid d =
     sort_key li_created_at (sort_key li_id
       (filter (\<lambda>i. li_phone_digits i = digits \<and> callback_candidate after pid i) (lookup_items d)))"

definition ListOpenLookupItemsForCallbackPhoneTail ::
    "string \<Rightarrow> time \<Rightarrow> string option \<Rightarrow> db \<Rightarrow> lookup_item list" where
  "ListOpenLookupItemsForCallbackPhoneTail tail after pid d =
     sort_key li_created_at (sort_key li_id
       (filter (\<lambda>i. drop (length (li_phone_digits i) - 10) (li_phone_digits i) = tail
            \<and> callback_candidate after pid i) (lookup_items d)))"

text \<open>\<open>request_payload->>'id'\<close> is a parameter: reading a JSON value belongs to the database.\<close>

definition ListOpenLookupItemsForCallbackSendID ::
    "(string \<Rightarrow> string option) \<Rightarrow> time \<Rightarrow> string \<Rightarrow> db \<Rightarrow> lookup_item list" where
  "ListOpenLookupItemsForCallbackSendID payload_id after cbid d =
     sort_key li_created_at (sort_key li_id (concat (map (\<lambda>r.
         filter (\<lambda>i. pr_item r = Some (li_id i) \<and> open_item i) (lookup_items d))
       (filter (\<lambda>r. pr_kind r = LookupSend \<and> pr_created_at r \<ge> after \<and>
          (pr_provider_message_id r = Some cbid \<or> payload_id (pr_request_payload r) = Some cbid))
        (provider_lookup_requests d)))))"

definition ListStalePendingLookupItems :: "time \<Rightarrow> nat \<Rightarrow> db \<Rightarrow> lookup_item list" where
  "ListStalePendingLookupItems older limit d =
     take limit (sort_key li_updated_at (sort_key li_id
       (filter (\<lambda>i. li_status i = ItemPending \<and> li_updated_at i \<le> older) (lookup_items d))))"

definition ListStaleReservedLookupItems :: "time \<Rightarrow> nat \<Rightarrow> db \<Rightarrow> lookup_item list" where
  "ListStaleReservedLookupItems older limit d =
     take limit (sort_key li_created_at (sort_key li_id
       (filter (\<lambda>i. li_status i = ItemReserved \<and> li_created_at i \<le> older) (lookup_items d))))"

definition BumpLookupItemEnrichAttempt :: "time \<Rightarrow> uuid \<Rightarrow> db \<Rightarrow> db result" where
  "BumpLookupItemEnrichAttempt now iid d =
     (if list_ex (\<lambda>i. li_id i = iid \<and> li_enrich_attempts i + 1 > int4_max) (lookup_items d)
      then Inl (PgError NumericValueOutOfRange)
      else Inr (d\<lparr>lookup_items := update_where (\<lambda>i. li_id i = iid)
        (\<lambda>i. i\<lparr>li_enrich_attempts := li_enrich_attempts i + 1, li_updated_at := now\<rparr>) (lookup_items d)\<rparr>))"

section \<open>Fair claims\<close>

definition client_active :: "uuid \<Rightarrow> db \<Rightarrow> bool" where
  "client_active cid d = list_ex (\<lambda>c. cl_id c = cid \<and> cl_status c = ClientActive) (clients d)"

text \<open>
  The ids a fair claim takes among the items that satisfy \<open>p\<close>: at most \<open>per\<close> of each of at
  most \<open>n\<close> active clients, both in the order of \<open>key\<close>.
\<close>

definition fair_ids ::
    "(lookup_item \<Rightarrow> bool) \<Rightarrow> (lookup_item \<Rightarrow> time) \<Rightarrow> nat \<Rightarrow> nat \<Rightarrow> db \<Rightarrow> uuid list" where
  "fair_ids p key n per d =
     (let es = filter (\<lambda>i. p i \<and> client_active (li_client i) d) (lookup_items d);
          cs = take n (sort_key (\<lambda>c. Min (set (map key (filter (\<lambda>i. li_client i = c) es))))
                 (remdups (map li_client es)))
      in map li_id (concat (map (\<lambda>c. take per (sort_key key (sort_key li_id
           (filter (\<lambda>i. li_client i = c) es)))) cs)))"

text \<open>\<open>UPDATE lookup_items SET f WHERE id IN ids RETURNING *\<close>.\<close>

definition claim_items ::
    "uuid list \<Rightarrow> (lookup_item \<Rightarrow> lookup_item) \<Rightarrow> db \<Rightarrow> lookup_item list \<times> db" where
  "claim_items ids f d =
     (map f (filter (\<lambda>i. li_id i \<in> set ids) (lookup_items d)),
      d\<lparr>lookup_items := update_where (\<lambda>i. li_id i \<in> set ids) f (lookup_items d)\<rparr>)"

definition ClaimQueuedLookupItemsFair :: "time \<Rightarrow> nat \<Rightarrow> nat \<Rightarrow> db \<Rightarrow> lookup_item list \<times> db" where
  "ClaimQueuedLookupItemsFair now n per d =
     claim_items (fair_ids (\<lambda>i. li_status i = ItemQueued) li_created_at n per d)
       (\<lambda>i. i\<lparr>li_status := ItemReserved, li_updated_at := now\<rparr>) d"

definition ClaimReservedLookupItemsFair :: "time \<Rightarrow> nat \<Rightarrow> nat \<Rightarrow> db \<Rightarrow> lookup_item list \<times> db" where
  "ClaimReservedLookupItemsFair now n per d =
     claim_items (fair_ids (\<lambda>i. li_status i = ItemReserved \<and> li_updated_at i \<le> now - 20 * second)
         li_updated_at n per d)
       (\<lambda>i. i\<lparr>li_updated_at := now\<rparr>) d"

definition ClaimPendingLookupItemsFair :: "time \<Rightarrow> nat \<Rightarrow> nat \<Rightarrow> db \<Rightarrow> lookup_item list \<times> db" where
  "ClaimPendingLookupItemsFair now n per d =
     claim_items (fair_ids (\<lambda>i. li_status i = ItemPending \<and>
           (case li_next_poll_at i of None \<Rightarrow> False | Some t \<Rightarrow> t \<le> now))
         (\<lambda>i. case li_next_poll_at i of None \<Rightarrow> 0 | Some t \<Rightarrow> t) n per d)
       (\<lambda>i. i\<lparr>li_next_poll_at := Some (now + 120 * second), li_updated_at := now\<rparr>) d"

text \<open>
  \<open>normalized_result#>>'{extras,msc}'\<close> is a parameter; \<open>btrim\<close> removes blanks.
\<close>

definition needs_enrich :: "(string \<Rightarrow> string option) \<Rightarrow> time \<Rightarrow> int \<Rightarrow> db \<Rightarrow> lookup_item \<Rightarrow> bool" where
  "needs_enrich json_msc now maxAttempts d i =
     (client_active (li_client i) d \<and> li_check_type i = CheckHlr \<and>
      li_status i \<in> {ItemCompleted, ItemFailed} \<and> \<not> no_provider_id i \<and>
      li_enrich_attempts i < maxAttempts \<and>
      ((case li_imsi i of None \<Rightarrow> True | Some s \<Rightarrow> list_all (\<lambda>c. c = CHR '' '') s) \<or>
       (case json_msc (li_normalized_result i) of None \<Rightarrow> True | Some s \<Rightarrow> s = [])) \<and>
      li_updated_at i \<le> now - 15 * second)"

definition ClaimLookupItemsNeedingHLREnrich ::
    "(string \<Rightarrow> string option) \<Rightarrow> time \<Rightarrow> int \<Rightarrow> nat \<Rightarrow> db \<Rightarrow> lookup_item list \<times> db" where
  "ClaimLookupItemsNeedingHLREnrich json_msc now maxAttempts limit d =
     claim_items (map li_id (take limit (sort_key li_updated_at (sort_key li_id
         (filter (needs_enrich json_msc now maxAttempts d) (lookup_items d))))))
       (\<lambda>i. i\<lparr>li_updated_at := now\<rparr>) d"

section \<open>Queries on callbacks\<close>

definition ListUnprocessedProviderLookupCallbacks :: "nat \<Rightarrow> db \<Rightarrow> provider_lookup_callback list" where
  "ListUnprocessedProviderLookupCallbacks limit d =
     take limit (sort_key cb_created_at (sort_key cb_id
       (filter (\<lambda>c. cb_processed_at c = None) (provider_lookup_callbacks d))))"

definition MarkProviderLookupCallbackProcessed ::
    "time \<Rightarrow> string option \<Rightarrow> uuid option \<Rightarrow> uuid option \<Rightarrow> uuid \<Rightarrow> db \<Rightarrow> db" where
  "MarkProviderLookupCallbackProcessed now err iid cid cbid d =
     d\<lparr>provider_lookup_callbacks := update_where (\<lambda>c. cb_id c = cbid)
         (\<lambda>c. c\<lparr>cb_processed_at := Some now, cb_process_error := err,
              cb_item := coalesce iid (cb_item c), cb_client := coalesce cid (cb_client c)\<rparr>)
         (provider_lookup_callbacks d)\<rparr>"

definition ReopenUnappliedLookupCallbacks :: "time \<Rightarrow> db \<Rightarrow> db" where
  "ReopenUnappliedLookupCallbacks after d =
     d\<lparr>provider_lookup_callbacks := update_where
         (\<lambda>c. cb_processed_at c \<noteq> None \<and> cb_created_at c \<ge> after \<and>
            (case cb_process_error c of None \<Rightarrow> True
             | Some e \<Rightarrow> e \<in> {[], ''not_found'', ''item_not_found'', ''ambiguous'', ''phone_mismatch''}))
         (\<lambda>c. c\<lparr>cb_processed_at := None, cb_process_error := None\<rparr>)
         (provider_lookup_callbacks d)\<rparr>"

end
