(* ===== verification/Webhooks.thy ===== *)
theory Webhooks
  imports WalletQueries GoStrings "HOL-Library.List_Lexorder" "HOL-Library.Char_ord"
begin

text \<open>
  \<open>internal/webhooks\<close>: the endpoints of a client (\<open>service.go\<close>), the deliveries queued for the
  events of its lookup jobs and the worker that posts them (\<open>deliver.go\<close>, \<open>backoff.go\<close>,
  \<open>events.go\<close>, \<open>payload.go\<close>), with the SQL of \<open>internal/db/queries/webhooks.sql\<close>. Rendering JSON,
  HMAC-SHA256, the keyring, \<open>url.Parse\<close> and the answer of the client's server are arguments.
\<close>

section \<open>Settings\<close>

text \<open>The settings the lookup and webhook packages read (\<open>settings.Public\<close>).\<close>

record settings_public =
  sp_int_out :: bool
  sp_provider_rps :: decimal
  sp_lookup_enabled :: bool
  sp_check_timeout_sec :: int
  sp_poll_interval_sec :: int
  sp_max_batch_phones :: int
  sp_webhook_max_attempts :: int
  sp_webhook_timeout_ms :: int

section \<open>Events and payloads\<close>

definition EventCheckCompleted :: string where "EventCheckCompleted = ''check.completed''"
definition EventCheckFailed :: string where "EventCheckFailed = ''check.failed''"
definition EventJobCompleted :: string where "EventJobCompleted = ''job.completed''"
definition AutoDisableAfter :: int where "AutoDisableAfter = 20"

definition KnownEvent :: "string \<Rightarrow> bool" where
  "KnownEvent v = (v = EventCheckCompleted \<or> v = EventCheckFailed \<or> v = EventJobCompleted)"

definition EventForItemStatus :: "string \<Rightarrow> string" where
  "EventForItemStatus status = (if status = ''completed'' then EventCheckCompleted else EventCheckFailed)"

definition Subscribes :: "string list \<Rightarrow> string \<Rightarrow> bool" where
  "Subscribes events eventType =
     (if length events = 0 then KnownEvent eventType else list_ex (\<lambda>e. e = eventType) events)"

definition item_status_string :: "lookup_item_status \<Rightarrow> string" where
  "item_status_string st =
     (case st of ItemQueued \<Rightarrow> ''queued'' | ItemReserved \<Rightarrow> ''reserved'' | ItemPending \<Rightarrow> ''pending''
      | ItemCompleted \<Rightarrow> ''completed'' | ItemFailed \<Rightarrow> ''failed'')"

definition job_status_string :: "lookup_job_status \<Rightarrow> string" where
  "job_status_string st =
     (case st of LJobQueued \<Rightarrow> ''queued'' | LJobProcessing \<Rightarrow> ''processing''
      | LJobCompleted \<Rightarrow> ''completed'' | LJobCompletedWithErrors \<Rightarrow> ''completed_with_errors''
      | LJobFailed \<Rightarrow> ''failed'')"

definition type_string :: "lookup_check_type \<Rightarrow> string" where
  "type_string t = (case t of CheckHlr \<Rightarrow> ''hlr'' | CheckPing \<Rightarrow> ''ping'')"

text \<open>\<open>strings.NewReplacer(...).Replace\<close>: at each position the first pair that matches.\<close>

fun replace_first :: "(string \<times> string) list \<Rightarrow> string \<Rightarrow> (string \<times> nat) option" where
  "replace_first [] s = None"
| "replace_first ((old, new) # ps) s =
     (if HasPrefix s old then Some (new, length old) else replace_first ps s)"

function replace_all :: "(string \<times> string) list \<Rightarrow> string \<Rightarrow> string" where
  "replace_all ps [] = []"
| "replace_all ps (c # cs) =
     (case replace_first ps (c # cs) of
        Some (new, Suc n) \<Rightarrow> new @ replace_all ps (drop n cs)
      | _ \<Rightarrow> c # replace_all ps cs)"
  by pat_completeness auto
termination
  by (relation "measure (length \<circ> snd)") auto

text \<open>The UTF-8 bytes of the word that stands for the brand.\<close>

definition brand_word :: string where
  "brand_word = map char_of [0xD0, 0xBF, 0xD1, 0x80, 0xD0, 0xBE, 0xD0, 0xB2, 0xD0, 0xB0, 0xD0, 0xB9,
     0xD0, 0xB4, 0xD0, 0xB5, 0xD1, 0x80 :: nat]"

definition brand_pairs :: "(string \<times> string) list" where
  "brand_pairs = [(''SMSC.ru'', brand_word), (''smsc.ru'', brand_word), (''SMSC'', brand_word),
     (''smsc'', brand_word)]"

definition scrubBrand :: "string \<Rightarrow> string option" where
  "scrubBrand s = (if s = [] then None else Some (replace_all brand_pairs s))"

definition scrubBrandString :: "string \<Rightarrow> string" where
  "scrubBrandString s = (case scrubBrand s of Some v \<Rightarrow> v | None \<Rightarrow> s)"

text \<open>Values of the JSON objects; a time is rendered as RFC 3339 by the renderer.\<close>

datatype wh_value =
    VNull
  | VString string
  | VBool bool
  | VInt int
  | VTime time
  | VObject "(string \<times> wh_value) list"

definition opt_value :: "('a \<Rightarrow> wh_value) \<Rightarrow> 'a option \<Rightarrow> wh_value" where
  "opt_value f x = (case x of None \<Rightarrow> VNull | Some v \<Rightarrow> f v)"

definition wh_deref :: "string option \<Rightarrow> string" where
  "wh_deref s = (case s of None \<Rightarrow> [] | Some v \<Rightarrow> v)"

definition CheckData :: "lookup_item \<Rightarrow> (string \<times> wh_value) list" where
  "CheckData item =
     [(''job_id'', VString (li_job item)),
      (''job_item_id'', VString (li_id item)),
      (''type'', VString (type_string (li_check_type item))),
      (''status'', VString (item_status_string (li_status item))),
      (''phone'', VString (li_phone item)),
      (''result_status'', opt_value VString (li_result_status item)),
      (''is_reachable'', opt_value VBool (li_is_reachable item)),
      (''imsi'', opt_value VString (li_imsi item)),
      (''mcc'', opt_value VString (li_mcc item)),
      (''mnc'', opt_value VString (li_mnc item)),
      (''operator_name'', opt_value VString (li_operator_name item)),
      (''country_code'', opt_value VString (li_country_code item)),
      (''ported'', opt_value VBool (li_ported item)),
      (''roaming'', opt_value VBool (li_roaming item)),
      (''error_code'', opt_value VString (li_error_code item)),
      (''error_message'', opt_value VString (scrubBrand (wh_deref (li_error_message item)))),
      (''completed_at'', opt_value VTime (li_completed_at item))]"

definition JobData :: "lookup_job \<Rightarrow> (string \<times> wh_value) list" where
  "JobData job =
     [(''job_id'', VString (lj_id job)),
      (''type'', VString (type_string (lj_check_type job))),
      (''status'', VString (job_status_string (lj_status job))),
      (''item_count'', VInt (lj_item_count job)),
      (''success_count'', VInt (lj_success_count job)),
      (''failure_count'', VInt (lj_failure_count job)),
      (''completed_at'', opt_value VTime (lj_completed_at job))]"

definition Envelope ::
    "string \<Rightarrow> string \<Rightarrow> time \<Rightarrow> (string \<times> wh_value) list \<Rightarrow> (string \<times> wh_value) list" where
  "Envelope did eventType createdAt data =
     [(''api_version'', VString ''v1''), (''id'', VString did), (''type'', VString eventType),
      (''created_at'', VTime createdAt), (''data'', VObject data)]"

section \<open>Backoff\<close>

definition RetryDelay :: "int \<Rightarrow> time" where
  "RetryDelay attemptCount =
     (let attemptCount = (if attemptCount < 1 then 1 else attemptCount);
          e = attemptCount - 1;
          e = (if e > 8 then 8 else e)
      in 30 * 2 ^ nat e * second)"

definition NextAttemptAt :: "int \<Rightarrow> int \<Rightarrow> time \<Rightarrow> time option" where
  "NextAttemptAt attemptCount maxAttempts now =
     (if attemptCount \<ge> maxAttempts then None else Some (now + RetryDelay attemptCount))"

section \<open>Queries\<close>

text \<open>
  A \<open>text\<close> column of a UTF-8 database takes valid UTF-8 without zero bytes. Here that
  matters for \<open>last_error\<close>, which holds bytes of a foreign answer.
\<close>

definition pg_text :: "string \<Rightarrow> bool" where
  "pg_text s =
     (list_all (\<lambda>(r, w). \<not> (r = rune_error \<and> length w = 1)) (runes s) \<and>
      list_all (\<lambda>c. of_char c \<noteq> (0::nat)) s)"

definition ListEnabledWebhookEndpoints :: "uuid \<Rightarrow> db \<Rightarrow> webhook_endpoint list" where
  "ListEnabledWebhookEndpoints cid d =
     filter (\<lambda>e. we_client e = cid \<and> we_enabled e) (webhook_endpoints d)"

definition GetWebhookEndpoint :: "uuid \<Rightarrow> db \<Rightarrow> webhook_endpoint result" where
  "GetWebhookEndpoint eid d =
     (case find (\<lambda>e. we_id e = eid) (webhook_endpoints d) of None \<Rightarrow> Inl NoRows | Some e \<Rightarrow> Inr e)"

definition GetWebhookEndpointForClient :: "uuid \<Rightarrow> uuid \<Rightarrow> db \<Rightarrow> webhook_endpoint result" where
  "GetWebhookEndpointForClient eid cid d =
     (case find (\<lambda>e. we_id e = eid \<and> we_client e = cid) (webhook_endpoints d) of
        None \<Rightarrow> Inl NoRows | Some e \<Rightarrow> Inr e)"

definition CountWebhookEndpointsForClient :: "uuid \<Rightarrow> db \<Rightarrow> nat" where
  "CountWebhookEndpointsForClient cid d =
     length (filter (\<lambda>e. we_client e = cid) (webhook_endpoints d))"

definition InsertWebhookEndpoint ::
    "uuid \<Rightarrow> time \<Rightarrow> webhook_endpoint \<Rightarrow> db \<Rightarrow> (webhook_endpoint \<times> db) result" where
  "InsertWebhookEndpoint new_id now p d =
     (if new_id \<in> set (map we_id (webhook_endpoints d)) then Inl (PgError UniqueViolation)
      else
        let e = p\<lparr>we_id := new_id, we_consecutive_failures := 0, we_created_at := now, we_updated_at := now\<rparr>
        in Inr (e, d\<lparr>webhook_endpoints := webhook_endpoints d @ [e]\<rparr>))"

record endpoint_update =
  eu_url :: "string option"
  eu_description :: "string option"
  eu_enabled :: "bool option"
  eu_events :: "string list option"
  eu_consecutive_failures :: "int option"
  eu_secret_ciphertext :: "string option"
  eu_dek_key_id :: "string option"

definition keep_or :: "'a option \<Rightarrow> 'a \<Rightarrow> 'a" where
  "keep_or x old = (case x of None \<Rightarrow> old | Some v \<Rightarrow> v)"

definition UpdateWebhookEndpoint ::
    "time \<Rightarrow> endpoint_update \<Rightarrow> uuid \<Rightarrow> uuid \<Rightarrow> db \<Rightarrow> (webhook_endpoint \<times> db) result" where
  "UpdateWebhookEndpoint now u eid cid d =
     (let hit = (\<lambda>e. we_id e = eid \<and> we_client e = cid);
          f = (\<lambda>e. e\<lparr>we_url := keep_or (eu_url u) (we_url e),
              we_description := coalesce (eu_description u) (we_description e),
              we_enabled := keep_or (eu_enabled u) (we_enabled e),
              we_events := keep_or (eu_events u) (we_events e),
              we_consecutive_failures := keep_or (eu_consecutive_failures u) (we_consecutive_failures e),
              we_secret_ciphertext := keep_or (eu_secret_ciphertext u) (we_secret_ciphertext e),
              we_dek_key_id := keep_or (eu_dek_key_id u) (we_dek_key_id e), we_updated_at := now\<rparr>)
      in case find hit (webhook_endpoints d) of
           None \<Rightarrow> Inl NoRows
         | Some e \<Rightarrow> Inr (f e, d\<lparr>webhook_endpoints := update_where hit f (webhook_endpoints d)\<rparr>))"

text \<open>\<open>webhook_deliveries.endpoint_id\<close> is declared \<open>ON DELETE CASCADE\<close>.\<close>

definition DeleteWebhookEndpoint :: "uuid \<Rightarrow> uuid \<Rightarrow> db \<Rightarrow> nat \<times> db" where
  "DeleteWebhookEndpoint eid cid d =
     (let hit = (\<lambda>e. we_id e = eid \<and> we_client e = cid);
          gone = map we_id (filter hit (webhook_endpoints d))
      in (length gone,
          d\<lparr>webhook_endpoints := filter (\<lambda>e. \<not> hit e) (webhook_endpoints d),
            webhook_deliveries := filter (\<lambda>v. wd_endpoint v \<notin> set gone) (webhook_deliveries d)\<rparr>))"

definition InsertWebhookDelivery :: "time \<Rightarrow> webhook_delivery \<Rightarrow> db \<Rightarrow> db result" where
  "InsertWebhookDelivery now p d =
     (if wd_id p \<in> set (map wd_id (webhook_deliveries d)) then Inl (PgError UniqueViolation)
      else Inr (d\<lparr>webhook_deliveries := webhook_deliveries d @
        [p\<lparr>wd_attempt_count := 0, wd_last_response_code := None, wd_last_error := None,
           wd_delivered_at := None, wd_created_at := now, wd_updated_at := now\<rparr>]\<rparr>))"

definition delivery_due :: "time \<Rightarrow> db \<Rightarrow> webhook_delivery \<Rightarrow> bool" where
  "delivery_due now d v =
     (list_ex (\<lambda>c. cl_id c = wd_client v \<and> cl_status c = ClientActive) (clients d) \<and>
      wd_status v \<in> {DeliveryPending, DeliveryFailed} \<and>
      (case wd_next_attempt_at v of None \<Rightarrow> False | Some t \<Rightarrow> t \<le> now))"

definition ClaimWebhookDeliveries :: "time \<Rightarrow> nat \<Rightarrow> db \<Rightarrow> webhook_delivery list \<times> db" where
  "ClaimWebhookDeliveries now limit d =
     (let ids = map wd_id (take limit (sort_key (\<lambda>v. case wd_next_attempt_at v of None \<Rightarrow> 0 | Some t \<Rightarrow> t)
            (sort_key wd_id (filter (delivery_due now d) (webhook_deliveries d)))));
          f = (\<lambda>v. v\<lparr>wd_next_attempt_at := Some (now + 120 * second), wd_updated_at := now\<rparr>)
      in (map f (filter (\<lambda>v. wd_id v \<in> set ids) (webhook_deliveries d)),
          d\<lparr>webhook_deliveries := update_where (\<lambda>v. wd_id v \<in> set ids) f (webhook_deliveries d)\<rparr>))"

definition MarkWebhookDeliveryAttempt ::
    "time \<Rightarrow> webhook_delivery_status \<Rightarrow> int \<Rightarrow> int option \<Rightarrow> string option \<Rightarrow> time option \<Rightarrow> uuid \<Rightarrow> db \<Rightarrow> db result" where
  "MarkWebhookDeliveryAttempt now st attempts code err next_at did d =
     (if \<not> (case err of None \<Rightarrow> True | Some e \<Rightarrow> pg_text e) then Inl (PgError CharacterNotInRepertoire)
      else if \<not> list_ex (\<lambda>v. wd_id v = did) (webhook_deliveries d) then Inl NoRows
      else Inr (d\<lparr>webhook_deliveries := update_where (\<lambda>v. wd_id v = did)
        (\<lambda>v. v\<lparr>wd_status := st, wd_attempt_count := attempts, wd_last_response_code := code,
             wd_last_error := err, wd_next_attempt_at := next_at, wd_updated_at := now\<rparr>)
        (webhook_deliveries d)\<rparr>))"

definition MarkWebhookDeliveryDelivered ::
    "time \<Rightarrow> int \<Rightarrow> int option \<Rightarrow> uuid \<Rightarrow> db \<Rightarrow> db result" where
  "MarkWebhookDeliveryDelivered now attempts code did d =
     (if \<not> list_ex (\<lambda>v. wd_id v = did) (webhook_deliveries d) then Inl NoRows
      else Inr (d\<lparr>webhook_deliveries := update_where (\<lambda>v. wd_id v = did)
        (\<lambda>v. v\<lparr>wd_status := DeliveryDelivered, wd_attempt_count := attempts,
             wd_last_response_code := code, wd_last_error := None, wd_delivered_at := Some now,
             wd_next_attempt_at := None, wd_updated_at := now\<rparr>) (webhook_deliveries d)\<rparr>))"

definition IncrementWebhookEndpointFailures :: "time \<Rightarrow> int \<Rightarrow> uuid \<Rightarrow> db \<Rightarrow> db result" where
  "IncrementWebhookEndpointFailures now limit eid d =
     (if \<not> list_ex (\<lambda>e. we_id e = eid) (webhook_endpoints d) then Inl NoRows
      else if list_ex (\<lambda>e. we_id e = eid \<and> we_consecutive_failures e + 1 > int4_max) (webhook_endpoints d)
      then Inl (PgError NumericValueOutOfRange)
      else Inr (d\<lparr>webhook_endpoints := update_where (\<lambda>e. we_id e = eid)
        (\<lambda>e. e\<lparr>we_consecutive_failures := we_consecutive_failures e + 1,
             we_enabled := (if we_consecutive_failures e + 1 \<ge> limit then False else we_enabled e),
             we_updated_at := now\<rparr>) (webhook_endpoints d)\<rparr>))"

definition ResetWebhookEndpointFailures :: "time \<Rightarrow> uuid \<Rightarrow> db \<Rightarrow> db" where
  "ResetWebhookEndpointFailures now eid d =
     d\<lparr>webhook_endpoints := update_where (\<lambda>e. we_id e = eid)
         (\<lambda>e. e\<lparr>we_consecutive_failures := 0, we_updated_at := now\<rparr>) (webhook_endpoints d)\<rparr>"

section \<open>Endpoints\<close>

abbreviation wh_validation :: "string \<Rightarrow> goerr" where
  "wh_validation msg \<equiv> Wrapped WebhooksErrValidation ''validation'' msg []"

abbreviation wh_not_found :: goerr where
  "wh_not_found \<equiv> Wrapped WebhooksErrNotFound ''not_found'' ''webhook not found'' []"

definition maxEndpointsPerClient :: nat where "maxEndpointsPerClient = 20"

text \<open>\<open>url.Parse\<close> is an argument: \<open>None\<close> when it fails, otherwise the scheme and the host.\<close>

definition normalizeURL :: "(string \<Rightarrow> (string \<times> string) option) \<Rightarrow> string \<Rightarrow> string result" where
  "normalizeURL parse raw =
     (let raw = TrimSpace raw in
      if raw = [] \<or> length raw > 2048 then Inl (wh_validation ''url is required'')
      else case parse raw of
          None \<Rightarrow> Inl (wh_validation ''url must be http or https'')
        | Some (scheme, host) \<Rightarrow>
            if host = [] \<or> scheme \<noteq> ''https'' \<and> scheme \<noteq> ''http''
            then Inl (wh_validation ''url must be http or https'') else Inr raw)"

fun normalize_events :: "string list \<Rightarrow> string list \<Rightarrow> string list result" where
  "normalize_events [] out = Inr out"
| "normalize_events (e # es) out =
     (let e = TrimSpace e in
      if \<not> KnownEvent e then Inl (wh_validation (''unknown webhook event: '' @ e))
      else if e \<in> set out then normalize_events es out
      else normalize_events es (out @ [e]))"

definition normalizeEvents :: "string list \<Rightarrow> string list result" where
  "normalizeEvents events = (if length events = 0 then Inr [] else normalize_events events [])"

definition trimPtr :: "string option \<Rightarrow> string option" where
  "trimPtr s =
     (case s of None \<Rightarrow> None | Some v \<Rightarrow> (let v = TrimSpace v in if v = [] then None else Some v))"

text \<open>
  What the service is built from: \<open>url.Parse\<close>, the random secret and the keyring's ciphertext
  and key id for it.
\<close>

record wh_env =
  wh_parse_url :: "string \<Rightarrow> (string \<times> string) option"
  wh_secret :: "string result"
  wh_encrypt :: "string \<Rightarrow> (string \<times> string) result"

record endpoint_input =
  ep_client :: uuid
  ep_url :: string
  ep_description :: "string option"
  ep_events :: "string list"
  ep_enabled :: "bool option"

definition CreateWebhook ::
    "wh_env \<Rightarrow> uuid \<Rightarrow> time \<Rightarrow> endpoint_input \<Rightarrow> db \<Rightarrow> (webhook_endpoint \<times> string \<times> db) result" where
  "CreateWebhook env new_id now i d =
     (case normalizeURL (wh_parse_url env) (ep_url i) of Inl e \<Rightarrow> Inl e | Inr u \<Rightarrow>
     (case normalizeEvents (ep_events i) of Inl e \<Rightarrow> Inl e | Inr events \<Rightarrow>
      if CountWebhookEndpointsForClient (ep_client i) d \<ge> maxEndpointsPerClient
      then Inl (wh_validation ''webhook endpoint limit reached'')
      else
     (case wh_secret env of Inl e \<Rightarrow> Inl e | Inr plain \<Rightarrow>
     (case wh_encrypt env plain of Inl e \<Rightarrow> Inl e | Inr (ct, kid) \<Rightarrow>
     (case InsertWebhookEndpoint new_id now
          \<lparr>we_id = [], we_client = ep_client i, we_url = u, we_secret_ciphertext = ct,
           we_dek_key_id = kid, we_description = trimPtr (ep_description i),
           we_enabled = keep_or (ep_enabled i) True, we_events = events,
           we_consecutive_failures = 0, we_created_at = now, we_updated_at = now\<rparr> d of
        Inl e \<Rightarrow> Inl e
      | Inr (row, d') \<Rightarrow> Inr (row, plain, d'))))))"

definition GetForClientWebhook :: "uuid \<Rightarrow> uuid \<Rightarrow> db \<Rightarrow> webhook_endpoint result" where
  "GetForClientWebhook cid eid d =
     (case GetWebhookEndpointForClient eid cid d of
        Inl e \<Rightarrow> Inl (if e = NoRows then wh_not_found else e) | Inr row \<Rightarrow> Inr row)"

record endpoint_patch =
  pa_url :: "string option"
  pa_description :: "string option"
  pa_events :: "string list option"
  pa_enabled :: "bool option"

definition PatchWebhook ::
    "wh_env \<Rightarrow> time \<Rightarrow> uuid \<Rightarrow> uuid \<Rightarrow> endpoint_patch \<Rightarrow> db \<Rightarrow> (webhook_endpoint \<times> db) result" where
  "PatchWebhook env now cid eid p d =
     (case GetForClientWebhook cid eid d of Inl e \<Rightarrow> Inl e | Inr _ \<Rightarrow>
     (case (case pa_url p of None \<Rightarrow> Inr None
            | Some raw \<Rightarrow> (case normalizeURL (wh_parse_url env) raw of Inl e \<Rightarrow> Inl e | Inr u \<Rightarrow> Inr (Some u))) of
        Inl e \<Rightarrow> Inl e
      | Inr u \<Rightarrow>
     (case (case pa_events p of None \<Rightarrow> Inr None
            | Some es \<Rightarrow> (case normalizeEvents es of Inl e \<Rightarrow> Inl e | Inr r \<Rightarrow> Inr (Some r))) of
        Inl e \<Rightarrow> Inl e
      | Inr events \<Rightarrow>
        UpdateWebhookEndpoint now
          \<lparr>eu_url = u,
           eu_description = (case pa_description p of None \<Rightarrow> None | Some _ \<Rightarrow> trimPtr (pa_description p)),
           eu_enabled = pa_enabled p, eu_events = events,
           eu_consecutive_failures = (if pa_enabled p = Some True then Some 0 else None),
           eu_secret_ciphertext = None, eu_dek_key_id = None\<rparr> eid cid d)))"

definition RotateSecret ::
    "wh_env \<Rightarrow> time \<Rightarrow> uuid \<Rightarrow> uuid \<Rightarrow> db \<Rightarrow> (webhook_endpoint \<times> string \<times> db) result" where
  "RotateSecret env now cid eid d =
     (case GetForClientWebhook cid eid d of Inl e \<Rightarrow> Inl e | Inr _ \<Rightarrow>
     (case wh_secret env of Inl e \<Rightarrow> Inl e | Inr plain \<Rightarrow>
     (case wh_encrypt env plain of Inl e \<Rightarrow> Inl e | Inr (ct, kid) \<Rightarrow>
     (case UpdateWebhookEndpoint now
          \<lparr>eu_url = None, eu_description = None, eu_enabled = None, eu_events = None,
           eu_consecutive_failures = Some 0, eu_secret_ciphertext = Some ct,
           eu_dek_key_id = Some kid\<rparr> eid cid d of
        Inl e \<Rightarrow> Inl e
      | Inr (row, d') \<Rightarrow> Inr (row, plain, d')))))"

definition DeleteWebhook :: "uuid \<Rightarrow> uuid \<Rightarrow> db \<Rightarrow> db result" where
  "DeleteWebhook cid eid d =
     (case DeleteWebhookEndpoint eid cid d of (n, d') \<Rightarrow> if n = 0 then Inl wh_not_found else Inr d')"

section \<open>Queueing deliveries\<close>

text \<open>
  \<open>enqueue\<close>: one delivery for each subscribed endpoint. Each insert commits on its own, so an
  error leaves the deliveries queued before it; the first component is the error.
\<close>

fun enqueue_deliveries ::
    "((string \<times> wh_value) list \<Rightarrow> string result) \<Rightarrow> (nat \<Rightarrow> uuid) \<Rightarrow> time \<Rightarrow> webhook_delivery \<Rightarrow>
     (string \<times> wh_value) list \<Rightarrow> nat \<Rightarrow> webhook_endpoint list \<Rightarrow> db \<Rightarrow> goerr option \<times> db" where
  "enqueue_deliveries render ids now tmpl data k [] d = (None, d)"
| "enqueue_deliveries render ids now tmpl data k (ep # eps) d =
     (if \<not> Subscribes (we_events ep) (wd_event_type tmpl)
      then enqueue_deliveries render ids now tmpl data k eps d
      else
     (case render (Envelope (ids k) (wd_event_type tmpl) now data) of Inl e \<Rightarrow> (Some e, d) | Inr payload \<Rightarrow>
     (case InsertWebhookDelivery now
          (tmpl\<lparr>wd_id := ids k, wd_endpoint := we_id ep, wd_payload := payload\<rparr>) d of
        Inl e \<Rightarrow> (Some e, d)
      | Inr d' \<Rightarrow> enqueue_deliveries render ids now tmpl data (Suc k) eps d')))"

definition webhook_max_attempts :: "settings_public result option \<Rightarrow> int" where
  "webhook_max_attempts settings =
     (case settings of
        Some (Inr view) \<Rightarrow> if sp_webhook_max_attempts view > 0 then sp_webhook_max_attempts view else 8
      | _ \<Rightarrow> 8)"

definition enqueue_event ::
    "((string \<times> wh_value) list \<Rightarrow> string result) \<Rightarrow> settings_public result option \<Rightarrow> (nat \<Rightarrow> uuid) \<Rightarrow> time \<Rightarrow>
     uuid \<Rightarrow> string \<Rightarrow> uuid option \<Rightarrow> uuid option \<Rightarrow> (string \<times> wh_value) list \<Rightarrow> db \<Rightarrow> goerr option \<times> db" where
  "enqueue_event render settings ids now cid eventType jid iid data d =
     (if \<not> KnownEvent eventType then (None, d)
      else if (case GetClientByID cid d of Inr cl \<Rightarrow> cl_status cl \<noteq> ClientActive | Inl _ \<Rightarrow> False) then (None, d)
      else
        enqueue_deliveries render ids now
          \<lparr>wd_id = [], wd_client = cid, wd_endpoint = [], wd_job = jid, wd_item = iid,
           wd_event_type = eventType, wd_payload = [], wd_status = DeliveryPending,
           wd_attempt_count = 0, wd_max_attempts = webhook_max_attempts settings,
           wd_next_attempt_at = Some now, wd_last_response_code = None, wd_last_error = None,
           wd_delivered_at = None, wd_created_at = now, wd_updated_at = now\<rparr>
          data 0 (ListEnabledWebhookEndpoints cid d) d)"

definition EnqueueItem ::
    "((string \<times> wh_value) list \<Rightarrow> string result) \<Rightarrow> settings_public result option \<Rightarrow> (nat \<Rightarrow> uuid) \<Rightarrow> time \<Rightarrow>
     lookup_item \<Rightarrow> db \<Rightarrow> goerr option \<times> db" where
  "EnqueueItem render settings ids now item d =
     enqueue_event render settings ids now (li_client item)
       (EventForItemStatus (item_status_string (li_status item)))
       (Some (li_job item)) (Some (li_id item)) (CheckData item) d"

definition EnqueueJob ::
    "((string \<times> wh_value) list \<Rightarrow> string result) \<Rightarrow> settings_public result option \<Rightarrow> (nat \<Rightarrow> uuid) \<Rightarrow> time \<Rightarrow>
     lookup_job \<Rightarrow> db \<Rightarrow> goerr option \<times> db" where
  "EnqueueJob render settings ids now job d =
     (if lj_status job \<in> {LJobCompleted, LJobCompletedWithErrors, LJobFailed}
      then enqueue_event render settings ids now (lj_client job) EventJobCompleted
             (Some (lj_id job)) None (JobData job) d
      else (None, d))"

end
