(* ===== verification/LookupCreate.thy ===== *)
theory LookupCreate
  imports LookupState Webhooks
begin

text \<open>
  \<open>internal/lookup/create.go\<close>: a lookup job, its items and the hold on their price are written
  in one transaction. SHA-256 is an argument.
\<close>

section \<open>The send id of an item\<close>

definition ProviderCode :: string where "ProviderCode = ''smsc''"

definition SendIdempotencyKey :: "lookup_check_type \<Rightarrow> string \<Rightarrow> string" where
  "SendIdempotencyKey ct itemKey = ''SEND:'' @ type_string ct @ '':'' @ itemKey"

text \<open>\<open>binary.BigEndian.Uint32\<close> of the first four bytes.\<close>

definition big_endian32 :: "string \<Rightarrow> int32" where
  "big_endian32 bs = foldl (\<lambda>acc b. push_bit 8 acc + of_nat (of_char b)) 0 (take 4 bs)"

definition ClientIDFromKey :: "(string \<Rightarrow> string) \<Rightarrow> string \<Rightarrow> int" where
  "ClientIDFromKey sha256 key =
     (let v = take_bit 31 (big_endian32 (sha256 key)) in if v = 0 then 1 else uint v)"

definition ClientSendID :: "(string \<Rightarrow> string) \<Rightarrow> lookup_check_type \<Rightarrow> uuid \<Rightarrow> string" where
  "ClientSendID sha256 ct iid = itoa (ClientIDFromKey sha256 (SendIdempotencyKey ct iid))"

definition lookup_deref :: "string option \<Rightarrow> string" where
  "lookup_deref s = (case s of None \<Rightarrow> [] | Some v \<Rightarrow> v)"

fun stamp_items :: "(string \<Rightarrow> string) \<Rightarrow> time \<Rightarrow> lookup_item list \<Rightarrow> db \<Rightarrow> db result" where
  "stamp_items sha256 now [] d = Inr d"
| "stamp_items sha256 now (i # is) d =
     (if lookup_deref (li_provider_message_id i) \<noteq> [] then stamp_items sha256 now is d
      else case StampLookupItemClientSendID now ProviderCode
             (Some (ClientSendID sha256 (li_check_type i) (li_id i))) (li_id i) d of
             Inl e \<Rightarrow> Inl e
           | Inr d' \<Rightarrow> stamp_items sha256 now is d')"

definition stampClientSendIDs :: "(string \<Rightarrow> string) \<Rightarrow> time \<Rightarrow> uuid \<Rightarrow> db \<Rightarrow> db result" where
  "stampClientSendIDs sha256 now jid d = stamp_items sha256 now (ListLookupItemsByJob jid d) d"

section \<open>Creation\<close>

text \<open>
  A check type or source other than the enumerated strings is \<open>None\<close>. The metadata is the
  object already rendered as JSON.
\<close>

record create_input =
  ci_client :: uuid
  ci_check_type :: "lookup_check_type option"
  ci_source :: "lookup_job_source option"
  ci_phones :: "string list"
  ci_key :: string
  ci_created_by :: "uuid option"
  ci_api_credential :: "uuid option"
  ci_filename :: "string option"
  ci_metadata :: string
  ci_max_phones :: int
  ci_cap_name :: string

record create_result =
  cr_job :: lookup_job
  cr_deduplicated :: bool
  cr_dedup_phones :: nat
  cr_work_units :: int

record create_ids =
  cid_job :: uuid
  cid_items :: "nat \<Rightarrow> uuid"
  cid_hold :: uuid

definition source_string :: "lookup_job_source \<Rightarrow> string" where
  "source_string s = (case s of SourceSingle \<Rightarrow> ''single'' | SourceBulk \<Rightarrow> ''bulk'' | SourceApi \<Rightarrow> ''api'')"

definition lookup_wrap :: "sentinel \<Rightarrow> string \<Rightarrow> string \<Rightarrow> goerr" where
  "lookup_wrap err code msg = Wrapped err code msg []"

text \<open>Of the errors of the billing package, those of its \<open>Error\<close> type are wrapped anew.\<close>

definition mapBillingErr :: "goerr \<Rightarrow> goerr" where
  "mapBillingErr e =
     (case e of
        Wrapped s code msg _ \<Rightarrow>
          if code = ''tariff_not_configured'' then lookup_wrap LookupErrTariffNotConfigured code msg
          else lookup_wrap s code msg
      | _ \<Rightarrow> e)"

definition jobByIdempotency :: "uuid \<Rightarrow> string \<Rightarrow> db \<Rightarrow> pgtx \<Rightarrow> lookup_job result" where
  "jobByIdempotency cid key pool t =
     (case tx_read (GetLookupJobByIdempotency cid (Some key)) t of
        Inl e \<Rightarrow> if e = NoRows then GetLookupJobByIdempotency cid (Some key) pool else Inl e
      | Inr j \<Rightarrow> Inr j)"

definition existingJobOnUnique :: "uuid \<Rightarrow> string \<Rightarrow> goerr \<Rightarrow> db \<Rightarrow> pgtx \<Rightarrow> lookup_job option" where
  "existingJobOnUnique cid key err pool t =
     (if \<not> isUniqueViolation err \<or> key = [] then None
      else case jobByIdempotency cid key pool t of Inl _ \<Rightarrow> None | Inr j \<Rightarrow> Some j)"

definition replayed :: "lookup_job \<Rightarrow> create_result" where
  "replayed j = \<lparr>cr_job = j, cr_deduplicated = True, cr_dedup_phones = 0, cr_work_units = lj_item_count j\<rparr>"

text \<open>
  The part of \<open>create\<close> before the transaction: \<open>Inr (Inl job)\<close> is a job found by its key,
  \<open>Inr (Inr _)\<close> the normalised phones, how many were dropped and the estimate.
\<close>

definition create_checks ::
    "string \<Rightarrow> settings_public result \<Rightarrow> time \<Rightarrow> create_input \<Rightarrow> db \<Rightarrow>
     (lookup_job + (lookup_check_type \<times> lookup_job_source \<times> string list \<times> nat \<times> estimate)) result" where
  "create_checks required79 settings now i pool =
     (case ci_check_type i of
        None \<Rightarrow> Inl (lookup_wrap LookupErrValidation ''validation'' ''check_type must be hlr or ping'')
      | Some ct \<Rightarrow>
     (case ci_source i of
        None \<Rightarrow> Inl (lookup_wrap LookupErrValidation ''validation'' ''source must be single, bulk, or api'')
      | Some src \<Rightarrow>
      if ci_client i = uuid_Nil
      then Inl (lookup_wrap LookupErrValidation ''validation'' ''client_id is required'')
      else
     (case settings of Inl e \<Rightarrow> Inl e | Inr view \<Rightarrow>
      if \<not> sp_lookup_enabled view
      then Inl (lookup_wrap LookupErrLookupDisabled ''lookup_disabled'' ''lookup is disabled'')
      else
     (case GetClientByID (ci_client i) pool of
        Inl e \<Rightarrow> Inl (if e = NoRows then lookup_wrap LookupErrNotFound ''not_found'' ''client not found'' else e)
      | Inr cl \<Rightarrow>
      if cl_status cl = ClientSuspended
      then Inl (lookup_wrap LookupErrClientSuspended ''client_suspended'' ''client is suspended'')
      else if cl_status cl \<noteq> ClientActive
      then Inl (lookup_wrap LookupErrNotFound ''not_found'' ''client not found'')
      else
     (case (if ci_key i \<noteq> [] then GetLookupJobByIdempotency (ci_client i) (Some (ci_key i)) pool
            else Inl NoRows) of
        Inr existing \<Rightarrow> Inr (Inl existing)
      | Inl e \<Rightarrow>
      if e \<noteq> NoRows then Inl e
      else
        let maxPhones = (if ci_max_phones i \<le> 0 then sp_max_batch_phones view else ci_max_phones i) in
     (case PreparePhones required79 (ci_phones i) (source_string src) maxPhones (ci_cap_name i) of
        Inl e \<Rightarrow> Inl e
      | Inr (phones, deduped) \<Rightarrow>
     (case EstimateLookup now (ci_client i) ct (int (length phones)) pool of
        Inl e \<Rightarrow> Inl (mapBillingErr e)
      | Inr est \<Rightarrow> Inr (Inr (ct, src, phones, deduped, est)))))))))"

definition create_currency :: "estimate \<Rightarrow> string" where
  "create_currency est = (if es_currency est = [] then ''RUB'' else es_currency est)"

definition job_params ::
    "create_input \<Rightarrow> lookup_check_type \<Rightarrow> lookup_job_source \<Rightarrow> string list \<Rightarrow> estimate \<Rightarrow> lookup_job" where
  "job_params i ct src phones est =
     \<lparr>lj_id = [], lj_client = ci_client i, lj_check_type = ct, lj_source = src,
      lj_status = LJobQueued, lj_item_count = int32_of (int (length phones)), lj_success_count = 0,
      lj_failure_count = 0, lj_unit_sell_price = Some (es_unit_sell_price est),
      lj_tariff_plan_id = Some (es_tariff_plan_id est), lj_tariff_plan_code = Some (es_tariff_plan_code est),
      lj_currency = create_currency est, lj_estimated_cost = Some (es_total est), lj_actual_cost = None,
      lj_original_filename = ci_filename i,
      lj_idempotency_key = (if ci_key i \<noteq> [] then Some (ci_key i) else None),
      lj_created_by = ci_created_by i, lj_api_credential_id = ci_api_credential i,
      lj_error_code = None, lj_error_message = None, lj_started_at = None, lj_completed_at = None,
      lj_metadata = (if ci_metadata i = [] then ''{}'' else ci_metadata i), lj_created_at = 0,
      lj_updated_at = 0, lj_reachable_count = 0, lj_unreachable_count = 0\<rparr>"

definition item_params ::
    "uuid \<Rightarrow> create_input \<Rightarrow> lookup_check_type \<Rightarrow> estimate \<Rightarrow> string \<Rightarrow> lookup_item" where
  "item_params jid i ct est phone =
     \<lparr>li_id = [], li_job = jid, li_client = ci_client i, li_check_type = ct, li_status = ItemQueued,
      li_phone = phone, li_phone_digits = PhoneDigits phone, li_provider_code = [],
      li_provider_message_id = None, li_unit_sell_price = Some (es_unit_sell_price est),
      li_tariff_plan_id = Some (es_tariff_plan_id est), li_tariff_plan_code = Some (es_tariff_plan_code est),
      li_currency = Some (create_currency est), li_estimated_cost = Some (es_unit_sell_price est),
      li_actual_cost = None, li_result_status = None, li_is_reachable = None, li_imsi = None,
      li_mcc = None, li_mnc = None, li_operator_name = None, li_country_code = None, li_ported = None,
      li_roaming = None, li_normalized_result = [], li_error_code = None, li_error_message = None,
      li_billing_action = None, li_next_poll_at = None, li_poll_attempts = 0, li_sent_at = None,
      li_completed_at = None, li_created_at = 0, li_updated_at = 0, li_enrich_attempts = 0\<rparr>"

text \<open>
  \<open>create\<close> in a transaction that sees \<open>d\<close>; \<open>pool\<close> is what a query outside it sees.
\<close>

definition create_job ::
    "(string \<Rightarrow> string) \<Rightarrow> string \<Rightarrow> create_ids \<Rightarrow> time \<Rightarrow> settings_public result \<Rightarrow> create_input \<Rightarrow> db \<Rightarrow> db \<Rightarrow>
     create_result result \<times> pgtx" where
  "create_job sha256 required79 ids now settings i pool d =
     (case create_checks required79 settings now i pool of
        Inl e \<Rightarrow> (Inl e, Live d)
      | Inr (Inl existing) \<Rightarrow> (Inr (replayed existing), Live d)
      | Inr (Inr (ct, src, phones, deduped, est)) \<Rightarrow>
     (case InsertLookupJob (cid_job ids) now (job_params i ct src phones est) d of
        Inl e \<Rightarrow>
          (let t = after_error e d in
           case existingJobOnUnique (ci_client i) (ci_key i) e pool t of
             Some existing \<Rightarrow> (Inr (replayed existing), t) | None \<Rightarrow> (Inl e, t))
      | Inr (job, d1) \<Rightarrow>
     (case InsertLookupItems (cid_items ids) now 0 (map (item_params (lj_id job) i ct est) phones) d1 of
        Inl e \<Rightarrow> (Inl e, after_error e d1)
      | Inr d2 \<Rightarrow>
     (case stampClientSendIDs sha256 now (lj_id job) d2 of
        Inl e \<Rightarrow> (Inl e, after_error e d2)
      | Inr d3 \<Rightarrow>
     (case ReserveForLookupJob (cid_hold ids) now (Some d3) job of
        Inl e \<Rightarrow> (Inl (mapBillingErr e), after_error e d3)
      | Inr d4 \<Rightarrow>
          (Inr \<lparr>cr_job = job, cr_deduplicated = False, cr_dedup_phones = deduped,
                cr_work_units = int (length phones)\<rparr>, Live d4))))))"

definition CreateWith ::
    "(string \<Rightarrow> string) \<Rightarrow> string \<Rightarrow> create_ids \<Rightarrow> time \<Rightarrow> settings_public result \<Rightarrow> create_input \<Rightarrow> db \<Rightarrow> db \<Rightarrow>
     create_result result \<times> pgtx" where
  "CreateWith sha256 required79 ids now settings i pool d =
     create_job sha256 required79 ids now settings i pool d"

text \<open>
  \<open>Create\<close> opens its own transaction. A job found by its key is returned without a commit, and
  every error rolls back.
\<close>

definition CreateJob ::
    "(string \<Rightarrow> string) \<Rightarrow> string \<Rightarrow> create_ids \<Rightarrow> time \<Rightarrow> settings_public result \<Rightarrow> create_input \<Rightarrow> db \<Rightarrow>
     (create_result \<times> db) result" where
  "CreateJob sha256 required79 ids now settings i d =
     (case create_job sha256 required79 ids now settings i d d of
        (Inl e, _) \<Rightarrow> Inl e
      | (Inr r, t) \<Rightarrow>
          if cr_deduplicated r then Inr (r, d)
          else case tx_commit t of Inl e \<Rightarrow> Inl e | Inr d' \<Rightarrow> Inr (r, d'))"

text \<open>\<open>FailJob\<close>, with the webhook service when there is one (its errors are only logged).\<close>

definition strPtrOrNil :: "string \<Rightarrow> string option" where
  "strPtrOrNil s = (let s = TrimSpace s in if s = [] then None else Some s)"

definition FailJob ::
    "(lookup_job \<Rightarrow> db \<Rightarrow> db) option \<Rightarrow> time \<Rightarrow> uuid \<Rightarrow> string \<Rightarrow> string \<Rightarrow> db \<Rightarrow> (lookup_job \<times> db) result" where
  "FailJob hooks now jid code msg d =
     (case FinalizeLookupJob now LJobFailed (strPtrOrNil code) (strPtrOrNil msg) jid d of
        Inl e \<Rightarrow>
          if e = NoRows then (case GetLookupJob jid d of Inl e' \<Rightarrow> Inl e' | Inr j \<Rightarrow> Inr (j, d)) else Inl e
      | Inr (j, d') \<Rightarrow> Inr (j, (case hooks of None \<Rightarrow> d' | Some h \<Rightarrow> h j d')))"

end
