(* ===== verification/LookupInv.thy ===== *)
theory LookupInv
  imports LookupCreate
begin

text \<open>
  The invariant of the lookup tables: what a stored item looks like in each status, that a
  finished job has only finished items, and that the hold of a job is drawn on by exactly the
  items that were settled, each with the price of one check.
\<close>

section \<open>The invariant\<close>

definition item_wf :: "lookup_item \<Rightarrow> bool" where
  "item_wf i =
     ((IsTerminalItem (li_status i) \<longleftrightarrow> li_completed_at i \<noteq> None) \<and>
      (li_billing_action i \<noteq> None \<longrightarrow> IsTerminalItem (li_status i)) \<and>
      0 \<le> li_poll_attempts i \<and> li_poll_attempts i \<le> PollMaxAttempts)"

definition job_holds :: "uuid \<Rightarrow> wallet_tx list \<Rightarrow> wallet_tx list" where
  "job_holds jid ts = filter (\<lambda>t. tx_type t = HOLD \<and> tx_lookup_job t = Some jid) ts"

definition paid :: "wallet_tx_type \<Rightarrow> uuid \<Rightarrow> wallet_tx list \<Rightarrow> decimal" where
  "paid ty hid ts = sum_amounts (\<lambda>t. settles hid t \<and> tx_type t = ty) ts"

definition settled_items :: "billing_action \<Rightarrow> uuid \<Rightarrow> lookup_item list \<Rightarrow> nat" where
  "settled_items a jid is = length (filter (\<lambda>i. li_job i = jid \<and> li_billing_action i = Some a) is)"

definition items_of :: "uuid \<Rightarrow> lookup_item list \<Rightarrow> lookup_item list" where
  "items_of jid is = filter (\<lambda>i. li_job i = jid) is"

definition job_funded :: "wallet_tx list \<Rightarrow> lookup_item list \<Rightarrow> lookup_job \<Rightarrow> bool" where
  "job_funded ts is j =
     (items_of (lj_id j) is = [] \<and> job_holds (lj_id j) ts = [] \<or>
      (\<exists>h p. lj_unit_sell_price j = Some p \<and> 0 < p \<and> job_holds (lj_id j) ts = [h] \<and>
         tx_client h = lj_client j \<and> tx_amount h = p * of_int (lj_item_count j) \<and>
         paid DEBIT (tx_id h) ts = p * of_nat (settled_items ActionCapture (lj_id j) is) \<and>
         paid RELEASE (tx_id h) ts = p * of_nat (settled_items ActionRelease (lj_id j) is)))"

definition item_linked :: "lookup_job list \<Rightarrow> lookup_item \<Rightarrow> bool" where
  "item_linked js i =
     (\<exists>j \<in> set js. lj_id j = li_job i \<and> lj_client j = li_client i \<and>
        lj_unit_sell_price j = li_unit_sell_price i)"

definition job_wf :: "lookup_item list \<Rightarrow> lookup_job \<Rightarrow> bool" where
  "job_wf is j =
     (lj_item_count j = int (length (items_of (lj_id j) is)) \<and> length (items_of (lj_id j) is) \<le> nat int4_max \<and>
      (IsTerminalJob (lj_status j) \<longrightarrow>
         list_all (\<lambda>i. IsTerminalItem (li_status i)) (items_of (lj_id j) is)))"

definition tx_linked :: "lookup_job list \<Rightarrow> lookup_item list \<Rightarrow> wallet_tx \<Rightarrow> bool" where
  "tx_linked js is t =
     ((\<forall>jid. tx_lookup_job t = Some jid \<or> tx_key t = Some (LookupHoldKey jid) \<longrightarrow> jid \<in> lj_id ` set js) \<and>
      (\<forall>c iid. tx_key t = Some (lookup_settle_key c iid) \<longrightarrow>
         (\<exists>i \<in> set is. li_id i = iid \<and> li_billing_action i \<noteq> None)))"

definition lookup_wf :: "lookup_job list \<Rightarrow> lookup_item list \<Rightarrow> wallet_tx list \<Rightarrow> bool" where
  "lookup_wf js is ts =
     (distinct (map lj_id js) \<and> distinct (map li_id is) \<and>
      (\<forall>i \<in> set is. item_wf i \<and> item_linked js i) \<and>
      (\<forall>j \<in> set js. job_wf is j \<and> job_funded ts is j) \<and>
      (\<forall>t \<in> set ts. tx_linked js is t))"

definition lookup_ok :: "db \<Rightarrow> bool" where
  "lookup_ok d = (db_ok d \<and> lookup_wf (lookup_jobs d) (lookup_items d) (wallet_txs d))"

lemma lookup_okD:
  assumes "lookup_ok d"
  shows "db_ok d" "distinct (map lj_id (lookup_jobs d))" "distinct (map li_id (lookup_items d))"
    "\<And>i. i \<in> set (lookup_items d) \<Longrightarrow> item_wf i" "\<And>i. i \<in> set (lookup_items d) \<Longrightarrow> item_linked (lookup_jobs d) i"
    "\<And>j. j \<in> set (lookup_jobs d) \<Longrightarrow> job_wf (lookup_items d) j"
    "\<And>j. j \<in> set (lookup_jobs d) \<Longrightarrow> job_funded (wallet_txs d) (lookup_items d) j"
    "\<And>t. t \<in> set (wallet_txs d) \<Longrightarrow> tx_linked (lookup_jobs d) (lookup_items d) t"
  using assms by (simp_all add: lookup_ok_def lookup_wf_def)

lemma lookup_ok_empty: "lookup_ok empty_db"
  by (simp add: lookup_ok_def lookup_wf_def empty_db_def db_ok_def links_ok_def prices_ok_def ledger_ok_def keyed_def)

lemma lookup_ok_frame [simp]:
  "lookup_ok (d\<lparr>provider_lookup_callbacks := cs\<rparr>) = lookup_ok d"
  "lookup_ok (d\<lparr>provider_lookup_requests := rs\<rparr>) = lookup_ok d"
  "lookup_ok (d\<lparr>webhook_endpoints := es\<rparr>) = lookup_ok d"
  "lookup_ok (d\<lparr>webhook_deliveries := vs\<rparr>) = lookup_ok d"
  by (simp_all add: lookup_ok_def db_ok_def links_ok_def prices_ok_def)

section \<open>Updates of items and jobs\<close>

text \<open>What an update of items may not change: the links and the money of the item.\<close>

definition same_item :: "lookup_item \<Rightarrow> lookup_item \<Rightarrow> bool" where
  "same_item i k =
     (li_id k = li_id i \<and> li_job k = li_job i \<and> li_client k = li_client i \<and>
      li_unit_sell_price k = li_unit_sell_price i \<and> li_billing_action k = li_billing_action i)"

definition safe_item :: "lookup_item \<Rightarrow> lookup_item \<Rightarrow> bool" where
  "safe_item i k =
     (same_item i k \<and> (item_wf i \<longrightarrow> item_wf k) \<and>
      (IsTerminalItem (li_status i) \<longrightarrow> IsTerminalItem (li_status k)))"

lemma safe_item_refl [simp]: "safe_item i i"
  by (simp add: safe_item_def same_item_def)

lemma items_of_map:
  assumes "\<And>i. i \<in> set is \<Longrightarrow> li_job (g i) = li_job i"
  shows "items_of jid (map g is) = map g (items_of jid is)"
  using assms by (induction "is") (auto simp: items_of_def)

lemma settled_items_map:
  assumes "\<And>i. i \<in> set is \<Longrightarrow> same_item i (g i)"
  shows "settled_items a jid (map g is) = settled_items a jid is"
  using assms by (induction "is") (auto simp: settled_items_def same_item_def)

lemma db_ok_items:
  assumes "db_ok d" and g: "\<And>i. i \<in> set (lookup_items d) \<Longrightarrow> same_item i (g i)"
  shows "db_ok (d\<lparr>lookup_items := map g (lookup_items d)\<rparr>)"
  using assms(1) g by (auto simp: db_ok_def links_ok_def prices_ok_def same_item_def)

lemma lookup_wf_items:
  assumes wf: "lookup_wf js is ts" and g: "\<And>i. i \<in> set is \<Longrightarrow> safe_item i (g i)"
  shows "lookup_wf js (map g is) ts"
proof -
  have same: "same_item i (g i)" if "i \<in> set is" for i using g [OF that] by (simp add: safe_item_def)
  have ids: "map li_id (map g is) = map li_id is" using same by (auto simp: same_item_def)
  have own: "items_of jid (map g is) = map g (items_of jid is)" for jid
    by (rule items_of_map) (use same in \<open>simp add: same_item_def\<close>)
  have settled: "settled_items a jid (map g is) = settled_items a jid is" for a jid
    by (rule settled_items_map) (rule same)
  have jobs: "job_wf (map g is) j \<and> job_funded ts (map g is) j" if j: "j \<in> set js" for j
  proof
    have "IsTerminalItem (li_status (g i))" if "i \<in> set (items_of (lj_id j) is)" "IsTerminalItem (li_status i)" for i
      using g that by (simp add: safe_item_def items_of_def)
    then show "job_wf (map g is) j" using wf j by (auto simp: lookup_wf_def job_wf_def own list_all_iff)
    show "job_funded ts (map g is) j" using wf j by (simp add: lookup_wf_def job_funded_def own settled)
  qed
  have items: "item_wf (g i) \<and> item_linked js (g i)" if "i \<in> set is" for i
    using wf that g [OF that] by (auto simp: lookup_wf_def item_linked_def safe_item_def same_item_def)
  have txs: "tx_linked js (map g is) t" if "t \<in> set ts" for t
  proof -
    have "tx_linked js is t" using wf that by (simp add: lookup_wf_def)
    then show ?thesis using same unfolding tx_linked_def same_item_def by fastforce
  qed
  have "distinct (map li_id (map g is))" unfolding ids using wf by (simp add: lookup_wf_def)
  then show ?thesis using wf items jobs txs unfolding lookup_wf_def by auto
qed

lemma lookup_ok_items:
  assumes "lookup_ok d" and g: "\<And>i. i \<in> set (lookup_items d) \<Longrightarrow> safe_item i (g i)"
  shows "lookup_ok (d\<lparr>lookup_items := map g (lookup_items d)\<rparr>)"
proof -
  have "db_ok (d\<lparr>lookup_items := map g (lookup_items d)\<rparr>)"
    by (rule db_ok_items) (use assms in \<open>auto simp: lookup_ok_def safe_item_def\<close>)
  with assms show ?thesis by (simp add: lookup_ok_def lookup_wf_items)
qed

lemma lookup_ok_update_items:
  assumes "lookup_ok d" and "\<And>i. i \<in> set (lookup_items d) \<Longrightarrow> p i \<Longrightarrow> safe_item i (f i)"
  shows "lookup_ok (d\<lparr>lookup_items := update_where p f (lookup_items d)\<rparr>)"
  unfolding update_where_def by (rule lookup_ok_items) (use assms in auto)

lemma claim_items_ok:
  assumes "lookup_ok d" and "\<And>i. i \<in> set (lookup_items d) \<Longrightarrow> li_id i \<in> set ids \<Longrightarrow> safe_item i (f i)"
  shows "lookup_ok (snd (claim_items ids f d))"
  unfolding claim_items_def snd_conv by (rule lookup_ok_update_items) (use assms in auto)

text \<open>An update of jobs keeps the price and the number of items, and finishes a job only with its items.\<close>

definition safe_job :: "lookup_item list \<Rightarrow> lookup_job \<Rightarrow> lookup_job \<Rightarrow> bool" where
  "safe_job is j k =
     (lj_id k = lj_id j \<and> lj_client k = lj_client j \<and> lj_unit_sell_price k = lj_unit_sell_price j \<and>
      lj_item_count k = lj_item_count j \<and>
      (IsTerminalJob (lj_status k) \<longrightarrow> IsTerminalJob (lj_status j) \<or>
         list_all (\<lambda>i. IsTerminalItem (li_status i)) (items_of (lj_id j) is)))"

lemma lookup_ok_update_jobs:
  assumes ok: "lookup_ok d" and f: "\<And>j. j \<in> set (lookup_jobs d) \<Longrightarrow> p j \<Longrightarrow> safe_job (lookup_items d) j (f j)"
  shows "lookup_ok (d\<lparr>lookup_jobs := update_where p f (lookup_jobs d)\<rparr>)"
proof -
  note O = lookup_okD [OF ok]
  define g where "g = (\<lambda>j. if p j then f j else j)"
  let ?js = "lookup_jobs d"
  have upd: "update_where p f ?js = map g ?js" by (simp add: update_where_def g_def)
  have g: "safe_job (lookup_items d) j (g j)" if "j \<in> set ?js" for j
    using f [OF that] by (simp add: g_def safe_job_def)
  have ids: "map lj_id (map g ?js) = map lj_id ?js" using g by (auto simp: safe_job_def)
  have "db_ok (d\<lparr>lookup_jobs := map g ?js\<rparr>)"
    using O(1) g by (auto simp: db_ok_def links_ok_def prices_ok_def safe_job_def)
  moreover have "item_linked (map g ?js) i" if "i \<in> set (lookup_items d)" for i
    using O(5) [OF that] g unfolding item_linked_def safe_job_def by fastforce
  moreover have "job_wf (lookup_items d) (g j) \<and> job_funded (wallet_txs d) (lookup_items d) (g j)" if "j \<in> set ?js" for j
    using O(6,7) [OF that] g [OF that] by (auto simp: job_wf_def job_funded_def safe_job_def)
  moreover have "tx_linked (map g ?js) (lookup_items d) t" if "t \<in> set (wallet_txs d)" for t
  proof -
    have "lj_id ` set (map g ?js) = lj_id ` set ?js" using arg_cong [OF ids, of set] by (simp add: image_image)
    with O(8) [OF that] show ?thesis by (simp add: tx_linked_def)
  qed
  moreover have "distinct (map lj_id (map g ?js))" unfolding ids by (rule O(2))
  ultimately show ?thesis using O(3,4) unfolding lookup_ok_def lookup_wf_def upd by auto
qed

end
