(* ===== verification/LookupMoney.thy ===== *)
theory LookupMoney
  imports LookupInv
begin

text \<open>
  The settlement of items keeps the lookup invariant, succeeds whenever the item is unsettled,
  and leaves nothing for the release of a remainder.
\<close>

section \<open>The hold of a job\<close>

lemma paid_snoc:
  "paid ty hid (ts @ [t]) =
   paid ty hid ts + (if settles hid t \<and> tx_type t = ty then tx_amount t else 0)"
  by (simp add: paid_def sum_amounts_def)

lemma settles_paid: "sum_amounts (settles hid) ts = paid DEBIT hid ts + paid RELEASE hid ts"
  by (induction ts) (auto simp: paid_def sum_amounts_def settles_def)

lemma job_holds_snoc:
  "job_holds jid (ts @ [t]) =
   job_holds jid ts @ (if tx_type t = HOLD \<and> tx_lookup_job t = Some jid then [t] else [])"
  by (simp add: job_holds_def)

lemma GetLookupJobHold_single:
  "job_holds jid (wallet_txs d) = [h] \<Longrightarrow> GetLookupJobHold jid d = Inr h"
proof -
  assume h: "job_holds jid (wallet_txs d) = [h]"
  have "filter (\<lambda>h. tx_lookup_job h = Some jid \<and> tx_type h = HOLD) (wallet_txs d) = job_holds jid (wallet_txs d)"
    unfolding job_holds_def by (rule filter_cong) auto
  then show ?thesis using h by (simp add: GetLookupJobHold_def)
qed

lemma GetLookupJobHold_none:
  "job_holds jid (wallet_txs d) = [] \<Longrightarrow> GetLookupJobHold jid d = Inl NoRows"
proof -
  assume h: "job_holds jid (wallet_txs d) = []"
  have "filter (\<lambda>h. tx_lookup_job h = Some jid \<and> tx_type h = HOLD) (wallet_txs d) = job_holds jid (wallet_txs d)"
    unfolding job_holds_def by (rule filter_cong) auto
  then show ?thesis using h by (simp add: GetLookupJobHold_def)
qed

lemma job_holds_mem:
  "job_holds jid ts = [h] \<Longrightarrow> h \<in> set ts \<and> tx_type h = HOLD \<and> tx_lookup_job h = Some jid"
proof -
  assume "job_holds jid ts = [h]"
  then have "h \<in> set (job_holds jid ts)" by simp
  then show ?thesis by (simp add: job_holds_def)
qed

text \<open>The job of an item and its hold.\<close>

lemma item_hold:
  assumes ok: "lookup_ok d" and i: "i \<in> set (lookup_items d)"
  obtains j h p where "j \<in> set (lookup_jobs d)" "lj_id j = li_job i" "lj_client j = li_client i"
    "li_unit_sell_price i = Some p" "lj_unit_sell_price j = Some p" "0 < p"
    "job_holds (li_job i) (wallet_txs d) = [h]" "tx_client h = li_client i"
    "tx_amount h = p * of_nat (length (items_of (li_job i) (lookup_items d)))"
    "paid DEBIT (tx_id h) (wallet_txs d) = p * of_nat (settled_items ActionCapture (li_job i) (lookup_items d))"
    "paid RELEASE (tx_id h) (wallet_txs d) = p * of_nat (settled_items ActionRelease (li_job i) (lookup_items d))"
proof -
  note O = lookup_okD [OF ok]
  from O(5) [OF i] obtain j where j: "j \<in> set (lookup_jobs d)" "lj_id j = li_job i"
    "lj_client j = li_client i" "lj_unit_sell_price j = li_unit_sell_price i"
    by (auto simp: item_linked_def)
  have "items_of (lj_id j) (lookup_items d) \<noteq> []"
    using i j(2) by (auto simp: items_of_def filter_empty_conv)
  with O(7) [OF j(1)] obtain h p where h: "lj_unit_sell_price j = Some p" "0 < p"
    "job_holds (lj_id j) (wallet_txs d) = [h]" "tx_client h = lj_client j"
    "tx_amount h = p * of_int (lj_item_count j)"
    "paid DEBIT (tx_id h) (wallet_txs d) = p * of_nat (settled_items ActionCapture (lj_id j) (lookup_items d))"
    "paid RELEASE (tx_id h) (wallet_txs d) = p * of_nat (settled_items ActionRelease (lj_id j) (lookup_items d))"
    unfolding job_funded_def by blast
  moreover have "lj_item_count j = int (length (items_of (lj_id j) (lookup_items d)))"
    using O(6) [OF j(1)] by (simp add: job_wf_def)
  ultimately show thesis using j by (intro that [of j p h]) simp_all
qed

text \<open>Every item of a job is unsettled, captured or released.\<close>

definition unsettled_items :: "uuid \<Rightarrow> lookup_item list \<Rightarrow> nat" where
  "unsettled_items jid is = length (filter (\<lambda>i. li_job i = jid \<and> li_billing_action i = None) is)"

lemma settled_split:
  "length (items_of jid is) =
   settled_items ActionCapture jid is + settled_items ActionRelease jid is + unsettled_items jid is"
proof (induction "is")
  case (Cons i "is")
  then show ?case
    by (cases "li_billing_action i"; cases "the (li_billing_action i)")
      (auto simp: items_of_def settled_items_def unsettled_items_def)
qed (simp add: items_of_def settled_items_def unsettled_items_def)

lemma hold_open_amount:
  assumes ok: "lookup_ok d" and i: "i \<in> set (lookup_items d)"
    and h: "job_holds (li_job i) (wallet_txs d) = [h]" and p: "li_unit_sell_price i = Some p"
  shows "open_amount (wallet_txs d) h = p * of_nat (unsettled_items (li_job i) (lookup_items d))"
proof -
  from ok i obtain j h' p' where H: "li_unit_sell_price i = Some p'" "job_holds (li_job i) (wallet_txs d) = [h']"
    "tx_amount h' = p' * of_nat (length (items_of (li_job i) (lookup_items d)))"
    "paid DEBIT (tx_id h') (wallet_txs d) = p' * of_nat (settled_items ActionCapture (li_job i) (lookup_items d))"
    "paid RELEASE (tx_id h') (wallet_txs d) = p' * of_nat (settled_items ActionRelease (li_job i) (lookup_items d))"
    by (rule item_hold)
  then have "h' = h" "p' = p" using h p by simp_all
  with H show ?thesis
    by (simp add: open_amount_def settles_paid settled_split algebra_simps)
qed

section \<open>One settlement\<close>

text \<open>What a settlement that writes has done.\<close>

definition settle_item :: "uuid \<Rightarrow> bool \<Rightarrow> decimal option \<Rightarrow> lookup_item \<Rightarrow> lookup_item" where
  "settle_item iid c cost i =
     (if li_id i = iid then i\<lparr>li_billing_action := Some (settle_action c), li_actual_cost := cost\<rparr> else i)"

lemma settle_item_update:
  "update_where (\<lambda>i. li_id i = iid)
     (\<lambda>i. i\<lparr>li_billing_action := Some (settle_action c), li_actual_cost := cost\<rparr>) is =
   map (settle_item iid c cost) is"
  by (simp add: update_where_def settle_item_def)

lemma settle_key_inj' [simp]:
  "lookup_settle_key c i = lookup_settle_key c' i' \<longleftrightarrow> c = c' \<and> i = i'"
  "lookup_settle_key c i \<noteq> LookupHoldKey j" "LookupHoldKey j \<noteq> lookup_settle_key c i"
  "LookupHoldKey j = LookupHoldKey k \<longleftrightarrow> j = k"
  by (auto simp: lookup_settle_key_def key_defs)

lemma settleLookupItemOnce_effect:
  assumes s: "settleLookupItemOnce new_id now iid c d = Inr d'" and ok: "lookup_ok d"
  obtains (same) "d' = d"
  | (posted) i p h t ws cost where "i \<in> set (lookup_items d)" "li_id i = iid" "li_billing_action i = None"
      "li_unit_sell_price i = Some p" "job_holds (li_job i) (wallet_txs d) = [h]"
      "tx_type t = (if c then DEBIT else RELEASE)" "tx_amount t = p" "tx_related_hold t = Some (tx_id h)"
      "tx_lookup_job t = Some (li_job i)" "tx_key t = Some (lookup_settle_key c iid)"
      "d' = d\<lparr>wallets := ws, wallet_txs := wallet_txs d @ [t],
          lookup_items := map (settle_item iid c cost) (lookup_items d)\<rparr>"
proof (cases "lookup_settle_read iid c d")
  case (LookupDone d0)
  have "\<not> (\<exists>item. item \<in> set (lookup_items d) \<and> li_id item = iid \<and> li_billing_action item = None \<and>
     tx_posted (li_client item) (lookup_settle_key c iid) d)"
  proof
    assume "\<exists>item. item \<in> set (lookup_items d) \<and> li_id item = iid \<and> li_billing_action item = None \<and>
       tx_posted (li_client item) (lookup_settle_key c iid) d"
    then obtain item where it: "item \<in> set (lookup_items d)" "li_id item = iid" "li_billing_action item = None"
      and "tx_posted (li_client item) (lookup_settle_key c iid) d" by blast
    from tx_posted_row [OF this(4)] obtain t where "t \<in> set (wallet_txs d)" "tx_key t = Some (lookup_settle_key c iid)"
      by blast
    with lookup_okD(8) [OF ok] obtain k where "k \<in> set (lookup_items d)" "li_id k = iid" "li_billing_action k \<noteq> None"
      unfolding tx_linked_def by blast
    with it distinct_map_inj [OF lookup_okD(3) [OF ok]] show False by metis
  qed
  with lookup_settle_read_Done [OF LookupDone] s LookupDone show ?thesis
    by (intro same) (auto simp: settleLookupItemOnce_def)
next
  case (LookupProceed item share hold)
  note R = lookup_settle_read_Proceed [OF LookupProceed]
  have m: "is_money share" using db_okD(3) [OF lookup_okD(1) [OF ok]] R(1,3) by (auto simp: prices_ok_def)
  from ok R(1) obtain j h p where H: "job_holds (li_job item) (wallet_txs d) = [h]" "li_unit_sell_price item = Some p"
    by (rule item_hold)
  have hold: "hold = h" using R(6) GetLookupJobHold_single [OF H(1)] by simp
  from s LookupProceed have "lookup_settle_write new_id now iid c item share hold d = Inr d'"
    by (simp add: settleLookupItemOnce_def)
  then show ?thesis
  proof (rule lookup_settle_write_OK)
    fix w avail d1 d2 q
    assume A: "UpdateWalletBalances avail (w_held w - share) (w_id w) (w_version w) d = Inr d1"
      "InsertWalletTransaction new_id now q d1 = Inr d2"
      "tx_type q = (if c then DEBIT else RELEASE)" "tx_amount q = share" "tx_related_hold q = Some (tx_id hold)"
      "tx_key q = Some (lookup_settle_key c iid)" "markLookupItemPosted (li_id item) c share d2 = Inr d'"
      "tx_lookup_job q = Some (li_job item)"
    from A(1,2) obtain t ws where t: "d2 = d\<lparr>wallets := ws, wallet_txs := wallet_txs d @ [t]\<rparr>"
      "tx_type t = tx_type q" "tx_amount t = round6 (tx_amount q)" "tx_related_hold t = tx_related_hold q"
      "tx_lookup_job t = tx_lookup_job q" "tx_key t = tx_key q"
      by (rule post_frame)
    from A(7) obtain cost where d': "d' = d2\<lparr>lookup_items := map (settle_item iid c cost) (lookup_items d2)\<rparr>"
      by (auto simp: markLookupItemPosted_def SetLookupItemBillingAction_def settle_item_update R(2)
          split: sum.splits)
    show ?thesis
      by (rule posted [where i = item and p = share and h = h and t = t and ws = ws and cost = cost])
        (use R A t d' H(1) hold m in \<open>simp_all add: round6_id\<close>)
  qed
qed (use s in \<open>simp add: settleLookupItemOnce_def\<close>)

lemma items_of_settle [simp]: "items_of jid (map (settle_item iid c cost) is) = map (settle_item iid c cost) (items_of jid is)"
  by (rule items_of_map) (simp add: settle_item_def)

lemma settled_items_Cons:
  "settled_items a jid (i # is) =
   (if li_job i = jid \<and> li_billing_action i = Some a then 1 else 0) + settled_items a jid is"
  by (simp add: settled_items_def)

lemma settle_item_simps [simp]:
  "li_id (settle_item iid c cost i) = li_id i" "li_job (settle_item iid c cost i) = li_job i"
  "li_client (settle_item iid c cost i) = li_client i" "li_status (settle_item iid c cost i) = li_status i"
  "li_unit_sell_price (settle_item iid c cost i) = li_unit_sell_price i"
  "li_completed_at (settle_item iid c cost i) = li_completed_at i"
  "li_poll_attempts (settle_item iid c cost i) = li_poll_attempts i"
  by (simp_all add: settle_item_def)

lemma settle_item_action:
  "li_billing_action (settle_item iid c cost i) =
   (if li_id i = iid then Some (settle_action c) else li_billing_action i)"
  by (simp add: settle_item_def)

lemma settled_items_settle:
  assumes "distinct (map li_id is)" "i \<in> set is" "li_billing_action i = None"
  shows "settled_items a jid (map (settle_item (li_id i) c cost) is) =
    settled_items a jid is + (if li_job i = jid \<and> a = settle_action c then 1 else 0)"
  using assms
proof (induction "is")
  case (Cons k "is")
  show ?case
  proof (cases "k = i")
    case True
    have "li_id x \<noteq> li_id i" if "x \<in> set is" for x
      using Cons.prems(1) True imageI [OF that, of li_id] by auto
    then have "map (settle_item (li_id i) c cost) is = is" by (intro map_idI) (simp add: settle_item_def)
    with True Cons.prems(3) show ?thesis by (simp add: settled_items_Cons settle_item_action)
  next
    case False
    with Cons.prems have i: "i \<in> set is" by simp
    with Cons.prems(1) have "li_id k \<noteq> li_id i" by (auto simp: image_iff)
    moreover have "settled_items a jid (map (settle_item (li_id i) c cost) is) =
        settled_items a jid is + (if li_job i = jid \<and> a = settle_action c then 1 else 0)"
      by (rule Cons.IH) (use Cons.prems i in simp_all)
    ultimately show ?thesis by (simp add: settled_items_Cons settle_item_action)
  qed
qed simp

lemma item_wf_settle:
  "item_wf i \<Longrightarrow> IsTerminalItem (li_status i) \<or> li_id i \<noteq> iid \<Longrightarrow> item_wf (settle_item iid c cost i)"
  by (auto simp: item_wf_def settle_item_action)

text \<open>The accounts of a job after an item was settled.\<close>

lemma job_funded_settle:
  assumes ok: "lookup_ok d" and j: "j \<in> set (lookup_jobs d)" and i: "i \<in> set (lookup_items d)"
    and act: "li_billing_action i = None" and p: "li_unit_sell_price i = Some p"
    and h: "job_holds (li_job i) (wallet_txs d) = [h]"
    and t: "tx_type t = (if c then DEBIT else RELEASE)" "tx_amount t = p" "tx_related_hold t = Some (tx_id h)"
  shows "job_funded (wallet_txs d @ [t]) (map (settle_item (li_id i) c cost) (lookup_items d)) j"
proof -
  note O = lookup_okD [OF ok]
  let ?is = "lookup_items d" and ?ts = "wallet_txs d"
  have nohold: "job_holds jid (?ts @ [t]) = job_holds jid ?ts" for jid
    using t(1) by (simp add: job_holds_snoc)
  have cnt: "settled_items a jid (map (settle_item (li_id i) c cost) ?is) =
      settled_items a jid ?is + (if li_job i = jid \<and> a = settle_action c then 1 else 0)" for a jid
    by (rule settled_items_settle [OF O(3) i act])
  from O(7) [OF j] consider (none) "items_of (lj_id j) ?is = []" "job_holds (lj_id j) ?ts = []"
    | (held) k q where  "lj_unit_sell_price j = Some q" "0 < q" "job_holds (lj_id j) ?ts = [k]" "tx_client k = lj_client j"
      "tx_amount k = q * of_int (lj_item_count j)"
      "paid DEBIT (tx_id k) ?ts = q * of_nat (settled_items ActionCapture (lj_id j) ?is)"
      "paid RELEASE (tx_id k) ?ts = q * of_nat (settled_items ActionRelease (lj_id j) ?is)"
    unfolding job_funded_def by blast
  then show ?thesis
  proof cases
    case none
    then show ?thesis by (simp add: job_funded_def nohold)
  next
    case (held k q)
    note K = held
    have own: "k = h \<and> q = p" if "li_job i = lj_id j"
    proof -
      from O(5) [OF i] obtain j' where "j' \<in> set (lookup_jobs d)" "lj_id j' = li_job i" "lj_unit_sell_price j' = Some p"
        using p by (auto simp: item_linked_def)
      moreover from this have "j' = j" using distinct_map_inj [OF O(2) _ j] that by metis
      ultimately show ?thesis using K(1,3) h that by simp
    qed
    have other: "tx_id k \<noteq> tx_id h" if "li_job i \<noteq> lj_id j"
      using distinct_map_inj [OF ledger_okD(3) [OF db_okD(1) [OF O(1)]]] job_holds_mem [OF h] job_holds_mem [OF K(3)] that
      by (metis option.inject)
    have D: "paid DEBIT (tx_id k) (?ts @ [t]) = q * of_nat (settled_items ActionCapture (lj_id j)
        (map (settle_item (li_id i) c cost) ?is))"
      unfolding paid_snoc cnt using K(6) t own other
      by (auto simp: settles_def settle_action_def algebra_simps)
    have R: "paid RELEASE (tx_id k) (?ts @ [t]) = q * of_nat (settled_items ActionRelease (lj_id j)
        (map (settle_item (li_id i) c cost) ?is))"
      unfolding paid_snoc cnt using K(7) t own other
      by (auto simp: settles_def settle_action_def algebra_simps)
    show ?thesis unfolding job_funded_def
      using K(1-5) D R by (intro disjI2 exI [of _ k] exI [of _ q]) (simp add: nohold)
  qed
qed

lemma settleLookupItemOnce_ok:
  assumes s: "settleLookupItemOnce new_id now iid c d = Inr d'" and ok: "lookup_ok d"
    and fin: "\<And>i. i \<in> set (lookup_items d) \<Longrightarrow> li_id i = iid \<Longrightarrow> IsTerminalItem (li_status i)"
  shows "lookup_ok d'"
  using s ok
proof (cases rule: settleLookupItemOnce_effect)
  case (posted i p h t ws cost)
  note O = lookup_okD [OF ok]
  let ?is = "lookup_items d" and ?g = "settle_item iid c cost"
  have ids: "map li_id (map ?g ?is) = map li_id ?is" by simp
  have jobs: "job_wf (map ?g ?is) j \<and> job_funded (wallet_txs d @ [t]) (map ?g ?is) j" if "j \<in> set (lookup_jobs d)" for j
    using O(6) [OF that] job_funded_settle [OF ok that posted(1,3,4,5,6,7,8)] posted(2)
    by (auto simp: job_wf_def list_all_iff)
  have items: "item_wf (?g i) \<and> item_linked (lookup_jobs d) (?g i)" if "i \<in> set ?is" for i
    using item_wf_settle [OF O(4) [OF that]] fin [OF that] O(5) [OF that] by (auto simp: item_linked_def)
  have kept: "\<exists>k \<in> set (map ?g ?is). li_id k = x \<and> li_billing_action k \<noteq> None"
    if "x = iid \<or> (\<exists>k \<in> set ?is. li_id k = x \<and> li_billing_action k \<noteq> None)" for x
  proof -
    from that posted(1,2) obtain k where k: "k \<in> set ?is" "li_id k = x" "x = iid \<or> li_billing_action k \<noteq> None" by blast
    then show ?thesis by (intro bexI [of _ "?g k"]) (auto simp: settle_item_action)
  qed
  have txs: "tx_linked (lookup_jobs d) (map ?g ?is) u" if "u \<in> set (wallet_txs d @ [t])" for u
  proof (cases "u \<in> set (wallet_txs d)")
    case True
    from O(8) [OF this] kept show ?thesis unfolding tx_linked_def by blast
  next
    case False
    with that have "u = t" by simp
    moreover have "li_job i \<in> lj_id ` set (lookup_jobs d)"
      using O(5) [OF posted(1)] unfolding item_linked_def by (metis imageI)
    ultimately show ?thesis using posted(9,10) kept by (auto simp: tx_linked_def)
  qed
  have "lookup_wf (lookup_jobs d) (map ?g ?is) (wallet_txs d @ [t])"
    unfolding lookup_wf_def ids using O(2,3) items jobs txs by auto
  then show ?thesis
    using settleLookupItemOnce_keeps [OF s O(1)] posted(11) by (simp add: lookup_ok_def)
qed (use ok in simp)

lemma settle_attempts_once:
  "settle_attempts ids now iid c n d = Inr d' \<Longrightarrow> \<exists>k. settleLookupItemOnce (ids k) now iid c d = Inr d'"
  by (induction n) (auto split: sum.splits if_splits)

lemma settleLookupItem_once:
  "settleLookupItem ids now iid c d = Inr d' \<Longrightarrow> \<exists>k. settleLookupItemOnce (ids k) now iid c d = Inr d'"
  by (simp add: settleLookupItem_def settle_attempts_once)

lemma settleLookupItem_ok:
  assumes "settleLookupItem ids now iid c d = Inr d'" "lookup_ok d"
    and "\<And>i. i \<in> set (lookup_items d) \<Longrightarrow> li_id i = iid \<Longrightarrow> IsTerminalItem (li_status i)"
  shows "lookup_ok d'"
  using settleLookupItem_once [OF assms(1)] settleLookupItemOnce_ok [OF _ assms(2,3)] by blast

section \<open>The remainder\<close>

text \<open>When no item blocks the remainder, the items have drawn on the whole hold.\<close>

lemma remainder_noop_once:
  assumes ok: "lookup_ok d" and r: "releaseLookupJobRemainderOnce new_id now jid d = Inr d'"
  shows "d' = d"
  using r
proof (cases rule: releaseRemainderOnce_OK)
  case (posted hold remaining)
  note O = lookup_okD [OF ok] and H = GetLookupJobHold_OK [OF posted(2)]
  from O(8) [OF H(1)] H(2) obtain j where j: "j \<in> set (lookup_jobs d)" "lj_id j = jid"
    unfolding tx_linked_def by blast
  have "hold \<in> set (job_holds jid (wallet_txs d))" using H by (simp add: job_holds_def)
  then have "job_holds jid (wallet_txs d) \<noteq> []" by auto
  with O(7) [OF j(1)] j(2) obtain k p where K: "job_holds jid (wallet_txs d) = [k]"
    "tx_amount k = p * of_int (lj_item_count j)"
    "paid DEBIT (tx_id k) (wallet_txs d) = p * of_nat (settled_items ActionCapture jid (lookup_items d))"
    "paid RELEASE (tx_id k) (wallet_txs d) = p * of_nat (settled_items ActionRelease jid (lookup_items d))"
    unfolding job_funded_def by auto
  have "unsettled_items jid (lookup_items d) = 0"
    using posted(1) by (auto simp: unsettled_items_def CountLookupItemsBlockingRemainder_def filter_empty_conv)
  moreover have "lj_item_count j = int (length (items_of jid (lookup_items d)))"
    using O(6) [OF j(1)] j(2) by (simp add: job_wf_def)
  ultimately have "tx_amount k = settled_sum (tx_id k) d"
    using K settled_split [of jid "lookup_items d"] by (simp add: settled_sum_amounts settles_paid algebra_simps)
  moreover have "hold = k" using posted(2) GetLookupJobHold_single [OF K(1)] by simp
  ultimately have "remaining = 0"
    using posted(3) settled_sum_exact [OF db_okD(1) [OF O(1)], of "tx_id k"] by simp
  with posted(4) show ?thesis by simp
qed simp

lemma remainder_attempts_noop:
  "lookup_ok d \<Longrightarrow> remainder_attempts ids now jid n d = Inr d' \<Longrightarrow> d' = d"
  by (induction n) (auto split: sum.splits if_splits dest: remainder_noop_once)

lemma ReleaseLookupJobRemainder_noop:
  "lookup_ok d \<Longrightarrow> ReleaseLookupJobRemainder ids now jid d = Inr d' \<Longrightarrow> d' = d"
  by (simp add: ReleaseLookupJobRemainder_def remainder_attempts_noop)

section \<open>An unsettled item can be settled\<close>

lemma GetLookupItem_mem:
  "distinct (map li_id (lookup_items d)) \<Longrightarrow> i \<in> set (lookup_items d) \<Longrightarrow> GetLookupItem (li_id i) d = Inr i"
  using distinct_map_find [of li_id "lookup_items d" i] by (simp add: GetLookupItem_def)

lemma unsettled_key_free:
  assumes "lookup_ok d" "i \<in> set (lookup_items d)" "li_billing_action i = None" "t \<in> set (wallet_txs d)"
  shows "tx_key t \<noteq> Some (lookup_settle_key c (li_id i))"
proof
  assume "tx_key t = Some (lookup_settle_key c (li_id i))"
  with lookup_okD(8) [OF assms(1,4)] obtain k where
    "k \<in> set (lookup_items d)" "li_id k = li_id i" "li_billing_action k \<noteq> None"
    unfolding tx_linked_def by blast
  with distinct_map_inj [OF lookup_okD(3) [OF assms(1)] _ assms(2)] assms(3) show False by metis
qed

lemma lookup_settle_read_proceeds:
  assumes ok: "lookup_ok d" and i: "i \<in> set (lookup_items d)" "li_billing_action i = None"
    "\<not> clientDeleted (li_client i) d"
  obtains p h where "lookup_settle_read (li_id i) c d = LookupProceed i p h" "li_unit_sell_price i = Some p"
    "0 < p" "h \<in> set (wallet_txs d)" "tx_type h = HOLD" "tx_client h = li_client i"
    "p \<le> open_amount (wallet_txs d) h"
proof -
  note O = lookup_okD [OF ok]
  note L = db_okD(1) [OF O(1)]
  from ok i(1) obtain j h p where H: "li_unit_sell_price i = Some p" "0 < p"
    "job_holds (li_job i) (wallet_txs d) = [h]" "tx_client h = li_client i"
    by (rule item_hold)
  note M = job_holds_mem [OF H(3)]
  have free: "\<not> tx_posted (li_client i) (lookup_settle_key c (li_id i)) d"
    using unsettled_key_free [OF ok i(1,2)] tx_posted_row by blast
  have "i \<in> set (filter (\<lambda>k. li_job k = li_job i \<and> li_billing_action k = None) (lookup_items d))"
    using i by simp
  then have "1 \<le> unsettled_items (li_job i) (lookup_items d)"
    unfolding unsettled_items_def by (metis One_nat_def Suc_leI length_pos_if_in_set)
  then have "p * 1 \<le> p * of_nat (unsettled_items (li_job i) (lookup_items d))"
    using H(2) by (intro mult_left_mono) simp_all
  then have le: "p \<le> open_amount (wallet_txs d) h" using hold_open_amount [OF ok i(1) H(3,1)] by simp
  have amt: "storable (tx_amount h)" using ledger_okD(12) [OF L] M by (simp add: tx_stored_def)
  have "0 \<le> settled_sum (tx_id h) d"
    unfolding settled_sum_def by (rule sum_list_nonneg) (use ledger_okD(7) [OF L] in auto)
  moreover have "settled_sum (tx_id h) d \<le> tx_amount h"
    using le H(2) by (simp add: settled_sum_amounts open_amount_def)
  ultimately have sum: "0 \<le> settled_sum (tx_id h) d" "settled_sum (tx_id h) d \<le> tx_amount h" by simp_all
  have "is_money (settled_sum (tx_id h) d)"
    unfolding settled_sum_amounts by (rule is_money_sum_amounts) (rule ledger_okD(6) [OF L])
  then have "storable (settled_sum (tx_id h) d)" using amt sum by (simp add: storable_def)
  then have chk: "lookup_hold_check i p d = LookupProceed i p h"
    using GetLookupJobHold_single [OF H(3)] sum(2) le
    by (simp add: lookup_hold_check_def SumSettledAgainstHold_def billing_money_storable RemainingOnHold_def
        open_amount_def settled_sum_amounts)
  have "lookup_settle_read (li_id i) c d = LookupProceed i p h"
    using GetLookupItem_mem [OF O(3) i(1)] i H(1,2) free chk mustPositive_None [of p "''item_amount''"]
    by (simp add: lookup_settle_read_def)
  then show thesis using H M le by (intro that [of p h]) simp_all
qed

lemma settle_lookup_succeeds:
  assumes ok: "lookup_ok d" and i: "i \<in> set (lookup_items d)" "li_billing_action i = None"
      "\<not> clientDeleted (li_client i) d"
    and lock: "LockWalletByClientID (li_client i) d = Inr w" and ver: "w_version w < int4_max"
    and fresh: "new_id \<notin> tx_id ` set (wallet_txs d)" and p: "li_unit_sell_price i = Some p"
    and range: "storable (w_available w + (if c then 0 else p))"
  obtains d' cost where "settleLookupItemOnce new_id now (li_id i) c d = Inr d'"
    "lookup_items d' = map (settle_item (li_id i) c cost) (lookup_items d)"
    "GetWalletByClientID (li_client i) d' = Inr (w\<lparr>w_available := w_available w + (if c then 0 else p),
       w_held := w_held w - p, w_version := w_version w + 1\<rparr>)"
proof -
  note L = db_okD(1) [OF lookup_okD(1) [OF ok]]
  from ok i obtain q h where R: "lookup_settle_read (li_id i) c d = LookupProceed i q h"
    and q: "li_unit_sell_price i = Some q"
    and P: "0 < q" "h \<in> set (wallet_txs d)" "tx_type h = HOLD" "tx_client h = li_client i"
      "q \<le> open_amount (wallet_txs d) h"
    by (rule lookup_settle_read_proceeds)
  have qp: "q = p" using q p by simp
  let ?avail = "w_available w + (if c then 0 else p)" and ?held = "w_held w - p"
  from LockWallet_OK [OF lock] have w: "w \<in> set (wallets d)" "w_client w = li_client i" by simp_all
  have le: "p \<le> w_held w"
    using open_amount_le_held [OF L w(1) P(2,3)] P(4,5) w(2) qp by simp
  have cur: "char3 (tx_currency h) = Inr (tx_currency h)" using ledger_okD(12) [OF L P(2)] by (simp add: tx_stored_def)
  have m: "is_money p" using db_okD(3) [OF lookup_okD(1) [OF ok]] i(1) p by (auto simp: prices_ok_def)
  have sw: "storable (w_held w)" using ledger_okD(11) [OF L w(1)] by (simp add: wallet_stored_def)
  have st: "storable ?held" "storable p" using sw m le P(1) qp by (auto simp: storable_def is_money_diff)
  obtain d1 where upd: "UpdateWalletBalances ?avail ?held (w_id w) (w_version w) d = Inr d1"
    by (rule UpdateWalletBalances_succeeds [OF w(1) range st(1) _ ver]) (use le in simp)
  have txs: "wallet_txs d1 = wallet_txs d" "lookup_items d1 = lookup_items d"
    using UpdateWalletBalances_OK(1) [OF upd] by simp_all
  have app: "(if c then applyDebitFromHold (w_available w) (w_held w) p
      else applyRelease (w_available w) (w_held w) p) = Inr (?avail, ?held)"
    using le by (auto simp: applyDebit_OK applyRelease_OK)
  define row where "row = \<lparr>tx_id = [], tx_wallet = w_id w, tx_client = li_client i,
      tx_type = (if c then DEBIT else RELEASE), tx_amount = p, tx_currency = tx_currency h,
      tx_after_available = Some ?avail, tx_after_held = Some ?held, tx_related_hold = Some (tx_id h),
      tx_sms_message = None, tx_lookup_job = Some (li_job i), tx_lookup_item = Some (li_id i),
      tx_key = Some (lookup_settle_key c (li_id i)),
      tx_description = Some (if c then ''Capture lookup'' else ''Release lookup''),
      tx_metadata = [(''lookup_job_id'', JString (li_job i)), (''lookup_item_id'', JString (li_id i)),
        (''phone_e164'', JString (li_phone i)), (''unit_sell_price'', JMoney p), (''price_source'', JString ''item_snapshot'')],
      tx_created_by = None, tx_created_at = now\<rparr>"
  obtain d2 where ins: "InsertWalletTransaction new_id now row d1 = Inr d2"
    by (rule InsertWalletTransaction_succeeds [of row "tx_currency h" ?avail ?held new_id d1])
      (use cur st range fresh txs P(1) qp unsettled_key_free [OF ok i(1,2)] in \<open>auto simp: row_def\<close>)
  have "billing_money p = Inr p" using st(2) by (rule billing_money_storable)
  then obtain cost where mark: "markLookupItemPosted (li_id i) c p d2 =
      Inr (d2\<lparr>lookup_items := map (settle_item (li_id i) c cost) (lookup_items d2)\<rparr>)"
    by (cases c) (auto simp: markLookupItemPosted_def SetLookupItemBillingAction_def billing_money_opt_def settle_item_update)
  from ins obtain t where d2: "d2 = d1\<lparr>wallet_txs := wallet_txs d1 @ [t]\<rparr>"
    by (rule InsertWalletTransaction_OK)
  have r6: "round6 ?avail = ?avail" "round6 ?held = ?held" using range st by (simp_all add: storable_def round6_id)
  show thesis
  proof (rule that)
    show "settleLookupItemOnce new_id now (li_id i) c d =
        Inr (d2\<lparr>lookup_items := map (settle_item (li_id i) c cost) (lookup_items d2)\<rparr>)"
      unfolding settleLookupItemOnce_def R qp lookup_settle_plan.case lookup_settle_write_def lock sum.case app prod.case upd
      using ins mark by (simp add: row_def)
    show "lookup_items (d2\<lparr>lookup_items := map (settle_item (li_id i) c cost) (lookup_items d2)\<rparr>) =
        map (settle_item (li_id i) c cost) (lookup_items d)" using d2 txs by simp
    show "GetWalletByClientID (li_client i) (d2\<lparr>lookup_items := map (settle_item (li_id i) c cost) (lookup_items d2)\<rparr>) =
        Inr (w\<lparr>w_available := ?avail, w_held := ?held, w_version := w_version w + 1\<rparr>)"
      using post_wallet [OF lock upd] r6 unfolding d2 by (simp add: GetWalletByClientID_def)
  qed
qed

end
