(* ===== verification/LookupJobs.thy ===== *)
theory LookupJobs
  imports LookupMoney
begin

text \<open>
  The creation of a job keeps the lookup invariant: the job, one item per phone number and the
  hold on their price appear together or not at all.
\<close>

section \<open>Inserts\<close>

lemma InsertLookupJob_OK:
  assumes "InsertLookupJob new_id now p d = Inr (j, d')"
  shows "d' = d\<lparr>lookup_jobs := lookup_jobs d @ [j]\<rparr>" "lj_id j = new_id" "new_id \<notin> lj_id ` set (lookup_jobs d)"
    "lj_client j = lj_client p" "lj_status j = lj_status p" "lj_item_count j = lj_item_count p"
    "lj_tariff_plan_id j = lj_tariff_plan_id p" "lj_tariff_plan_code j = lj_tariff_plan_code p"
    "lj_idempotency_key j = lj_idempotency_key p" "lj_check_type j = lj_check_type p"
    "billing_money_opt (lj_unit_sell_price p) = Inr (lj_unit_sell_price j)"
    "char3 (lj_currency p) = Inr (lj_currency j)"
  using assms by (auto simp: InsertLookupJob_def Let_def split: sum.splits if_splits)

lemma new_item_OK:
  assumes "new_item n now p = Inr i"
  shows "li_id i = n" "li_job i = li_job p" "li_client i = li_client p" "li_check_type i = li_check_type p"
    "li_status i = ItemQueued" "li_phone i = li_phone p" "li_phone_digits i = li_phone_digits p"
    "li_provider_message_id i = None" "li_billing_action i = None" "li_completed_at i = None"
    "li_poll_attempts i = 0" "li_created_at i = now" "li_sent_at i = None" "li_next_poll_at i = None"
    "billing_money_opt (li_unit_sell_price p) = Inr (li_unit_sell_price i)"
  using assms by (auto simp: new_item_def split: sum.splits option.splits)

lemma InsertLookupItems_OK:
  assumes "InsertLookupItems ids now k ps d = Inr d'" "distinct (map li_id (lookup_items d))"
  obtains "is" where "d' = d\<lparr>lookup_items := lookup_items d @ is\<rparr>"
    "list_all2 (\<lambda>p i. \<exists>n. new_item n now p = Inr i) ps is" "distinct (map li_id (lookup_items d @ is))"
proof -
  have "\<exists>is. d' = d\<lparr>lookup_items := lookup_items d @ is\<rparr> \<and>
      list_all2 (\<lambda>p i. \<exists>n. new_item n now p = Inr i) ps is \<and> distinct (map li_id (lookup_items d @ is))"
    using assms
  proof (induction ps arbitrary: k d)
    case (Cons p ps)
    from Cons.prems(1) obtain i where i: "new_item (ids k) now p = Inr i" "ids k \<notin> li_id ` set (lookup_items d)"
      "InsertLookupItems ids now (Suc k) ps (d\<lparr>lookup_items := lookup_items d @ [i]\<rparr>) = Inr d'"
      by (auto split: sum.splits if_splits)
    have "distinct (map li_id (lookup_items (d\<lparr>lookup_items := lookup_items d @ [i]\<rparr>)))"
      using Cons.prems(2) i(2) new_item_OK(1) [OF i(1)] by simp
    from Cons.IH [OF i(3) this] obtain "is" where I:
      "d' = d\<lparr>lookup_items := (lookup_items d @ [i]) @ is\<rparr>"
      "list_all2 (\<lambda>p i. \<exists>n. new_item n now p = Inr i) ps is"
      "distinct (map li_id ((lookup_items d @ [i]) @ is))" by auto
    then show ?case using i(1) by (intro exI [of _ "i # is"]) auto
  qed auto
  then show thesis using that by blast
qed

text \<open>The rows of the listed ids that have no provider id get the one computed from theirs.\<close>

definition stamp_row :: "(string \<Rightarrow> string) \<Rightarrow> time \<Rightarrow> uuid list \<Rightarrow> lookup_item \<Rightarrow> lookup_item" where
  "stamp_row sha256 now iids i =
     (if li_id i \<in> set iids \<and> no_provider_id i
      then i\<lparr>li_provider_code := ProviderCode,
             li_provider_message_id := Some (ClientSendID sha256 (li_check_type i) (li_id i)), li_updated_at := now\<rparr>
      else i)"

lemma itoa_not_Nil [simp]: "itoa k \<noteq> []"
proof -
  have "nat_digits n \<noteq> []" for n by (subst nat_digits.simps) simp
  then show ?thesis by (simp add: itoa_def)
qed

lemma stamp_row_simps [simp]:
  "li_id (stamp_row s now iids i) = li_id i" "li_job (stamp_row s now iids i) = li_job i"
  "li_status (stamp_row s now iids i) = li_status i" "li_client (stamp_row s now iids i) = li_client i"
  "li_phone (stamp_row s now iids i) = li_phone i" "li_check_type (stamp_row s now iids i) = li_check_type i"
  "li_phone_digits (stamp_row s now iids i) = li_phone_digits i"
  "li_unit_sell_price (stamp_row s now iids i) = li_unit_sell_price i"
  "li_billing_action (stamp_row s now iids i) = li_billing_action i"
  by (simp_all add: stamp_row_def)

lemma stamp_row_safe: "safe_item i (stamp_row s now iids i)"
proof -
  have "item_wf (stamp_row s now iids i) = item_wf i" by (simp add: item_wf_def stamp_row_def)
  then show ?thesis by (simp add: safe_item_def same_item_def)
qed

lemma stamp_row_append:
  assumes "no_provider_id i \<Longrightarrow> li_id i = iid \<Longrightarrow> li_check_type i = ct"
  shows "stamp_row s now iids (if li_id i = iid \<and> no_provider_id i
      then i\<lparr>li_provider_code := ProviderCode, li_provider_message_id := Some (ClientSendID s ct iid),
           li_updated_at := now\<rparr> else i)
    = stamp_row s now (iid # iids) i"
  using assms by (auto simp: stamp_row_def no_provider_id_def ClientSendID_def)

lemma stamp_items_OK:
  assumes "stamp_items s now is d = Inr d'" "distinct (map li_id is)"
    and "\<And>i r. i \<in> set is \<Longrightarrow> r \<in> set (lookup_items d) \<Longrightarrow> li_id r = li_id i \<Longrightarrow>
      li_check_type r = li_check_type i \<and> li_provider_message_id r = li_provider_message_id i"
  shows "d' = d\<lparr>lookup_items := map (stamp_row s now (map li_id is)) (lookup_items d)\<rparr>"
  using assms
proof (induction "is" arbitrary: d)
  case Nil
  then show ?case by (simp add: stamp_row_def)
next
  case (Cons i "is")
  have rows: "li_check_type r = li_check_type i \<and> li_provider_message_id r = li_provider_message_id i"
    if "r \<in> set (lookup_items d)" "li_id r = li_id i" for r using Cons.prems(3) [of i r] that by simp
  have no: "no_provider_id i \<longleftrightarrow> lookup_deref (li_provider_message_id i) = []"
    by (auto simp: no_provider_id_def lookup_deref_def split: option.splits)
  show ?case
  proof (cases "no_provider_id i")
    case False
    with no Cons.prems(1) have "stamp_items s now is d = Inr d'" by simp
    then have "d' = d\<lparr>lookup_items := map (stamp_row s now (map li_id is)) (lookup_items d)\<rparr>"
    proof (rule Cons.IH)
      show "distinct (map li_id is)" using Cons.prems(2) by simp
    qed (meson Cons.prems(3) list.set_intros(2))
    moreover have same: "stamp_row s now (map li_id is) r = stamp_row s now (map li_id (i # is)) r"
      if "r \<in> set (lookup_items d)" for r
    proof (cases "li_id r = li_id i")
      case True
      then have "\<not> no_provider_id r" using rows [OF that] False by (simp add: no_provider_id_def)
      then show ?thesis by (simp add: stamp_row_def)
    qed (simp add: stamp_row_def)
    have "map (stamp_row s now (map li_id is)) (lookup_items d) =
        map (stamp_row s now (map li_id (i # is))) (lookup_items d)"
      by (rule map_cong [OF refl same])
    ultimately show ?thesis by (simp only:)
  next
    case True
    let ?f = "\<lambda>r. r\<lparr>li_provider_code := ProviderCode,
        li_provider_message_id := Some (ClientSendID s (li_check_type i) (li_id i)), li_updated_at := now\<rparr>"
    let ?g = "\<lambda>r. if li_id r = li_id i \<and> no_provider_id r then ?f r else r"
    define d1 where "d1 = d\<lparr>lookup_items := map ?g (lookup_items d)\<rparr>"
    from True no Cons.prems(1) have st: "stamp_items s now is d1 = Inr d'"
      by (auto simp: StampLookupItemClientSendID_def Let_def d1_def update_where_def split: sum.splits if_splits)
    have "li_check_type r = li_check_type k \<and> li_provider_message_id r = li_provider_message_id k"
      if k: "k \<in> set is" and r: "r \<in> set (lookup_items d1)" "li_id r = li_id k" for k r
    proof -
      from r(1) obtain q where q: "q \<in> set (lookup_items d)" "r = ?g q" by (auto simp: d1_def)
      have "li_id q = li_id k" using r(2) q(2) by (auto split: if_splits)
      moreover have "li_id k \<noteq> li_id i" using Cons.prems(2) k by (auto simp: image_iff)
      ultimately show ?thesis using Cons.prems(3) [of k q] k q by simp
    qed
    then have "d' = d1\<lparr>lookup_items := map (stamp_row s now (map li_id is)) (lookup_items d1)\<rparr>"
      by (intro Cons.IH [OF st]) (use Cons.prems(2) in simp_all)
    then have "d' = d\<lparr>lookup_items := map (stamp_row s now (map li_id is) \<circ> ?g) (lookup_items d)\<rparr>"
      by (simp add: d1_def)
    moreover have both: "(stamp_row s now (map li_id is) \<circ> ?g) r = stamp_row s now (map li_id (i # is)) r"
      if "r \<in> set (lookup_items d)" for r
      using stamp_row_append [of r "li_id i" "li_check_type i" s now "map li_id is"] rows [OF that] by simp
    have "map (stamp_row s now (map li_id is) \<circ> ?g) (lookup_items d) =
        map (stamp_row s now (map li_id (i # is))) (lookup_items d)"
      by (rule map_cong [OF refl both])
    ultimately show ?thesis by (simp only:)
  qed
qed

section \<open>The transaction\<close>

lemma create_checks_OK:
  assumes "create_checks required79 settings now i pool = Inr (Inr (ct, src, phones, deduped, est))"
  obtains view where "ci_check_type i = Some ct" "ci_source i = Some src" "settings = Inr view" "sp_lookup_enabled view"
    "client_active (ci_client i) pool"
    "PreparePhones required79 (ci_phones i) (source_string src)
       (if ci_max_phones i \<le> 0 then sp_max_batch_phones view else ci_max_phones i) (ci_cap_name i) = Inr (phones, deduped)"
    "EstimateLookup now (ci_client i) ct (int (length phones)) pool = Inr est"
    "\<not> clientDeleted (ci_client i) pool"
proof -
  have act: "client_active (ci_client i) pool \<and> \<not> clientDeleted (ci_client i) pool"
    if "GetClientByID (ci_client i) pool = Inr cl" "cl_status cl = ClientActive" for cl
    using that
    by (auto simp: GetClientByID_def client_active_def clientDeleted_def list_ex_iff split: option.splits dest!: find_Some_mem)
  show thesis
    using assms act
    by (auto simp: create_checks_def Let_def split: option.splits sum.splits if_splits prod.splits intro!: that)
qed

lemma create_job_OK:
  assumes "create_job sha256 required79 ids now settings i pool d = (Inr r, t)" "\<not> cr_deduplicated r"
  obtains ct src phones deduped est job d1 d2 d3 d4 where "t = Live d4"
    "create_checks required79 settings now i pool = Inr (Inr (ct, src, phones, deduped, est))"
    "InsertLookupJob (cid_job ids) now (job_params i ct src phones est) d = Inr (job, d1)"
    "InsertLookupItems (cid_items ids) now 0 (map (item_params (lj_id job) i ct est) phones) d1 = Inr d2"
    "stampClientSendIDs sha256 now (lj_id job) d2 = Inr d3"
    "ReserveForLookupJob (cid_hold ids) now (Some d3) job = Inr d4"
    "r = \<lparr>cr_job = job, cr_deduplicated = False, cr_dedup_phones = deduped, cr_work_units = int (length phones)\<rparr>"
  using assms
  by (auto simp: create_job_def replayed_def Let_def split: sum.splits option.splits prod.splits)

lemma CreateJob_OK:
  assumes "CreateJob sha256 required79 ids now settings i d = Inr (r, d')" "\<not> cr_deduplicated r"
  shows "create_job sha256 required79 ids now settings i d d = (Inr r, Live d')"
  using assms by (auto simp: CreateJob_def tx_commit_def split: sum.splits prod.splits pgtx.splits if_splits)

lemma EstimateLookup_price:
  assumes "EstimateLookup now cid ct n d = Inr est"
  shows "0 < es_unit_sell_price est"
proof -
  from assms obtain t where "ResolveTariff now cid (ProductForCheckType ct) d = Inr t"
    "es_unit_sell_price est = rt_sell_price t"
    by (auto simp: EstimateLookup_def Let_def split: sum.splits if_splits)
  then show ?thesis by (auto elim: ResolveTariff_OK)
qed

lemma item_params_simps [simp]:
  "li_job (item_params jid i ct est ph) = jid" "li_client (item_params jid i ct est ph) = ci_client i"
  "li_check_type (item_params jid i ct est ph) = ct" "li_phone (item_params jid i ct est ph) = ph"
  "li_phone_digits (item_params jid i ct est ph) = PhoneDigits ph"
  "li_unit_sell_price (item_params jid i ct est ph) = Some (es_unit_sell_price est)"
  by (simp_all add: item_params_def)

text \<open>The job and its items before the reservation.\<close>

lemma create_rows:
  assumes ok: "lookup_ok d"
    and job: "InsertLookupJob jid now (job_params i ct src phones est) d = Inr (job, d1)"
    and items: "InsertLookupItems ids now 0 (map (item_params (lj_id job) i ct est) phones) d1 = Inr d2"
    and stamp: "stampClientSendIDs sha256 now (lj_id job) d2 = Inr d3"
  obtains new where
    "d3 = d\<lparr>lookup_jobs := lookup_jobs d @ [job], lookup_items := lookup_items d @ new\<rparr>"
    "list_all2 (\<lambda>ph k. li_phone k = ph \<and> li_phone_digits k = PhoneDigits ph \<and>
        li_provider_message_id k = Some (ClientSendID sha256 ct (li_id k))) phones new"
    "\<And>k. k \<in> set new \<Longrightarrow> li_job k = jid \<and> li_client k = ci_client i \<and> li_check_type k = ct \<and>
        li_status k = ItemQueued \<and> li_unit_sell_price k = lj_unit_sell_price job \<and> li_billing_action k = None \<and>
        item_wf k"
    "distinct (map li_id (lookup_items d @ new))"
proof -
  note O = lookup_okD [OF ok] and J = InsertLookupJob_OK [OF job]
  have dist: "distinct (map li_id (lookup_items d1))" using O(3) J(1) by simp
  from items dist obtain raw where raw: "d2 = d1\<lparr>lookup_items := lookup_items d1 @ raw\<rparr>"
    "list_all2 (\<lambda>p i. \<exists>n. new_item n now p = Inr i) (map (item_params (lj_id job) i ct est) phones) raw"
    "distinct (map li_id (lookup_items d1 @ raw))" by (rule InsertLookupItems_OK)
  have R: "list_all2 (\<lambda>ph k. \<exists>n. new_item n now (item_params jid i ct est ph) = Inr k) phones raw"
    using raw(2) J(2) by (simp add: list_all2_map1)
  have K: "\<exists>ph n. new_item n now (item_params jid i ct est ph) = Inr k" if "k \<in> set raw" for k
    using R that unfolding list_all2_conv_all_nth in_set_conv_nth by metis
  have rawjob: "li_job k = jid" if "k \<in> set raw" for k
    using K [OF that] by (auto dest!: new_item_OK(2))
  have old: "li_job k \<noteq> jid" if "k \<in> set (lookup_items d)" for k
    using O(5) [OF that] J(3) unfolding item_linked_def by (metis imageI)
  have price: "billing_money_opt (Some (es_unit_sell_price est)) = Inr (lj_unit_sell_price job)"
    using J(11) by (simp add: job_params_def)
  let ?st = "stamp_row sha256 now (map li_id (ListLookupItemsByJob (lj_id job) d2))"
  have own: "set (ListLookupItemsByJob (lj_id job) d2) = set raw"
    using raw(1) J(1,2) old rawjob by (auto simp: ListLookupItemsByJob_def job_items_def)
  have tab: "lookup_items d2 = lookup_items d @ raw" using raw(1) J(1) by simp
  have d3: "d3 = d2\<lparr>lookup_items := map ?st (lookup_items d2)\<rparr>"
  proof (rule stamp_items_OK [OF stamp [unfolded stampClientSendIDs_def]])
    have "distinct (map li_id (lookup_items d2))" using raw(1,3) by simp
    then have "inj_on li_id (set (lookup_items d2))" "distinct (lookup_items d2)" by (simp_all add: distinct_map)
    moreover have "set (ListLookupItemsByJob (lj_id job) d2) \<subseteq> set (lookup_items d2)" using own tab by simp
    moreover have "distinct (ListLookupItemsByJob (lj_id job) d2)"
      using calculation(2) by (simp add: ListLookupItemsByJob_def job_items_def)
    ultimately show "distinct (map li_id (ListLookupItemsByJob (lj_id job) d2))"
      by (simp add: distinct_map inj_on_subset)
    fix a r
    assume "a \<in> set (ListLookupItemsByJob (lj_id job) d2)" "r \<in> set (lookup_items d2)" "li_id r = li_id a"
    then have "r = a" using own tab raw(1,3) distinct_map_inj [of li_id "lookup_items d2" r a] by auto
    then show "li_check_type r = li_check_type a \<and> li_provider_message_id r = li_provider_message_id a" by simp
  qed
  have keep: "?st k = k" if "k \<in> set (lookup_items d)" for k
  proof -
    have "li_id k \<notin> li_id ` set raw" using raw(1,3) J(1) that by auto
    then show ?thesis by (simp add: stamp_row_def own)
  qed
  have new: "?st k = k\<lparr>li_provider_code := ProviderCode,
      li_provider_message_id := Some (ClientSendID sha256 ct (li_id k)), li_updated_at := now\<rparr>" if "k \<in> set raw" for k
  proof -
    from K [OF that] obtain ph n where "new_item n now (item_params jid i ct est ph) = Inr k" by blast
    from new_item_OK(4,8) [OF this] that show ?thesis by (simp add: stamp_row_def own no_provider_id_def)
  qed
  show thesis
  proof (rule that [of "map ?st raw"])
    show "d3 = d\<lparr>lookup_jobs := lookup_jobs d @ [job], lookup_items := lookup_items d @ map ?st raw\<rparr>"
      using d3 raw(1) J(1) keep by (simp add: map_idI)
    show "list_all2 (\<lambda>ph k. li_phone k = ph \<and> li_phone_digits k = PhoneDigits ph \<and>
        li_provider_message_id k = Some (ClientSendID sha256 ct (li_id k))) phones (map ?st raw)"
      unfolding list_all2_map2
      by (rule list.rel_mono_strong [OF R]) (use new in \<open>auto dest: new_item_OK(6) new_item_OK(7)\<close>)
    show "distinct (map li_id (lookup_items d @ map ?st raw))" using raw(1,3) J(1) by (simp add: comp_def)
    fix k
    assume "k \<in> set (map ?st raw)"
    then obtain q where q: "q \<in> set raw" "k = ?st q" by auto
    from K [OF q(1)] obtain ph n where N: "new_item n now (item_params jid i ct est ph) = Inr q" by blast
    note I = new_item_OK [OF N]
    show "li_job k = jid \<and> li_client k = ci_client i \<and> li_check_type k = ct \<and>
        li_status k = ItemQueued \<and> li_unit_sell_price k = lj_unit_sell_price job \<and> li_billing_action k = None \<and>
        item_wf k"
      using q I price new [OF q(1)] by (simp add: item_wf_def IsTerminalItem_def PollMaxAttempts_def)
  qed
qed

lemma ReserveForLookupJob_posts:
  assumes "ReserveForLookupJob new_id now (Some d) job = Inr d'" "\<not> clientDeleted (lj_client job) d"
    "\<not> tx_posted (lj_client job) (LookupHoldKey (lj_id job)) d"
  obtains price amt w d1 p where
      "lj_unit_sell_price job = Some price" "1 \<le> lj_item_count job"
      "amt = price * of_int (lj_item_count job)" "0 < amt" "amt \<le> w_available w"
      "LockWalletByClientID (lj_client job) d = Inr w"
      "UpdateWalletBalances (w_available w - amt) (w_held w + amt) (w_id w) (w_version w) d = Inr d1"
      "InsertWalletTransaction new_id now p d1 = Inr d'"
      "tx_client p = lj_client job" "tx_type p = HOLD" "tx_amount p = amt"
      "tx_related_hold p = None" "tx_sms_message p = None" "tx_lookup_job p = Some (lj_id job)"
      "tx_key p = Some (LookupHoldKey (lj_id job))"
  using assms
  by (auto simp: ReserveForLookupJob_def Let_def apply_OK split: option.splits sum.splits if_splits
      prod.splits intro!: that)

lemma paid_fresh:
  assumes "ledger_ok ws ts" "hid \<notin> tx_id ` set ts"
  shows "paid ty hid ts = 0"
proof -
  have "\<not> settles hid t" if "t \<in> set ts" for t
  proof
    assume s: "settles hid t"
    then have "is_settlement t" by (auto simp: settles_def is_settlement_def)
    with ledger_okD(8) [OF assms(1) that] obtain h where "h \<in> set ts" "tx_related_hold t = Some (tx_id h)"
      by (auto simp: settlement_linked_def)
    with s assms(2) show False by (auto simp: settles_def)
  qed
  then have "filter (\<lambda>t. settles hid t \<and> tx_type t = ty) ts = []" by (simp add: filter_empty_conv)
  then show ?thesis by (simp add: paid_def sum_amounts_def)
qed

lemma lookup_wf_create:
  assumes wf: "lookup_wf js is ts" and led: "ledger_ok ws ts"
    and job: "lj_id job \<notin> lj_id ` set js" "\<not> IsTerminalJob (lj_status job)" "lj_unit_sell_price job = Some p" "0 < p"
      "lj_item_count job = int (length new)" "length new \<le> nat int4_max"
    and new: "distinct (map li_id (is @ new))" "\<And>k. k \<in> set new \<Longrightarrow> li_job k = lj_id job \<and> li_client k = lj_client job \<and>
       li_unit_sell_price k = Some p \<and> li_billing_action k = None \<and> item_wf k"
    and h: "tx_id h \<notin> tx_id ` set ts" "tx_type h = HOLD" "tx_lookup_job h = Some (lj_id job)" "tx_client h = lj_client job"
      "tx_amount h = p * of_nat (length new)" "tx_key h = Some (LookupHoldKey (lj_id job))" "tx_related_hold h = None"
  shows "lookup_wf (js @ [job]) (is @ new) (ts @ [h])"
proof -
  have old: "li_job i \<noteq> lj_id job" if "i \<in> set is" for i
  proof -
    from wf that have "item_linked js i" by (simp add: lookup_wf_def)
    then show ?thesis using job(1) unfolding item_linked_def by (metis imageI)
  qed
  have oldtx: "tx_lookup_job t \<noteq> Some (lj_id job)" if "t \<in> set ts" for t
    using wf that job(1) by (auto simp: lookup_wf_def tx_linked_def)
  have notset: "\<not> settles x h" for x using h(2) by (simp add: settles_def)
  have paid: "paid ty hid (ts @ [h]) = paid ty hid ts" for ty hid by (simp add: paid_snoc notset)
  have own_old: "items_of (lj_id j) (is @ new) = items_of (lj_id j) is" if "j \<in> set js" for j
  proof -
    have "lj_id job \<noteq> lj_id j" using job(1) that by auto
    then show ?thesis using new(2) by (auto simp: items_of_def filter_empty_conv)
  qed
  have settled_old: "settled_items a x (is @ new) = settled_items a x is" for a x
    using new(2) by (auto simp: settled_items_def filter_empty_conv)
  have own_new: "items_of (lj_id job) (is @ new) = new"
  proof -
    have "filter (\<lambda>i. li_job i = lj_id job) is = []" using old by (simp add: filter_empty_conv)
    moreover have "filter (\<lambda>i. li_job i = lj_id job) new = new" using new(2) by (simp add: filter_id_conv)
    ultimately show ?thesis by (simp add: items_of_def)
  qed
  have settled_new: "settled_items a (lj_id job) is = 0" for a
    using old by (auto simp: settled_items_def filter_empty_conv)
  have holds_old: "job_holds (lj_id j) (ts @ [h]) = job_holds (lj_id j) ts" if "j \<in> set js" for j
    using job(1) that h(3) by (auto simp: job_holds_snoc)
  have holds_new: "job_holds (lj_id job) (ts @ [h]) = [h]"
  proof -
    have "job_holds (lj_id job) ts = []" using oldtx by (simp add: job_holds_def filter_empty_conv)
    then show ?thesis using h by (simp add: job_holds_snoc)
  qed
  have jobs_old: "job_wf (is @ new) j \<and> job_funded (ts @ [h]) (is @ new) j" if j: "j \<in> set js" for j
  proof
    show "job_wf (is @ new) j" using wf j by (simp add: lookup_wf_def job_wf_def own_old)
    have "job_funded ts is j" using wf j by (simp add: lookup_wf_def)
    then show "job_funded (ts @ [h]) (is @ new) j" by (simp add: job_funded_def own_old [OF j] holds_old [OF j] settled_old paid)
  qed
  have job_new: "job_wf (is @ new) job \<and> job_funded (ts @ [h]) (is @ new) job"
    using job h(4,5) paid_fresh [OF led h(1)]
    by (auto simp: job_wf_def job_funded_def own_new holds_new settled_old settled_new paid)
  have items: "item_wf i \<and> item_linked (js @ [job]) i" if "i \<in> set (is @ new)" for i
  proof (cases "i \<in> set new")
    case True
    then show ?thesis using new(2) [OF True] job(3) by (auto simp: item_linked_def)
  next
    case False
    with that wf have "item_wf i \<and> item_linked js i" by (auto simp: lookup_wf_def)
    then show ?thesis by (auto simp: item_linked_def)
  qed
  have txs: "tx_linked (js @ [job]) (is @ new) t" if "t \<in> set (ts @ [h])" for t
  proof (cases "t \<in> set ts")
    case True
    with wf have "tx_linked js is t" by (simp add: lookup_wf_def)
    then show ?thesis unfolding tx_linked_def by fastforce
  next
    case False
    with that have "t = h" by simp
    then show ?thesis using h(3,6) by (auto simp: tx_linked_def)
  qed
  show ?thesis
    using wf job(1) new(1) items jobs_old job_new txs by (auto simp: lookup_wf_def)
qed

lemma create_effect:
  assumes c: "create_job sha256 required79 ids now settings i d d = (Inr r, Live d')" "\<not> cr_deduplicated r"
    and ok: "lookup_ok d" and len: "int (length (ci_phones i)) \<le> 2147483647"
  obtains job new h ws p phones ct n src view est where
    "d' = d\<lparr>lookup_jobs := lookup_jobs d @ [job], lookup_items := lookup_items d @ new, wallets := ws,
       wallet_txs := wallet_txs d @ [h]\<rparr>"
    "lookup_ok d'" "cr_job r = job" "lj_id job = cid_job ids" "lj_client job = ci_client i" "lj_status job = LJobQueued"
    "lj_item_count job = int (length new)" "lj_unit_sell_price job = Some p" "0 < p"
    "PreparePhones required79 (ci_phones i) (source_string src)
       (if ci_max_phones i \<le> 0 then sp_max_batch_phones view else ci_max_phones i) (ci_cap_name i) = Inr (phones, n)"
    "settings = Inr view" "sp_lookup_enabled view" "client_active (ci_client i) d" "ci_check_type i = Some ct"
    "list_all2 (\<lambda>ph k. li_phone k = ph \<and> li_phone_digits k = PhoneDigits ph \<and>
        li_provider_message_id k = Some (ClientSendID sha256 ct (li_id k))) phones new"
    "\<And>k. k \<in> set new \<Longrightarrow> li_job k = cid_job ids \<and> li_client k = ci_client i \<and> li_check_type k = ct \<and>
        li_status k = ItemQueued \<and> li_unit_sell_price k = Some p \<and> li_billing_action k = None"
    "tx_type h = HOLD" "tx_lookup_job h = Some (cid_job ids)" "tx_client h = ci_client i"
    "tx_amount h = p * of_nat (length new)"
    "EstimateLookup now (ci_client i) ct (int (length phones)) d = Inr est" "p = round6 (es_unit_sell_price est)"
proof (rule create_job_OK [OF c])
  fix ct src phones deduped est job d1 d2 d3 d4
  assume L: "Live d' = Live d4"
    and chk: "create_checks required79 settings now i d = Inr (Inr (ct, src, phones, deduped, est))"
    and job: "InsertLookupJob (cid_job ids) now (job_params i ct src phones est) d = Inr (job, d1)"
    and items: "InsertLookupItems (cid_items ids) now 0 (map (item_params (lj_id job) i ct est) phones) d1 = Inr d2"
    and stamp: "stampClientSendIDs sha256 now (lj_id job) d2 = Inr d3"
    and res: "ReserveForLookupJob (cid_hold ids) now (Some d3) job = Inr d4"
    and r: "r = \<lparr>cr_job = job, cr_deduplicated = False, cr_dedup_phones = deduped, cr_work_units = int (length phones)\<rparr>"
  note O = lookup_okD [OF ok] and J = InsertLookupJob_OK [OF job]
  from chk obtain view where V: "ci_check_type i = Some ct" "settings = Inr view" "sp_lookup_enabled view"
    "client_active (ci_client i) d"
    "PreparePhones required79 (ci_phones i) (source_string src)
       (if ci_max_phones i \<le> 0 then sp_max_batch_phones view else ci_max_phones i) (ci_cap_name i) = Inr (phones, deduped)"
    "EstimateLookup now (ci_client i) ct (int (length phones)) d = Inr est" "\<not> clientDeleted (ci_client i) d"
    by (rule create_checks_OK)
  from create_rows [OF ok job items stamp] obtain new where
    d3: "d3 = d\<lparr>lookup_jobs := lookup_jobs d @ [job], lookup_items := lookup_items d @ new\<rparr>"
    and ph: "list_all2 (\<lambda>ph k. li_phone k = ph \<and> li_phone_digits k = PhoneDigits ph \<and>
        li_provider_message_id k = Some (ClientSendID sha256 ct (li_id k))) phones new"
    and new: "\<And>k. k \<in> set new \<Longrightarrow> li_job k = cid_job ids \<and> li_client k = ci_client i \<and> li_check_type k = ct \<and>
        li_status k = ItemQueued \<and> li_unit_sell_price k = lj_unit_sell_price job \<and> li_billing_action k = None \<and> item_wf k"
    and dist: "distinct (map li_id (lookup_items d @ new))" by blast
  have lens: "length new = length phones" using ph by (simp add: list_all2_lengthD)
  have "int (length phones) \<le> 2147483647" using PreparePhones_OK(5) [OF V(5)] len by linarith
  then have cnt: "lj_item_count job = int (length new)" using J(6) lens by (simp add: job_params_def)
  have short: "length new \<le> nat int4_max"
    using \<open>int (length phones) \<le> 2147483647\<close> lens by (simp add: int4_max_def)
  have cl: "lj_client job = ci_client i" "lj_status job = LJobQueued" using J(4,5) by (simp_all add: job_params_def)
  have price: "billing_money_opt (Some (es_unit_sell_price est)) = Inr (lj_unit_sell_price job)"
    using J(11) by (simp add: job_params_def)
  have nodel: "\<not> clientDeleted (lj_client job) d3"
    using V(7) d3 cl by (simp add: clientDeleted_def GetClientByID_def)
  have noposted: "\<not> tx_posted (lj_client job) (LookupHoldKey (lj_id job)) d3"
  proof
    assume "tx_posted (lj_client job) (LookupHoldKey (lj_id job)) d3"
    from tx_posted_row [OF this] d3 obtain t where "t \<in> set (wallet_txs d)" "tx_key t = Some (LookupHoldKey (lj_id job))"
      by auto
    with O(8) have "lj_id job \<in> lj_id ` set (lookup_jobs d)" unfolding tx_linked_def by blast
    with J(2,3) show False by simp
  qed
  from res nodel noposted obtain p amt w e1 q where
    Q0: "lj_unit_sell_price job = Some p" "1 \<le> lj_item_count job" "amt = p * of_int (lj_item_count job)" "0 < amt"
      "amt \<le> w_available w" "LockWalletByClientID (lj_client job) d3 = Inr w"
      "UpdateWalletBalances (w_available w - amt) (w_held w + amt) (w_id w) (w_version w) d3 = Inr e1"
      "InsertWalletTransaction (cid_hold ids) now q e1 = Inr d4" "tx_client q = lj_client job" "tx_type q = HOLD"
      "tx_amount q = amt" "tx_related_hold q = None" "tx_sms_message q = None" "tx_lookup_job q = Some (lj_id job)"
      "tx_key q = Some (LookupHoldKey (lj_id job))" by (rule ReserveForLookupJob_posts)
  note Q = Q0(1,7-10) Q0(11) [unfolded Q0(3)] Q0(12,14,15,2)
  have p6: "p = round6 (es_unit_sell_price est)"
    using price Q(1) by (auto simp: billing_money_opt_def split: sum.splits dest!: billing_money_OK)
  have m: "is_money p" using p6 by simp
  from Q(3) have freshid: "cid_hold ids \<notin> tx_id ` set (wallet_txs e1)" by (rule InsertWalletTransaction_OK)
  from Q(2,3) obtain h ws where H: "d4 = d3\<lparr>wallets := ws, wallet_txs := wallet_txs d3 @ [h]\<rparr>"
    "tx_id h = cid_hold ids" "tx_client h = tx_client q" "tx_type h = tx_type q" "tx_amount h = round6 (tx_amount q)"
    "tx_related_hold h = tx_related_hold q" "tx_lookup_job h = tx_lookup_job q" "tx_key h = tx_key q"
    by (rule post_frame)
  have amt: "tx_amount h = p * of_nat (length new)"
    using H(5) Q(6) m cnt is_money_mult_int [OF m, of "int (length new)"] by (simp add: round6_id)
  have p0: "0 < p" using Q0(2-4) by (simp add: zero_less_mult_iff)
  have fresh: "tx_id h \<notin> tx_id ` set (wallet_txs d)"
    using freshid H(2) UpdateWalletBalances_OK(1) [OF Q(2)] d3 by simp
  have d': "d' = d\<lparr>lookup_jobs := lookup_jobs d @ [job], lookup_items := lookup_items d @ new, wallets := ws,
       wallet_txs := wallet_txs d @ [h]\<rparr>" using L H(1) d3 by simp
  have old: "li_job k \<noteq> cid_job ids" if "k \<in> set (lookup_items d)" for k
    using O(5) [OF that] J(3) unfolding item_linked_def by (metis imageI)
  have oldtx: "tx_lookup_job t \<noteq> Some (cid_job ids)" if "t \<in> set (wallet_txs d)" for t
    using O(8) [OF that] J(3) unfolding tx_linked_def by blast
  have db3: "db_ok d3"
  proof -
    note D = db_okD [OF O(1)]
    have "links_ok d3" using D(2) old oldtx new cl J(2,3) unfolding links_ok_def d3 by auto
    moreover have "prices_ok d3" using D(3) new Q(1) m unfolding prices_ok_def d3 by auto
    ultimately show ?thesis using D(1) by (simp add: db_ok_def d3)
  qed
  have "db_ok d'" using ReserveForLookupJob_keeps [OF res db3] d3 L by simp
  moreover have "lookup_wf (lookup_jobs d @ [job]) (lookup_items d @ new) (wallet_txs d @ [h])"
    by (rule lookup_wf_create [where p = p and ws = "wallets d"])
      (use ok O(1) J(2,3) cl cnt short Q(1,4,5,7,8,9) p0 dist new fresh H amt in
        \<open>auto simp: lookup_ok_def db_ok_def IsTerminalJob_def\<close>)
  ultimately have "lookup_ok d'" by (simp add: lookup_ok_def d')
  then show thesis
    using d' r J(2) cl cnt Q p0 V ph new H amt p6
    by (intro that [where job = job and new = new and h = h and ws = ws and p = p and phones = phones
        and ct = ct and n = deduped and src = src and view = view and est = est]) simp_all
qed

end
