(* ===== verification/LookupApply.thy ===== *)
theory LookupApply
  imports LookupCreate
begin

text \<open>
  \<open>internal/lookup/apply.go\<close>: what the provider says of a check, merged with what is stored.
  The JSON encoding of the result is an argument (\<open>codec\<close>).
\<close>

section \<open>The normalised result\<close>

text \<open>A value of \<open>map[string]any\<close>: absent or null, a string, or any other JSON value.\<close>

datatype any_value = AnyNil | AnyString string | AnyOther string

type_synonym extras = "string \<Rightarrow> any_value option"

record normalized =
  nz_provider_code :: string
  nz_check_type :: string
  nz_provider_message_id :: string
  nz_phone :: string
  nz_lifecycle :: string
  nz_result_status :: string
  nz_is_reachable :: "bool option"
  nz_imsi :: string
  nz_mcc :: string
  nz_mnc :: string
  nz_operator_name :: string
  nz_country_code :: string
  nz_ported :: "bool option"
  nz_roaming :: "bool option"
  nz_error_code :: string
  nz_error_message :: string
  nz_status_code :: string
  nz_cost :: string
  nz_currency :: string
  nz_extras :: extras

definition empty_normalized :: normalized where
  "empty_normalized =
     \<lparr>nz_provider_code = [], nz_check_type = [], nz_provider_message_id = [], nz_phone = [],
      nz_lifecycle = [], nz_result_status = [], nz_is_reachable = None, nz_imsi = [], nz_mcc = [],
      nz_mnc = [], nz_operator_name = [], nz_country_code = [], nz_ported = None, nz_roaming = None,
      nz_error_code = [], nz_error_message = [], nz_status_code = [], nz_cost = [], nz_currency = [],
      nz_extras = (\<lambda>_. None)\<rparr>"

text \<open>
  \<open>cd_normalized\<close> and \<open>cd_raw\<close> decode the columns of a stored callback, \<open>cd_json\<close> renders a
  result, \<open>cd_extras\<close> reads the \<open>extras\<close> object of a stored one (empty when there is none),
  \<open>cd_msc\<close>, \<open>cd_payload_id\<close> and \<open>cd_csv_path\<close> are the JSON expressions of the queries.
\<close>

record codec =
  cd_json :: "normalized \<Rightarrow> string"
  cd_extras :: "string \<Rightarrow> extras"
  cd_normalized :: "string \<Rightarrow> normalized"
  cd_raw :: "string \<Rightarrow> extras option"
  cd_msc :: "string \<Rightarrow> string option"
  cd_payload_id :: "string \<Rightarrow> string option"
  cd_csv_path :: "string \<Rightarrow> bool"

definition normalizedToJSON :: "codec \<Rightarrow> normalized \<Rightarrow> string" where
  "normalizedToJSON cd n = cd_json cd n"

definition extrasFromItem :: "codec \<Rightarrow> lookup_item \<Rightarrow> extras" where
  "extrasFromItem cd item =
     (if li_normalized_result item = [] then (\<lambda>_. None) else cd_extras cd (li_normalized_result item))"

section \<open>Merging\<close>

definition preferString :: "string \<Rightarrow> string \<Rightarrow> string" where
  "preferString incoming existing = (if incoming \<noteq> [] then incoming else existing)"

definition preferBool :: "bool option \<Rightarrow> bool option \<Rightarrow> bool option" where
  "preferBool incoming existing = (if incoming \<noteq> None then incoming else existing)"

definition preferResultStatus :: "string \<Rightarrow> string \<Rightarrow> string" where
  "preferResultStatus incoming existing =
     (if existing \<noteq> [] \<and> existing \<in> {''reachable'', ''unreachable'', ''error'', ''unknown''} \<and>
         (incoming = [] \<or> incoming = ''pending'')
      then existing
      else if incoming \<noteq> [] then incoming
      else if existing \<noteq> [] then existing
      else ''unknown'')"

definition mergeExtras :: "extras \<Rightarrow> extras \<Rightarrow> extras" where
  "mergeExtras incoming existing =
     (\<lambda>k. case incoming k of
            None \<Rightarrow> existing k
          | Some AnyNil \<Rightarrow> existing k
          | Some (AnyString s) \<Rightarrow> if s = [] then existing k else Some (AnyString s)
          | Some v \<Rightarrow> Some v)"

definition mergeNormalizedWithItem :: "codec \<Rightarrow> normalized \<Rightarrow> lookup_item \<Rightarrow> normalized" where
  "mergeNormalizedWithItem cd n item =
     n\<lparr>nz_provider_message_id := preferString (nz_provider_message_id n) (lookup_deref (li_provider_message_id item)),
       nz_phone := preferString (nz_phone n) (li_phone item),
       nz_imsi := preferString (nz_imsi n) (lookup_deref (li_imsi item)),
       nz_mcc := preferString (nz_mcc n) (lookup_deref (li_mcc item)),
       nz_mnc := preferString (nz_mnc n) (lookup_deref (li_mnc item)),
       nz_operator_name := preferString (nz_operator_name n) (lookup_deref (li_operator_name item)),
       nz_country_code := preferString (nz_country_code n) (lookup_deref (li_country_code item)),
       nz_ported := preferBool (nz_ported n) (li_ported item),
       nz_roaming := preferBool (nz_roaming n) (li_roaming item),
       nz_is_reachable := preferBool (nz_is_reachable n) (li_is_reachable item),
       nz_result_status := preferString (nz_result_status n) (lookup_deref (li_result_status item)),
       nz_extras := mergeExtras (nz_extras n) (extrasFromItem cd item)\<rparr>"

definition any_empty :: "any_value option \<Rightarrow> bool" where
  "any_empty v = (v = None \<or> v = Some AnyNil \<or> v = Some (AnyString []))"

definition needsHLREnrich :: "normalized \<Rightarrow> lookup_check_type \<Rightarrow> bool" where
  "needsHLREnrich n ct =
     (if ct \<noteq> CheckHlr \<and> nz_check_type n \<noteq> ''hlr'' then False
      else nz_imsi n = [] \<or> any_empty (nz_extras n ''msc''))"

definition hlrFieldsImproved :: "codec \<Rightarrow> normalized \<Rightarrow> lookup_item \<Rightarrow> bool" where
  "hlrFieldsImproved cd n item =
     (nz_imsi n \<noteq> [] \<and> lookup_deref (li_imsi item) = []
      \<or> nz_mcc n \<noteq> [] \<and> lookup_deref (li_mcc item) = []
      \<or> nz_mnc n \<noteq> [] \<and> lookup_deref (li_mnc item) = []
      \<or> nz_operator_name n \<noteq> [] \<and> lookup_deref (li_operator_name item) = []
      \<or> nz_country_code n \<noteq> [] \<and> lookup_deref (li_country_code item) = []
      \<or> nz_roaming n \<noteq> None \<and> li_roaming item = None
      \<or> nz_is_reachable n \<noteq> None \<and> (li_is_reachable item = None \<or> nz_is_reachable n \<noteq> li_is_reachable item)
      \<or> nz_result_status n \<noteq> [] \<and> nz_result_status n \<noteq> ''pending'' \<and>
          nz_result_status n \<noteq> lookup_deref (li_result_status item)
      \<or> nz_error_code n \<noteq> [] \<and> nz_error_code n \<noteq> lookup_deref (li_error_code item)
      \<or> list_ex (\<lambda>key. \<not> any_empty (nz_extras n key) \<and> any_empty (extrasFromItem cd item key))
          [''msc'', ''region'', ''roamingCountry'', ''roamingOperator''])"

definition mergeEnrich :: "normalized \<Rightarrow> normalized \<Rightarrow> normalized" where
  "mergeEnrich merged rich =
     merged\<lparr>nz_imsi := preferString (nz_imsi rich) (nz_imsi merged),
       nz_mcc := preferString (nz_mcc rich) (nz_mcc merged),
       nz_mnc := preferString (nz_mnc rich) (nz_mnc merged),
       nz_operator_name := preferString (nz_operator_name rich) (nz_operator_name merged),
       nz_country_code := preferString (nz_country_code rich) (nz_country_code merged),
       nz_roaming := preferBool (nz_roaming rich) (nz_roaming merged),
       nz_ported := preferBool (nz_ported rich) (nz_ported merged),
       nz_is_reachable := preferBool (nz_is_reachable rich) (nz_is_reachable merged),
       nz_result_status := preferResultStatus (nz_result_status rich) (nz_result_status merged),
       nz_error_code := preferString (nz_error_code rich) (nz_error_code merged),
       nz_error_message := preferString (nz_error_message rich) (nz_error_message merged),
       nz_status_code := preferString (nz_status_code merged) (nz_status_code rich),
       nz_extras := mergeExtras (nz_extras rich) (nz_extras merged),
       nz_cost := preferString (nz_cost merged) (nz_cost rich)\<rparr>"

definition strPtr :: "string \<Rightarrow> string option" where
  "strPtr s = (if s = [] then None else Some s)"

end
