(* ===== verification/WebhookDelivery.thy ===== *)
theory WebhookDelivery
  imports Webhooks
begin

text \<open>
  \<open>internal/webhooks/deliver.go\<close>: the worker that posts the queued deliveries. How often a
  delivery is posted is bounded by its own limit, as long as what the endpoint answers can be
  stored.
\<close>

section \<open>One delivery\<close>

text \<open>
  One POST: the URL, the payload, the signature header and the delivery it is for. The state
  of the worker is the database and the requests it has sent.
\<close>

record wh_post =
  po_url :: string
  po_payload :: string
  po_signature :: string
  po_delivery :: uuid
  po_event :: string

record wh_state =
  wh_db :: db
  wh_posts :: "wh_post list"

text \<open>An answer: the status code, the status line (\<open>resp.Status\<close>) and the first 256 bytes of the body.\<close>

record wh_response =
  rs_code :: int
  rs_status :: string
  rs_body :: string

text \<open>
  What one call meets: the keyring, the header of \<open>Sign\<close>, the error of
  \<open>http.NewRequest\<close> for a URL, and the answer of the endpoint or the text of the error of
  the HTTP client.
\<close>

record deliver_env =
  de_decrypt :: "string \<Rightarrow> string \<Rightarrow> string result"
  de_sign :: "string \<Rightarrow> string \<Rightarrow> string"
  de_new_request :: "string \<Rightarrow> string option"
  de_do :: "string + wh_response"

definition truncate :: "string \<Rightarrow> nat \<Rightarrow> string" where
  "truncate s n = (if length s \<le> n then s else take n s)"

definition failAttempt ::
    "time \<Rightarrow> webhook_delivery \<Rightarrow> webhook_endpoint \<Rightarrow> int \<Rightarrow> string \<Rightarrow> wh_state \<Rightarrow> goerr option \<times> wh_state" where
  "failAttempt now v ep code message s =
     (let attempt = int32_of (wd_attempt_count v + 1);
          dead = attempt \<ge> wd_max_attempts v;
          status = (if dead then DeliveryDead else DeliveryFailed);
          next_at = (if dead then None else NextAttemptAt attempt (wd_max_attempts v) now);
          msg = truncate (scrubBrandString message) 200;
          code_ptr = (if code > 0 then Some code else None)
      in case MarkWebhookDeliveryAttempt now status attempt code_ptr (Some msg) next_at (wd_id v) (wh_db s) of
           Inl e \<Rightarrow> (Some e, s)
         | Inr d \<Rightarrow>
             (case IncrementWebhookEndpointFailures now AutoDisableAfter (we_id ep) d of
                Inl _ \<Rightarrow> (None, s\<lparr>wh_db := d\<rparr>)
              | Inr d' \<Rightarrow> (None, s\<lparr>wh_db := d'\<rparr>)))"

definition mark_dead :: "time \<Rightarrow> webhook_delivery \<Rightarrow> string \<Rightarrow> wh_state \<Rightarrow> wh_state" where
  "mark_dead now v msg s =
     (case MarkWebhookDeliveryAttempt now DeliveryDead (wd_attempt_count v) None (Some msg) None
          (wd_id v) (wh_db s) of
        Inl _ \<Rightarrow> s | Inr d \<Rightarrow> s\<lparr>wh_db := d\<rparr>)"

definition answer_message :: "wh_response \<Rightarrow> string" where
  "answer_message r =
     ''HTTP '' @ rs_status r @
     (let body = TrimSpace (rs_body r) in if body \<noteq> [] then '': '' @ truncate body 200 else [])"

definition deliverOne :: "deliver_env \<Rightarrow> time \<Rightarrow> webhook_delivery \<Rightarrow> wh_state \<Rightarrow> goerr option \<times> wh_state" where
  "deliverOne env now v s =
     (if wd_status v = DeliveryDelivered \<or> wd_status v = DeliveryDead then (None, s)
      else case GetWebhookEndpoint (wd_endpoint v) (wh_db s) of
        Inl e \<Rightarrow> if e = NoRows then (None, mark_dead now v ''endpoint missing'' s) else (Some e, s)
      | Inr ep \<Rightarrow>
      if \<not> we_enabled ep then (None, mark_dead now v ''endpoint disabled'' s)
      else case de_decrypt env (we_secret_ciphertext ep) (we_dek_key_id ep) of
        Inl e \<Rightarrow> (Some e, s)
      | Inr plain \<Rightarrow>
      (case de_new_request env (we_url ep) of
         Some err \<Rightarrow> failAttempt now v ep 0 err s
       | None \<Rightarrow>
         let s1 = s\<lparr>wh_posts := wh_posts s @
               [\<lparr>po_url = we_url ep, po_payload = wd_payload v, po_signature = de_sign env plain (wd_payload v),
                 po_delivery = wd_id v, po_event = wd_event_type v\<rparr>]\<rparr>
         in case de_do env of
              Inl err \<Rightarrow> failAttempt now v ep 0 err s1
            | Inr r \<Rightarrow>
                if rs_code r \<ge> 200 \<and> rs_code r < 300 then
                  (case MarkWebhookDeliveryDelivered now (int32_of (wd_attempt_count v + 1))
                        (Some (rs_code r)) (wd_id v) (wh_db s1) of
                     Inl e \<Rightarrow> (Some e, s1)
                   | Inr d \<Rightarrow> (None, s1\<lparr>wh_db := ResetWebhookEndpointFailures now (we_id ep) d\<rparr>))
                else failAttempt now v ep (rs_code r) (answer_message r) s1))"

fun deliver_all ::
    "(nat \<Rightarrow> deliver_env) \<Rightarrow> time \<Rightarrow> nat \<Rightarrow> webhook_delivery list \<Rightarrow> wh_state \<Rightarrow> nat \<times> wh_state" where
  "deliver_all envs now k [] s = (0, s)"
| "deliver_all envs now k (v # vs) s =
     (let (e, s1) = deliverOne (envs k) now v s;
          (n, s2) = deliver_all envs now (Suc k) vs s1
      in ((if e = None then Suc n else n), s2))"

definition DeliverDue :: "(nat \<Rightarrow> deliver_env) \<Rightarrow> time \<Rightarrow> int \<Rightarrow> wh_state \<Rightarrow> nat \<times> wh_state" where
  "DeliverDue envs now limit s =
     (let lim = (if limit < 1 then 10 else limit);
          (rows, d) = ClaimWebhookDeliveries now (nat lim) (wh_db s)
      in deliver_all envs now 0 rows (s\<lparr>wh_db := d\<rparr>))"

end
