(* ===== verification/LookupWorker.thy ===== *)
theory LookupWorker
  imports LookupApply WebhookDelivery "HOL-Library.State_Monad"
begin

text \<open>
  \<open>internal/lookup/worker.go\<close>, first part: the worker that submits the checks to the
  provider, polls them, applies what the provider says and settles the price of each item.
  Each statement commits on its own. The operations are written in the state monad: the state is
  the database, the requests sent so far, and how far the clock and the supply of new ids were
  read. What the provider, the rate limiter and the settings answer is the environment.
\<close>

section \<open>Environment and state\<close>

record smsc_error =
  se_kind :: string
  se_retryable :: bool
  se_code :: "string option"
  se_message :: string

text \<open>
  An error of the provider: whether it is a cancelled or expired context, the
  \<open>*smsc.Error\<close> in its chain if there is one, and its text.
\<close>

record provider_error =
  pe_ctx :: bool
  pe_smsc :: "smsc_error option"
  pe_text :: string

record submit_result =
  sr_provider_code :: string
  sr_provider_message_id :: string
  sr_normalized :: normalized

datatype provider_call =
    CallSubmit lookup_check_type uuid string
  | CallFetch lookup_check_type uuid string

text \<open>
  \<open>ev_clock k\<close> is the \<open>k\<close>-th reading of the clock, \<open>ev_ids k\<close> the \<open>k\<close>-th batch of new ids,
  \<open>ev_submit k\<close> and \<open>ev_fetch k\<close> the answer to the \<open>k\<close>-th request. \<open>ev_provider\<close> says whether
  there is a configured provider, \<open>ev_service\<close> whether the lookup service is set (\<open>SetService\<close>),
  \<open>ev_limiter\<close> is \<open>None\<close> without a rate limiter.
\<close>

record lookup_env =
  ev_clock :: "nat \<Rightarrow> time"
  ev_ids :: "nat \<Rightarrow> nat \<Rightarrow> uuid"
  ev_settings :: "settings_public result option"
  ev_provider :: bool
  ev_submit :: "nat \<Rightarrow> lookup_check_type \<Rightarrow> lookup_item \<Rightarrow> provider_error + submit_result"
  ev_fetch :: "nat \<Rightarrow> lookup_check_type \<Rightarrow> lookup_item \<Rightarrow> string \<Rightarrow> provider_error + normalized"
  ev_limiter :: "(nat \<Rightarrow> decimal \<Rightarrow> decimal \<Rightarrow> bool result) option"
  ev_billing :: bool
  ev_hooks :: "((string \<times> wh_value) list \<Rightarrow> string result) option"
  ev_deliver :: "nat \<Rightarrow> nat \<Rightarrow> deliver_env"
  ev_codec :: codec
  ev_service :: bool
  ev_reap_ids :: "nat \<Rightarrow> nat \<Rightarrow> nat \<Rightarrow> nat \<Rightarrow> uuid"

record lw_state =
  lw_db :: db
  lw_reads :: nat
  lw_ids :: nat
  lw_calls :: "provider_call list"
  lw_posts :: "wh_post list"
  lw_last_rec :: "time option"

type_synonym 'a wk = "(lw_state, 'a) state"

definition wk_now :: "lookup_env \<Rightarrow> time wk" where
  "wk_now env = State (\<lambda>s. (ev_clock env (lw_reads s), s\<lparr>lw_reads := Suc (lw_reads s)\<rparr>))"

definition wk_fresh :: "lookup_env \<Rightarrow> (nat \<Rightarrow> uuid) wk" where
  "wk_fresh env = State (\<lambda>s. (ev_ids env (lw_ids s), s\<lparr>lw_ids := Suc (lw_ids s)\<rparr>))"

definition wk_query :: "(db \<Rightarrow> 'a) \<Rightarrow> 'a wk" where
  "wk_query f = State (\<lambda>s. (f (lw_db s), s))"

text \<open>A statement that may fail, and one that cannot; \<open>now()\<close> is a reading of the clock.\<close>

definition wk_exec :: "lookup_env \<Rightarrow> (time \<Rightarrow> db \<Rightarrow> ('a \<times> db) result) \<Rightarrow> 'a result wk" where
  "wk_exec env f = do {
     now \<leftarrow> wk_now env;
     State (\<lambda>s. case f now (lw_db s) of
        Inl e \<Rightarrow> (Inl e, s) | Inr (a, d) \<Rightarrow> (Inr a, s\<lparr>lw_db := d\<rparr>)) }"

definition wk_apply :: "lookup_env \<Rightarrow> (time \<Rightarrow> db \<Rightarrow> 'a \<times> db) \<Rightarrow> 'a wk" where
  "wk_apply env f = do {
     now \<leftarrow> wk_now env;
     State (\<lambda>s. case f now (lw_db s) of (a, d) \<Rightarrow> (a, s\<lparr>lw_db := d\<rparr>)) }"

definition unit_result :: "db result \<Rightarrow> (unit \<times> db) result" where
  "unit_result r = (case r of Inl e \<Rightarrow> Inl e | Inr d \<Rightarrow> Inr ((), d))"

definition wk_call :: "provider_call \<Rightarrow> (nat \<Rightarrow> 'a) \<Rightarrow> 'a wk" where
  "wk_call c answer = State (\<lambda>s. (answer (length (lw_calls s)), s\<lparr>lw_calls := lw_calls s @ [c]\<rparr>))"

section \<open>Constants and pure decisions\<close>

definition SubmitBatchSize :: int where "SubmitBatchSize = 50"
definition fairClients :: int where "fairClients = 8"
definition tickBudget :: time where "tickBudget = 150000000"
definition minHTTPBudget :: time where "minHTTPBudget = 20000000"
definition reconcileEvery :: time where "reconcileEvery = 15 * second"
definition csvShellAge :: time where "csvShellAge = 300 * second"
definition EnrichMaxAttempts :: int where "EnrichMaxAttempts = 3"
definition callbackNotFoundTTL :: time where "callbackNotFoundTTL = 3600 * second"

definition default_view :: settings_public where
  "default_view =
     \<lparr>sp_int_out = False, sp_provider_rps = 0, sp_lookup_enabled = False, sp_check_timeout_sec = 3600,
      sp_poll_interval_sec = 30, sp_max_batch_phones = 1000, sp_webhook_max_attempts = 8,
      sp_webhook_timeout_ms = 5000\<rparr>"

definition lookup_runtime :: "lookup_env \<Rightarrow> settings_public result" where
  "lookup_runtime env = (case ev_settings env of None \<Rightarrow> Inr default_view | Some r \<Rightarrow> r)"

text \<open>A zero deadline is \<open>None\<close>.\<close>

definition canStartLookupIO :: "time \<Rightarrow> time option \<Rightarrow> bool" where
  "canStartLookupIO now deadline =
     (case deadline of None \<Rightarrow> True | Some t \<Rightarrow> t - now \<ge> minHTTPBudget)"

definition isRetryableLookupIO :: "provider_error \<Rightarrow> bool" where
  "isRetryableLookupIO e =
     (if pe_ctx e then True else case pe_smsc e of None \<Rightarrow> False | Some p \<Rightarrow> se_retryable p)"

definition lookup_backoff :: "int \<Rightarrow> int \<Rightarrow> time" where
  "lookup_backoff baseSec attempt =
     (let base = (if baseSec < 1 then 30 else baseSec);
          e = int32_of (attempt - 1);
          e = (if e < 0 then 0 else e);
          e = (if e > 6 then 6 else e)
      in base * 2 ^ nat e * second)"

definition lookup_burst :: "decimal \<Rightarrow> decimal" where
  "lookup_burst rate = (if rate < 1 then 1 else rate)"

definition bumpEnrichAttempt :: "bool \<Rightarrow> bool \<Rightarrow> bool" where
  "bumpEnrichAttempt invokedProvider budgetExpired = (if budgetExpired \<and> \<not> invokedProvider then False else True)"

definition error_code_message :: "string \<Rightarrow> provider_error \<Rightarrow> string \<times> string" where
  "error_code_message code e =
     (case pe_smsc e of
        None \<Rightarrow> (code, pe_text e)
      | Some p \<Rightarrow> ((case se_code p of Some c \<Rightarrow> c | None \<Rightarrow> se_kind p), se_message p))"

definition no_transition :: "lookup_item_status \<Rightarrow> uuid \<Rightarrow> lookup_item_status list \<Rightarrow> transition" where
  "no_transition st iid from_sts =
     \<lparr>tr_to_status = st, tr_provider_code = None, tr_provider_message_id = None, tr_result_status = None,
      tr_is_reachable = None, tr_imsi = None, tr_mcc = None, tr_mnc = None, tr_operator_name = None,
      tr_country_code = None, tr_ported = None, tr_roaming = None, tr_normalized_result = None,
      tr_error_code = None, tr_error_message = None, tr_next_poll_at = None, tr_poll_attempts = None,
      tr_sent_at = None, tr_completed_at = None, tr_id = iid, tr_from_statuses = from_sts\<rparr>"

text \<open>The columns a result of the provider fills.\<close>

definition result_columns :: "codec \<Rightarrow> normalized \<Rightarrow> transition \<Rightarrow> transition" where
  "result_columns cd n p =
     p\<lparr>tr_result_status := strPtr (nz_result_status n), tr_is_reachable := nz_is_reachable n,
       tr_imsi := strPtr (nz_imsi n), tr_mcc := strPtr (nz_mcc n), tr_mnc := strPtr (nz_mnc n),
       tr_operator_name := strPtr (nz_operator_name n), tr_country_code := strPtr (nz_country_code n),
       tr_ported := nz_ported n, tr_roaming := nz_roaming n,
       tr_normalized_result := Some (normalizedToJSON cd n)\<rparr>"

section \<open>Finished items\<close>

definition client_deleted :: "uuid \<Rightarrow> db \<Rightarrow> bool" where
  "client_deleted cid d = (case GetClientByID cid d of Inl _ \<Rightarrow> False | Inr cl \<Rightarrow> cl_status cl = ClientDeleted)"

definition enqueue_item_hook :: "lookup_env \<Rightarrow> lookup_item \<Rightarrow> unit wk" where
  "enqueue_item_hook env item =
     (case ev_hooks env of None \<Rightarrow> State_Monad.return ()
      | Some render \<Rightarrow> do {
          ids \<leftarrow> wk_fresh env;
          wk_apply env (\<lambda>now d. ((), snd (EnqueueItem render (ev_settings env) ids now item d))) })"

definition enqueue_job_hook :: "lookup_env \<Rightarrow> lookup_job \<Rightarrow> unit wk" where
  "enqueue_job_hook env job =
     (case ev_hooks env of None \<Rightarrow> State_Monad.return ()
      | Some render \<Rightarrow> do {
          ids \<leftarrow> wk_fresh env;
          wk_apply env (\<lambda>now d. ((), snd (EnqueueJob render (ev_settings env) ids now job d))) })"

definition settle_by_action :: "lookup_env \<Rightarrow> uuid \<Rightarrow> string \<Rightarrow> unit wk" where
  "settle_by_action env iid action =
     (if \<not> ev_billing env then State_Monad.return ()
      else if action = ''release'' then do {
        ids \<leftarrow> wk_fresh env;
        _ \<leftarrow> wk_exec env (\<lambda>now d. unit_result (ReleaseForLookupItem ids now iid d));
        State_Monad.return () }
      else if action = ''capture'' then do {
        ids \<leftarrow> wk_fresh env;
        _ \<leftarrow> wk_exec env (\<lambda>now d. unit_result (CaptureForLookupItem ids now iid d));
        State_Monad.return () }
      else State_Monad.return ())"

definition onItemTerminal :: "lookup_env \<Rightarrow> lookup_item \<Rightarrow> string \<Rightarrow> unit wk" where
  "onItemTerminal env item action =
     (if \<not> IsTerminalItem (li_status item) then State_Monad.return ()
      else do {
        gone \<leftarrow> wk_query (client_deleted (li_client item));
        if gone then State_Monad.return ()
        else do {
          settle_by_action env (li_id item) (if action = [] then LookupItemSettleAction item else action);
          _ \<leftarrow> wk_exec env (\<lambda>now d. RefreshLookupJobCounters now (li_job item) d);
          enqueue_item_hook env item } })"

definition failItem :: "lookup_env \<Rightarrow> lookup_item \<Rightarrow> string \<Rightarrow> string \<Rightarrow> bool \<Rightarrow> unit wk" where
  "failItem env item code message rel = do {
     gone \<leftarrow> wk_query (client_deleted (li_client item));
     if gone then State_Monad.return ()
     else do {
       now \<leftarrow> wk_now env;
       r \<leftarrow> wk_exec env (\<lambda>t. TransitionLookupItem t
              ((no_transition ItemFailed (li_id item) [ItemQueued, ItemReserved, ItemPending])
                \<lparr>tr_error_code := Some code, tr_error_message := Some message, tr_completed_at := Some now\<rparr>));
       (case r of Inl _ \<Rightarrow> State_Monad.return ()
        | Inr updated \<Rightarrow> onItemTerminal env updated (if rel then ''release'' else ''capture'')) } }"

section \<open>Submitting\<close>

definition applyTerminalFromSubmit ::
    "lookup_env \<Rightarrow> lookup_item \<Rightarrow> submit_result \<Rightarrow> lookup_item_status \<Rightarrow> unit wk" where
  "applyTerminalFromSubmit env item result next_st = do {
     now \<leftarrow> wk_now env;
     r \<leftarrow> wk_exec env (\<lambda>t. TransitionLookupItem t
            ((result_columns (ev_codec env) (sr_normalized result)
               (no_transition next_st (li_id item) [ItemReserved, ItemQueued]))
              \<lparr>tr_provider_code := strPtr (sr_provider_code result),
                tr_provider_message_id := strPtr (sr_provider_message_id result),
                tr_sent_at := Some now, tr_completed_at := Some now\<rparr>));
     (case r of Inl _ \<Rightarrow> State_Monad.return ()
      | Inr updated \<Rightarrow> onItemTerminal env updated (LookupItemSettleAction updated)) }"

definition submit_answer ::
    "lookup_env \<Rightarrow> lookup_item \<Rightarrow> settings_public \<Rightarrow> provider_error + submit_result \<Rightarrow> unit wk" where
  "submit_answer env item view answer =
     (case answer of
        Inl e \<Rightarrow>
          if isRetryableLookupIO e then State_Monad.return ()
          else (case error_code_message ''submit_failed'' e of (code, msg) \<Rightarrow> failItem env item code msg True)
      | Inr result \<Rightarrow>
          let n = sr_normalized result;
              next_st = (case MapLifecycleToItemStatus (nz_lifecycle n) ItemReserved of
                           None \<Rightarrow> ItemPending | Some st \<Rightarrow> st)
          in do {
            now \<leftarrow> wk_now env;
            if IsTerminalItem next_st then applyTerminalFromSubmit env item result next_st
            else do {
              _ \<leftarrow> wk_exec env (\<lambda>t. TransitionLookupItem t
                 ((result_columns (ev_codec env) n
                    (no_transition ItemPending (li_id item) [ItemReserved, ItemQueued]))
                   \<lparr>tr_provider_code := strPtr (sr_provider_code result),
                     tr_provider_message_id := strPtr (sr_provider_message_id result),
                     tr_next_poll_at := Some (now + sp_poll_interval_sec view * second),
                     tr_poll_attempts := Some 0, tr_sent_at := Some now\<rparr>));
              State_Monad.return () } })"

definition rate_allows :: "lookup_env \<Rightarrow> settings_public \<Rightarrow> bool wk" where
  "rate_allows env view =
     (case ev_limiter env of
        None \<Rightarrow> State_Monad.return True
      | Some limiter \<Rightarrow> do {
          k \<leftarrow> State (\<lambda>s. (lw_reads s, s\<lparr>lw_reads := Suc (lw_reads s)\<rparr>));
          State_Monad.return
            (case limiter k (sp_provider_rps view) (lookup_burst (sp_provider_rps view)) of
               Inl _ \<Rightarrow> True | Inr ok \<Rightarrow> ok) })"

definition submitItem :: "lookup_env \<Rightarrow> lookup_item \<Rightarrow> settings_public \<Rightarrow> unit wk" where
  "submitItem env item view = do {
     _ \<leftarrow> wk_exec env (\<lambda>now d. MarkLookupJobProcessing now (li_job item) d);
     cl \<leftarrow> wk_query (GetClientByID (li_client item));
     (case cl of
        Inl _ \<Rightarrow> failItem env item ''client_not_found'' ''client not found'' True
      | Inr client \<Rightarrow>
          if cl_status client = ClientDeleted then State_Monad.return ()
          else if cl_status client \<noteq> ClientActive
          then failItem env item ''client_suspended'' ''client is not active'' True
          else do {
            now \<leftarrow> wk_now env;
            bad \<leftarrow> wk_query (AssertLookupAssignment now (li_client item) (li_check_type item));
            if bad \<noteq> None then failItem env item ''tariff_not_configured'' ''tariff not configured'' True
            else if \<not> ev_provider env
            then failItem env item ''provider_not_configured'' ''SMSC adapter is not configured'' True
            else do {
              ok \<leftarrow> rate_allows env view;
              if \<not> ok then State_Monad.return ()
              else do {
                answer \<leftarrow> wk_call (CallSubmit (li_check_type item) (li_id item) (li_phone item))
                   (\<lambda>k. ev_submit env k (li_check_type item) item);
                submit_answer env item view answer } } }) }"

definition submit :: "lookup_env \<Rightarrow> time \<Rightarrow> nat wk" where
  "submit env deadline =
     (case lookup_runtime env of Inl _ \<Rightarrow> State_Monad.return 0 | Inr view \<Rightarrow>
      if \<not> sp_lookup_enabled view then State_Monad.return 0
      else do {
        now \<leftarrow> wk_now env;
        if \<not> canStartLookupIO now (Some deadline) then State_Monad.return 0
        else do {
          queued \<leftarrow> wk_apply env (\<lambda>now. ClaimQueuedLookupItemsFair now 1 1);
          items \<leftarrow> (if queued = [] then wk_apply env (\<lambda>now. ClaimReservedLookupItemsFair now 1 1)
                   else State_Monad.return queued);
          (case items of [] \<Rightarrow> State_Monad.return 0
           | item # _ \<Rightarrow> do { submitItem env item view; State_Monad.return 1 }) } })"

section \<open>Applying an update of the provider\<close>

definition patchItem ::
    "lookup_env \<Rightarrow> lookup_item \<Rightarrow> normalized \<Rightarrow> lookup_item_status \<Rightarrow> lookup_item_status list \<Rightarrow> bool \<Rightarrow>
     lookup_item result wk" where
  "patchItem env item n to_st from_sts terminal = do {
     now \<leftarrow> wk_now env;
     wk_exec env (\<lambda>t. TransitionLookupItem t
       ((result_columns (ev_codec env) n (no_transition to_st (li_id item) from_sts))
         \<lparr>tr_provider_message_id := strPtr (preferString (nz_provider_message_id n) (lookup_deref (li_provider_message_id item))),
           tr_error_code := strPtr (nz_error_code n), tr_error_message := strPtr (nz_error_message n),
           tr_completed_at := (if terminal then Some now else None),
           tr_sent_at := (if \<not> terminal \<and> to_st = ItemPending \<and> li_sent_at item = None then Some now else None),
           tr_next_poll_at := (if \<not> terminal \<and> to_st = ItemPending \<and> li_next_poll_at item = None
                               then Some (now + 30 * second) else None)\<rparr>)) }"

definition enrichHLR ::
    "lookup_env \<Rightarrow> lookup_item \<Rightarrow> normalized \<Rightarrow> time option \<Rightarrow> (normalized \<times> bool) wk" where
  "enrichHLR env item n deadline =
     (let merged = mergeNormalizedWithItem (ev_codec env) n item in
      if \<not> needsHLREnrich merged (li_check_type item) then State_Monad.return (merged, False)
      else do {
        now \<leftarrow> wk_now env;
        if \<not> canStartLookupIO now deadline then State_Monad.return (merged, False)
        else
          let pid = preferString (nz_provider_message_id merged) (lookup_deref (li_provider_message_id item)) in
          if pid = [] \<or> \<not> ev_provider env then State_Monad.return (merged, False)
          else do {
            status \<leftarrow> wk_call (CallFetch CheckHlr (li_id item) pid) (\<lambda>k. ev_fetch env k CheckHlr item pid);
            State_Monad.return (case status of
                Inl _ \<Rightarrow> (merged, True) | Inr rich \<Rightarrow> (mergeEnrich merged rich, True)) } })"

record apply_input =
  ai_item :: uuid
  ai_client :: uuid
  ai_provider_message_id :: string
  ai_normalized :: normalized
  ai_deadline :: "time option"
  ai_skip_enrich :: bool

record apply_result =
  ar_applied :: bool
  ar_duplicate :: bool
  ar_item :: "lookup_item option"
  ar_became_terminal :: bool
  ar_reason :: string

definition ar_none :: apply_result where
  "ar_none = \<lparr>ar_applied = False, ar_duplicate = False, ar_item = None, ar_became_terminal = False, ar_reason = []\<rparr>"

definition item_not_found :: "string \<Rightarrow> goerr" where
  "item_not_found msg = lookup_wrap LookupErrNotFound ''not_found'' msg"

text \<open>The item an update is for.\<close>

definition find_update_item :: "apply_input \<Rightarrow> db \<Rightarrow> lookup_item result" where
  "find_update_item i d =
     (let found = (if ai_item i \<noteq> uuid_Nil then GetLookupItem (ai_item i) d
             else if ai_provider_message_id i \<noteq> []
             then GetLookupItemByProviderMessage ProviderCode (Some (ai_provider_message_id i)) d
             else Inl NoRows)
      in case found of
           Inl e \<Rightarrow> Inl (if e = NoRows then item_not_found ''JobItem not found for provider update'' else e)
         | Inr item \<Rightarrow>
             if ai_client i \<noteq> uuid_Nil \<and> li_client item \<noteq> ai_client i
             then Inl (item_not_found ''JobItem not found for client'') else Inr item)"

text \<open>An update for a finished item only adds fields.\<close>

definition apply_to_terminal :: "lookup_env \<Rightarrow> apply_input \<Rightarrow> lookup_item \<Rightarrow> apply_result wk" where
  "apply_to_terminal env i item =
     (if \<not> ai_skip_enrich i \<and> li_status item = ItemCompleted \<and> li_check_type item = CheckHlr
      then do {
        (enriched, _) \<leftarrow> enrichHLR env item (ai_normalized i) (ai_deadline i);
        if hlrFieldsImproved (ev_codec env) enriched item
        then do {
          r \<leftarrow> patchItem env item enriched ItemCompleted [ItemCompleted] False;
          State_Monad.return (case r of
              Inr patched \<Rightarrow> ar_none\<lparr>ar_applied := True, ar_item := Some patched\<rparr>
            | Inl _ \<Rightarrow> ar_none\<lparr>ar_duplicate := True, ar_item := Some item\<rparr>) }
        else State_Monad.return (ar_none\<lparr>ar_duplicate := True, ar_item := Some item\<rparr>) }
      else State_Monad.return (ar_none\<lparr>ar_duplicate := True, ar_item := Some item\<rparr>))"

definition apply_open :: "lookup_env \<Rightarrow> lookup_item \<Rightarrow> normalized \<Rightarrow> lookup_item_status \<Rightarrow> apply_result result wk" where
  "apply_open env item n next_st =
     (if next_st = ItemPending then do {
        r \<leftarrow> patchItem env item n ItemPending [ItemPending, ItemReserved] False;
        State_Monad.return (case r of
            Inl e \<Rightarrow> if e = NoRows then Inr (ar_none\<lparr>ar_item := Some item, ar_reason := ''race''\<rparr>) else Inl e
          | Inr patched \<Rightarrow> Inr (ar_none\<lparr>ar_applied := True, ar_item := Some patched\<rparr>)) }
      else do {
        r \<leftarrow> patchItem env item n next_st [ItemQueued, ItemReserved, ItemPending] True;
        (case r of
           Inl e \<Rightarrow>
             if e = NoRows then do {
               fresh \<leftarrow> wk_query (GetLookupItem (li_id item));
               State_Monad.return (Inr (case fresh of
                   Inl _ \<Rightarrow> ar_none
                 | Inr f \<Rightarrow> ar_none\<lparr>ar_duplicate := IsTerminalItem (li_status f), ar_item := Some f\<rparr>)) }
             else State_Monad.return (Inl e)
         | Inr patched \<Rightarrow> do {
             onItemTerminal env patched (LookupItemSettleAction patched);
             State_Monad.return (Inr (ar_none\<lparr>ar_applied := True, ar_item := Some patched, ar_became_terminal := True\<rparr>)) }) })"

definition ApplyProviderUpdate :: "lookup_env \<Rightarrow> apply_input \<Rightarrow> apply_result result wk" where
  "ApplyProviderUpdate env i = do {
     found \<leftarrow> wk_query (find_update_item i);
     (case found of
        Inl e \<Rightarrow> State_Monad.return (Inl e)
      | Inr item \<Rightarrow>
          if IsTerminalItem (li_status item) then do {
            r \<leftarrow> apply_to_terminal env i item;
            State_Monad.return (Inr r) }
          else
            let n = mergeNormalizedWithItem (ev_codec env) (ai_normalized i) item in
            (case MapLifecycleToItemStatus (nz_lifecycle n) (li_status item) of
               None \<Rightarrow> State_Monad.return (Inr (ar_none\<lparr>ar_item := Some item, ar_reason := ''lifecycle_unmapped''\<rparr>))
             | Some next_st \<Rightarrow> do {
                 (n, _) \<leftarrow> (if \<not> ai_skip_enrich i \<and> IsTerminalItem next_st
                           then enrichHLR env item n (ai_deadline i) else State_Monad.return (n, False));
                 apply_open env item n next_st })) }"

section \<open>Polling\<close>

definition reschedulePoll :: "lookup_env \<Rightarrow> lookup_item \<Rightarrow> settings_public \<Rightarrow> unit wk" where
  "reschedulePoll env item view = do {
     now \<leftarrow> wk_now env;
     _ \<leftarrow> wk_exec env (\<lambda>t. TransitionLookupItem t
        ((no_transition ItemPending (li_id item) [ItemPending])
          \<lparr>tr_next_poll_at := Some (now + lookup_backoff (sp_poll_interval_sec view) (int32_of (li_poll_attempts item + 1))),
            tr_poll_attempts := Some (int32_of (li_poll_attempts item + 1))\<rparr>));
     State_Monad.return () }"

definition releasePendingLease :: "lookup_env \<Rightarrow> lookup_item \<Rightarrow> unit wk" where
  "releasePendingLease env item = do {
     now \<leftarrow> wk_now env;
     _ \<leftarrow> wk_exec env (\<lambda>t. TransitionLookupItem t
        ((no_transition ItemPending (li_id item) [ItemPending])\<lparr>tr_next_poll_at := Some now\<rparr>));
     State_Monad.return () }"

definition pollItem :: "lookup_env \<Rightarrow> lookup_item \<Rightarrow> settings_public \<Rightarrow> time \<Rightarrow> unit wk" where
  "pollItem env item view deadline =
     (if IsTerminalItem (li_status item) then do {
        _ \<leftarrow> wk_exec env (\<lambda>now d. RefreshLookupJobCounters now (li_job item) d);
        State_Monad.return () }
      else if lookup_deref (li_provider_message_id item) = []
      then failItem env item ''missing_provider_message_id'' ''Cannot poll without provider_message_id'' True
      else do {
        now \<leftarrow> wk_now env;
        if now - (case li_sent_at item of Some t \<Rightarrow> t | None \<Rightarrow> li_created_at item) \<ge> sp_check_timeout_sec view * second
           \<or> li_poll_attempts item \<ge> PollMaxAttempts
        then failItem env item ''check_timeout'' ''Timed out waiting for provider final status'' True
        else if \<not> ev_provider env then reschedulePoll env item view
        else do {
          status \<leftarrow> wk_call (CallFetch (li_check_type item) (li_id item) (lookup_deref (li_provider_message_id item)))
             (\<lambda>k. ev_fetch env k (li_check_type item) item (lookup_deref (li_provider_message_id item)));
          (case status of
             Inl e \<Rightarrow>
               if (isRetryableLookupIO e \<or> pe_smsc e = None) \<and> int32_of (li_poll_attempts item + 1) < PollMaxAttempts
               then reschedulePoll env item view
               else (case error_code_message ''poll_failed'' e of (code, msg) \<Rightarrow> failItem env item code msg True)
           | Inr n \<Rightarrow> do {
               applied \<leftarrow> ApplyProviderUpdate env
                 \<lparr>ai_item = li_id item, ai_client = li_client item,
                  ai_provider_message_id = lookup_deref (li_provider_message_id item), ai_normalized = n,
                  ai_deadline = Some deadline, ai_skip_enrich = False\<rparr>;
               if (case applied of Inl _ \<Rightarrow> False | Inr r \<Rightarrow> ar_became_terminal r) then State_Monad.return ()
               else reschedulePoll env item view }) } })"

fun poll_items :: "lookup_env \<Rightarrow> settings_public \<Rightarrow> time \<Rightarrow> lookup_item list \<Rightarrow> nat wk" where
  "poll_items env view deadline [] = State_Monad.return 0"
| "poll_items env view deadline (item # items) = do {
     now \<leftarrow> wk_now env;
     k \<leftarrow> (if \<not> canStartLookupIO now (Some deadline)
          then do { releasePendingLease env item; State_Monad.return 0 }
          else do { pollItem env item view deadline; State_Monad.return 1 });
     n \<leftarrow> poll_items env view deadline items;
     State_Monad.return (k + n) }"

definition poll :: "lookup_env \<Rightarrow> time \<Rightarrow> nat wk" where
  "poll env deadline =
     (case lookup_runtime env of Inl _ \<Rightarrow> State_Monad.return 0 | Inr view \<Rightarrow> do {
        items \<leftarrow> wk_apply env (\<lambda>now. ClaimPendingLookupItemsFair now (nat fairClients)
                   (nat (max 1 (SubmitBatchSize div fairClients))));
        poll_items env view deadline items })"

end
