(* ===== verification/LookupTick.thy ===== *)
theory LookupTick
  imports LookupWorker
begin

text \<open>
  \<open>internal/lookup/callback.go\<close> and the second part of \<open>worker.go\<close>: callbacks of the
  provider, late HLR data, finished jobs, the reconciler and one \<open>Tick\<close> of the worker. The
  uploaded CSV files are not modelled: no preview waits to be parsed or healed.
\<close>

section \<open>Matching a callback with an item\<close>

record incoming_callback =
  ic_provider_message_id :: string
  ic_phone_digits :: string
  ic_normalized :: normalized
  ic_skip_enrich :: bool

text \<open>\<open>ir_item = None\<close> is the zero item; \<open>ir_error\<close> is the error whose text the result carries.\<close>

record incoming_result =
  ir_applied :: bool
  ir_duplicate :: bool
  ir_reason :: string
  ir_error :: "goerr option"
  ir_item :: "lookup_item option"

definition ir_none :: incoming_result where
  "ir_none = \<lparr>ir_applied = False, ir_duplicate = False, ir_reason = [], ir_error = None, ir_item = None\<rparr>"

definition CanonicalPhoneDigits :: "string \<Rightarrow> string" where
  "CanonicalPhoneDigits raw =
     (let d = concat (map (encode_rune \<circ> fst) (filter (\<lambda>(r, _). 48 \<le> r \<and> r \<le> 57) (runes raw))) in
      if length d = 11 \<and> d ! 0 = CHR ''8'' then ''7'' @ drop 1 d
      else if length d = 10 \<and> d ! 0 = CHR ''9'' then ''7'' @ d
      else d)"

definition CallbackPhoneDigits :: "string \<Rightarrow> string" where
  "CallbackPhoneDigits raw = CanonicalPhoneDigits raw"

definition phoneTail :: "string \<Rightarrow> string" where
  "phoneTail digits = (if length digits < 10 then [] else drop (length digits - 10) digits)"

definition callbackPhonesMatch :: "string \<Rightarrow> string \<Rightarrow> bool" where
  "callbackPhonesMatch itemDigits callbackDigits =
     (if callbackDigits = [] then True
      else let a = CallbackPhoneDigits itemDigits; b = CallbackPhoneDigits callbackDigits in
        if a = b then True else phoneTail a \<noteq> [] \<and> phoneTail a = phoneTail b)"

text \<open>The item, or why there is none.\<close>

definition pickCallbackItems :: "lookup_item list \<Rightarrow> lookup_item list \<Rightarrow> string + lookup_item" where
  "pickCallbackItems byID byPhone =
     (if length byID > 1 then Inl ''ambiguous''
      else if length byID = 1 then Inr (byID ! 0)
      else if length byPhone > 1 then Inl ''ambiguous''
      else if length byPhone = 1 then Inr (byPhone ! 0)
      else Inl ''not_found'')"

definition ShouldConcludeCallback :: "incoming_result \<Rightarrow> bool" where
  "ShouldConcludeCallback r = (ir_applied r \<or> ir_duplicate r)"

definition shouldMarkStoredCallback :: "incoming_result \<Rightarrow> time \<Rightarrow> bool" where
  "shouldMarkStoredCallback r age =
     (if ShouldConcludeCallback r then True
      else if ir_reason r = ''ambiguous'' then False
      else if ir_reason r \<in> {''not_found'', ''item_not_found'', [], ''phone_mismatch'', ''lifecycle_unmapped''}
      then age \<ge> callbackNotFoundTTL
      else False)"

definition callbackCreatedAfter :: "lookup_env \<Rightarrow> time wk" where
  "callbackCreatedAfter env = do {
     now \<leftarrow> wk_now env;
     State_Monad.return (now - callbackNotFoundTTL) }"

definition callback_items_by_id :: "lookup_env \<Rightarrow> string \<Rightarrow> lookup_item list wk" where
  "callback_items_by_id env pid =
     (if pid = [] then State_Monad.return []
      else do {
        rows \<leftarrow> wk_query (ListLookupItemsByProviderMessage ProviderCode (Some pid));
        if rows \<noteq> [] then State_Monad.return rows
        else do {
          after \<leftarrow> callbackCreatedAfter env;
          wk_query (ListOpenLookupItemsForCallbackSendID (cd_payload_id (ev_codec env)) after pid) } })"

definition callback_items_by_phone :: "lookup_env \<Rightarrow> string \<Rightarrow> string \<Rightarrow> lookup_item list wk" where
  "callback_items_by_phone env pid digits =
     (if digits = [] then State_Monad.return []
      else
        let canon = CallbackPhoneDigits digits in do {
        after \<leftarrow> callbackCreatedAfter env;
        rows \<leftarrow> wk_query (ListOpenLookupItemsForCallbackPhone canon after (Some pid));
        if rows \<noteq> [] then State_Monad.return rows
        else if phoneTail canon = [] then State_Monad.return []
        else do {
          after \<leftarrow> callbackCreatedAfter env;
          wk_query (ListOpenLookupItemsForCallbackPhoneTail (phoneTail canon) after (Some pid)) } })"

definition lookupCallbackItems ::
    "lookup_env \<Rightarrow> incoming_callback \<Rightarrow> (lookup_item list \<times> lookup_item list) wk" where
  "lookupCallbackItems env i = do {
     byID \<leftarrow> callback_items_by_id env (ic_provider_message_id i);
     byPhone \<leftarrow> (if byID \<noteq> [] then State_Monad.return []
                 else callback_items_by_phone env (ic_provider_message_id i) (ic_phone_digits i));
     State_Monad.return (byID, byPhone) }"

definition incomingApplyFailure :: "goerr \<Rightarrow> incoming_result" where
  "incomingApplyFailure e =
     (if e = NoRows \<or> errors_Is e LookupErrNotFound then ir_none\<lparr>ir_reason := ''item_not_found''\<rparr>
      else ir_none\<lparr>ir_reason := ''apply_error'', ir_error := Some e\<rparr>)"

definition incoming_applied :: "apply_result \<Rightarrow> incoming_result" where
  "incoming_applied r =
     (if \<not> ar_applied r \<and> \<not> ar_duplicate r \<and> \<not> ar_became_terminal r
      then ir_none\<lparr>ir_reason := (if ar_reason r = [] then ''lifecycle_unmapped'' else ar_reason r),
                   ir_item := ar_item r\<rparr>
      else ir_none\<lparr>ir_applied := ar_applied r \<or> ar_became_terminal r, ir_duplicate := ar_duplicate r,
                   ir_item := ar_item r\<rparr>)"

definition ApplyIncoming :: "lookup_env \<Rightarrow> incoming_callback \<Rightarrow> incoming_result wk" where
  "ApplyIncoming env i =
     (if ic_provider_message_id i = [] \<and> ic_phone_digits i = []
      then State_Monad.return (ir_none\<lparr>ir_reason := ''not_found''\<rparr>)
      else do {
        (byID, byPhone) \<leftarrow> lookupCallbackItems env i;
        (case pickCallbackItems byID byPhone of
           Inl reason \<Rightarrow> State_Monad.return (ir_none\<lparr>ir_reason := reason\<rparr>)
         | Inr item \<Rightarrow>
             if \<not> callbackPhonesMatch (li_phone_digits item) (ic_phone_digits i)
             then State_Monad.return (ir_none\<lparr>ir_reason := ''phone_mismatch'', ir_item := Some item\<rparr>)
             else do {
               gone \<leftarrow> wk_query (client_deleted (li_client item));
               if gone then State_Monad.return (ir_none\<lparr>ir_applied := True, ir_item := Some item\<rparr>)
               else do {
                 r \<leftarrow> ApplyProviderUpdate env
                   \<lparr>ai_item = li_id item, ai_client = li_client item,
                    ai_provider_message_id = ic_provider_message_id i, ai_normalized = ic_normalized i,
                    ai_deadline = None, ai_skip_enrich = ic_skip_enrich i\<rparr>;
                 State_Monad.return (case r of
                     Inl e \<Rightarrow> incomingApplyFailure e | Inr a \<Rightarrow> incoming_applied a) } }) })"

section \<open>Stored callbacks\<close>

definition asStringAny :: "any_value option \<Rightarrow> string" where
  "asStringAny v =
     (case v of None \<Rightarrow> [] | Some AnyNil \<Rightarrow> [] | Some (AnyString s) \<Rightarrow> s | Some (AnyOther s) \<Rightarrow> s)"

definition any_present :: "any_value option \<Rightarrow> bool" where
  "any_present v = (v \<noteq> None \<and> v \<noteq> Some AnyNil)"

definition CallbackPhoneRaw :: "extras \<Rightarrow> string" where
  "CallbackPhoneRaw payload =
     (if any_present (payload ''phone'') then asStringAny (payload ''phone'')
      else if any_present (payload ''phones'') then asStringAny (payload ''phones'')
      else [])"

definition incomingFromStored :: "codec \<Rightarrow> provider_lookup_callback \<Rightarrow> incoming_callback" where
  "incomingFromStored cd row =
     (let pid = lookup_deref (cb_provider_message_id row);
          n = (case cb_normalized_result row of
                 None \<Rightarrow> empty_normalized
               | Some raw \<Rightarrow> if raw = [] then empty_normalized else cd_normalized cd raw);
          phone = CallbackPhoneDigits (nz_phone n);
          (phone, pid) =
            (case (if cb_raw_payload row = [] then None else cd_raw cd (cb_raw_payload row)) of
               None \<Rightarrow> (phone, pid)
             | Some obj \<Rightarrow>
                 ((if phone = [] then CallbackPhoneDigits (CallbackPhoneRaw obj) else phone),
                  (if pid = [] then asStringAny (obj ''id'') else pid)))
      in \<lparr>ic_provider_message_id = pid, ic_phone_digits = phone, ic_normalized = n, ic_skip_enrich = True\<rparr>)"

text \<open>How a callback is marked: the reason unless it was applied, and the item it was for.\<close>

definition callback_error :: "incoming_result \<Rightarrow> string option" where
  "callback_error r = (if ir_reason r \<noteq> [] \<and> \<not> ir_applied r \<and> \<not> ir_duplicate r then Some (ir_reason r) else None)"

definition callback_item :: "incoming_result \<Rightarrow> (uuid option \<times> uuid option)" where
  "callback_item r =
     (case ir_item r of
        None \<Rightarrow> (None, None)
      | Some i \<Rightarrow> if li_id i \<noteq> uuid_Nil then (Some (li_id i), Some (li_client i)) else (None, None))"

definition mark_callback :: "lookup_env \<Rightarrow> uuid \<Rightarrow> incoming_result \<Rightarrow> unit wk" where
  "mark_callback env cbid r =
     wk_apply env (\<lambda>now d. ((), MarkProviderLookupCallbackProcessed now (callback_error r)
        (fst (callback_item r)) (snd (callback_item r)) cbid d))"

definition ConcludeCallback :: "lookup_env \<Rightarrow> uuid \<Rightarrow> incoming_result \<Rightarrow> unit wk" where
  "ConcludeCallback env cbid r =
     (if cbid = uuid_Nil then State_Monad.return () else mark_callback env cbid r)"

definition applyStoredCallback :: "lookup_env \<Rightarrow> provider_lookup_callback \<Rightarrow> bool wk" where
  "applyStoredCallback env row = do {
     r \<leftarrow> ApplyIncoming env (incomingFromStored (ev_codec env) row);
     now \<leftarrow> wk_now env;
     if \<not> shouldMarkStoredCallback r (now - cb_created_at row) then State_Monad.return False
     else do {
       mark_callback env (cb_id row) r;
       State_Monad.return (ir_applied r \<or> ir_duplicate r) } }"

fun apply_callbacks :: "lookup_env \<Rightarrow> provider_lookup_callback list \<Rightarrow> nat wk" where
  "apply_callbacks env [] = State_Monad.return 0"
| "apply_callbacks env (row # rows) = do {
     ok \<leftarrow> applyStoredCallback env row;
     n \<leftarrow> apply_callbacks env rows;
     State_Monad.return ((if ok then 1 else 0) + n) }"

definition applyStoredCallbacks :: "lookup_env \<Rightarrow> nat wk" where
  "applyStoredCallbacks env = do {
     rows \<leftarrow> wk_query (ListUnprocessedProviderLookupCallbacks 20);
     apply_callbacks env rows }"

section \<open>Finished jobs\<close>

definition releaseRemainder :: "lookup_env \<Rightarrow> lookup_job \<Rightarrow> unit wk" where
  "releaseRemainder env job =
     (if \<not> ev_billing env \<or> \<not> IsTerminalJob (lj_status job) then State_Monad.return ()
      else do {
        ids \<leftarrow> wk_fresh env;
        _ \<leftarrow> wk_exec env (\<lambda>now d. unit_result (ReleaseLookupJobRemainder ids now (lj_id job) d));
        State_Monad.return () })"

text \<open>\<open>FinalizeJob\<close> after the counters of the job were refreshed.\<close>

definition finalize_refreshed :: "lookup_env \<Rightarrow> lookup_job \<Rightarrow> lookup_job result wk" where
  "finalize_refreshed env job =
     (if IsTerminalJob (lj_status job) then do {
        releaseRemainder env job; State_Monad.return (Inr job) }
      else
        let pr = ComputeProgress (lj_item_count job) (lj_success_count job) (lj_failure_count job) in
        if lj_item_count job = 0 \<or> pg_pending pr > 0 then State_Monad.return (Inr job)
        else do {
          r \<leftarrow> wk_exec env (\<lambda>now d. FinalizeLookupJob now
                 (DeriveJobTerminalStatus (pg_total pr) (pg_success pr) (pg_failed pr)) None None (lj_id job) d);
          (case r of
             Inl e \<Rightarrow> if e = NoRows then wk_query (GetLookupJob (lj_id job)) else State_Monad.return (Inl e)
           | Inr finalized \<Rightarrow> do {
               releaseRemainder env finalized;
               enqueue_job_hook env finalized;
               State_Monad.return (Inr finalized) }) })"

definition FinalizeJob :: "lookup_env \<Rightarrow> uuid \<Rightarrow> lookup_job result wk" where
  "FinalizeJob env jid = do {
     refreshed \<leftarrow> wk_exec env (\<lambda>now d. RefreshLookupJobCounters now jid d);
     (case refreshed of
        Inl e \<Rightarrow> State_Monad.return (Inl e)
      | Inr job \<Rightarrow> finalize_refreshed env job) }"

fun finalize_jobs :: "lookup_env \<Rightarrow> lookup_job list \<Rightarrow> nat wk" where
  "finalize_jobs env [] = State_Monad.return 0"
| "finalize_jobs env (j # js) = do {
     r \<leftarrow> FinalizeJob env (lj_id j);
     n \<leftarrow> finalize_jobs env js;
     State_Monad.return ((if is_ok r then 1 else 0) + n) }"

definition finalizeReady :: "lookup_env \<Rightarrow> nat wk" where
  "finalizeReady env = do {
     jobs \<leftarrow> wk_query (ListJobsNeedingFinalize 20);
     finalize_jobs env jobs }"

definition DrainCallbacks :: "lookup_env \<Rightarrow> nat wk" where
  "DrainCallbacks env = do {
     n \<leftarrow> applyStoredCallbacks env;
     f \<leftarrow> finalizeReady env;
     State_Monad.return (n + f) }"

definition deliverWebhooks :: "lookup_env \<Rightarrow> nat wk" where
  "deliverWebhooks env =
     (case ev_hooks env of None \<Rightarrow> State_Monad.return 0 | Some _ \<Rightarrow> do {
        now \<leftarrow> wk_now env;
        State (\<lambda>s. case DeliverDue (ev_deliver env (lw_reads s)) now 10
                        \<lparr>wh_db = lw_db s, wh_posts = lw_posts s\<rparr> of
                     (n, w) \<Rightarrow> (n, s\<lparr>lw_db := wh_db w, lw_posts := wh_posts w\<rparr>)) })"

section \<open>Late HLR data\<close>

fun enrich_items :: "lookup_env \<Rightarrow> time \<Rightarrow> lookup_item list \<Rightarrow> nat wk" where
  "enrich_items env deadline [] = State_Monad.return 0"
| "enrich_items env deadline (item # items) = do {
     now \<leftarrow> wk_now env;
     if \<not> canStartLookupIO now (Some deadline) then State_Monad.return 0
     else do {
       cl \<leftarrow> wk_query (GetClientByID (li_client item));
       if (case cl of Inl _ \<Rightarrow> False | Inr c \<Rightarrow> cl_status c \<noteq> ClientActive)
       then enrich_items env deadline items
       else do {
         (enriched, invoked) \<leftarrow> enrichHLR env item
             (mergeNormalizedWithItem (ev_codec env) empty_normalized item) (Some deadline);
         (if hlrFieldsImproved (ev_codec env) enriched item
          then do { _ \<leftarrow> patchItem env item enriched (li_status item) [li_status item] False; State_Monad.return () }
          else State_Monad.return ());
         now \<leftarrow> wk_now env;
         (if bumpEnrichAttempt invoked (\<not> canStartLookupIO now (Some deadline))
          then do {
            _ \<leftarrow> wk_exec env (\<lambda>t d. unit_result (BumpLookupItemEnrichAttempt t (li_id item) d));
            State_Monad.return () }
          else State_Monad.return ());
         n \<leftarrow> enrich_items env deadline items;
         State_Monad.return (Suc n) } } }"

definition enrichTerminalHLR :: "lookup_env \<Rightarrow> time \<Rightarrow> nat wk" where
  "enrichTerminalHLR env deadline =
     (if \<not> ev_provider env then State_Monad.return 0
      else do {
        items \<leftarrow> wk_apply env (\<lambda>now. ClaimLookupItemsNeedingHLREnrich (cd_msc (ev_codec env)) now EnrichMaxAttempts 8);
        enrich_items env deadline items })"

section \<open>The reconciler\<close>

fun rec_pending :: "lookup_env \<Rightarrow> time \<Rightarrow> lookup_item list \<Rightarrow> unit wk" where
  "rec_pending env now [] = State_Monad.return ()"
| "rec_pending env now (item # items) = do {
     _ \<leftarrow> wk_exec env (\<lambda>t. TransitionLookupItem t
        ((no_transition ItemPending (li_id item) [ItemPending])\<lparr>tr_next_poll_at := Some now\<rparr>));
     rec_pending env now items }"

fun rec_reserved :: "lookup_env \<Rightarrow> time \<Rightarrow> lookup_item list \<Rightarrow> unit wk" where
  "rec_reserved env timeout [] = State_Monad.return ()"
| "rec_reserved env timeout (item # items) = do {
     now \<leftarrow> wk_now env;
     (if now - li_created_at item \<ge> timeout
      then failItem env item ''reserved_stale_timeout''
             ''RESERVED item exceeded check timeout without submit progress'' True
      else State_Monad.return ());
     rec_reserved env timeout items }"

definition job_hook :: "lookup_env \<Rightarrow> (nat \<Rightarrow> uuid) \<Rightarrow> time \<Rightarrow> (lookup_job \<Rightarrow> db \<Rightarrow> db) option" where
  "job_hook env ids now =
     (case ev_hooks env of None \<Rightarrow> None
      | Some render \<Rightarrow> Some (\<lambda>j d. snd (EnqueueJob render (ev_settings env) ids now j d)))"

fun rec_shells :: "lookup_env \<Rightarrow> lookup_job list \<Rightarrow> unit wk" where
  "rec_shells env [] = State_Monad.return ()"
| "rec_shells env (j # js) = do {
     ids \<leftarrow> wk_fresh env;
     _ \<leftarrow> wk_exec env (\<lambda>now d.
        if ev_service env
        then FailJob (job_hook env ids now) now (lj_id j) ''csv_parse_abandoned'' ''CSV parse heal attempts exhausted'' d
        else FinalizeLookupJob now LJobFailed (strPtr ''csv_parse_abandoned'')
               (strPtr ''CSV parse heal attempts exhausted'') (lj_id j) d);
     rec_shells env js }"

definition reap_holds :: "lookup_env \<Rightarrow> unit wk" where
  "reap_holds env =
     (if \<not> ev_billing env then State_Monad.return ()
      else do {
        k \<leftarrow> State (\<lambda>s. (lw_ids s, s\<lparr>lw_ids := Suc (lw_ids s)\<rparr>));
        wk_apply env (\<lambda>now d. ((), fst (ReapOpenLookupHolds (ev_reap_ids env k) now 50 d))) })"

definition lookup_reconcile :: "lookup_env \<Rightarrow> unit wk" where
  "lookup_reconcile env = do {
     now \<leftarrow> wk_now env;
     wk_apply env (\<lambda>_ d. ((), ReopenUnappliedLookupCallbacks (now - 86400 * second) d));
     (case lookup_runtime env of Inl _ \<Rightarrow> State_Monad.return () | Inr view \<Rightarrow> do {
        now \<leftarrow> wk_now env;
        stale \<leftarrow> wk_query (ListStalePendingLookupItems (now - sp_poll_interval_sec view * second) 100);
        now \<leftarrow> wk_now env;
        rec_pending env now stale;
        now \<leftarrow> wk_now env;
        reserved \<leftarrow> wk_query (ListStaleReservedLookupItems (now - sp_check_timeout_sec view * second) 100);
        rec_reserved env (sp_check_timeout_sec view * second) reserved;
        _ \<leftarrow> finalizeReady env;
        now \<leftarrow> wk_now env;
        shells \<leftarrow> wk_query (ListEmptyCsvLookupShells (cd_csv_path (ev_codec env)) (now - csvShellAge) 20);
        rec_shells env shells;
        reap_holds env }) }"

section \<open>One tick\<close>

definition before_deadline :: "lookup_env \<Rightarrow> time \<Rightarrow> nat wk \<Rightarrow> nat wk" where
  "before_deadline env deadline m = do {
     now \<leftarrow> wk_now env;
     if now < deadline then m else State_Monad.return 0 }"

definition tick_reconcile :: "lookup_env \<Rightarrow> unit wk" where
  "tick_reconcile env = do {
     last_rec \<leftarrow> State (\<lambda>s. (lw_last_rec s, s));
     due \<leftarrow> (case last_rec of None \<Rightarrow> State_Monad.return True
            | Some t \<Rightarrow> do { now \<leftarrow> wk_now env; State_Monad.return (now - t \<ge> reconcileEvery) });
     if due then do {
       lookup_reconcile env;
       now \<leftarrow> wk_now env;
       State (\<lambda>s. ((), s\<lparr>lw_last_rec := Some now\<rparr>)) }
     else State_Monad.return () }"

definition lookup_Tick :: "lookup_env \<Rightarrow> nat wk" where
  "lookup_Tick env = do {
     now \<leftarrow> wk_now env;
     let deadline = now + tickBudget;
     c1 \<leftarrow> applyStoredCallbacks env;
     c2 \<leftarrow> before_deadline env deadline (submit env deadline);
     c3 \<leftarrow> before_deadline env deadline (poll env deadline);
     c4 \<leftarrow> applyStoredCallbacks env;
     c5 \<leftarrow> before_deadline env deadline (enrichTerminalHLR env deadline);
     c6 \<leftarrow> finalizeReady env;
     c7 \<leftarrow> before_deadline env deadline (deliverWebhooks env);
     tick_reconcile env;
     State_Monad.return (c1 + c2 + c3 + c4 + c5 + c6 + c7) }"

end
