(* ===== verification/LookupRun.thy ===== *)
theory LookupRun
  imports LookupJobs LookupTick
begin

text \<open>
  The lookup tables as a transition system. A step is one committed statement or transaction of
  the API or of a worker; any number of them may run, in any order. Every step keeps
  \<open>lookup_ok\<close> and only moves items and jobs forward, and a whole \<open>Tick\<close> is a sequence of
  such steps.
\<close>

section \<open>The steps\<close>

definition item_rank :: "lookup_item_status \<Rightarrow> nat" where
  "item_rank st = (case st of ItemQueued \<Rightarrow> 0 | ItemReserved \<Rightarrow> 1 | ItemPending \<Rightarrow> 2 | _ \<Rightarrow> 3)"

text \<open>
  The transitions the code asks for: one to the status the item already has, which leaves its
  completion alone, or one that leads forward from an open status and sets the completion
  exactly when the item ends.
\<close>

definition legal_transition :: "transition \<Rightarrow> bool" where
  "legal_transition p =
     ((case tr_poll_attempts p of None \<Rightarrow> True | Some n \<Rightarrow> 0 \<le> n \<and> n \<le> PollMaxAttempts) \<and>
      (tr_from_statuses p = [tr_to_status p] \<and> tr_completed_at p = None \<or>
       list_all (\<lambda>st. \<not> IsTerminalItem st \<and> item_rank st \<le> item_rank (tr_to_status p)) (tr_from_statuses p) \<and>
       (IsTerminalItem (tr_to_status p) \<longleftrightarrow> tr_completed_at p \<noteq> None)))"

definition item_finished :: "uuid \<Rightarrow> db \<Rightarrow> bool" where
  "item_finished iid d = list_ex (\<lambda>i. li_id i = iid \<and> IsTerminalItem (li_status i)) (lookup_items d)"

definition items_finished :: "uuid \<Rightarrow> db \<Rightarrow> bool" where
  "items_finished jid d = list_all (\<lambda>i. IsTerminalItem (li_status i)) (items_of jid (lookup_items d))"

definition job_stored :: "uuid \<Rightarrow> db \<Rightarrow> bool" where
  "job_stored jid d = (jid \<in> lj_id ` set (lookup_jobs d))"

inductive lookup_step :: "db \<Rightarrow> db \<Rightarrow> bool" where
  create: "CreateJob sha256 required79 ids now settings i d = Inr (r, d') \<Longrightarrow>
     int (length (ci_phones i)) \<le> int4_max \<Longrightarrow> lookup_step d d'"
| claim_queued: "lookup_step d (snd (ClaimQueuedLookupItemsFair now n per d))"
| claim_reserved: "lookup_step d (snd (ClaimReservedLookupItemsFair now n per d))"
| claim_pending: "lookup_step d (snd (ClaimPendingLookupItemsFair now n per d))"
| claim_enrich: "lookup_step d (snd (ClaimLookupItemsNeedingHLREnrich js now k n d))"
| transition: "TransitionLookupItem now p d = Inr (i, d') \<Longrightarrow> legal_transition p \<Longrightarrow> lookup_step d d'"
| bump: "BumpLookupItemEnrichAttempt now iid d = Inr d' \<Longrightarrow> lookup_step d d'"
| settle: "settleLookupItem new_ids now iid c d = Inr d' \<Longrightarrow> item_finished iid d \<Longrightarrow> lookup_step d d'"
| remainder: "ReleaseLookupJobRemainder new_ids now jid d = Inr d' \<Longrightarrow> lookup_step d d'"
| processing: "MarkLookupJobProcessing now jid d = Inr (j, d') \<Longrightarrow> lookup_step d d'"
| refresh: "RefreshLookupJobCounters now jid d = Inr (j, d') \<Longrightarrow> lookup_step d d'"
| finalize: "FinalizeLookupJob now st code msg jid d = Inr (j, d') \<Longrightarrow> items_finished jid d \<Longrightarrow> lookup_step d d'"
| callbacks: "lookup_step d (d\<lparr>provider_lookup_callbacks := cs\<rparr>)"
| hooks: "lookup_step d (d\<lparr>webhook_endpoints := es, webhook_deliveries := vs\<rparr>)"

abbreviation lookup_steps :: "db \<Rightarrow> db \<Rightarrow> bool" where
  "lookup_steps \<equiv> lookup_step\<^sup>*\<^sup>*"

section \<open>What moves forward\<close>

definition item_forward :: "lookup_item \<Rightarrow> lookup_item \<Rightarrow> bool" where
  "item_forward i k =
     (li_id k = li_id i \<and> li_job k = li_job i \<and> li_client k = li_client i \<and>
      li_unit_sell_price k = li_unit_sell_price i \<and>
      item_rank (li_status i) \<le> item_rank (li_status k) \<and>
      (IsTerminalItem (li_status i) \<longrightarrow> li_status k = li_status i \<and> li_completed_at k = li_completed_at i) \<and>
      (li_billing_action i \<noteq> None \<longrightarrow>
         li_billing_action k = li_billing_action i \<and> li_actual_cost k = li_actual_cost i))"

definition job_forward :: "lookup_job \<Rightarrow> lookup_job \<Rightarrow> bool" where
  "job_forward j k =
     (lj_id k = lj_id j \<and> lj_client k = lj_client j \<and> lj_unit_sell_price k = lj_unit_sell_price j \<and>
      lj_item_count k = lj_item_count j \<and>
      (IsTerminalJob (lj_status j) \<longrightarrow> lj_status k = lj_status j))"

definition items_forward :: "lookup_item list \<Rightarrow> lookup_item list \<Rightarrow> bool" where
  "items_forward is ks = (\<forall>i \<in> set is. \<exists>k \<in> set ks. item_forward i k)"

definition jobs_forward :: "lookup_job list \<Rightarrow> lookup_job list \<Rightarrow> bool" where
  "jobs_forward js ks = (\<forall>j \<in> set js. \<exists>k \<in> set ks. job_forward j k)"

definition lookup_forward :: "db \<Rightarrow> db \<Rightarrow> bool" where
  "lookup_forward d d' =
     (items_forward (lookup_items d) (lookup_items d') \<and> jobs_forward (lookup_jobs d) (lookup_jobs d'))"

lemma item_forward_refl [simp]: "item_forward i i"
  by (simp add: item_forward_def)

lemma job_forward_refl [simp]: "job_forward j j"
  by (simp add: job_forward_def)

lemma item_forward_trans: "item_forward i k \<Longrightarrow> item_forward k l \<Longrightarrow> item_forward i l"
  by (auto simp: item_forward_def)

lemma job_forward_trans: "job_forward i k \<Longrightarrow> job_forward k l \<Longrightarrow> job_forward i l"
  by (auto simp: job_forward_def)

lemma items_forward_append [simp]: "items_forward is (is @ new)"
  unfolding items_forward_def by (metis item_forward_refl in_set_conv_decomp append_assoc append_Cons)

lemma jobs_forward_append [simp]: "jobs_forward js (js @ new)"
  unfolding jobs_forward_def by (metis job_forward_refl in_set_conv_decomp append_assoc append_Cons)

lemma items_forward_refl [simp]: "items_forward is is"
  using items_forward_append [of "is" "[]"] by simp

lemma jobs_forward_refl [simp]: "jobs_forward js js"
  using jobs_forward_append [of js "[]"] by simp

lemma lookup_forward_refl [simp]: "lookup_forward d d"
  by (simp add: lookup_forward_def)

lemma lookup_forward_trans:
  assumes "lookup_forward d e" "lookup_forward e f"
  shows "lookup_forward d f"
  using assms unfolding lookup_forward_def items_forward_def jobs_forward_def
  by (meson item_forward_trans job_forward_trans)

text \<open>The two kinds of statement: an update of items and an update of jobs.\<close>

definition good_item :: "lookup_item \<Rightarrow> lookup_item \<Rightarrow> bool" where
  "good_item i k = (safe_item i k \<and> item_forward i k)"

lemma good_item_refl [simp]: "good_item i i"
  by (simp add: good_item_def)

lemma update_where_related:
  assumes "x \<in> set xs" "p x \<Longrightarrow> R x (f x)" "R x x"
  shows "\<exists>y \<in> set (update_where p f xs). R x y"
  by (rule bexI [of _ "if p x then f x else x"]) (use assms in \<open>auto simp: set_update_where\<close>)

definition good_step :: "db \<Rightarrow> db \<Rightarrow> bool" where
  "good_step d d' = (lookup_ok d' \<and> lookup_forward d d')"

lemma good_update_items:
  assumes ok: "lookup_ok d" and f: "\<And>i. i \<in> set (lookup_items d) \<Longrightarrow> p i \<Longrightarrow> good_item i (f i)"
  shows "good_step d (d\<lparr>lookup_items := update_where p f (lookup_items d)\<rparr>)"
proof -
  have "lookup_ok (d\<lparr>lookup_items := update_where p f (lookup_items d)\<rparr>)"
    by (rule lookup_ok_update_items [OF ok]) (use f in \<open>simp add: good_item_def\<close>)
  moreover have "\<exists>k \<in> set (update_where p f (lookup_items d)). item_forward i k" if "i \<in> set (lookup_items d)" for i
    by (rule update_where_related [OF that]) (use f [OF that] in \<open>simp_all add: good_item_def\<close>)
  ultimately show ?thesis by (simp add: good_step_def lookup_forward_def items_forward_def)
qed

lemma good_claim_items:
  assumes "lookup_ok d" and "\<And>i. i \<in> set (lookup_items d) \<Longrightarrow> li_id i \<in> set ids \<Longrightarrow> good_item i (f i)"
  shows "good_step d (snd (claim_items ids f d))"
  unfolding claim_items_def snd_conv by (rule good_update_items) (use assms in auto)

lemma good_update_jobs:
  assumes ok: "lookup_ok d"
    and f: "\<And>j. j \<in> set (lookup_jobs d) \<Longrightarrow> p j \<Longrightarrow> safe_job (lookup_items d) j (f j) \<and> job_forward j (f j)"
  shows "good_step d (d\<lparr>lookup_jobs := update_where p f (lookup_jobs d)\<rparr>)"
proof -
  have "lookup_ok (d\<lparr>lookup_jobs := update_where p f (lookup_jobs d)\<rparr>)"
    by (rule lookup_ok_update_jobs [OF ok]) (use f in simp)
  moreover have "\<exists>k \<in> set (update_where p f (lookup_jobs d)). job_forward j k" if "j \<in> set (lookup_jobs d)" for j
    by (rule update_where_related [OF that]) (use f [OF that] in simp_all)
  ultimately show ?thesis by (simp add: good_step_def lookup_forward_def jobs_forward_def)
qed

section \<open>Every step is good\<close>

lemma fair_ids_elig:
  assumes "distinct (map li_id (lookup_items d))" "i \<in> set (lookup_items d)" "li_id i \<in> set (fair_ids p key n per d)"
  shows "p i"
proof -
  from assms(3) obtain k where "k \<in> set (lookup_items d)" "li_id k = li_id i" "p k"
    by (auto simp: fair_ids_def Let_def dest!: in_set_takeD)
  with distinct_map_inj [OF assms(1) _ assms(2)] show ?thesis by metis
qed

lemma claim_queued_good: "lookup_ok d \<Longrightarrow> good_step d (snd (ClaimQueuedLookupItemsFair now n per d))"
  unfolding ClaimQueuedLookupItemsFair_def
  by (rule good_claim_items)
    (auto dest!: fair_ids_elig [OF lookup_okD(3)]
      simp: good_item_def safe_item_def same_item_def item_forward_def item_wf_def IsTerminalItem_def item_rank_def)

lemma claim_reserved_good: "lookup_ok d \<Longrightarrow> good_step d (snd (ClaimReservedLookupItemsFair now n per d))"
  unfolding ClaimReservedLookupItemsFair_def
  by (rule good_claim_items) (auto simp: good_item_def safe_item_def same_item_def item_forward_def item_wf_def)

lemma claim_pending_good: "lookup_ok d \<Longrightarrow> good_step d (snd (ClaimPendingLookupItemsFair now n per d))"
  unfolding ClaimPendingLookupItemsFair_def
  by (rule good_claim_items) (auto simp: good_item_def safe_item_def same_item_def item_forward_def item_wf_def)

lemma claim_enrich_good: "lookup_ok d \<Longrightarrow> good_step d (snd (ClaimLookupItemsNeedingHLREnrich js now k n d))"
  unfolding ClaimLookupItemsNeedingHLREnrich_def
  by (rule good_claim_items) (auto simp: good_item_def safe_item_def same_item_def item_forward_def item_wf_def)

lemma bump_good:
  "lookup_ok d \<Longrightarrow> BumpLookupItemEnrichAttempt now iid d = Inr d' \<Longrightarrow> good_step d d'"
  by (auto simp: BumpLookupItemEnrichAttempt_def split: if_splits intro!: good_update_items)
    (auto simp: good_item_def safe_item_def same_item_def item_forward_def item_wf_def)

lemma transition_row_good:
  assumes p: "legal_transition p" and i: "li_status i \<in> set (tr_from_statuses p)" "item_wf i"
  shows "good_item i (transition_row now p i)"
proof -
  let ?k = "transition_row now p i"
  have same: "same_item i ?k" by (simp add: same_item_def transition_row_def)
  have att: "0 \<le> li_poll_attempts ?k \<and> li_poll_attempts ?k \<le> PollMaxAttempts"
    using p i(2) by (auto simp: legal_transition_def transition_row_def item_wf_def split: option.splits)
  have st: "li_status ?k = tr_to_status p" by (simp add: transition_row_def)
  have fin: "li_completed_at ?k = coalesce (tr_completed_at p) (li_completed_at i)" by (simp add: transition_row_def)
  have act: "li_billing_action ?k = li_billing_action i" "li_actual_cost ?k = li_actual_cost i"
    by (simp_all add: transition_row_def)
  from p consider (stay) "tr_from_statuses p = [tr_to_status p]" "tr_completed_at p = None"
    | (move) "\<And>st. st \<in> set (tr_from_statuses p) \<Longrightarrow> \<not> IsTerminalItem st \<and> item_rank st \<le> item_rank (tr_to_status p)"
        "IsTerminalItem (tr_to_status p) \<longleftrightarrow> tr_completed_at p \<noteq> None"
    by (auto simp: legal_transition_def list_all_iff)
  then show ?thesis
  proof cases
    case stay
    then have "li_status ?k = li_status i" "li_completed_at ?k = li_completed_at i"
      using i(1) st fin by (simp_all add: coalesce_simps)
    then show ?thesis using same att act i(2)
      by (simp add: good_item_def safe_item_def item_forward_def item_wf_def same_item_def)
  next
    case move
    then have open_st: "\<not> IsTerminalItem (li_status i)" "item_rank (li_status i) \<le> item_rank (tr_to_status p)"
      using i(1) by blast+
    then have none: "li_completed_at i = None" "li_billing_action i = None" using i(2) by (auto simp: item_wf_def)
    have "li_completed_at ?k = tr_completed_at p" using fin none by (cases "tr_completed_at p") (simp_all add: coalesce_simps)
    then show ?thesis using same att act open_st none st move(2)
      by (auto simp: good_item_def safe_item_def item_forward_def item_wf_def same_item_def)
  qed
qed

lemma transition_good:
  assumes ok: "lookup_ok d" and t: "TransitionLookupItem now p d = Inr (i, d')" and p: "legal_transition p"
  shows "good_step d d'"
proof -
  from t have d': "d' = d\<lparr>lookup_items := update_where (transition_hit p) (transition_row now p) (lookup_items d)\<rparr>"
    by (auto simp: TransitionLookupItem_def Let_def split: option.splits if_splits)
  show ?thesis unfolding d'
    by (rule good_update_items [OF ok])
      (use p lookup_okD(4) [OF ok] in \<open>auto simp: transition_hit_def intro: transition_row_good\<close>)
qed

lemma settle_item_forward:
  "li_billing_action i = None \<or> li_id i \<noteq> iid \<Longrightarrow> item_forward i (settle_item iid c cost i)"
  by (auto simp: item_forward_def settle_item_def)

lemma settle_good:
  assumes ok: "lookup_ok d" and s: "settleLookupItem ids now iid c d = Inr d'" and fin: "item_finished iid d"
  shows "good_step d d'"
proof -
  note O = lookup_okD [OF ok]
  have all: "IsTerminalItem (li_status i)" if "i \<in> set (lookup_items d)" "li_id i = iid" for i
    using fin that distinct_map_inj [OF O(3)] unfolding item_finished_def list_ex_iff by metis
  have "lookup_ok d'" by (rule settleLookupItem_ok [OF s ok all])
  moreover from settleLookupItem_once [OF s] obtain k where once: "settleLookupItemOnce (ids k) now iid c d = Inr d'"
    by blast
  from once ok have "lookup_forward d d'"
  proof (cases rule: settleLookupItemOnce_effect)
    case (posted i p h t ws cost)
    have "item_forward k (settle_item iid c cost k)" if "k \<in> set (lookup_items d)" for k
      by (rule settle_item_forward) (use distinct_map_inj [OF O(3) that posted(1)] posted(2,3) in auto)
    then show ?thesis unfolding posted(11) lookup_forward_def items_forward_def by auto
  qed simp
  ultimately show ?thesis by (simp add: good_step_def)
qed

lemma update_job_good:
  assumes ok: "lookup_ok d" and u: "update_job p f d = Inr (j, d')"
    and f: "\<And>j. j \<in> set (lookup_jobs d) \<Longrightarrow> p j \<Longrightarrow> safe_job (lookup_items d) j (f j) \<and> job_forward j (f j)"
  shows "good_step d d'"
proof -
  from u have "d' = d\<lparr>lookup_jobs := update_where p f (lookup_jobs d)\<rparr>"
    by (auto simp: update_job_def split: option.splits)
  with good_update_jobs [OF ok f] show ?thesis by simp
qed

lemma create_good:
  assumes ok: "lookup_ok d" and c: "CreateJob sha256 required79 ids now settings i d = Inr (r, d')"
    and len: "int (length (ci_phones i)) \<le> int4_max"
  shows "good_step d d'"
proof (cases "cr_deduplicated r")
  case True
  with c ok show ?thesis by (auto simp: CreateJob_def good_step_def split: prod.splits sum.splits if_splits)
next
  case False
  with c have "create_job sha256 required79 ids now settings i d d = (Inr r, Live d')"
    by (auto simp: CreateJob_def tx_commit_def split: prod.splits sum.splits if_splits pgtx.splits)
  from this False ok len [unfolded int4_max_def] obtain job new h ws where
    "d' = d\<lparr>lookup_jobs := lookup_jobs d @ [job], lookup_items := lookup_items d @ new, wallets := ws,
       wallet_txs := wallet_txs d @ [h]\<rparr>" "lookup_ok d'"
    by (rule create_effect)
  then show ?thesis by (simp add: good_step_def lookup_forward_def)
qed

lemma step_good: "lookup_step d d' \<Longrightarrow> lookup_ok d \<Longrightarrow> good_step d d'"
proof (induction rule: lookup_step.induct)
  case (create sha256 required79 ids now settings i d r d')
  then show ?case by (intro create_good)
next
  case (claim_queued d now n per) then show ?case by (rule claim_queued_good)
next
  case (claim_reserved d now n per) then show ?case by (rule claim_reserved_good)
next
  case (claim_pending d now n per) then show ?case by (rule claim_pending_good)
next
  case (claim_enrich d js now k n) then show ?case by (rule claim_enrich_good)
next
  case (transition now p d i d') then show ?case by (intro transition_good)
next
  case (bump now iid d d') then show ?case by (intro bump_good)
next
  case (settle new_ids now iid c d d') then show ?case by (intro settle_good)
next
  case (remainder new_ids now jid d d')
  then have "d' = d" by (intro ReleaseLookupJobRemainder_noop)
  with remainder.prems show ?case by (simp add: good_step_def)
next
  case (processing now jid d j d')
  from processing.prems processing.hyps [unfolded MarkLookupJobProcessing_def] show ?case
    by (rule update_job_good) (auto simp: open_job_def safe_job_def job_forward_def IsTerminalJob_def)
next
  case (refresh now jid d j d')
  then obtain cost where u: "update_job (\<lambda>j. lj_id j = jid)
        (\<lambda>j. j\<lparr>lj_success_count := count_items (\<lambda>i. li_status i = ItemCompleted) jid d,
             lj_failure_count := count_items (\<lambda>i. li_status i = ItemFailed) jid d,
             lj_reachable_count := count_items (\<lambda>i. li_result_status i = Some ''reachable'') jid d,
             lj_unreachable_count := count_items (\<lambda>i. li_result_status i = Some ''unreachable'') jid d,
             lj_actual_cost := Some cost, lj_updated_at := now\<rparr>) d = Inr (j, d')"
    by (auto simp: RefreshLookupJobCounters_def split: option.splits sum.splits)
  show ?case by (rule update_job_good [OF refresh.prems u]) (auto simp: safe_job_def job_forward_def)
next
  case (finalize now st code msg jid d j d')
  note fin = finalize.hyps(2) [unfolded items_finished_def]
  from finalize.prems finalize.hyps(1) [unfolded FinalizeLookupJob_def] show ?case
    by (rule update_job_good) (use fin in \<open>auto simp: open_job_def safe_job_def job_forward_def IsTerminalJob_def\<close>)
next
  case (callbacks d cs)
  then show ?case by (simp add: good_step_def lookup_forward_def)
next
  case (hooks d es vs)
  then show ?case by (simp add: good_step_def lookup_forward_def)
qed

interpretation lookup_system: safe_system lookup_step lookup_ok
  by unfold_locales (use step_good in \<open>simp add: good_step_def\<close>)

lemma steps_forward: "lookup_steps d d' \<Longrightarrow> lookup_ok d \<Longrightarrow> lookup_ok d' \<and> lookup_forward d d'"
proof (induction rule: rtranclp_induct)
  case (step e f)
  then have "good_step e f" by (intro step_good) simp_all
  with step show ?case by (auto simp: good_step_def intro: lookup_forward_trans)
qed simp

end
