(* ===== verification/LookupProgram.thy ===== *)
theory LookupProgram
  imports LookupRun
begin

text \<open>
  Every operation of the lookup worker is a sequence of steps of the transition system, whatever
  the provider, the clock and the other parts of the environment do: rules for programs in the
  state monad, one for each construct, and one lemma for each operation.
\<close>

section \<open>Rules\<close>

definition wk_does :: "(db \<Rightarrow> bool) \<Rightarrow> 'a wk \<Rightarrow> ('a \<Rightarrow> db \<Rightarrow> bool) \<Rightarrow> bool" where
  "wk_does P m Q =
     (\<forall>s. lookup_ok (lw_db s) \<and> P (lw_db s) \<longrightarrow>
        lookup_steps (lw_db s) (lw_db (snd (run_state m s))) \<and>
        Q (fst (run_state m s)) (lw_db (snd (run_state m s))))"

abbreviation wk_steps :: "'a wk \<Rightarrow> bool" where
  "wk_steps m \<equiv> wk_does (\<lambda>_. True) m (\<lambda>_ _. True)"

named_theorems wk_rules

lemma wk_does_bind:
  assumes "wk_does P m Q" "\<And>a. wk_does (Q a) (f a) R"
  shows "wk_does P (m \<bind> f) R"
  unfolding wk_does_def
proof (intro allI impI)
  fix s :: lw_state assume s: "lookup_ok (lw_db s) \<and> P (lw_db s)"
  obtain a t where t: "run_state m s = (a, t)" by (cases "run_state m s")
  with assms(1) s have 1: "lookup_steps (lw_db s) (lw_db t)" "Q a (lw_db t)" by (auto simp: wk_does_def)
  then have "lookup_ok (lw_db t)" using s steps_forward by blast
  with assms(2) [of a] 1(2) have 2: "lookup_steps (lw_db t) (lw_db (snd (run_state (f a) t)))"
    "R (fst (run_state (f a) t)) (lw_db (snd (run_state (f a) t)))" by (auto simp: wk_does_def)
  have "run_state (m \<bind> f) s = run_state (f a) t" using t by (simp add: State_Monad.bind_def)
  with 1(1) 2 show "lookup_steps (lw_db s) (lw_db (snd (run_state (m \<bind> f) s))) \<and>
      R (fst (run_state (m \<bind> f) s)) (lw_db (snd (run_state (m \<bind> f) s)))" by auto
qed

lemma wk_does_conseq:
  "wk_does P m Q \<Longrightarrow> (\<And>d. P' d \<Longrightarrow> P d) \<Longrightarrow> (\<And>a d. Q a d \<Longrightarrow> Q' a d) \<Longrightarrow> wk_does P' m Q'"
  by (auto simp: wk_does_def)

lemma wk_steps_weaken: "wk_steps m \<Longrightarrow> wk_does P m (\<lambda>_ _. True)"
  by (rule wk_does_conseq) simp_all

text \<open>A fact that no step undoes is still there after the program.\<close>

definition stable :: "(db \<Rightarrow> bool) \<Rightarrow> bool" where
  "stable P = (\<forall>d d'. lookup_ok d \<and> lookup_steps d d' \<and> P d \<longrightarrow> P d')"

lemma wk_does_stable: "stable P \<Longrightarrow> wk_steps m \<Longrightarrow> wk_does P m (\<lambda>_. P)"
  by (auto simp: wk_does_def stable_def)

lemma stable_True [simp]: "stable (\<lambda>_. True)"
  by (simp add: stable_def)

lemma wk_does_pure: "(b \<Longrightarrow> wk_does (\<lambda>_. True) m Q) \<Longrightarrow> wk_does (\<lambda>_. b) m Q"
  by (cases b) (simp_all add: wk_does_def)

lemma wk_does_return: "(\<And>d. P d \<Longrightarrow> Q a d) \<Longrightarrow> wk_does P (State_Monad.return a) Q"
  by (simp add: wk_does_def State_Monad.return_def)

lemma wk_does_read: "(\<And>s. lw_db (snd (f s)) = lw_db s) \<Longrightarrow> wk_does P (State f) (\<lambda>_. P)"
  by (simp add: wk_does_def)

lemma wk_does_now: "wk_does P (wk_now env) (\<lambda>_. P)"
  unfolding wk_now_def by (rule wk_does_read) simp

lemma wk_does_query: "wk_does P (wk_query f) (\<lambda>a d. P d \<and> a = f d)"
  by (simp add: wk_does_def wk_query_def)

lemma wk_does_exec:
  assumes "\<And>now d a d'. lookup_ok d \<Longrightarrow> P d \<Longrightarrow> f now d = Inr (a, d') \<Longrightarrow> lookup_steps d d' \<and> Q (Inr a) d'"
    and "\<And>e d. P d \<Longrightarrow> Q (Inl e) d"
  shows "wk_does P (wk_exec env f) Q"
  unfolding wk_exec_def
  by (rule wk_does_bind [OF wk_does_now])
    (use assms in \<open>auto simp: wk_does_def split: sum.splits prod.splits\<close>)

lemma wk_does_apply:
  assumes "\<And>now d. lookup_ok d \<Longrightarrow> P d \<Longrightarrow>
      lookup_steps d (snd (f now d)) \<and> Q (fst (f now d)) (snd (f now d))"
  shows "wk_does P (wk_apply env f) Q"
  unfolding wk_apply_def
  by (rule wk_does_bind [OF wk_does_now])
    (use assms in \<open>simp add: wk_does_def case_prod_beta\<close>)

lemma wk_steps_bind [wk_rules]: "wk_steps m \<Longrightarrow> (\<And>a. wk_steps (f a)) \<Longrightarrow> wk_steps (m \<bind> f)"
  by (rule wk_does_bind)

lemma wk_steps_atoms [wk_rules]:
  "wk_steps (State_Monad.return a)" "wk_steps (wk_now env)" "wk_steps (wk_fresh env)" "wk_steps (wk_query f)"
  "wk_steps (wk_call c answer)"
  by (simp_all add: wk_does_def State_Monad.return_def wk_now_def wk_fresh_def wk_query_def wk_call_def)

lemma wk_steps_read [wk_rules]: "(\<And>s. lw_db (snd (f s)) = lw_db s) \<Longrightarrow> wk_steps (State f)"
  by (rule wk_does_conseq [OF wk_does_read]) simp_all

lemma wk_steps_if [wk_rules]:
  "(b \<Longrightarrow> wk_does P m Q) \<Longrightarrow> (\<not> b \<Longrightarrow> wk_does P n Q) \<Longrightarrow> wk_does P (if b then m else n) Q"
  by simp

lemma wk_steps_exec [wk_rules]:
  "(\<And>now d a d'. lookup_ok d \<Longrightarrow> f now d = Inr (a, d') \<Longrightarrow> lookup_steps d d') \<Longrightarrow> wk_steps (wk_exec env f)"
  by (rule wk_does_exec) auto

lemma wk_steps_apply [wk_rules]:
  "(\<And>now d. lookup_ok d \<Longrightarrow> lookup_steps d (snd (f now d))) \<Longrightarrow> wk_steps (wk_apply env f)"
  by (rule wk_does_apply) auto

lemma wk_steps_sum [wk_rules]:
  "(\<And>e. r = Inl e \<Longrightarrow> wk_does P (f e) Q) \<Longrightarrow> (\<And>a. r = Inr a \<Longrightarrow> wk_does P (g a) Q) \<Longrightarrow>
   wk_does P (case r of Inl e \<Rightarrow> f e | Inr a \<Rightarrow> g a) Q"
  by (cases r) simp_all

lemma wk_steps_option [wk_rules]:
  "(r = None \<Longrightarrow> wk_does P m Q) \<Longrightarrow> (\<And>a. r = Some a \<Longrightarrow> wk_does P (g a) Q) \<Longrightarrow>
   wk_does P (case r of None \<Rightarrow> m | Some a \<Rightarrow> g a) Q"
  by (cases r) simp_all

lemma wk_steps_list [wk_rules]:
  "(r = [] \<Longrightarrow> wk_does P m Q) \<Longrightarrow> (\<And>a as. r = a # as \<Longrightarrow> wk_does P (g a as) Q) \<Longrightarrow>
   wk_does P (case r of [] \<Rightarrow> m | a # as \<Rightarrow> g a as) Q"
  by (cases r) simp_all

lemma wk_steps_prod [wk_rules]:
  "(\<And>a b. r = (a, b) \<Longrightarrow> wk_does P (g a b) Q) \<Longrightarrow> wk_does P (case r of (a, b) \<Rightarrow> g a b) Q"
  by (cases r) simp

lemma unit_result_Inr [simp]: "unit_result r = Inr (u, d) \<longleftrightarrow> r = Inr d"
  by (simp add: unit_result_def split: sum.split)

section \<open>Stable facts\<close>

lemma stable_item_finished: "stable (item_finished iid)"
  unfolding stable_def
proof (intro allI impI)
  fix d d' assume A: "lookup_ok d \<and> lookup_steps d d' \<and> item_finished iid d"
  then obtain i where i: "i \<in> set (lookup_items d)" "li_id i = iid" "IsTerminalItem (li_status i)"
    by (auto simp: item_finished_def list_ex_iff)
  from A steps_forward i(1) obtain k where "k \<in> set (lookup_items d')" "item_forward i k"
    unfolding lookup_forward_def items_forward_def by blast
  with i show "item_finished iid d'" by (auto simp: item_finished_def list_ex_iff item_forward_def)
qed

text \<open>The items of a stored job are fixed, so that a job whose items are all finished stays so.\<close>

definition job_finished :: "uuid \<Rightarrow> db \<Rightarrow> bool" where
  "job_finished jid d = (job_stored jid d \<and> items_finished jid d)"

lemma stable_job_finished: "stable (job_finished jid)"
  unfolding stable_def
proof (intro allI impI)
  fix d d' assume A: "lookup_ok d \<and> lookup_steps d d' \<and> job_finished jid d"
  then have ok: "lookup_ok d" "lookup_ok d'" and fwd: "lookup_forward d d'" using steps_forward by blast+
  from A obtain j where j: "j \<in> set (lookup_jobs d)" "lj_id j = jid" by (auto simp: job_finished_def job_stored_def)
  with fwd obtain k where k: "k \<in> set (lookup_jobs d')" "job_forward j k"
    unfolding lookup_forward_def jobs_forward_def by blast
  let ?A = "items_of jid (lookup_items d)" and ?B = "items_of jid (lookup_items d')"
  have len: "length ?A = length ?B"
    using lookup_okD(6) [OF ok(1) j(1)] lookup_okD(6) [OF ok(2) k(1)] k(2) j(2) by (auto simp: job_wf_def job_forward_def)
  have dist: "distinct (map li_id ?A)" "distinct (map li_id ?B)"
    using lookup_okD(3) [OF ok(1)] lookup_okD(3) [OF ok(2)] by (simp_all add: items_of_def distinct_map_filter)
  have match: "\<exists>k \<in> set ?B. item_forward i k" if i: "i \<in> set ?A" for i
  proof -
    from i have "i \<in> set (lookup_items d)" "li_job i = jid" by (simp_all add: items_of_def)
    with fwd obtain k where "k \<in> set (lookup_items d')" "item_forward i k"
      unfolding lookup_forward_def items_forward_def by blast
    with \<open>li_job i = jid\<close> show ?thesis by (auto simp: items_of_def item_forward_def)
  qed
  have ids: "li_id ` set ?A = li_id ` set ?B"
  proof (rule card_subset_eq)
    show "li_id ` set ?A \<subseteq> li_id ` set ?B"
    proof
      fix x assume "x \<in> li_id ` set ?A"
      then obtain i where "i \<in> set ?A" "x = li_id i" by blast
      with match [of i] obtain k where "k \<in> set ?B" "x = li_id k" by (auto simp: item_forward_def)
      then show "x \<in> li_id ` set ?B" by blast
    qed
    show "card (li_id ` set ?A) = card (li_id ` set ?B)"
      using len distinct_card [OF dist(1)] distinct_card [OF dist(2)] by simp
  qed simp
  have "IsTerminalItem (li_status k)" if k: "k \<in> set ?B" for k
  proof -
    have "li_id k \<in> li_id ` set ?A" using ids k by blast
    then obtain i where i: "i \<in> set ?A" "li_id i = li_id k" by auto
    from match [OF i(1)] obtain m where m: "m \<in> set ?B" "item_forward i m" by blast
    have "m = k" by (rule distinct_map_inj [OF dist(2) m(1) k]) (use m(2) i(2) in \<open>simp add: item_forward_def\<close>)
    moreover have "IsTerminalItem (li_status i)"
      using A i(1) by (simp add: job_finished_def items_finished_def list_all_iff)
    ultimately show ?thesis using m(2) by (simp add: item_forward_def)
  qed
  moreover have "jid \<in> lj_id ` set (lookup_jobs d')"
    using imageI [OF k(1), of lj_id] k(2) j(2) by (simp add: job_forward_def)
  ultimately show "job_finished jid d'"
    by (simp add: job_finished_def job_stored_def items_finished_def list_all_iff)
qed

section \<open>Finished items\<close>

lemma legal_open:
  assumes "\<not> IsTerminalItem st" "tr_to_status p = st" "tr_completed_at p = None"
    "list_all (\<lambda>f. \<not> IsTerminalItem f \<and> item_rank f \<le> item_rank st) (tr_from_statuses p)"
    "case tr_poll_attempts p of None \<Rightarrow> True | Some n \<Rightarrow> 0 \<le> n \<and> n \<le> PollMaxAttempts"
  shows "legal_transition p"
  using assms by (simp add: legal_transition_def)

lemma legal_end:
  assumes "IsTerminalItem (tr_to_status p)" "tr_completed_at p \<noteq> None" "tr_poll_attempts p = None"
    "set (tr_from_statuses p) \<subseteq> {ItemQueued, ItemReserved, ItemPending}"
  shows "legal_transition p"
proof -
  have "item_rank st \<le> 3" for st by (simp add: item_rank_def split: lookup_item_status.split)
  then show ?thesis
    using assms by (auto simp: legal_transition_def IsTerminalItem_def list_all_iff item_rank_def)
qed

lemma transition_result:
  assumes "TransitionLookupItem now p d = Inr (i, d')"
  shows "i \<in> set (lookup_items d')" "li_status i = tr_to_status p" "li_id i = tr_id p"
proof -
  from assms obtain k where k: "find (transition_hit p) (lookup_items d) = Some k" "i = transition_row now p k"
    "d' = d\<lparr>lookup_items := update_where (transition_hit p) (transition_row now p) (lookup_items d)\<rparr>"
    by (auto simp: TransitionLookupItem_def Let_def split: option.splits if_splits)
  from find_Some_mem [OF k(1)] have "k \<in> set (lookup_items d)" "transition_hit p k" by simp_all
  then show "i \<in> set (lookup_items d')" "li_status i = tr_to_status p" "li_id i = tr_id p"
    using k(2,3) by (auto simp: set_update_where transition_row_def transition_hit_def)
qed

lemma wk_does_transition:
  assumes "legal_transition p"
  shows "wk_does P (wk_exec env (\<lambda>t. TransitionLookupItem t p))
     (\<lambda>r d. case r of Inl _ \<Rightarrow> True | Inr i \<Rightarrow> IsTerminalItem (li_status i) \<longrightarrow> item_finished (li_id i) d)"
  by (rule wk_does_exec)
    (use assms in \<open>auto simp: item_finished_def list_ex_iff dest: transition_result intro: lookup_step.transition\<close>)

lemma wk_steps_transition: "legal_transition p \<Longrightarrow> wk_steps (wk_exec env (\<lambda>t. TransitionLookupItem t p))"
  by (rule wk_does_conseq [OF wk_does_transition]) simp_all

section \<open>Webhooks\<close>

definition hooks_only :: "db \<Rightarrow> db \<Rightarrow> bool" where
  "hooks_only d d' = (\<exists>es vs. d' = d\<lparr>webhook_endpoints := es, webhook_deliveries := vs\<rparr>)"

lemma hooks_only_refl [simp]: "hooks_only d d"
  unfolding hooks_only_def by (rule exI [of _ "webhook_endpoints d"], rule exI [of _ "webhook_deliveries d"]) simp

lemma hooks_only_trans: "hooks_only d e \<Longrightarrow> hooks_only e f \<Longrightarrow> hooks_only d f"
  unfolding hooks_only_def by (elim exE, hypsubst) (simp, blast)

lemma hooks_only_update [simp]:
  "hooks_only d (d\<lparr>webhook_deliveries := vs\<rparr>)" "hooks_only d (d\<lparr>webhook_endpoints := es\<rparr>)"
  unfolding hooks_only_def
  by (rule exI [of _ "webhook_endpoints d"], rule exI [of _ vs], simp)
    (rule exI [of _ es], rule exI [of _ "webhook_deliveries d"], simp)

lemma hooks_only_steps: "hooks_only d d' \<Longrightarrow> lookup_steps d d'"
  by (auto simp: hooks_only_def intro!: r_into_rtranclp lookup_step.hooks)

lemma enqueue_deliveries_hooks:
  "hooks_only d (snd (enqueue_deliveries render ids now tmpl data k eps d))"
proof (induction render ids now tmpl data k eps d rule: enqueue_deliveries.induct)
  case (2 render ids now tmpl data k ep eps d)
  have ins: "hooks_only d d'" if "InsertWebhookDelivery now p d = Inr d'" for p d'
    using that by (auto simp: InsertWebhookDelivery_def split: if_splits)
  show ?case using 2 by (auto split: sum.split intro: hooks_only_trans ins)
qed simp

lemma enqueue_event_hooks: "hooks_only d (snd (enqueue_event render settings ids now cid ev jid iid data d))"
  by (simp add: enqueue_event_def enqueue_deliveries_hooks)

lemma Enqueue_hooks:
  "hooks_only d (snd (EnqueueItem render settings ids now item d))"
  "hooks_only d (snd (EnqueueJob render settings ids now job d))"
  by (simp_all add: EnqueueItem_def EnqueueJob_def enqueue_event_hooks)

lemma MarkWebhookDeliveryAttempt_hooks:
  "MarkWebhookDeliveryAttempt now st n code err t did d = Inr d' \<Longrightarrow> hooks_only d d'"
  by (auto simp: MarkWebhookDeliveryAttempt_def split: if_splits)

lemma failAttempt_hooks: "hooks_only (wh_db s) (wh_db (snd (failAttempt now v ep code msg s)))"
proof -
  have inc: "hooks_only e e'" if "IncrementWebhookEndpointFailures now n x e = Inr e'" for n x e e'
    using that by (auto simp: IncrementWebhookEndpointFailures_def split: if_splits)
  show ?thesis unfolding failAttempt_def Let_def
    by (auto split: sum.split intro: hooks_only_trans inc MarkWebhookDeliveryAttempt_hooks)
qed

lemma mark_dead_hooks: "hooks_only (wh_db s) (wh_db (mark_dead now v msg s))"
  by (auto simp: mark_dead_def split: sum.split intro: MarkWebhookDeliveryAttempt_hooks)

lemma deliverOne_hooks: "hooks_only (wh_db s) (wh_db (snd (deliverOne env now v s)))"
proof -
  have del: "hooks_only d (ResetWebhookEndpointFailures now x d')"
    if "MarkWebhookDeliveryDelivered now n code did d = Inr d'" for n code did d d' x
  proof (rule hooks_only_trans)
    show "hooks_only d d'" using that by (auto simp: MarkWebhookDeliveryDelivered_def split: if_splits)
    show "hooks_only d' (ResetWebhookEndpointFailures now x d')" by (simp add: ResetWebhookEndpointFailures_def)
  qed
  have fail: "hooks_only (wh_db s) (wh_db (snd (failAttempt now v ep code msg (s\<lparr>wh_posts := ps\<rparr>))))" for ep code msg ps
    using failAttempt_hooks [of "s\<lparr>wh_posts := ps\<rparr>" now v ep code msg] by simp
  show ?thesis
    by (simp add: deliverOne_def Let_def mark_dead_hooks failAttempt_hooks fail del split: sum.split option.split)
qed

lemma deliver_all_hooks: "hooks_only (wh_db s) (wh_db (snd (deliver_all envs now k vs s)))"
proof (induction envs now k vs s rule: deliver_all.induct)
  case (2 envs now k v vs s)
  obtain e s1 where 1: "deliverOne (envs k) now v s = (e, s1)" by (cases "deliverOne (envs k) now v s")
  from deliverOne_hooks [of s "envs k" now v] 1 have "hooks_only (wh_db s) (wh_db s1)" by simp
  with 2 [OF 1 [symmetric]] show ?case
    using 1 by (auto simp: Let_def split: prod.split intro: hooks_only_trans)
qed simp

lemma DeliverDue_hooks: "hooks_only (wh_db s) (wh_db (snd (DeliverDue envs now limit s)))"
  unfolding DeliverDue_def Let_def ClaimWebhookDeliveries_def case_prod_conv
  by (rule hooks_only_trans [OF _ deliver_all_hooks]) simp

end
