(* ===== verification/LookupSteps.thy ===== *)
theory LookupSteps
  imports LookupProgram
begin

text \<open>
  The operations of \<open>worker.go\<close> and \<open>callback.go\<close>, from the settlement of one item up to
  \<open>Tick\<close>, are sequences of steps.
\<close>

section \<open>Finished items\<close>

lemma enqueue_hooks_steps [wk_rules]: "wk_steps (enqueue_item_hook env item)" "wk_steps (enqueue_job_hook env job)"
  by (auto simp: enqueue_item_hook_def enqueue_job_hook_def
      intro!: wk_rules hooks_only_steps Enqueue_hooks)

lemma step_rtrancl: "lookup_step d d' \<Longrightarrow> lookup_steps d d'"
  by (rule r_into_rtranclp)

lemma settle_by_action_steps: "wk_does (item_finished iid) (settle_by_action env iid action) (\<lambda>_ _. True)"
proof -
  have exec: "wk_does (item_finished iid) (wk_exec env (\<lambda>now d. unit_result (settleLookupItem ids now iid c d))) (\<lambda>_ _. True)"
    for ids c by (rule wk_does_exec) (auto intro: step_rtrancl lookup_step.settle)
  have fresh: "wk_does (item_finished iid) (wk_fresh env) (\<lambda>_. item_finished iid)"
    by (rule wk_does_stable [OF stable_item_finished]) (rule wk_rules)
  show ?thesis
    unfolding settle_by_action_def ReleaseForLookupItem_def CaptureForLookupItem_def
    by (intro wk_steps_if wk_does_return wk_does_bind [OF fresh] wk_does_bind [OF exec]) simp_all
qed

lemma refresh_steps [wk_rules]: "wk_steps (wk_exec env (\<lambda>now d. RefreshLookupJobCounters now jid d))"
  by (rule wk_steps_exec) (auto intro: step_rtrancl lookup_step.refresh)

abbreviation ended :: "lookup_item \<Rightarrow> db \<Rightarrow> bool" where
  "ended item d \<equiv> IsTerminalItem (li_status item) \<longrightarrow> item_finished (li_id item) d"

lemma onItemTerminal_steps: "wk_does (ended item) (onItemTerminal env item action) (\<lambda>_ _. True)"
proof (cases "IsTerminalItem (li_status item)")
  case True
  have q: "wk_does (item_finished (li_id item)) (wk_query (client_deleted (li_client item))) (\<lambda>_. item_finished (li_id item))"
    by (rule wk_does_conseq [OF wk_does_query]) auto
  show ?thesis unfolding onItemTerminal_def using True
    by (auto intro!: wk_does_bind [OF q] wk_does_bind [OF settle_by_action_steps] wk_rules wk_does_return)
qed (simp add: onItemTerminal_def wk_does_return)

text \<open>A transition, and then what follows from it for the item it returns.\<close>

lemma transition_then:
  assumes p: "legal_transition p" and f: "\<And>e. wk_steps (f (Inl e))" "\<And>i. wk_does (ended i) (f (Inr i)) (\<lambda>_ _. True)"
  shows "wk_steps (wk_exec env (\<lambda>t. TransitionLookupItem t p) \<bind> f)"
proof (rule wk_does_bind [OF wk_does_transition [OF p]])
  fix r show "wk_does (\<lambda>d. case r of Inl _ \<Rightarrow> True | Inr i \<Rightarrow> ended i d) (f r) (\<lambda>_ _. True)"
    using f by (cases r) simp_all
qed

lemma transition_alone [wk_rules]: "legal_transition p \<Longrightarrow> wk_steps (wk_exec env (\<lambda>t. TransitionLookupItem t p))"
  by (rule wk_steps_transition)

lemma terminal_simps [simp]:
  "IsTerminalItem ItemCompleted" "IsTerminalItem ItemFailed" "\<not> IsTerminalItem ItemQueued"
  "\<not> IsTerminalItem ItemReserved" "\<not> IsTerminalItem ItemPending"
  by (simp_all add: IsTerminalItem_def)

lemma failItem_steps [wk_rules]: "wk_steps (failItem env item code msg rel)"
  unfolding failItem_def
  by (intro transition_then wk_rules)
    (auto intro!: legal_end onItemTerminal_steps wk_rules simp: no_transition_def)

section \<open>Submitting\<close>

lemma result_columns_simps [simp]:
  "tr_to_status (result_columns cd n p) = tr_to_status p" "tr_from_statuses (result_columns cd n p) = tr_from_statuses p"
  "tr_completed_at (result_columns cd n p) = tr_completed_at p" "tr_poll_attempts (result_columns cd n p) = tr_poll_attempts p"
  by (simp_all add: result_columns_def)

lemma no_transition_simps [simp]:
  "tr_to_status (no_transition st iid fs) = st" "tr_from_statuses (no_transition st iid fs) = fs"
  "tr_completed_at (no_transition st iid fs) = None" "tr_poll_attempts (no_transition st iid fs) = None"
  by (simp_all add: no_transition_def)

lemma applyTerminalFromSubmit_steps [wk_rules]:
  "IsTerminalItem st \<Longrightarrow> wk_steps (applyTerminalFromSubmit env item result st)"
  unfolding applyTerminalFromSubmit_def
  by (intro transition_then wk_rules) (auto intro!: legal_end onItemTerminal_steps wk_rules)

lemma submit_answer_steps [wk_rules]: "wk_steps (submit_answer env item view answer)"
  unfolding submit_answer_def Let_def
  by (intro wk_rules legal_open [OF _ refl]) (auto simp: IsTerminalItem_def item_rank_def PollMaxAttempts_def)

lemma rate_allows_steps [wk_rules]: "wk_steps (rate_allows env view)"
  unfolding rate_allows_def by (intro wk_rules) simp

lemma processing_steps [wk_rules]: "wk_steps (wk_exec env (\<lambda>now d. MarkLookupJobProcessing now jid d))"
  by (rule wk_steps_exec) (auto intro: step_rtrancl lookup_step.processing)

lemma submitItem_steps [wk_rules]: "wk_steps (submitItem env item view)"
  unfolding submitItem_def by (intro wk_rules)

lemma submit_steps [wk_rules]: "wk_steps (submit env deadline)"
  unfolding submit_def
  by (intro wk_rules) (auto intro: step_rtrancl lookup_step.claim_queued lookup_step.claim_reserved)

section \<open>Updates\<close>

lemma enrichHLR_steps [wk_rules]: "wk_steps (enrichHLR env item n deadline)"
  unfolding enrichHLR_def Let_def by (intro wk_rules)

lemma patchItem_legal:
  assumes "if terminal then IsTerminalItem st \<and> set fs \<subseteq> {ItemQueued, ItemReserved, ItemPending}
           else fs = [st] \<or> st = ItemPending \<and> set fs \<subseteq> {ItemQueued, ItemReserved, ItemPending}"
    "tr_to_status p = st" "tr_from_statuses p = fs" "tr_poll_attempts p = None"
    "tr_completed_at p = (if terminal then Some now else None)"
  shows "legal_transition p"
proof (cases terminal)
  case True
  with assms show ?thesis by (intro legal_end) simp_all
next
  case False
  with assms show ?thesis by (auto simp: legal_transition_def IsTerminalItem_def item_rank_def list_all_iff)
qed

lemma patchItem_then:
  assumes "if terminal then IsTerminalItem st \<and> set fs \<subseteq> {ItemQueued, ItemReserved, ItemPending}
           else fs = [st] \<or> st = ItemPending \<and> set fs \<subseteq> {ItemQueued, ItemReserved, ItemPending}"
    "\<And>e. wk_steps (f (Inl e))" "\<And>i. wk_does (ended i) (f (Inr i)) (\<lambda>_ _. True)"
  shows "wk_steps (patchItem env item n st fs terminal \<bind> f)"
  unfolding patchItem_def State_Monad.bind_assoc
  by (intro transition_then patchItem_legal [OF assms(1)] wk_rules) (use assms(2,3) in simp_all)

lemma MapLifecycle_status:
  "MapLifecycleToItemStatus l st = Some nx \<Longrightarrow> nx = ItemPending \<or> IsTerminalItem nx"
  by (auto simp: MapLifecycleToItemStatus_def IsTerminalItem_def split: if_splits)

lemma apply_to_terminal_steps [wk_rules]: "wk_steps (apply_to_terminal env i item)"
  unfolding apply_to_terminal_def
  by (intro patchItem_then wk_rules) (auto intro: wk_does_return)

lemma apply_open_steps:
  "nx = ItemPending \<or> IsTerminalItem nx \<Longrightarrow> wk_steps (apply_open env item n nx)"
  unfolding apply_open_def
  by (intro patchItem_then wk_rules)
    (auto intro!: wk_rules wk_does_return wk_does_bind [OF onItemTerminal_steps])

lemma ApplyProviderUpdate_steps [wk_rules]: "wk_steps (ApplyProviderUpdate env i)"
  unfolding ApplyProviderUpdate_def Let_def
  by (intro wk_rules apply_open_steps) (auto dest: MapLifecycle_status)

section \<open>Polling\<close>

definition poll_bounded :: "lookup_item \<Rightarrow> bool" where
  "poll_bounded i = (0 \<le> li_poll_attempts i \<and> li_poll_attempts i \<le> PollMaxAttempts)"

lemma reschedulePoll_steps [wk_rules]:
  assumes "poll_bounded item" "li_poll_attempts item < PollMaxAttempts"
  shows "wk_steps (reschedulePoll env item view)"
proof -
  have "int32_of (li_poll_attempts item + 1) = li_poll_attempts item + 1"
    using assms by (intro int32_of_small) (auto simp: poll_bounded_def PollMaxAttempts_def)
  then show ?thesis unfolding reschedulePoll_def
    by (intro legal_open [OF _ refl] wk_rules) (use assms in \<open>auto simp: poll_bounded_def item_rank_def\<close>)
qed

lemma releasePendingLease_steps [wk_rules]: "wk_steps (releasePendingLease env item)"
  unfolding releasePendingLease_def by (intro legal_open [OF _ refl] wk_rules) (auto simp: item_rank_def)

lemma pollItem_steps: "poll_bounded item \<Longrightarrow> wk_steps (pollItem env item view deadline)"
  unfolding pollItem_def by (intro wk_rules) auto

lemma poll_items_steps: "list_all poll_bounded items \<Longrightarrow> wk_steps (poll_items env view deadline items)"
  by (induction items) (auto intro!: pollItem_steps wk_rules)

text \<open>A claim returns rows of the table it leaves behind.\<close>

lemma claim_items_rows:
  "list_all (\<lambda>i. i \<in> set (lookup_items (snd (claim_items ids f d)))) (fst (claim_items ids f d))"
  by (auto simp: claim_items_def list_all_iff set_update_where)

lemma poll_steps [wk_rules]: "wk_steps (poll env deadline)"
proof -
  have claim: "wk_does (\<lambda>_. True) (wk_apply env (\<lambda>now. ClaimPendingLookupItemsFair now n m))
      (\<lambda>items d. list_all poll_bounded items)" for n m
  proof (rule wk_does_apply, intro conjI)
    fix now d assume ok: "lookup_ok d"
    let ?r = "ClaimPendingLookupItemsFair now n m d"
    show steps: "lookup_steps d (snd ?r)" by (intro step_rtrancl lookup_step.claim_pending)
    with ok have "lookup_ok (snd ?r)" using steps_forward by blast
    then show "list_all poll_bounded (fst ?r)"
      using claim_items_rows unfolding ClaimPendingLookupItemsFair_def list_all_iff
      by (fastforce dest: lookup_okD(4) simp: item_wf_def poll_bounded_def)
  qed
  have each: "wk_does (\<lambda>d. list_all poll_bounded items) (poll_items env view deadline items) (\<lambda>_ _. True)" for items view
    by (rule wk_does_pure) (rule poll_items_steps)
  show ?thesis unfolding poll_def
    by (intro wk_steps_sum wk_does_bind [OF claim each] wk_steps_atoms)
qed

section \<open>Callbacks\<close>

lemma callback_reads_steps [wk_rules]:
  "wk_steps (callbackCreatedAfter env)" "wk_steps (lookupCallbackItems env i)"
  unfolding lookupCallbackItems_def callback_items_by_id_def callback_items_by_phone_def callbackCreatedAfter_def Let_def
  by (intro wk_rules)+

lemma ApplyIncoming_steps [wk_rules]: "wk_steps (ApplyIncoming env i)"
  unfolding ApplyIncoming_def by (intro wk_rules)

lemma mark_callback_steps [wk_rules]: "wk_steps (mark_callback env cbid r)"
  unfolding mark_callback_def MarkProviderLookupCallbackProcessed_def
  by (intro wk_rules) (auto intro: step_rtrancl lookup_step.callbacks)

lemma ConcludeCallback_steps [wk_rules]: "wk_steps (ConcludeCallback env cbid r)"
  unfolding ConcludeCallback_def by (intro wk_rules)

lemma applyStoredCallback_steps [wk_rules]: "wk_steps (applyStoredCallback env row)"
  unfolding applyStoredCallback_def by (intro wk_rules)

lemma apply_callbacks_steps [wk_rules]: "wk_steps (apply_callbacks env rows)"
  by (induction rows) (auto intro!: wk_rules)

lemma applyStoredCallbacks_steps [wk_rules]: "wk_steps (applyStoredCallbacks env)"
  unfolding applyStoredCallbacks_def by (intro wk_rules)

section \<open>Finished jobs\<close>

lemma releaseRemainder_steps [wk_rules]: "wk_steps (releaseRemainder env job)"
  unfolding releaseRemainder_def
  by (intro wk_rules) (auto intro: step_rtrancl lookup_step.remainder)

lemma refreshed_job:
  assumes ok: "lookup_ok d" and r: "RefreshLookupJobCounters now jid d = Inr (job, d')"
  shows "job_stored jid d'" "lj_id job = jid" "lj_item_count job = int (length (items_of jid (lookup_items d)))"
    "lj_success_count job = count_items (\<lambda>i. li_status i = ItemCompleted) jid d"
    "lj_failure_count job = count_items (\<lambda>i. li_status i = ItemFailed) jid d" "lookup_items d' = lookup_items d"
proof -
  from r obtain j f where j: "find (\<lambda>j. lj_id j = jid) (lookup_jobs d) = Some j" "job = f j"
    "d' = d\<lparr>lookup_jobs := update_where (\<lambda>j. lj_id j = jid) f (lookup_jobs d)\<rparr>"
    "\<And>j. lj_id (f j) = lj_id j \<and> lj_item_count (f j) = lj_item_count j \<and>
      lj_success_count (f j) = count_items (\<lambda>i. li_status i = ItemCompleted) jid d \<and>
      lj_failure_count (f j) = count_items (\<lambda>i. li_status i = ItemFailed) jid d"
    by (auto simp: RefreshLookupJobCounters_def update_job_def split: option.splits sum.splits)
  from find_Some_mem [OF j(1)] have m: "j \<in> set (lookup_jobs d)" "lj_id j = jid" by simp_all
  have "f j \<in> set (lookup_jobs d')" using m j(3) by (auto simp: set_update_where)
  then have "lj_id (f j) \<in> lj_id ` set (lookup_jobs d')" by (rule imageI)
  then show "job_stored jid d'" using j(4) m(2) by (simp add: job_stored_def)
  show "lj_id job = jid" "lj_item_count job = int (length (items_of jid (lookup_items d)))"
    "lj_success_count job = count_items (\<lambda>i. li_status i = ItemCompleted) jid d"
    "lj_failure_count job = count_items (\<lambda>i. li_status i = ItemFailed) jid d" "lookup_items d' = lookup_items d"
    using j(2-4) m lookup_okD(6) [OF ok m(1)] by (simp_all add: job_wf_def)
qed

text \<open>When the counters leave nothing pending, every item of the job is finished.\<close>

lemma counted_all:
  assumes "count_items (\<lambda>i. li_status i = ItemCompleted) jid d + count_items (\<lambda>i. li_status i = ItemFailed) jid d
     \<ge> int (length (items_of jid (lookup_items d)))"
  shows "items_finished jid d"
proof -
  let ?is = "items_of jid (lookup_items d)"
  have same: "job_items jid d = ?is" by (simp add: job_items_def items_of_def)
  have split: "length is = length (filter (\<lambda>i. li_status i = ItemCompleted) is)
      + length (filter (\<lambda>i. li_status i = ItemFailed) is)
      + length (filter (\<lambda>i. \<not> IsTerminalItem (li_status i)) is)" for "is" :: "lookup_item list"
    by (induction "is") (auto simp: IsTerminalItem_def)
  have "filter (\<lambda>i. \<not> IsTerminalItem (li_status i)) ?is = []"
    using assms split [of ?is] by (simp add: count_items_def same)
  then show ?thesis by (simp add: items_finished_def filter_empty_conv list_all_iff)
qed

lemma progress_done:
  assumes ok: "lookup_ok d" and r: "RefreshLookupJobCounters now jid d = Inr (job, d')"
    and p: "\<not> pg_pending (ComputeProgress (lj_item_count job) (lj_success_count job) (lj_failure_count job)) > 0"
  shows "job_finished jid d'"
proof -
  note R = refreshed_job [OF ok r]
  let ?n = "length (items_of jid (lookup_items d))"
  let ?c = "length (filter (\<lambda>i. li_status i = ItemCompleted) (items_of jid (lookup_items d)))"
  let ?f = "length (filter (\<lambda>i. li_status i = ItemFailed) (items_of jid (lookup_items d)))"
  from R(1) obtain j where "j \<in> set (lookup_jobs d')" "lj_id j = jid" by (auto simp: job_stored_def)
  moreover have "lookup_ok d'" using ok r steps_forward [OF step_rtrancl [OF lookup_step.refresh]] by blast
  ultimately have small: "?n \<le> nat int4_max" using R(6) by (auto dest: lookup_okD(6) simp: job_wf_def)
  have "length (filter (\<lambda>i. li_status i = ItemCompleted) is) + length (filter (\<lambda>i. li_status i = ItemFailed) is)
      \<le> length is" for "is" by (induction "is") auto
  then have sum: "?c + ?f \<le> ?n" .
  have cnt: "lj_success_count job = int ?c" "lj_failure_count job = int ?f"
    using R(4,5) by (simp_all add: count_items_def job_items_def items_of_def)
  have "int32_of (int ?c + int ?f) = int ?c + int ?f" using sum small by (intro int32_of_small) (auto simp: int4_max_def)
  moreover have "int32_of (int ?n - (int ?c + int ?f)) = int ?n - (int ?c + int ?f)"
    using sum small by (intro int32_of_small) (auto simp: int4_max_def)
  ultimately have "int ?n \<le> int ?c + int ?f"
    using p R(3) cnt by (simp add: ComputeProgress_def Let_def split: if_splits)
  then have "items_finished jid d" using R(4,5) cnt by (intro counted_all) simp
  then show ?thesis using R(1,6) by (simp add: job_finished_def items_finished_def)
qed

lemma finalize_steps:
  "wk_does (job_finished jid) (wk_exec env (\<lambda>now d. FinalizeLookupJob now st code msg jid d)) (\<lambda>_ _. True)"
  by (rule wk_does_exec) (auto simp: job_finished_def intro: step_rtrancl lookup_step.finalize)

definition job_counted :: "lookup_job \<Rightarrow> db \<Rightarrow> bool" where
  "job_counted job d =
     (pg_pending (ComputeProgress (lj_item_count job) (lj_success_count job) (lj_failure_count job)) > 0
      \<or> job_finished (lj_id job) d)"

lemma finalize_refreshed_steps: "wk_does (job_counted job) (finalize_refreshed env job) (\<lambda>_ _. True)"
proof -
  let ?pend = "pg_pending (ComputeProgress (lj_item_count job) (lj_success_count job) (lj_failure_count job)) > 0"
  have fin: "wk_does (job_counted job)
      (wk_exec env (\<lambda>now d. FinalizeLookupJob now st None None (lj_id job) d) \<bind> f) (\<lambda>_ _. True)"
    if "\<not> ?pend" "\<And>r. wk_steps (f r)" for st and f :: "lookup_job result \<Rightarrow> lookup_job result wk"
    by (rule wk_does_conseq [OF wk_does_bind [OF finalize_steps that(2)]]) (use that(1) in \<open>auto simp: job_counted_def\<close>)
  show ?thesis unfolding finalize_refreshed_def Let_def
  proof (rule wk_steps_if, rule wk_steps_weaken, goal_cases)
    case 2
    then show ?case by (intro wk_steps_if wk_does_return fin) (auto intro!: wk_rules)
  qed (intro wk_rules)
qed

lemma FinalizeJob_steps [wk_rules]: "wk_steps (FinalizeJob env jid)"
proof -
  have refresh: "wk_does (\<lambda>_. True) (wk_exec env (\<lambda>now d. RefreshLookupJobCounters now jid d))
     (\<lambda>r d. case r of Inl _ \<Rightarrow> True | Inr job \<Rightarrow> job_counted job d)"
    by (rule wk_does_exec)
      (auto simp: job_counted_def refreshed_job(2) intro: step_rtrancl lookup_step.refresh progress_done)
  have "wk_does (\<lambda>d. case r of Inl _ \<Rightarrow> True | Inr job \<Rightarrow> job_counted job d)
      (case r of Inl e \<Rightarrow> State_Monad.return (Inl e) | Inr job \<Rightarrow> finalize_refreshed env job) (\<lambda>_ _. True)" for r
    by (cases r) (simp_all add: wk_does_return finalize_refreshed_steps)
  then show ?thesis unfolding FinalizeJob_def by (rule wk_does_bind [OF refresh])
qed

lemma finalizeReady_steps [wk_rules]: "wk_steps (finalizeReady env)"
proof -
  have "wk_steps (finalize_jobs env js)" for js by (induction js) (auto intro!: wk_rules)
  then show ?thesis unfolding finalizeReady_def by (intro wk_rules)
qed

lemma DrainCallbacks_steps [wk_rules]: "wk_steps (DrainCallbacks env)"
  unfolding DrainCallbacks_def by (intro wk_rules)

lemma deliverWebhooks_steps [wk_rules]: "wk_steps (deliverWebhooks env)"
proof -
  have deliver: "wk_steps (State (\<lambda>s. case DeliverDue (ev_deliver env (lw_reads s)) now 10
                        \<lparr>wh_db = lw_db s, wh_posts = lw_posts s\<rparr> of
                     (n, w) \<Rightarrow> (n, s\<lparr>lw_db := wh_db w, lw_posts := wh_posts w\<rparr>)))" for now
  proof -
    have "lookup_steps (lw_db s) (wh_db (snd (DeliverDue e now 10 \<lparr>wh_db = lw_db s, wh_posts = lw_posts s\<rparr>)))" for s :: lw_state and e
      using hooks_only_steps [OF DeliverDue_hooks [of "\<lparr>wh_db = lw_db s, wh_posts = lw_posts s\<rparr>"]] by simp
    then show ?thesis by (simp add: wk_does_def case_prod_beta)
  qed
  show ?thesis unfolding deliverWebhooks_def by (intro deliver wk_rules)
qed

section \<open>Late data, the reconciler and the tick\<close>

lemma enrich_items_steps: "wk_steps (enrich_items env deadline items)"
proof (induction items)
  case (Cons item items)
  have patch: "wk_steps (patchItem env item n (li_status item) [li_status item] False)" for n
    using patchItem_then [where f = State_Monad.return and fs = "[li_status item]" and terminal = False]
    by (simp add: wk_does_return)
  have bump: "wk_steps (wk_exec env (\<lambda>t d. unit_result (BumpLookupItemEnrichAttempt t (li_id item) d)))"
    by (rule wk_steps_exec) (auto intro: step_rtrancl lookup_step.bump)
  show ?case by (auto intro!: patch bump Cons wk_rules)
qed (simp add: wk_does_return)

lemma enrichTerminalHLR_steps [wk_rules]: "wk_steps (enrichTerminalHLR env deadline)"
  unfolding enrichTerminalHLR_def
  by (intro wk_rules enrich_items_steps) (auto intro: step_rtrancl lookup_step.claim_enrich)

lemma rec_pending_steps [wk_rules]: "wk_steps (rec_pending env now items)"
  by (induction items) (auto intro!: wk_rules legal_open [OF _ refl] simp: item_rank_def)

lemma rec_reserved_steps [wk_rules]: "wk_steps (rec_reserved env t items)"
  by (induction items) (auto intro!: wk_rules)

lemma FailJob_hooks:
  assumes "FailJob (job_hook env ids now) t jid code msg d = Inr (j, d')"
  obtains "d' = d" | k e where "FinalizeLookupJob t LJobFailed (strPtrOrNil code) (strPtrOrNil msg) jid d = Inr (k, e)"
    "hooks_only e d'"
  using assms
  by (auto simp: FailJob_def job_hook_def Enqueue_hooks split: sum.splits if_splits option.splits)

text \<open>The shells the reconciler fails have no items.\<close>

lemma empty_shell_finished:
  assumes ok: "lookup_ok d" and j: "j \<in> set (ListEmptyCsvLookupShells f t n d)"
  shows "job_finished (lj_id j) d"
proof -
  from j have "j \<in> set (lookup_jobs d)" "lj_item_count j = 0"
    by (auto simp: ListEmptyCsvLookupShells_def dest!: in_set_takeD)
  with lookup_okD(6) [OF ok this(1)] show ?thesis
    by (simp add: job_finished_def job_stored_def items_finished_def job_wf_def)
qed

definition all_finished :: "lookup_job list \<Rightarrow> db \<Rightarrow> bool" where
  "all_finished js d = list_all (\<lambda>j. job_finished (lj_id j) d) js"

lemma stable_all_finished: "stable (all_finished js)"
  using stable_job_finished by (fastforce simp: stable_def all_finished_def list_all_iff)

lemma shell_fail_steps:
  assumes ok: "lookup_ok d" and fin: "job_finished jid d"
    and e: "(if b then FailJob (job_hook env ids now) now jid code msg d
       else FinalizeLookupJob now LJobFailed c m jid d) = Inr (j, d')"
  shows "lookup_steps d d'"
proof (cases b)
  case True
  with e have "FailJob (job_hook env ids now) now jid code msg d = Inr (j, d')" by simp
  then show ?thesis
  proof (cases rule: FailJob_hooks)
    case (2 k e)
    then show ?thesis using fin hooks_only_steps [OF 2(2)]
      by (auto simp: job_finished_def intro: rtranclp_trans step_rtrancl lookup_step.finalize)
  qed simp
next
  case False
  with e fin show ?thesis by (auto simp: job_finished_def intro: step_rtrancl lookup_step.finalize)
qed

lemma rec_shells_steps: "wk_does (all_finished js) (rec_shells env js) (\<lambda>_ _. True)"
proof (induction js)
  case (Cons j js)
  let ?P = "all_finished (j # js)"
  have fresh: "wk_does ?P (wk_fresh env) (\<lambda>_. ?P)"
    by (rule wk_does_stable [OF stable_all_finished]) (rule wk_steps_atoms)
  have exec: "wk_does ?P (wk_exec env (\<lambda>now d.
        if ev_service env
        then FailJob (job_hook env ids now) now (lj_id j) ''csv_parse_abandoned'' ''CSV parse heal attempts exhausted'' d
        else FinalizeLookupJob now LJobFailed (strPtr ''csv_parse_abandoned'')
               (strPtr ''CSV parse heal attempts exhausted'') (lj_id j) d)) (\<lambda>_. all_finished js)" for ids
  proof (rule wk_does_exec)
    fix now d a d'
    assume A: "lookup_ok d" "?P d" and e: "(if ev_service env
        then FailJob (job_hook env ids now) now (lj_id j) ''csv_parse_abandoned'' ''CSV parse heal attempts exhausted'' d
        else FinalizeLookupJob now LJobFailed (strPtr ''csv_parse_abandoned'')
               (strPtr ''CSV parse heal attempts exhausted'') (lj_id j) d) = Inr (a, d')"
    from A(2) have fin: "job_finished (lj_id j) d" "all_finished js d" by (simp_all add: all_finished_def)
    have "lookup_steps d d'" by (rule shell_fail_steps [OF A(1) fin(1) e])
    then show "lookup_steps d d' \<and> all_finished js d'"
      using stable_all_finished [of js] A(1) fin(2) unfolding stable_def by blast
  qed (simp add: all_finished_def)
  show ?case by (simp add: wk_does_bind [OF fresh wk_does_bind [OF exec Cons]])
qed (simp add: wk_does_return)

lemma reap_item_steps:
  assumes "item_finished (li_id i) d"
  shows "lookup_steps d (fst (reap_item ids now i d))"
  using assms
  by (auto simp: reap_item_def CaptureForLookupItem_def ReleaseForLookupItem_def Let_def split: sum.split
      intro: step_rtrancl lookup_step.settle)

lemma reap_items_steps:
  assumes "lookup_ok d" "list_all (\<lambda>i. item_finished (li_id i) d) is"
  shows "lookup_steps d (fst (reap_items ids now k is d))"
  using assms
proof (induction ids now k "is" d rule: reap_items.induct)
  case (2 ids now k i "is" d)
  obtain d1 n1 where r: "reap_item (ids k) now i d = (d1, n1)" by (cases "reap_item (ids k) now i d")
  have 1: "lookup_steps d d1" using reap_item_steps [of i d "ids k" now] 2 r by simp
  then have ok: "lookup_ok d1" using steps_forward 2(2) by blast
  have "item_finished (li_id x) d1" if "x \<in> set is" for x
    using stable_item_finished [of "li_id x"] 2(2,3) 1 that unfolding stable_def by (auto simp: list_all_iff)
  then have "lookup_steps d1 (fst (reap_items ids now (Suc k) is d1))"
    using 2(1) [OF r [symmetric]] ok by (simp add: list_all_iff)
  with 1 r show ?case by (simp add: case_prod_beta Let_def)
qed simp

lemma unsettled_finished:
  "list_all (\<lambda>i. item_finished (li_id i) d) (ListUnsettledTerminalLookupItems jid d)"
  by (auto simp: ListUnsettledTerminalLookupItems_def list_all_iff item_finished_def list_ex_iff IsTerminalItem_def terminal_item_def)

lemma reap_job_steps:
  assumes ok: "lookup_ok d"
  shows "lookup_steps d (fst (reap_job ids now row d))"
proof (cases "ol_lookup_job row")
  case (Some jid)
  define d1 where "d1 = fst (reap_items (\<lambda>k. ids (Suc k)) now 0 (ListUnsettledTerminalLookupItems jid d) d)"
  have 1: "lookup_steps d d1" unfolding d1_def by (rule reap_items_steps [OF ok unsettled_finished])
  have "lookup_steps d d2" if "ReleaseLookupJobRemainder (ids 0) now jid d1 = Inr d2" for d2
    using 1 that by (auto intro: rtranclp_trans step_rtrancl lookup_step.remainder)
  with 1 Some show ?thesis by (simp add: reap_job_def case_prod_beta Let_def d1_def split: sum.split)
qed (simp add: reap_job_def)

lemma reap_jobs_steps: "lookup_ok d \<Longrightarrow> lookup_steps d (fst (reap_jobs ids now k rows d))"
proof (induction ids now k rows d rule: reap_jobs.induct)
  case (2 ids now k row rows d)
  obtain d1 n1 where r: "reap_job (ids k) now row d = (d1, n1)" by (cases "reap_job (ids k) now row d")
  have 1: "lookup_steps d d1" using reap_job_steps [OF 2(2), of "ids k" now row] r by simp
  then have "lookup_ok d1" using steps_forward 2(2) by blast
  with 2(1) [OF r [symmetric]] 1 r show ?case by (simp add: case_prod_beta Let_def)
qed simp

lemma reap_holds_steps [wk_rules]: "wk_steps (reap_holds env)"
  unfolding reap_holds_def by (intro wk_rules) (auto simp: ReapOpenLookupHolds_def Let_def intro: reap_jobs_steps)

lemma reopen_steps [wk_rules]: "wk_steps (wk_apply env (\<lambda>_ d. ((), ReopenUnappliedLookupCallbacks t d)))"
  by (intro wk_rules) (auto simp: ReopenUnappliedLookupCallbacks_def intro: step_rtrancl lookup_step.callbacks)

lemma shells_then_steps:
  assumes "wk_steps m"
  shows "wk_steps (wk_query (ListEmptyCsvLookupShells f t n) \<bind> (\<lambda>js. rec_shells env js \<bind> (\<lambda>_. m)))"
proof (rule wk_does_bind)
  show "wk_does (\<lambda>_. True) (wk_query (ListEmptyCsvLookupShells f t n)) (\<lambda>js. all_finished js)"
    by (auto simp: wk_does_def wk_query_def all_finished_def list_all_iff intro: empty_shell_finished)
  show "wk_does (all_finished js) (rec_shells env js \<bind> (\<lambda>_. m)) (\<lambda>_ _. True)" for js
    by (rule wk_does_bind [OF rec_shells_steps assms])
qed

lemma lookup_reconcile_steps [wk_rules]: "wk_steps (lookup_reconcile env)"
  unfolding lookup_reconcile_def by (intro shells_then_steps wk_rules)

lemma tick_reconcile_steps [wk_rules]: "wk_steps (tick_reconcile env)"
  unfolding tick_reconcile_def by (intro wk_rules) simp_all

lemma before_deadline_steps [wk_rules]: "wk_steps m \<Longrightarrow> wk_steps (before_deadline env t m)"
  unfolding before_deadline_def by (intro wk_rules)

lemma lookup_Tick_steps: "wk_steps (lookup_Tick env)"
  unfolding lookup_Tick_def Let_def by (intro wk_rules)

end
