(* ===== verification/LookupProps.thy ===== *)
theory LookupProps
  imports LookupSteps OutboxProps
begin

text \<open>
  The correctness theorems of the lookup subsystem, with the state on which the witnesses run
  them: \<open>demo_check\<close> is a client with a job of two checks at a price of 1, one finished and
  one still pending, and the hold of 2 that pays for them.
\<close>

section \<open>An example state\<close>

definition demo_check_hold :: wallet_tx where
  "demo_check_hold = (demo_hold ''t1'' ''m1'' 8 2)
     \<lparr>tx_amount := 2, tx_sms_message := None, tx_lookup_job := Some ''j1'', tx_key := Some (LookupHoldKey ''j1'')\<rparr>"

definition demo_check :: db where
  "demo_check = demo_db
     \<lparr>lookup_items := [(demo_item ''i1'' ItemCompleted)\<lparr>li_completed_at := Some 3\<rparr>, demo_item ''i2'' ItemPending],
      wallets := [\<lparr>w_id = ''w1'', w_client = ''c1'', w_currency = ''RUB'', w_available = 8,
                   w_held = 2, w_version = 1\<rparr>],
      wallet_txs := [demo_check_hold]\<rparr>"

lemmas demo_check_defs = demo_check_def demo_check_hold_def demo_hold_def demo_defs

lemma demo_check_db_ok: "db_ok demo_check"
  by (simp add: demo_check_defs invariant_defs client_holds_def
      client_settlements_def is_settlement_def settlement_linked_def hold_covered_def settles_def
      tx_stored_def char3_def settle_key_ok_def key_defs settle_key_def)

lemma demo_check_ok: "lookup_ok demo_check"
proof -
  have "lookup_wf (lookup_jobs demo_check) (lookup_items demo_check) (wallet_txs demo_check)"
    by (simp add: lookup_wf_def demo_check_defs item_wf_def item_linked_def job_wf_def job_funded_def
        items_of_def job_holds_def paid_def settled_items_def sum_amounts_def settles_def tx_linked_def
        PollMaxAttempts_def int4_max_def IsTerminalJob_def)
  with demo_check_db_ok show ?thesis by (simp add: lookup_ok_def)
qed

definition demo_lookup_env :: lookup_env where
  "demo_lookup_env =
     \<lparr>ev_clock = (\<lambda>k. int k * second), ev_ids = (\<lambda>k n. ''t2''), ev_settings = None, ev_provider = False,
      ev_submit = (\<lambda>_ _ _. Inl \<lparr>pe_ctx = True, pe_smsc = None, pe_text = []\<rparr>),
      ev_fetch = (\<lambda>_ _ _ _. Inl \<lparr>pe_ctx = True, pe_smsc = None, pe_text = []\<rparr>), ev_limiter = None,
      ev_billing = True, ev_hooks = None, ev_deliver = undefined,
      ev_codec = \<lparr>cd_json = (\<lambda>_. ''{}''), cd_extras = (\<lambda>_ _. None), cd_normalized = (\<lambda>_. empty_normalized),
        cd_raw = (\<lambda>_. None), cd_msc = (\<lambda>_. None), cd_payload_id = (\<lambda>_. None), cd_csv_path = (\<lambda>_. False)\<rparr>,
      ev_service = False, ev_reap_ids = (\<lambda>_ _ _ _. ''t2'')\<rparr>"

definition demo_lw :: lw_state where
  "demo_lw = \<lparr>lw_db = demo_check, lw_reads = 0, lw_ids = 0, lw_calls = [], lw_posts = [], lw_last_rec = None\<rparr>"

section \<open>The worker and the invariant\<close>





text \<open>
  C24. The life of an item only goes forward (queued, reserved, pending, finished), whatever
  statements of the API and of the workers are interleaved: every stored item is still there,
  of the same job and price; once finished, its status and completion time are final; once
  settled, its billing action and cost are final.
\<close>

theorem lookup_items_only_advance:
  assumes "lookup_ok d" and "lookup_steps d d'" and "i \<in> set (lookup_items d)"
  shows "\<exists>k \<in> set (lookup_items d'). li_id k = li_id i \<and> li_job k = li_job i \<and>
    li_unit_sell_price k = li_unit_sell_price i \<and> item_rank (li_status i) \<le> item_rank (li_status k) \<and>
    (IsTerminalItem (li_status i) \<longrightarrow> li_status k = li_status i \<and> li_completed_at k = li_completed_at i) \<and>
    (li_billing_action i \<noteq> None \<longrightarrow> li_billing_action k = li_billing_action i \<and> li_actual_cost k = li_actual_cost i)"
  using steps_forward [OF assms(2,1)] assms(3)
  unfolding lookup_forward_def items_forward_def item_forward_def by blast

theorem lookup_items_only_advance_witness:
  "\<exists>k \<in> set (lookup_items (snd (ClaimPendingLookupItemsFair 5 8 6 demo_check))).
     li_id k = ''i1'' \<and> li_status k = ItemCompleted \<and> li_completed_at k = Some 3"
proof -
  have s: "lookup_steps demo_check (snd (ClaimPendingLookupItemsFair 5 8 6 demo_check))"
    by (intro step_rtrancl lookup_step.claim_pending)
  have i: "(demo_item ''i1'' ItemCompleted)\<lparr>li_completed_at := Some 3\<rparr> \<in> set (lookup_items demo_check)"
    by (simp add: demo_check_def)
  from lookup_items_only_advance [OF demo_check_ok s i] show ?thesis
    by (auto simp: demo_item_def IsTerminalItem_def)
qed

section \<open>Money\<close>

text \<open>
  C25. The client of a job with items pays exactly its price for every check that was captured:
  there is one hold, of the price times the number of items; what was debited from it is the
  price times the items captured, what was given back the price times the items released, and
  what is still open of it the price times the items not settled yet.
\<close>

theorem lookup_job_accounts:
  assumes "lookup_ok d" and "lookup_steps d d'" and "i \<in> set (lookup_items d')"
  shows "\<exists>h p. job_holds (li_job i) (wallet_txs d') = [h] \<and> li_unit_sell_price i = Some p \<and> 0 < p \<and>
    tx_client h = li_client i \<and>
    tx_amount h = p * of_nat (length (items_of (li_job i) (lookup_items d'))) \<and>
    paid DEBIT (tx_id h) (wallet_txs d') = p * of_nat (settled_items ActionCapture (li_job i) (lookup_items d')) \<and>
    paid RELEASE (tx_id h) (wallet_txs d') = p * of_nat (settled_items ActionRelease (li_job i) (lookup_items d')) \<and>
    open_amount (wallet_txs d') h = p * of_nat (unsettled_items (li_job i) (lookup_items d'))"
proof -
  have ok: "lookup_ok d'" by (rule lookup_system.steps_keep [OF assms(2,1)])
  from ok assms(3) obtain j h p where "j \<in> set (lookup_jobs d')" "lj_id j = li_job i" "lj_client j = li_client i"
    "li_unit_sell_price i = Some p" "lj_unit_sell_price j = Some p" "0 < p"
    and H: "job_holds (li_job i) (wallet_txs d') = [h]" "tx_client h = li_client i"
    "tx_amount h = p * of_nat (length (items_of (li_job i) (lookup_items d')))"
    "paid DEBIT (tx_id h) (wallet_txs d') = p * of_nat (settled_items ActionCapture (li_job i) (lookup_items d'))"
    "paid RELEASE (tx_id h) (wallet_txs d') = p * of_nat (settled_items ActionRelease (li_job i) (lookup_items d'))"
    by (rule item_hold)
  moreover have "open_amount (wallet_txs d') h = p * of_nat (unsettled_items (li_job i) (lookup_items d'))"
    by (rule hold_open_amount [OF ok assms(3) H(1)]) fact
  ultimately show ?thesis by blast
qed

lemma demo_check_settle_steps:
  assumes "settleLookupItem (\<lambda>_. ''t2'') 6 ''i1'' c demo_check = Inr d'"
  shows "lookup_steps demo_check d'"
  using assms by (intro step_rtrancl lookup_step.settle)
    (auto simp: item_finished_def demo_check_defs)

lemma demo_check_settle: "\<exists>d'. settleLookupItem (\<lambda>_. ''t2'') 6 ''i1'' True demo_check = Inr d' \<and>
    length (wallet_txs d') = 2 \<and> length (lookup_items d') = 2 \<and> hd (lookup_items d') \<in> set (lookup_items d') \<and>
    li_job (hd (lookup_items d')) = ''j1'' \<and> li_unit_sell_price (hd (lookup_items d')) = Some 1 \<and>
    settled_items ActionCapture ''j1'' (lookup_items d') = 1 \<and> job_holds ''j1'' (wallet_txs d') = [demo_check_hold]"
  by (simp add: settleLookupItem_def walletVersionRetries_def numeral_eq_Suc settleLookupItemOnce_def
      lookup_settle_read_def lookup_settle_write_def lookup_hold_check_def GetLookupItem_def demo_check_defs
      GetLookupJobHold_def SumSettledAgainstHold_def settled_sum_def settles_def applyDebitFromHold_def
      markLookupItemPosted_def lookup_settle_key_def settled_items_def job_holds_def settle_action_def
      RemainingOnHold_def SetLookupItemBillingAction_def wallet_eval)

theorem lookup_job_accounts_witness:
  "\<exists>d'. settleLookupItem (\<lambda>_. ''t2'') 6 ''i1'' True demo_check = Inr d' \<and> paid DEBIT ''t1'' (wallet_txs d') = 1"
proof -
  from demo_check_settle obtain d' where d': "settleLookupItem (\<lambda>_. ''t2'') 6 ''i1'' True demo_check = Inr d'"
    "hd (lookup_items d') \<in> set (lookup_items d')" "li_job (hd (lookup_items d')) = ''j1''"
    "li_unit_sell_price (hd (lookup_items d')) = Some 1"
    "settled_items ActionCapture ''j1'' (lookup_items d') = 1" "job_holds ''j1'' (wallet_txs d') = [demo_check_hold]"
    by blast
  from lookup_job_accounts [OF demo_check_ok demo_check_settle_steps [OF d'(1)] d'(2)]
  have "paid DEBIT ''t1'' (wallet_txs d') = 1"
    using d'(3-6) by (auto simp: demo_check_hold_def demo_hold_def)
  with d'(1) show ?thesis by blast
qed

text \<open>
  C26. The settlement of a check never gets stuck: in every state the system reaches, an item
  that was not settled can be captured or released against the hold of its job whenever its
  client is not deleted, has a wallet whose version can still grow, and the new balance fits
  the column; the money of exactly one price moves, and the item is marked.
\<close>

theorem lookup_item_can_be_settled:
  assumes "lookup_ok d" and "lookup_steps d d'"
    and "i \<in> set (lookup_items d')" "li_billing_action i = None" "li_unit_sell_price i = Some p"
    and "\<not> clientDeleted (li_client i) d'" and "LockWalletByClientID (li_client i) d' = Inr w"
    and "w_version w < int4_max" and "new_id \<notin> tx_id ` set (wallet_txs d')"
    and "storable (w_available w + (if c then 0 else p))"
  shows "\<exists>d''. settleLookupItemOnce new_id now (li_id i) c d' = Inr d'' \<and>
    GetWalletByClientID (li_client i) d'' = Inr (w\<lparr>w_available := w_available w + (if c then 0 else p),
       w_held := w_held w - p, w_version := w_version w + 1\<rparr>) \<and>
    list_ex (\<lambda>k. li_id k = li_id i \<and> li_billing_action k = Some (settle_action c)) (lookup_items d'')"
proof -
  have ok: "lookup_ok d'" by (rule lookup_system.steps_keep [OF assms(2,1)])
  obtain d'' cost where D: "settleLookupItemOnce new_id now (li_id i) c d' = Inr d''"
    "lookup_items d'' = map (settle_item (li_id i) c cost) (lookup_items d')"
    "GetWalletByClientID (li_client i) d'' = Inr (w\<lparr>w_available := w_available w + (if c then 0 else p),
       w_held := w_held w - p, w_version := w_version w + 1\<rparr>)"
    by (rule settle_lookup_succeeds [OF ok assms(3,4,6,7,8,9,5,10)])
  have "list_ex (\<lambda>k. li_id k = li_id i \<and> li_billing_action k = Some (settle_action c)) (lookup_items d'')"
    using D(2) assms(3) by (auto simp: list_ex_iff settle_item_action)
  with D show ?thesis by blast
qed

theorem lookup_item_can_be_settled_witness:
  "\<exists>d''. settleLookupItemOnce ''t2'' 6 ''i1'' True demo_check = Inr d'' \<and>
    (case GetWalletByClientID ''c1'' d'' of Inl _ \<Rightarrow> False | Inr w \<Rightarrow> w_available w = 8 \<and> w_held w = 1)"
proof -
  have "\<exists>d''. settleLookupItemOnce ''t2'' 6 (li_id (hd (lookup_items demo_check))) True demo_check = Inr d'' \<and>
    GetWalletByClientID (li_client (hd (lookup_items demo_check))) d'' =
      Inr ((hd (wallets demo_check))\<lparr>w_available := w_available (hd (wallets demo_check)) + (if True then 0 else 1),
       w_held := w_held (hd (wallets demo_check)) - 1, w_version := w_version (hd (wallets demo_check)) + 1\<rparr>) \<and>
    list_ex (\<lambda>k. li_id k = li_id (hd (lookup_items demo_check)) \<and>
       li_billing_action k = Some (settle_action True)) (lookup_items d'')"
    by (rule lookup_item_can_be_settled [OF demo_check_ok rtranclp.rtrancl_refl])
      (simp_all add: demo_check_defs wallet_eval storable_def)
  then show ?thesis by (auto simp: demo_check_defs)
qed

section \<open>Creating and finishing a job\<close>

text \<open>
  C27. A job that \<open>Create\<close> accepts is complete or not there at all: it adds one queued job of
  the client, one queued item for each distinct valid phone, in order, stamped with its own
  send id and priced by the tariff, and one hold of the price times the number of items; the
  other rows are unchanged and the invariant holds.
\<close>

theorem CreateJob_adds_whole_job:
  assumes "lookup_ok d" and "CreateJob sha256 required79 ids now settings i d = Inr (r, d')"
    and "\<not> cr_deduplicated r" and "length (ci_phones i) \<le> 2147483647"
  shows "\<exists>new h p ct phones n. lookup_ok d' \<and> ci_check_type i = Some ct \<and>
    lookup_jobs d' = lookup_jobs d @ [cr_job r] \<and> lookup_items d' = lookup_items d @ new \<and>
    wallet_txs d' = wallet_txs d @ [h] \<and>
    lj_client (cr_job r) = ci_client i \<and> lj_status (cr_job r) = LJobQueued \<and>
    lj_item_count (cr_job r) = int (length new) \<and>
    (\<exists>src m. PreparePhones required79 (ci_phones i) src m (ci_cap_name i) = Inr (phones, n)) \<and>
    list_all2 (\<lambda>ph k. li_phone k = ph \<and> li_phone_digits k = PhoneDigits ph \<and>
        li_provider_message_id k = Some (ClientSendID sha256 ct (li_id k))) phones new \<and>
    list_all (\<lambda>k. li_job k = lj_id (cr_job r) \<and> li_client k = ci_client i \<and> li_status k = ItemQueued \<and>
        li_unit_sell_price k = Some p \<and> li_billing_action k = None) new \<and>
    0 < p \<and> tx_type h = HOLD \<and> tx_lookup_job h = Some (lj_id (cr_job r)) \<and> tx_client h = ci_client i \<and>
    tx_amount h = p * of_nat (length new)"
proof -
  have len: "int (length (ci_phones i)) \<le> 2147483647" using assms(4) by simp
  have c: "create_job sha256 required79 ids now settings i d d = (Inr r, Live d')" by (rule CreateJob_OK [OF assms(2,3)])
  show ?thesis
  proof (rule create_effect [OF c assms(3,1) len], goal_cases)
    case (1 job new h ws p phones ct n src view est)
    then show ?case by (intro exI [of _ new] exI [of _ h] exI [of _ p] exI [of _ ct] exI [of _ phones] exI [of _ n])
      (auto simp: list_all_iff)
  qed
qed

definition demo_lab :: db where
  "demo_lab = demo_shop
     \<lparr>lookup_jobs := [], lookup_items := [],
      tariff_plans := [\<lparr>tp_id = ''p2'', tp_code = ''hlr'', tp_product = Hlr, tp_sell_price = 2,
         tp_currency = ''RUB'', tp_is_active = True\<rparr>],
      client_tariffs := [\<lparr>ct_id = ''a1'', ct_client = ''c1'', ct_product = Hlr, ct_plan = ''p2'',
         ct_price_override = None, ct_effective_from = 0, ct_effective_to = None\<rparr>]\<rparr>"

definition demo_create :: create_input where
  "demo_create = \<lparr>ci_client = ''c1'', ci_check_type = Some CheckHlr, ci_source = Some SourceApi,
     ci_phones = [''8 900 000-00-02'', ''+79000000002''], ci_key = [], ci_created_by = None, ci_api_credential = None,
     ci_filename = None, ci_metadata = [], ci_max_phones = 10, ci_cap_name = []\<rparr>"

definition demo_create_ids :: create_ids where
  "demo_create_ids = \<lparr>cid_job = ''j1'', cid_items = (\<lambda>_. ''i1''), cid_hold = ''h1''\<rparr>"

lemma demo_lab_ok: "lookup_ok demo_lab"
  by (simp add: lookup_ok_def lookup_wf_def demo_lab_def demo_shop_def demo_defs invariant_defs)

lemma demo_CreateJob:
  "\<exists>r d'. CreateJob (\<lambda>_. ''abcd'') [] demo_create_ids 5 (Inr (default_view\<lparr>sp_lookup_enabled := True\<rparr>)) demo_create demo_lab
     = Inr (r, d') \<and> \<not> cr_deduplicated r \<and> length (wallet_txs d') = 1"
proof -
  let ?view = "default_view\<lparr>sp_lookup_enabled := True\<rparr>"
  let ?est = "\<lparr>es_product = Hlr, es_segments = 1, es_unit_sell_price = 2, es_total = 2, es_currency = ''RUB'',
    es_tariff_plan_id = ''p2'', es_tariff_plan_code = ''hlr''\<rparr>"
  have est: "EstimateLookup 5 ''c1'' CheckHlr 1 demo_lab = Inr ?est"
    by (simp add: EstimateLookup_def Let_def ProductForCheckType_def ResolveTariff_def GetClientTariff_def tariff_row_def
        GetWalletByClientID_def trimCurrency_def demo_lab_def demo_shop_def demo_defs mustPositive_def)
  have "create_checks [] (Inr ?view) 5 demo_create demo_lab = Inr (Inr (CheckHlr, SourceApi, [''+79000000002''], 1, ?est))"
    using PreparePhones_demo est
    by (simp add: create_checks_def demo_create_def source_string_def uuid_Nil_def GetClientByID_def
        demo_lab_def demo_shop_def demo_defs)
  then show ?thesis
    by (simp add: CreateJob_def create_job_def InsertLookupJob_def job_params_def demo_create_def create_currency_def
        demo_create_ids_def new_item_def item_params_def stampClientSendIDs_def ListLookupItemsByJob_def job_items_def
        StampLookupItemClientSendID_def lookup_deref_def no_provider_id_def provider_key_taken_def ReserveForLookupJob_def
        tx_commit_def int32_of_def demo_lab_def demo_shop_def demo_defs wallet_eval)
qed

theorem CreateJob_adds_whole_job_witness:
  "\<exists>r d' new h. CreateJob (\<lambda>_. ''abcd'') [] demo_create_ids 5 (Inr (default_view\<lparr>sp_lookup_enabled := True\<rparr>))
       demo_create demo_lab = Inr (r, d') \<and>
     lookup_items d' = lookup_items demo_lab @ new \<and> wallet_txs d' = wallet_txs demo_lab @ [h] \<and> tx_type h = HOLD"
proof -
  from demo_CreateJob obtain r d' where c: "CreateJob (\<lambda>_. ''abcd'') [] demo_create_ids 5
      (Inr (default_view\<lparr>sp_lookup_enabled := True\<rparr>)) demo_create demo_lab = Inr (r, d')" "\<not> cr_deduplicated r"
    by blast
  have "length (ci_phones demo_create) \<le> 2147483647" by (simp add: demo_create_def)
  from CreateJob_adds_whole_job [OF demo_lab_ok c this] c(1) show ?thesis by blast
qed

end
