(* ===== verification/LookupFinish.thy ===== *)
theory LookupFinish
  imports LookupProps
begin

text \<open>
  What \<open>FinalizeJob\<close> does with a job whose items are all finished: it always finishes the job,
  with the status its items call for.
\<close>

section \<open>Running the state monad\<close>

lemma run_bind: "run_state (m \<bind> f) s = (case run_state m s of (a, t) \<Rightarrow> run_state (f a) t)"
  by (simp add: State_Monad.bind_def)

lemma run_return [simp]: "run_state (State_Monad.return a) s = (a, s)"
  by (simp add: State_Monad.return_def)

lemma run_exec_Inr:
  assumes "f (ev_clock env (lw_reads s)) (lw_db s) = Inr (a, d)"
  shows "run_state (wk_exec env f) s = (Inr a, s\<lparr>lw_reads := Suc (lw_reads s), lw_db := d\<rparr>)"
  using assms by (simp add: wk_exec_def wk_now_def run_bind)

lemma run_seq_return:
  "fst (run_state (m \<bind> (\<lambda>_. n \<bind> (\<lambda>_. State_Monad.return x))) s) = x"
  by (simp add: run_bind case_prod_beta)

section \<open>The two statements\<close>

lemma refresh_run:
  assumes ok: "lookup_ok d" and j: "j \<in> set (lookup_jobs d)" and cost: "billing_money (captured_cost (lj_id j) d) = Inr c"
  obtains job d1 where "RefreshLookupJobCounters now (lj_id j) d = Inr (job, d1)" "job \<in> set (lookup_jobs d1)"
    "lj_id job = lj_id j" "lj_status job = lj_status j" "lj_actual_cost job = Some c"
proof -
  have f: "find (\<lambda>k. lj_id k = lj_id j) (lookup_jobs d) = Some j" by (rule distinct_map_find [OF lookup_okD(2) [OF ok] j])
  let ?f = "\<lambda>j'. j'\<lparr>lj_success_count := count_items (\<lambda>i. li_status i = ItemCompleted) (lj_id j) d,
             lj_failure_count := count_items (\<lambda>i. li_status i = ItemFailed) (lj_id j) d,
             lj_reachable_count := count_items (\<lambda>i. li_result_status i = Some ''reachable'') (lj_id j) d,
             lj_unreachable_count := count_items (\<lambda>i. li_result_status i = Some ''unreachable'') (lj_id j) d,
             lj_actual_cost := Some c, lj_updated_at := now\<rparr>"
  have "RefreshLookupJobCounters now (lj_id j) d =
      Inr (?f j, d\<lparr>lookup_jobs := update_where (\<lambda>k. lj_id k = lj_id j) ?f (lookup_jobs d)\<rparr>)"
    using cost f by (simp add: RefreshLookupJobCounters_def update_job_def)
  then show thesis by (rule that) (use j in \<open>auto simp: set_update_where\<close>)
qed

lemma finalize_run:
  assumes ok: "lookup_ok d" and j: "j \<in> set (lookup_jobs d)" and st: "\<not> IsTerminalJob (lj_status j)"
  obtains k d1 where "FinalizeLookupJob now status code msg (lj_id j) d = Inr (k, d1)" "k \<in> set (lookup_jobs d1)"
    "k = j\<lparr>lj_status := status, lj_error_code := code, lj_error_message := msg,
            lj_completed_at := Some now, lj_updated_at := now\<rparr>"
proof -
  have o: "open_job (lj_id j) k \<longleftrightarrow> lj_id k = lj_id j" if "k \<in> set (lookup_jobs d)" for k
    using distinct_map_inj [OF lookup_okD(2) [OF ok] that j] st by (cases "lj_status j") (auto simp: open_job_def IsTerminalJob_def)
  have "find (open_job (lj_id j)) (lookup_jobs d) = find (\<lambda>k. lj_id k = lj_id j) (lookup_jobs d)"
    by (rule find_cong [OF refl o])
  also have "\<dots> = Some j" by (rule distinct_map_find [OF lookup_okD(2) [OF ok] j])
  finally have f: "find (open_job (lj_id j)) (lookup_jobs d) = Some j" .
  show thesis
    by (rule that) (use f j o [OF j] in \<open>auto simp: FinalizeLookupJob_def update_job_def set_update_where\<close>)
qed

text \<open>The counts of a job all of whose items are finished.\<close>

lemma finished_counts:
  assumes "list_all (\<lambda>i. IsTerminalItem (li_status i)) is"
  shows "length (filter (\<lambda>i. li_status i = ItemCompleted) is) + length (filter (\<lambda>i. li_status i = ItemFailed) is) = length is"
  using assms by (induction "is") (auto simp: IsTerminalItem_def)

definition status_of_items :: "lookup_item list \<Rightarrow> lookup_job_status" where
  "status_of_items is =
     (if list_all (\<lambda>i. li_status i = ItemCompleted) is then LJobCompleted
      else if list_all (\<lambda>i. li_status i = ItemFailed) is then LJobFailed
      else LJobCompletedWithErrors)"

lemma status_of_items_terminal: "IsTerminalJob (status_of_items is)"
  by (simp add: status_of_items_def IsTerminalJob_def)

lemma derived_status:
  assumes fin: "list_all (\<lambda>i. IsTerminalItem (li_status i)) is" and ne: "is \<noteq> []" and small: "length is \<le> nat int4_max"
    and c: "c = int (length (filter (\<lambda>i. li_status i = ItemCompleted) is))"
    and f: "f = int (length (filter (\<lambda>i. li_status i = ItemFailed) is))"
  shows "pg_pending (ComputeProgress (int (length is)) c f) = 0"
    "DeriveJobTerminalStatus (int (length is)) c f = status_of_items is"
proof -
  have sum: "c + f = int (length is)" using finished_counts [OF fin] c f by simp
  have "int32_of (c + f) = c + f" using sum small by (intro int32_of_small) (auto simp: int4_max_def)
  then show "pg_pending (ComputeProgress (int (length is)) c f) = 0"
    using sum by (simp add: ComputeProgress_def Let_def int32_of_def)
  have all: "f = 0 \<longleftrightarrow> list_all (\<lambda>i. li_status i = ItemCompleted) is" "c = 0 \<longleftrightarrow> list_all (\<lambda>i. li_status i = ItemFailed) is"
    using fin c f by (auto simp: filter_empty_conv list_all_iff IsTerminalItem_def)
  show "DeriveJobTerminalStatus (int (length is)) c f = status_of_items is"
    unfolding DeriveJobTerminalStatus_def status_of_items_def all(1,2) [symmetric] using sum ne by auto
qed

lemma FinalizeJob_run:
  assumes ok: "lookup_ok (lw_db s)" and j: "j \<in> set (lookup_jobs (lw_db s))" "\<not> IsTerminalJob (lj_status j)"
    and items: "items_of (lj_id j) (lookup_items (lw_db s)) = is" "is \<noteq> []" "list_all (\<lambda>i. IsTerminalItem (li_status i)) is"
    and cost: "billing_money (captured_cost (lj_id j) (lw_db s)) = Inr c"
  obtains k t where "lj_id k = lj_id j" "lj_status k = status_of_items is" "lj_actual_cost k = Some c"
    "lj_success_count k = int (length (filter (\<lambda>i. li_status i = ItemCompleted) is))"
    "lj_failure_count k = int (length (filter (\<lambda>i. li_status i = ItemFailed) is))"
    "k \<in> set (lookup_jobs (lw_db t))" "lookup_ok (lw_db t)"
    "run_state (FinalizeJob env (lj_id j)) s =
       run_state (releaseRemainder env k \<bind> (\<lambda>_. enqueue_job_hook env k \<bind> (\<lambda>_. State_Monad.return (Inr k)))) t"
proof -
  let ?n0 = "ev_clock env (lw_reads s)"
  obtain job d1 where R: "RefreshLookupJobCounters ?n0 (lj_id j) (lw_db s) = Inr (job, d1)" "job \<in> set (lookup_jobs d1)"
    "lj_id job = lj_id j" "lj_status job = lj_status j" "lj_actual_cost job = Some c"
    by (rule refresh_run [OF ok j(1) cost])
  note F = refreshed_job [OF ok R(1)]
  have s1: "lookup_steps (lw_db s) d1" by (rule step_rtrancl [OF lookup_step.refresh [OF R(1)]])
  have ok1: "lookup_ok d1" using steps_forward [OF s1 ok] by simp
  have small: "length is \<le> nat int4_max" using lookup_okD(6) [OF ok j(1)] items(1) by (simp add: job_wf_def)
  have own: "job_items (lj_id j) (lw_db s) = is" using items(1) by (simp add: job_items_def items_of_def)
  have cnt: "lj_success_count job = int (length (filter (\<lambda>i. li_status i = ItemCompleted) is))"
    "lj_failure_count job = int (length (filter (\<lambda>i. li_status i = ItemFailed) is))"
    "lj_item_count job = int (length is)"
    using F(3-5) items(1) own by (simp_all add: count_items_def)
  note D = derived_status [OF items(3,2) small cnt(1,2)]
  let ?t1 = "s\<lparr>lw_reads := Suc (lw_reads s), lw_db := d1\<rparr>"
  let ?n1 = "ev_clock env (lw_reads ?t1)"
  have open1: "\<not> IsTerminalJob (lj_status job)" using R(4) j(2) by simp
  obtain k d2 where K: "FinalizeLookupJob ?n1 (status_of_items is) None None (lj_id job) d1 = Inr (k, d2)" "k \<in> set (lookup_jobs d2)"
    "k = job\<lparr>lj_status := status_of_items is, lj_error_code := None, lj_error_message := None,
            lj_completed_at := Some ?n1, lj_updated_at := ?n1\<rparr>"
    using finalize_run [OF ok1 R(2) open1] by blast
  have fin1: "items_finished (lj_id job) d1"
    using items(1,3) F(6) R(3) by (simp add: items_finished_def)
  have s2: "lookup_steps d1 d2" by (rule step_rtrancl [OF lookup_step.finalize [OF K(1) fin1]])
  let ?t = "?t1\<lparr>lw_reads := Suc (lw_reads ?t1), lw_db := d2\<rparr>"
  have r1: "run_state (wk_exec env (\<lambda>now d. RefreshLookupJobCounters now (lj_id j) d)) s = (Inr job, ?t1)"
    by (rule run_exec_Inr) (rule R(1))
  have r2: "run_state (wk_exec env (\<lambda>now d. FinalizeLookupJob now (status_of_items is) None None (lj_id job) d)) ?t1
      = (Inr k, ?t)" by (rule run_exec_Inr) (use K(1) in simp)
  have pr: "pg_total (ComputeProgress a b e) = a" "pg_success (ComputeProgress a b e) = b" "pg_failed (ComputeProgress a b e) = e"
    for a b e by (simp_all add: ComputeProgress_def Let_def)
  have "run_state (finalize_refreshed env job) ?t1 =
      run_state (releaseRemainder env k \<bind> (\<lambda>_. enqueue_job_hook env k \<bind> (\<lambda>_. State_Monad.return (Inr k)))) ?t"
    using R(4) j(2) cnt(3) items(2) D by (simp add: finalize_refreshed_def Let_def pr run_bind [of "wk_exec _ _"] r2)
  then have run: "run_state (FinalizeJob env (lj_id j)) s =
      run_state (releaseRemainder env k \<bind> (\<lambda>_. enqueue_job_hook env k \<bind> (\<lambda>_. State_Monad.return (Inr k)))) ?t"
    by (simp add: FinalizeJob_def run_bind [of "wk_exec _ _"] r1)
  have "lookup_ok d2" using steps_forward [OF s2 ok1] by simp
  with run K(2,3) R(3,5) cnt show thesis by (intro that [of k ?t]) simp_all
qed

section \<open>The result\<close>

text \<open>
  C28. A job of the lookup system whose items are all finished is always finished by
  \<open>FinalizeJob\<close>: the job returned, and the stored one, is completed when every item was,
  failed when every item failed, and completed with errors otherwise; its counters are those of
  its items and its cost is what was captured.
\<close>

theorem FinalizeJob_finishes:
  assumes "lookup_ok (lw_db s)" and "j \<in> set (lookup_jobs (lw_db s))" "\<not> IsTerminalJob (lj_status j)"
    and "items_of (lj_id j) (lookup_items (lw_db s)) = is" "is \<noteq> []" "list_all (\<lambda>i. IsTerminalItem (li_status i)) is"
    and "billing_money (captured_cost (lj_id j) (lw_db s)) = Inr c"
  shows "\<exists>k. fst (run_state (FinalizeJob env (lj_id j)) s) = Inr k \<and> lj_id k = lj_id j \<and>
    lj_status k = (if list_all (\<lambda>i. li_status i = ItemCompleted) is then LJobCompleted
      else if list_all (\<lambda>i. li_status i = ItemFailed) is then LJobFailed else LJobCompletedWithErrors) \<and>
    lj_success_count k = int (length (filter (\<lambda>i. li_status i = ItemCompleted) is)) \<and>
    lj_failure_count k = int (length (filter (\<lambda>i. li_status i = ItemFailed) is)) \<and> lj_actual_cost k = Some c \<and>
    list_ex (\<lambda>k'. lj_id k' = lj_id j \<and> lj_status k' = lj_status k)
      (lookup_jobs (lw_db (snd (run_state (FinalizeJob env (lj_id j)) s))))"
proof -
  obtain k t where K: "lj_id k = lj_id j" "lj_status k = status_of_items is" "lj_actual_cost k = Some c"
    "lj_success_count k = int (length (filter (\<lambda>i. li_status i = ItemCompleted) is))"
    "lj_failure_count k = int (length (filter (\<lambda>i. li_status i = ItemFailed) is))"
    and t: "k \<in> set (lookup_jobs (lw_db t))" "lookup_ok (lw_db t)"
    and run: "run_state (FinalizeJob env (lj_id j)) s =
       run_state (releaseRemainder env k \<bind> (\<lambda>_. enqueue_job_hook env k \<bind> (\<lambda>_. State_Monad.return (Inr k)))) t"
    by (rule FinalizeJob_run [OF assms])
  let ?m = "releaseRemainder env k \<bind> (\<lambda>_. enqueue_job_hook env k \<bind> (\<lambda>_. State_Monad.return (Inr k :: lookup_job result)))"
  have "wk_steps ?m" by (intro wk_rules)
  then have "lookup_steps (lw_db t) (lw_db (snd (run_state ?m t)))" using t(2) by (simp add: wk_does_def)
  from steps_forward [OF this t(2)] t(1) obtain k' where "k' \<in> set (lookup_jobs (lw_db (snd (run_state ?m t))))" "job_forward k k'"
    unfolding lookup_forward_def jobs_forward_def by blast
  then have "list_ex (\<lambda>k'. lj_id k' = lj_id j \<and> lj_status k' = lj_status k) (lookup_jobs (lw_db (snd (run_state ?m t))))"
    using K(1,2) status_of_items_terminal by (auto simp: list_ex_iff job_forward_def)
  then show ?thesis using K run run_seq_return [of "releaseRemainder env k" "enqueue_job_hook env k" "Inr k" t]
    by (intro exI [of _ k]) (simp add: status_of_items_def)
qed

definition demo_done :: lw_state where
  "demo_done = demo_lw\<lparr>lw_db := demo_check\<lparr>lookup_items :=
     [(demo_item ''i1'' ItemCompleted)\<lparr>li_completed_at := Some 3\<rparr>, (demo_item ''i2'' ItemFailed)\<lparr>li_completed_at := Some 4\<rparr>]\<rparr>\<rparr>"

lemma demo_done_ok: "lookup_ok (lw_db demo_done)"
proof -
  let ?g = "\<lambda>i. if li_id i = ''i2'' then i\<lparr>li_status := ItemFailed, li_completed_at := Some 4\<rparr> else i"
  have "lw_db demo_done = demo_check\<lparr>lookup_items := map ?g (lookup_items demo_check)\<rparr>"
    by (simp add: demo_done_def demo_check_def demo_item_def)
  moreover have "lookup_ok (demo_check\<lparr>lookup_items := map ?g (lookup_items demo_check)\<rparr>)"
    by (rule lookup_ok_items [OF demo_check_ok]) (auto simp: safe_item_def same_item_def item_wf_def)
  ultimately show ?thesis by simp
qed

theorem FinalizeJob_finishes_witness:
  "\<exists>k. fst (run_state (FinalizeJob demo_lookup_env ''j1'') demo_done) = Inr k \<and> lj_status k = LJobCompletedWithErrors \<and>
     lj_success_count k = 1 \<and> lj_failure_count k = 1"
proof -
  let ?d = "lw_db demo_done"
  have j: "demo_job \<in> set (lookup_jobs ?d)" "\<not> IsTerminalJob (lj_status demo_job)"
    by (simp_all add: demo_done_def demo_check_def demo_db_def demo_job_def IsTerminalJob_def)
  have own: "items_of (lj_id demo_job) (lookup_items ?d) = lookup_items ?d" "lookup_items ?d \<noteq> []"
    "list_all (\<lambda>i. IsTerminalItem (li_status i)) (lookup_items ?d)"
    by (simp_all add: demo_done_def demo_job_def demo_item_def items_of_def)
  have c: "billing_money (captured_cost (lj_id demo_job) ?d) = Inr 0"
    by (simp add: captured_cost_def job_items_def demo_done_def demo_job_def demo_item_def billing_money_def round6_id)
  from FinalizeJob_finishes [OF demo_done_ok j own c, of demo_lookup_env] show ?thesis
    by (auto simp: demo_job_def demo_done_def demo_item_def)
qed

end
