(* ===== verification/WebhookProps.thy ===== *)
theory WebhookProps
  imports WebhookDelivery
begin

text \<open>
  How often a webhook is posted. As long as what the endpoint answers can be stored, the number
  of requests for a delivery is at most its limit of attempts, over any run of the delivery
  loop with new events in between. An answer whose text PostgreSQL rejects breaks this: the
  attempt is not counted.
\<close>

section \<open>The system\<close>

text \<open>The text of every error and answer of one call can be stored after it was cut to 200 bytes.\<close>

definition storable_text :: "string \<Rightarrow> bool" where
  "storable_text msg = pg_text (truncate (scrubBrandString msg) 200)"

definition answers_storable :: "deliver_env \<Rightarrow> bool" where
  "answers_storable env =
     (case de_do env of Inl e \<Rightarrow> storable_text e | Inr r \<Rightarrow> storable_text (answer_message r))"

inductive webhook_step :: "wh_state \<Rightarrow> wh_state \<Rightarrow> bool" where
  deliver: "(\<And>k. answers_storable (envs k)) \<Longrightarrow> webhook_step s (snd (DeliverDue envs now limit s))"
| event: "webhook_max_attempts settings \<le> int4_max \<Longrightarrow>
     webhook_step s (s\<lparr>wh_db := snd (enqueue_event render settings ids now cid ev jid iid data (wh_db s))\<rparr>)"

definition posts_of :: "uuid \<Rightarrow> wh_state \<Rightarrow> int" where
  "posts_of did s = int (length (filter (\<lambda>p. po_delivery p = did) (wh_posts s)))"

definition open_delivery :: "webhook_delivery \<Rightarrow> bool" where
  "open_delivery v = (wd_status v = DeliveryPending \<or> wd_status v = DeliveryFailed)"

definition delivery_ok :: "wh_state \<Rightarrow> webhook_delivery \<Rightarrow> bool" where
  "delivery_ok s v =
     (posts_of (wd_id v) s \<le> wd_attempt_count v \<and> wd_attempt_count v \<le> wd_max_attempts v \<and>
      wd_max_attempts v \<le> int4_max \<and> (open_delivery v \<longrightarrow> wd_attempt_count v < wd_max_attempts v))"

definition webhook_ok :: "wh_state \<Rightarrow> bool" where
  "webhook_ok s =
     (distinct (map wd_id (webhook_deliveries (wh_db s))) \<and>
      (\<forall>v \<in> set (webhook_deliveries (wh_db s)). delivery_ok s v) \<and>
      (\<forall>p \<in> set (wh_posts s). po_delivery p \<in> wd_id ` set (webhook_deliveries (wh_db s))))"

section \<open>One delivery\<close>

lemma posts_of_nonneg [simp]: "0 \<le> posts_of did s"
  by (simp add: posts_of_def)

lemma posts_of_db [simp]: "posts_of did (s\<lparr>wh_db := d\<rparr>) = posts_of did s"
  by (simp add: posts_of_def)

lemma posts_of_snoc:
  "posts_of did (s\<lparr>wh_posts := wh_posts s @ [p]\<rparr>) = posts_of did s + (if po_delivery p = did then 1 else 0)"
  by (simp add: posts_of_def)

text \<open>What a call of \<open>deliverOne\<close> on the row \<open>v\<close> does to the table and to the requests.\<close>

inductive delivery_effect :: "webhook_delivery \<Rightarrow> wh_state \<Rightarrow> wh_state \<Rightarrow> bool" for v s where
  unchanged: "webhook_deliveries (wh_db s') = webhook_deliveries (wh_db s) \<Longrightarrow> wh_posts s' = wh_posts s \<Longrightarrow>
     delivery_effect v s s'"
| updated: "webhook_deliveries (wh_db s') = update_where (\<lambda>u. wd_id u = wd_id v) f (webhook_deliveries (wh_db s)) \<Longrightarrow>
     (\<And>u. wd_id (f u) = wd_id u \<and> wd_max_attempts (f u) = wd_max_attempts u) \<Longrightarrow>
     (\<And>u. open_delivery (f u) \<Longrightarrow> wd_attempt_count (f u) < wd_max_attempts v) \<Longrightarrow>
     (\<And>u. wd_attempt_count (f u) = wd_attempt_count v + (if counted then 1 else 0)) \<Longrightarrow>
     wh_posts s' = wh_posts s @ ps \<Longrightarrow> length ps \<le> (if counted then 1 else 0) \<Longrightarrow> (\<And>p. p \<in> set ps \<Longrightarrow> po_delivery p = wd_id v) \<Longrightarrow>
     delivery_effect v s s'"

definition live_row :: "webhook_delivery \<Rightarrow> wh_state \<Rightarrow> bool" where
  "live_row v s =
     (open_delivery v \<and> 0 \<le> wd_attempt_count v \<and> wd_attempt_count v < wd_max_attempts v \<and> wd_max_attempts v \<le> int4_max \<and>
      list_ex (\<lambda>u. wd_id u = wd_id v) (webhook_deliveries (wh_db s)))"

lemma live_row_count: "live_row v s \<Longrightarrow> int32_of (wd_attempt_count v + 1) = wd_attempt_count v + 1"
  by (rule int32_of_small) (simp_all add: live_row_def int4_max_def)

lemma IncrementWebhookEndpointFailures_deliveries:
  "IncrementWebhookEndpointFailures now n x d = Inr d' \<Longrightarrow> webhook_deliveries d' = webhook_deliveries d"
  by (auto simp: IncrementWebhookEndpointFailures_def split: if_splits)

lemma failAttempt_effect:
  assumes v: "live_row v s" and msg: "storable_text msg \<or> ps = []"
    and ps: "length ps \<le> 1" "\<And>p. p \<in> set ps \<Longrightarrow> po_delivery p = wd_id v"
  shows "delivery_effect v s (snd (failAttempt now v ep code msg (s\<lparr>wh_posts := wh_posts s @ ps\<rparr>)))"
proof -
  let ?a = "wd_attempt_count v + 1"
  let ?st = "if ?a \<ge> wd_max_attempts v then DeliveryDead else DeliveryFailed"
  let ?f = "\<lambda>u. u\<lparr>wd_status := ?st, wd_attempt_count := ?a, wd_last_response_code := (if code > 0 then Some code else None),
      wd_last_error := Some (truncate (scrubBrandString msg) 200),
      wd_next_attempt_at := (if ?a \<ge> wd_max_attempts v then None else NextAttemptAt ?a (wd_max_attempts v) now),
      wd_updated_at := now\<rparr>"
  let ?s = "s\<lparr>wh_posts := wh_posts s @ ps\<rparr>"
  let ?r = "snd (failAttempt now v ep code msg ?s)"
  note c = live_row_count [OF v]
  have row: "list_ex (\<lambda>u. wd_id u = wd_id v) (webhook_deliveries (wh_db s))" using v by (simp add: live_row_def)
  show ?thesis
  proof (cases "storable_text msg")
    case True
    let ?d = "(wh_db s)\<lparr>webhook_deliveries := update_where (\<lambda>u. wd_id u = wd_id v) ?f (webhook_deliveries (wh_db s))\<rparr>"
    have m: "MarkWebhookDeliveryAttempt now ?st ?a (if code > 0 then Some code else None)
        (Some (truncate (scrubBrandString msg) 200))
        (if ?a \<ge> wd_max_attempts v then None else NextAttemptAt ?a (wd_max_attempts v) now) (wd_id v) (wh_db s) = Inr ?d"
      using True row by (simp add: MarkWebhookDeliveryAttempt_def storable_text_def)
    have D: "webhook_deliveries (wh_db ?r) = webhook_deliveries ?d" "wh_posts ?r = wh_posts s @ ps"
      using m c by (auto simp: failAttempt_def Let_def split: sum.split
          dest!: IncrementWebhookEndpointFailures_deliveries cong del: if_weak_cong)
    show ?thesis
      by (rule delivery_effect.updated [where f = ?f and counted = True and ps = ps])
        (use D ps in \<open>auto simp: open_delivery_def split: if_splits\<close>)
  next
    case False
    then have "MarkWebhookDeliveryAttempt now st a rc (Some (truncate (scrubBrandString msg) 200)) n did d
        = Inl (PgError CharacterNotInRepertoire)" for st a rc n did d
      by (simp add: MarkWebhookDeliveryAttempt_def storable_text_def)
    moreover have "ps = []" using msg False by simp
    ultimately show ?thesis by (intro delivery_effect.unchanged) (simp_all add: failAttempt_def Let_def)
  qed
qed

lemma mark_dead_effect:
  assumes "live_row v s" "pg_text msg"
  shows "delivery_effect v s (mark_dead now v msg s)"
proof -
  let ?f = "\<lambda>u. u\<lparr>wd_status := DeliveryDead, wd_attempt_count := wd_attempt_count v, wd_last_response_code := None,
             wd_last_error := Some msg, wd_next_attempt_at := None, wd_updated_at := now\<rparr>"
  have "webhook_deliveries (wh_db (mark_dead now v msg s)) =
      update_where (\<lambda>u. wd_id u = wd_id v) ?f (webhook_deliveries (wh_db s))"
    "wh_posts (mark_dead now v msg s) = wh_posts s @ []"
    using assms by (simp_all add: mark_dead_def MarkWebhookDeliveryAttempt_def live_row_def)
  then show ?thesis
    by (intro delivery_effect.updated [where f = ?f and counted = False and ps = "[]"]) (simp_all add: open_delivery_def)
qed

lemma delivered_effect:
  assumes v: "live_row v s" and p: "po_delivery p = wd_id v"
    and m: "MarkWebhookDeliveryDelivered now (wd_attempt_count v + 1) code (wd_id v) (wh_db s) = Inr d"
  shows "delivery_effect v s (s\<lparr>wh_posts := wh_posts s @ [p], wh_db := ResetWebhookEndpointFailures now eid d\<rparr>)"
proof -
  let ?f = "\<lambda>u. u\<lparr>wd_status := DeliveryDelivered, wd_attempt_count := wd_attempt_count v + 1,
             wd_last_response_code := code, wd_last_error := None, wd_delivered_at := Some now,
             wd_next_attempt_at := None, wd_updated_at := now\<rparr>"
  have "webhook_deliveries d = update_where (\<lambda>u. wd_id u = wd_id v) ?f (webhook_deliveries (wh_db s))"
    using m by (auto simp: MarkWebhookDeliveryDelivered_def split: if_splits)
  then show ?thesis
    by (intro delivery_effect.updated [where f = ?f and counted = True and ps = "[p]"])
      (use p in \<open>simp_all add: ResetWebhookEndpointFailures_def open_delivery_def\<close>)
qed

lemma pg_text_constants: "pg_text ''endpoint missing''" "pg_text ''endpoint disabled''"
  by (simp_all add: pg_text_def runes_ascii rune_error_def)

lemma deliverOne_effect:
  assumes v: "live_row v s" and env: "answers_storable env"
  shows "delivery_effect v s (snd (deliverOne env now v s))"
proof -
  have same: "delivery_effect v s s" by (rule delivery_effect.unchanged) simp_all
  have fail0: "delivery_effect v s (snd (failAttempt now v ep code msg s))" for ep code msg
    using failAttempt_effect [OF v, where ps = "[]"] by simp
  have fail1: "delivery_effect v s (snd (failAttempt now v ep code msg (s\<lparr>wh_posts := wh_posts s @ [p]\<rparr>)))"
    if "storable_text msg" "po_delivery p = wd_id v" for ep code msg p
    using failAttempt_effect [OF v, where ps = "[p]"] that by simp
  have row: "list_ex (\<lambda>u. wd_id u = wd_id v) (webhook_deliveries (wh_db s))" using v by (simp add: live_row_def)
  note marks = mark_dead_effect [OF v pg_text_constants(1)] mark_dead_effect [OF v pg_text_constants(2)]
  show ?thesis
  proof (cases "GetWebhookEndpoint (wd_endpoint v) (wh_db s)")
    case (Inl e)
    then show ?thesis using same marks by (simp add: deliverOne_def)
  next
    case (Inr ep)
    let ?p = "\<lambda>plain. \<lparr>po_url = we_url ep, po_payload = wd_payload v, po_signature = de_sign env plain (wd_payload v),
        po_delivery = wd_id v, po_event = wd_event_type v\<rparr>"
    have ok: "MarkWebhookDeliveryDelivered now (wd_attempt_count v + 1) code (wd_id v) (wh_db s) \<noteq> Inl e" for code e
      using row by (simp add: MarkWebhookDeliveryDelivered_def)
    show ?thesis
      using Inr same marks fail0 fail1 env ok delivered_effect [OF v, of "?p _"] live_row_count [OF v]
      by (auto simp: deliverOne_def answers_storable_def Let_def split: sum.splits option.splits)
  qed
qed

section \<open>The invariant\<close>

lemma webhook_okI:
  assumes "distinct (map wd_id (webhook_deliveries (wh_db s)))"
    "\<And>v. v \<in> set (webhook_deliveries (wh_db s)) \<Longrightarrow> delivery_ok s v"
    "\<And>p. p \<in> set (wh_posts s) \<Longrightarrow> po_delivery p \<in> wd_id ` set (webhook_deliveries (wh_db s))"
  shows "webhook_ok s"
  using assms by (simp add: webhook_ok_def)

text \<open>The row a worker holds is the stored one, as far as it decides by it.\<close>

definition same_row :: "webhook_delivery \<Rightarrow> webhook_delivery \<Rightarrow> bool" where
  "same_row u v = (wd_id u = wd_id v \<and> wd_attempt_count u = wd_attempt_count v \<and>
     wd_max_attempts u = wd_max_attempts v \<and> wd_status u = wd_status v)"

definition snapshot :: "webhook_delivery \<Rightarrow> wh_state \<Rightarrow> bool" where
  "snapshot v s = list_ex (same_row v) (webhook_deliveries (wh_db s))"

lemma snapshotE:
  assumes "snapshot v s"
  obtains u where "u \<in> set (webhook_deliveries (wh_db s))" "wd_id u = wd_id v" "wd_attempt_count u = wd_attempt_count v"
    "wd_max_attempts u = wd_max_attempts v" "wd_status u = wd_status v"
  using assms by (auto simp: snapshot_def list_ex_iff same_row_def)

lemma snapshot_live:
  assumes ok: "webhook_ok s" and v: "snapshot v s" "open_delivery v"
  shows "live_row v s"
proof -
  from v(1) obtain u where u: "u \<in> set (webhook_deliveries (wh_db s))" "wd_id u = wd_id v"
    "wd_attempt_count u = wd_attempt_count v" "wd_max_attempts u = wd_max_attempts v" "wd_status u = wd_status v"
    by (rule snapshotE)
  with ok have "delivery_ok s u" by (simp add: webhook_ok_def)
  then have "0 \<le> wd_attempt_count v" using u(3) posts_of_nonneg [of "wd_id u" s] unfolding delivery_ok_def by linarith
  with \<open>delivery_ok s u\<close> u v(2) show ?thesis
    by (auto simp: live_row_def delivery_ok_def open_delivery_def list_ex_iff)
qed

lemma effect_keeps:
  assumes ok: "webhook_ok s" and v: "snapshot v s" and op: "open_delivery v" and e: "delivery_effect v s s'"
  shows "webhook_ok s'"
  using e
proof cases
  case unchanged
  then have "posts_of did s' = posts_of did s" for did by (simp add: posts_of_def)
  with unchanged ok show ?thesis by (simp add: webhook_ok_def delivery_ok_def)
next
  case (updated f counted ps)
  let ?T = "webhook_deliveries (wh_db s)" and ?U = "webhook_deliveries (wh_db s')"
  have ids: "map wd_id ?U = map wd_id ?T" using updated(1,2) by (simp add: update_where_def)
  then have idset: "wd_id ` set ?U = wd_id ` set ?T" by (metis set_map)
  have posts: "posts_of did s' = posts_of did s + (if did = wd_id v then int (length ps) else 0)" for did
    using updated(5,7) by (auto simp: posts_of_def filter_id_conv filter_empty_conv)
  from v obtain r where r: "r \<in> set ?T" "wd_id r = wd_id v" "wd_attempt_count r = wd_attempt_count v"
    "wd_max_attempts r = wd_max_attempts v" by (rule snapshotE)
  from ok have okT: "distinct (map wd_id ?T)" "\<And>u. u \<in> set ?T \<Longrightarrow> delivery_ok s u" by (simp_all add: webhook_ok_def)
  have live: "wd_attempt_count v + (if counted then 1 else 0) \<le> wd_max_attempts v"
    using snapshot_live [OF ok v op] by (simp add: live_row_def)
  have rows: "delivery_ok s' u" if "u \<in> set ?U" for u
  proof -
    from that updated(1) obtain t where t: "t \<in> set ?T" "u = (if wd_id t = wd_id v then f t else t)"
      by (auto simp: set_update_where)
    show ?thesis
    proof (cases "wd_id t = wd_id v")
      case True
      then have "t = r" using distinct_map_inj [OF okT(1) t(1) r(1)] r(2) by simp
      then show ?thesis
        using t(2) True updated(2-4,6) okT(2) [OF r(1)] posts [of "wd_id v"] r(2-4) live
        by (auto simp: delivery_ok_def split: if_splits)
    next
      case False
      then show ?thesis using t okT(2) [OF t(1)] posts [of "wd_id t"] by (simp add: delivery_ok_def)
    qed
  qed
  have "po_delivery p \<in> wd_id ` set ?U" if "p \<in> set (wh_posts s')" for p
    using that updated(5,7) ok imageI [OF r(1), of wd_id] r(2) by (auto simp: webhook_ok_def idset)
  with rows ids okT(1) show ?thesis by (simp add: webhook_ok_def)
qed

lemma effect_other_row:
  assumes e: "delivery_effect v s s'" and w: "snapshot w s" "wd_id w \<noteq> wd_id v"
  shows "snapshot w s'"
  using e
proof cases
  case unchanged
  with w(1) show ?thesis by (simp add: snapshot_def)
next
  case (updated f counted ps)
  from w(1) obtain u where u: "u \<in> set (webhook_deliveries (wh_db s))" "same_row w u"
    by (auto simp: snapshot_def list_ex_iff)
  then have "u \<in> set (webhook_deliveries (wh_db s'))"
    using w(2) updated(1) by (force simp: set_update_where same_row_def)
  with u(2) show ?thesis by (auto simp: snapshot_def list_ex_iff)
qed

lemma deliver_all_keeps:
  assumes "\<And>k. answers_storable (envs k)" "webhook_ok s" "\<And>v. v \<in> set vs \<Longrightarrow> snapshot v s \<and> open_delivery v"
    "distinct (map wd_id vs)"
  shows "webhook_ok (snd (deliver_all envs now k vs s))"
  using assms
proof (induction envs now k vs s rule: deliver_all.induct)
  case (2 envs now k v vs s)
  obtain e s1 where 1: "deliverOne (envs k) now v s = (e, s1)" by (cases "deliverOne (envs k) now v s")
  have v: "snapshot v s" "open_delivery v" using 2(4) by simp_all
  have eff: "delivery_effect v s s1"
    using deliverOne_effect [OF snapshot_live [OF 2(3) v] 2(2) [of k], of now] 1 by simp
  have ok: "webhook_ok s1" by (rule effect_keeps [OF 2(3) v eff])
  have rest: "snapshot w s1 \<and> open_delivery w" if "w \<in> set vs" for w
  proof
    have "wd_id w \<noteq> wd_id v" using 2(5) imageI [OF that, of wd_id] by auto
    then show "snapshot w s1" using effect_other_row [OF eff] 2(4) that by simp
    show "open_delivery w" using 2(4) that by simp
  qed
  have "webhook_ok (snd (deliver_all envs now (Suc k) vs s1))"
    by (rule 2(1) [OF 1 [symmetric] refl 2(2) ok rest]) (use 2(5) in simp_all)
  with 1 show ?case by (simp add: Let_def case_prod_beta)
qed simp

lemma DeliverDue_keeps:
  assumes env: "\<And>k. answers_storable (envs k)" and ok: "webhook_ok s"
  shows "webhook_ok (snd (DeliverDue envs now limit s))"
proof -
  let ?T = "webhook_deliveries (wh_db s)"
  define lim where "lim = nat (if limit < 1 then 10 else limit)"
  define f :: "webhook_delivery \<Rightarrow> webhook_delivery" where "f = (\<lambda>v. v\<lparr>wd_next_attempt_at := Some (now + 120 * second), wd_updated_at := now\<rparr>)"
  define ids where "ids = set (map wd_id (take lim (sort_key (\<lambda>v. case wd_next_attempt_at v of None \<Rightarrow> 0 | Some t \<Rightarrow> t)
            (sort_key wd_id (filter (delivery_due now (wh_db s)) ?T)))))"
  let ?s = "s\<lparr>wh_db := (wh_db s)\<lparr>webhook_deliveries := update_where (\<lambda>v. wd_id v \<in> ids) f ?T\<rparr>\<rparr>"
  let ?rows = "map f (filter (\<lambda>v. wd_id v \<in> ids) ?T)"
  have f: "wd_id (f v) = wd_id v" "same_row (f v) (f v)" "open_delivery (f v) = open_delivery v" for v
    by (simp_all add: f_def same_row_def open_delivery_def)
  have claim: "ClaimWebhookDeliveries now lim (wh_db s) = (?rows, wh_db ?s)"
    by (simp add: ClaimWebhookDeliveries_def Let_def ids_def f_def)
  have run: "DeliverDue envs now limit s = deliver_all envs now 0 ?rows ?s"
    using claim by (simp add: DeliverDue_def lim_def)
  have dist: "distinct (map wd_id ?T)" using ok by (simp add: webhook_ok_def)
  have ids: "map wd_id (update_where (\<lambda>v. wd_id v \<in> ids) f ?T) = map wd_id ?T" by (simp add: update_where_def f(1))
  then have idset: "wd_id ` set (update_where (\<lambda>v. wd_id v \<in> ids) f ?T) = wd_id ` set ?T" by (metis set_map)
  have rows: "delivery_ok ?s (if wd_id v \<in> ids then f v else v)" if "v \<in> set ?T" for v
    using ok that by (auto simp: webhook_ok_def delivery_ok_def f_def open_delivery_def)
  have ok1: "webhook_ok ?s"
  proof (rule webhook_okI)
    show "distinct (map wd_id (webhook_deliveries (wh_db ?s)))" using ids dist by simp
    show "delivery_ok ?s v" if "v \<in> set (webhook_deliveries (wh_db ?s))" for v
    proof -
      from that obtain t where "t \<in> set ?T" "v = (if wd_id t \<in> ids then f t else t)"
        by (auto simp: update_where_def)
      then show ?thesis using rows by simp
    qed
    show "po_delivery p \<in> wd_id ` set (webhook_deliveries (wh_db ?s))" if "p \<in> set (wh_posts ?s)" for p
      using that ok idset by (simp add: webhook_ok_def)
  qed
  have elig: "open_delivery v" if v: "v \<in> set ?T" "wd_id v \<in> ids" for v
  proof -
    from v(2) obtain u where u: "u \<in> set ?T" "delivery_due now (wh_db s) u" "wd_id u = wd_id v"
      by (auto simp: ids_def dest!: in_set_takeD)
    then have "u = v" using distinct_map_inj [OF dist u(1) v(1)] by simp
    with u(2) show ?thesis by (auto simp: delivery_due_def open_delivery_def)
  qed
  have "snapshot r ?s \<and> open_delivery r" if "r \<in> set ?rows" for r
  proof -
    from that obtain v where v: "v \<in> set ?T" "wd_id v \<in> ids" "r = f v" by auto
    then have "r \<in> set (update_where (\<lambda>v. wd_id v \<in> ids) f ?T)" by (auto simp: set_update_where)
    then show ?thesis using v elig [OF v(1,2)] f(2,3) by (auto simp: snapshot_def list_ex_iff)
  qed
  moreover have "distinct (map wd_id ?rows)" using dist by (simp add: f(1) comp_def distinct_map_filter)
  ultimately show ?thesis unfolding run by (intro deliver_all_keeps [OF env ok1])
qed

lemma enqueue_deliveries_keeps:
  assumes "webhook_ok (s\<lparr>wh_db := d\<rparr>)" "open_delivery tmpl" "0 < wd_max_attempts tmpl" "wd_max_attempts tmpl \<le> int4_max"
  shows "webhook_ok (s\<lparr>wh_db := snd (enqueue_deliveries render ids now tmpl data k eps d)\<rparr>)"
  using assms
proof (induction render ids now tmpl data k eps d rule: enqueue_deliveries.induct)
  case (2 render ids now tmpl data k ep eps d)
  have ins: "webhook_ok (s\<lparr>wh_db := d'\<rparr>)"
    if i: "InsertWebhookDelivery now (tmpl\<lparr>wd_id := ids k, wd_endpoint := we_id ep, wd_payload := pl\<rparr>) d = Inr d'" for pl d'
  proof -
    let ?v = "tmpl\<lparr>wd_id := ids k, wd_endpoint := we_id ep, wd_payload := pl, wd_attempt_count := 0,
       wd_last_response_code := None, wd_last_error := None, wd_delivered_at := None, wd_created_at := now, wd_updated_at := now\<rparr>"
    from i have d': "d' = d\<lparr>webhook_deliveries := webhook_deliveries d @ [?v]\<rparr>" and new: "ids k \<notin> wd_id ` set (webhook_deliveries d)"
      by (auto simp: InsertWebhookDelivery_def split: if_splits)
    have "po_delivery p \<noteq> ids k" if "p \<in> set (wh_posts s)" for p
      using 2(3) new that unfolding webhook_ok_def by (metis wh_state.select_convs wh_state.simps(1,2,4,5) wh_state.surjective wh_state.update_convs(1))
    then have "posts_of (ids k) s = 0" by (simp add: posts_of_def filter_empty_conv)
    with 2(3-6) new d' show ?thesis by (auto simp: webhook_ok_def delivery_ok_def open_delivery_def)
  qed
  show ?case using 2 ins by (auto split: sum.split)
qed simp

lemma webhook_max_attempts_pos: "0 < webhook_max_attempts settings"
  by (auto simp: webhook_max_attempts_def split: option.split sum.split)

interpretation webhook_system: safe_system webhook_step webhook_ok
proof
  fix s t assume "webhook_step s t" "webhook_ok s"
  then show "webhook_ok t"
  proof cases
    case (deliver envs now limit)
    then show ?thesis using \<open>webhook_ok s\<close> by (simp add: DeliverDue_keeps)
  next
    case (event settings render ids now cid ev jid iid data)
    have "webhook_ok (s\<lparr>wh_db := wh_db s\<rparr>)" using \<open>webhook_ok s\<close> by simp
    then show ?thesis unfolding event(1) enqueue_event_def
      by (auto intro!: enqueue_deliveries_keeps simp: open_delivery_def webhook_max_attempts_pos event(2))
  qed
qed

section \<open>Properties\<close>

text \<open>
  C30. Over any run of delivery loops and new events, a webhook delivery is posted at most as
  often as its limit of attempts, and every request that was sent is one of the attempts it
  counts, provided that the answers and errors can be stored as text.
\<close>

theorem webhook_posts_bounded:
  assumes "webhook_step\<^sup>*\<^sup>* s t" and "webhook_ok s" and "v \<in> set (webhook_deliveries (wh_db t))"
  shows "posts_of (wd_id v) t \<le> wd_attempt_count v \<and> wd_attempt_count v \<le> wd_max_attempts v"
proof -
  have "webhook_ok t" by (rule webhook_system.steps_keep [OF assms(1,2)])
  with assms(3) show ?thesis by (simp add: webhook_ok_def delivery_ok_def)
qed

definition demo_endpoint :: webhook_endpoint where
  "demo_endpoint = \<lparr>we_id = ''e1'', we_client = ''c1'', we_url = ''https://a'', we_secret_ciphertext = [], we_dek_key_id = [],
     we_description = None, we_enabled = True, we_events = [], we_consecutive_failures = 0, we_created_at = 0, we_updated_at = 0\<rparr>"

definition demo_delivery :: webhook_delivery where
  "demo_delivery = \<lparr>wd_id = ''v1'', wd_client = ''c1'', wd_endpoint = ''e1'', wd_job = None, wd_item = None,
     wd_event_type = EventJobCompleted, wd_payload = ''{}'', wd_status = DeliveryPending, wd_attempt_count = 0,
     wd_max_attempts = 8, wd_next_attempt_at = Some 0, wd_last_response_code = None, wd_last_error = None,
     wd_delivered_at = None, wd_created_at = 0, wd_updated_at = 0\<rparr>"

definition demo_hooks :: wh_state where
  "demo_hooks = \<lparr>wh_db = empty_db\<lparr>clients := [\<lparr>cl_id = ''c1'', cl_status = ClientActive\<rparr>],
     webhook_endpoints := [demo_endpoint], webhook_deliveries := [demo_delivery]\<rparr>, wh_posts = []\<rparr>"

definition demo_answer :: "int \<Rightarrow> string \<Rightarrow> string \<Rightarrow> deliver_env" where
  "demo_answer code status body = \<lparr>de_decrypt = (\<lambda>_ _. Inr []), de_sign = (\<lambda>_ _. []), de_new_request = (\<lambda>_. None),
     de_do = Inr \<lparr>rs_code = code, rs_status = status, rs_body = body\<rparr>\<rparr>"

lemmas demo_hooks_defs = demo_hooks_def demo_endpoint_def demo_delivery_def empty_db_def

lemma demo_hooks_ok: "webhook_ok demo_hooks"
  by (simp add: webhook_ok_def delivery_ok_def posts_of_def demo_hooks_defs int4_max_def)

theorem webhook_posts_bounded_witness:
  "webhook_ok demo_hooks \<and>
   list_all (\<lambda>v. posts_of (wd_id v) (snd (DeliverDue (\<lambda>_. demo_answer 200 ''200 OK'' []) 5 10 demo_hooks)) \<le> 8)
     (webhook_deliveries (wh_db (snd (DeliverDue (\<lambda>_. demo_answer 200 ''200 OK'' []) 5 10 demo_hooks))))"
proof -
  define t where "t = snd (DeliverDue (\<lambda>_. demo_answer 200 ''200 OK'' []) 5 10 demo_hooks)"
  have "storable_text ''HTTP 200 OK''"
    by (simp add: storable_text_def truncate_def scrubBrandString_def scrubBrand_def brand_pairs_def HasPrefix_def pg_text_def
        runes_ascii rune_error_def)
  then have "answers_storable (demo_answer 200 ''200 OK'' [])"
    by (simp add: answers_storable_def demo_answer_def answer_message_def TrimSpace_def)
  then have "webhook_step demo_hooks t" unfolding t_def by (intro webhook_step.deliver)
  then have s: "webhook_step\<^sup>*\<^sup>* demo_hooks t" by (rule r_into_rtranclp)
  have "map wd_max_attempts (webhook_deliveries (wh_db t)) = [8]"
    by (simp add: t_def DeliverDue_def ClaimWebhookDeliveries_def Let_def demo_hooks_defs delivery_due_def deliverOne_def
        GetWebhookEndpoint_def demo_answer_def MarkWebhookDeliveryDelivered_def ResetWebhookEndpointFailures_def)
  then have m: "wd_max_attempts v = 8" if "v \<in> set (webhook_deliveries (wh_db t))" for v
    using arg_cong [where f = set, of "map wd_max_attempts (webhook_deliveries (wh_db t))"] that by auto
  have "posts_of (wd_id v) t \<le> 8" if "v \<in> set (webhook_deliveries (wh_db t))" for v
    using webhook_posts_bounded [OF s demo_hooks_ok that] m [OF that] by linarith
  then have "list_all (\<lambda>v. posts_of (wd_id v) t \<le> 8) (webhook_deliveries (wh_db t))" by (simp add: list_all_iff)
  with demo_hooks_ok show ?thesis unfolding t_def by (rule conjI)
qed

text \<open>
  C31. An endpoint that answers with an error whose text is not valid UTF-8 (or is cut inside a
  character) is asked again without end: PostgreSQL refuses the text, so the attempt is not
  recorded. After any number of tries the stored rows are unchanged and every try was a request.
\<close>

theorem unstorable_answer_repeats_posts:
  assumes "open_delivery v" and "GetWebhookEndpoint (wd_endpoint v) (wh_db s) = Inr ep" "we_enabled ep"
    and "de_decrypt env (we_secret_ciphertext ep) (we_dek_key_id ep) = Inr plain" "de_new_request env (we_url ep) = None"
    and "de_do env = Inr r" "\<not> (200 \<le> rs_code r \<and> rs_code r < 300)"
    and "\<not> pg_text (truncate (scrubBrandString (answer_message r)) 200)"
  shows "wh_db (((\<lambda>s. snd (deliverOne env now v s)) ^^ n) s) = wh_db s \<and>
    length (wh_posts (((\<lambda>s. snd (deliverOne env now v s)) ^^ n) s)) = length (wh_posts s) + n"
proof (induction n)
  case (Suc n)
  let ?s = "((\<lambda>s. snd (deliverOne env now v s)) ^^ n) s"
  have "snd (deliverOne env now v ?s) = ?s\<lparr>wh_posts := wh_posts ?s @
      [\<lparr>po_url = we_url ep, po_payload = wd_payload v, po_signature = de_sign env plain (wd_payload v),
        po_delivery = wd_id v, po_event = wd_event_type v\<rparr>]\<rparr>"
    using assms Suc by (auto simp: deliverOne_def open_delivery_def failAttempt_def MarkWebhookDeliveryAttempt_def Let_def)
  with Suc show ?case by simp
qed simp

theorem unstorable_answer_repeats_posts_witness:
  "length (wh_posts (((\<lambda>s. snd (deliverOne (demo_answer 500 ''500'' [char_of (255 :: nat)]) 5 demo_delivery s)) ^^ 100) demo_hooks)) = 100"
proof -
  have b: "TrimSpace [char_of (255 :: nat)] = [char_of (255 :: nat)]"
    by (simp add: TrimSpace_def Let_def unicode_IsSpace_def runes.simps decode_rune_def rune_error_def)
  have "\<not> pg_text (truncate (scrubBrandString (''HTTP 500: '' @ [char_of (255 :: nat)])) 200)"
    by (simp add: truncate_def scrubBrandString_def scrubBrand_def brand_pairs_def HasPrefix_def pg_text_def runes.simps
        decode_rune_def rune_error_def)
  moreover define r where "r = \<lparr>rs_code = 500, rs_status = ''500'', rs_body = [char_of (255 :: nat)]\<rparr>"
  moreover have "answer_message r = ''HTTP 500: '' @ [char_of (255 :: nat)]"
    by (simp add: answer_message_def r_def b truncate_def)
  ultimately have "length (wh_posts (((\<lambda>s. snd (deliverOne (demo_answer 500 ''500'' [char_of (255 :: nat)]) 5 demo_delivery s)) ^^ 100)
      demo_hooks)) = length (wh_posts demo_hooks) + 100"
    by (intro conjunct2 [OF unstorable_answer_repeats_posts [where ep = demo_endpoint and plain = "[]" and r = r]])
      (simp_all add: demo_hooks_defs demo_answer_def open_delivery_def GetWebhookEndpoint_def)
  then show ?thesis by (simp add: demo_hooks_def)
qed

end
