(* ===== verification/WebhookSigning.thy ===== *)
theory WebhookSigning
  imports GoStrings
begin

text \<open>
  \<open>internal/webhooks/signing.go\<close>: the signature header of a webhook. HMAC-SHA256 is an argument
  that maps a key and a message to the bytes of the code. Seconds are \<open>int64\<close>.
\<close>

section \<open>The library\<close>

definition int64_of :: "int \<Rightarrow> int" where
  "int64_of k = sint (word_of_int k :: int64)"

text \<open>\<open>hex.EncodeToString\<close>, \<open>strings.Split\<close> and \<open>strings.Cut\<close> with a separator of one byte.\<close>

definition hex_digit :: "nat \<Rightarrow> char" where
  "hex_digit n = (if n < 10 then char_of (48 + n) else char_of (87 + n))"

definition hex_encode :: "string \<Rightarrow> string" where
  "hex_encode bs = concat (map (\<lambda>b. [hex_digit (of_char b div 16), hex_digit (of_char b mod 16)]) bs)"

fun strings_Split :: "char \<Rightarrow> string \<Rightarrow> string list" where
  "strings_Split sep [] = [[]]"
| "strings_Split sep (c # cs) =
     (if c = sep then [] # strings_Split sep cs
      else case strings_Split sep cs of [] \<Rightarrow> [[c]] | p # ps \<Rightarrow> (c # p) # ps)"

fun strings_Cut :: "char \<Rightarrow> string \<Rightarrow> (string \<times> string) option" where
  "strings_Cut sep [] = None"
| "strings_Cut sep (c # cs) =
     (if c = sep then Some ([], cs) else map_option (\<lambda>(a, b). (c # a, b)) (strings_Cut sep cs))"

text \<open>\<open>strconv.ParseInt(s, 10, 64)\<close>, \<open>None\<close> for an error.\<close>

definition digits_value :: "string \<Rightarrow> nat" where
  "digits_value s = foldl (\<lambda>n c. 10 * n + (of_char c - 48)) 0 s"

definition parse_uint :: "string \<Rightarrow> nat option" where
  "parse_uint s = (if s \<noteq> [] \<and> list_all ascii_digit s then Some (digits_value s) else None)"

definition ParseInt :: "string \<Rightarrow> int option" where
  "ParseInt s =
     (case s of
        [] \<Rightarrow> None
      | c # cs \<Rightarrow>
          let neg = (c = CHR ''-''); body = (if c = CHR ''+'' \<or> neg then cs else s) in
          (case parse_uint body of
             None \<Rightarrow> None
           | Some n \<Rightarrow>
               if \<not> neg \<and> n \<ge> 2 ^ 63 then None
               else if neg \<and> n > 2 ^ 63 then None
               else Some (if neg then - int n else int n)))"

section \<open>The code\<close>

text \<open>The header and the signature; \<open>clock\<close> is the current second.\<close>

definition Sign :: "(string \<Rightarrow> string \<Rightarrow> string) \<Rightarrow> int \<Rightarrow> string \<Rightarrow> string \<Rightarrow> int \<Rightarrow> string \<times> string" where
  "Sign hmac clock secret rawBody timestampSec =
     (let ts = (if timestampSec = 0 then clock else timestampSec);
          signature = hex_encode (hmac secret (itoa ts @ ''.'' @ rawBody))
      in (''t='' @ itoa ts @ '',v1='' @ signature, signature))"

definition signature_part :: "int \<times> string \<Rightarrow> string \<Rightarrow> int \<times> string" where
  "signature_part acc part =
     (case strings_Cut (CHR ''='') (TrimSpace part) of
        None \<Rightarrow> acc
      | Some (key, val) \<Rightarrow>
          if key = ''t'' then (case ParseInt val of None \<Rightarrow> acc | Some n \<Rightarrow> (n, snd acc))
          else if key = ''v1'' then (fst acc, val)
          else acc)"

definition ParseSignatureHeader :: "string \<Rightarrow> int \<times> string \<times> bool" where
  "ParseSignatureHeader header =
     (let (ts, sig) = foldl signature_part (0, []) (strings_Split (CHR '','') header)
      in (ts, sig, ts \<noteq> 0 \<and> sig \<noteq> []))"

definition Verify ::
    "(string \<Rightarrow> string \<Rightarrow> string) \<Rightarrow> int \<Rightarrow> string \<Rightarrow> string \<Rightarrow> string \<Rightarrow> int \<Rightarrow> int \<Rightarrow> bool" where
  "Verify hmac clock secret rawBody header nowSec toleranceSec =
     (let (ts, sig, ok) = ParseSignatureHeader header in
      if \<not> ok then False
      else
        let tol = (if toleranceSec \<le> 0 then 300 else toleranceSec);
            now = (if nowSec = 0 then clock else nowSec);
            delta = int64_of (now - ts);
            delta = (if delta < 0 then int64_of (- delta) else delta)
        in if delta > tol then False
           else
             let expected = snd (Sign hmac clock secret rawBody ts) in
             if length expected \<noteq> length sig then False else expected = sig)"

section \<open>Rendering and parsing\<close>

lemma digits_value_snoc: "digits_value (s @ [c]) = 10 * digits_value s + (of_char c - 48)"
  by (simp add: digits_value_def)

lemma nat_digits_spec:
  "nat_digits n \<noteq> [] \<and> list_all ascii_digit (nat_digits n) \<and> digits_value (nat_digits n) = n"
proof (induction n rule: nat_digits.induct)
  case (1 n)
  have d: "ascii_digit (char_of (48 + k)) \<and> (of_char (char_of (48 + k :: nat)) :: nat) - 48 = k" if "k < 10" for k
    using that by (simp add: ascii_digit_def)
  show ?case
  proof (cases "n < 10")
    case True
    then show ?thesis using d [OF True] by (subst (1 2 3) nat_digits.simps) (simp add: digits_value_def)
  next
    case False
    have "n mod 10 < 10" by simp
    then show ?thesis using 1 [OF False] d [of "n mod 10"] False
      by (subst (1 2 3) nat_digits.simps) (simp add: digits_value_snoc)
  qed
qed

lemma digits_not_sign: "list_all ascii_digit (c # cs) \<Longrightarrow> c \<noteq> CHR ''+'' \<and> c \<noteq> CHR ''-''"
  by (auto simp: ascii_digit_def)

lemma ParseInt_itoa:
  assumes "0 < k" "k < 2 ^ 63"
  shows "ParseInt (itoa k) = Some k"
proof -
  note s = nat_digits_spec [of "nat k"]
  obtain c cs where c: "nat_digits (nat k) = c # cs" using s by (cases "nat_digits (nat k)") auto
  then have "c \<noteq> CHR ''+'' \<and> c \<noteq> CHR ''-''" using s digits_not_sign [of c cs] by simp
  moreover have "nat k < 2 ^ 63" using assms by (simp add: nat_less_iff)
  ultimately show ?thesis using s c assms
    by (simp add: ParseInt_def itoa_def parse_uint_def Let_def)
qed

text \<open>The characters of a number and of a hexadecimal string are neither separators nor blanks.\<close>

definition plain_char :: "char \<Rightarrow> bool" where
  "plain_char c = ((of_char c :: nat) < 0x80 \<and> \<not> unicode_IsSpace (of_char c) \<and> c \<noteq> CHR '','')"

lemma plain_digit: "ascii_digit c \<Longrightarrow> plain_char c"
  by (auto simp: ascii_digit_def plain_char_def unicode_IsSpace_def)

lemma plain_hex: "n < 16 \<Longrightarrow> plain_char (hex_digit n)"
proof -
  assume n: "n < 16"
  define k where "k = (if n < 10 then 48 + n else 87 + n)"
  have k: "48 \<le> k" "k < 103" using n by (auto simp: k_def)
  have h: "hex_digit n = char_of k" by (simp add: hex_digit_def k_def)
  have o: "(of_char (hex_digit n) :: nat) = k" using k unfolding h by simp
  have "hex_digit n \<noteq> CHR '',''"
  proof
    assume "hex_digit n = CHR '',''"
    then have "k = of_char (CHR '','')" using o by metis
    then show False using k by simp
  qed
  then show "plain_char (hex_digit n)" using k by (simp add: plain_char_def o unicode_IsSpace_def)
qed

lemma char_nibble: "(of_char x :: nat) div 16 < 16" for x :: char
proof -
  have "(of_char x :: nat) < 256" by (metis of_char_mod_256 mod_less_divisor zero_less_numeral)
  then show ?thesis using less_mult_imp_div_less [of "of_char x" 16 16] by simp
qed

lemma hex_digit_inj: "m < 16 \<Longrightarrow> n < 16 \<Longrightarrow> hex_digit m = hex_digit n \<Longrightarrow> m = n"
proof -
  assume "m < 16" "n < 16" "hex_digit m = hex_digit n"
  then have "(of_char (hex_digit m) :: nat) = of_char (hex_digit n)" by simp
  then show "m = n" using \<open>m < 16\<close> \<open>n < 16\<close> by (auto simp: hex_digit_def split: if_splits)
qed

lemma hex_encode_Cons: "hex_encode (b # bs) = hex_digit (of_char b div 16) # hex_digit (of_char b mod 16) # hex_encode bs"
  by (simp add: hex_encode_def)

lemma hex_encode_inj: "hex_encode as = hex_encode bs \<longleftrightarrow> as = bs"
proof (induction as arbitrary: bs)
  case Nil
  then show ?case by (cases bs) (simp_all add: hex_encode_def)
next
  case (Cons a as)
  show ?case
  proof (cases bs)
    case Nil
    then show ?thesis by (simp add: hex_encode_def)
  next
    case (Cons b cs)
    have "a = b" if "hex_digit (of_char a div 16) = hex_digit (of_char b div 16)" "hex_digit (of_char a mod 16) = hex_digit (of_char b mod 16)"
    proof -
      from that have "(of_char a :: nat) div 16 = of_char b div 16" "(of_char a :: nat) mod 16 = of_char b mod 16"
        by (auto intro: hex_digit_inj [OF char_nibble char_nibble] hex_digit_inj)
      then have "(of_char a :: nat) = of_char b" by (metis div_mult_mod_eq)
      then show ?thesis by simp
    qed
    then show ?thesis using Cons Cons.IH by (auto simp: hex_encode_Cons)
  qed
qed

lemma plain_hex_encode: "list_all plain_char (hex_encode bs)"
  by (induction bs) (simp add: hex_encode_def, simp add: hex_encode_Cons plain_hex char_nibble)

lemma plain_itoa: "0 < k \<Longrightarrow> list_all plain_char (itoa k)"
  using nat_digits_spec [of "nat k"] by (auto simp: itoa_def list_all_iff intro: plain_digit)

lemma TrimSpace_plain:
  assumes "list_all plain_char s"
  shows "TrimSpace s = s"
proof -
  have "is_ascii s" using assms by (simp add: is_ascii_def list_all_iff plain_char_def)
  moreover have stay: "dropWhile (\<lambda>(r, _). unicode_IsSpace r) xs = xs"
    if "list_all (\<lambda>(r, _). \<not> unicode_IsSpace r) xs" for xs :: "(nat \<times> string) list"
    using that by (cases xs) auto
  moreover have "list_all (\<lambda>(r, _). \<not> unicode_IsSpace r) (map (\<lambda>c. (of_char c, [c])) s)"
    using assms by (simp add: list_all_iff plain_char_def)
  ultimately have k: "dropWhile (\<lambda>(r, _). unicode_IsSpace r) (runes s) = map (\<lambda>c. (of_char c, [c])) s"
    "dropWhile (\<lambda>(r, _). unicode_IsSpace r) (rev (map (\<lambda>c. (of_char c, [c])) s)) = rev (map (\<lambda>c. (of_char c, [c])) s)"
    by (simp_all add: runes_ascii list_all_iff)
  show ?thesis unfolding TrimSpace_def Let_def k(1) k(2) by (simp add: comp_def concat_map_singleton)
qed

lemma strings_Split_plain:
  "list_all plain_char a \<Longrightarrow> strings_Split (CHR '','') a = [a]"
  "list_all plain_char a \<Longrightarrow> strings_Split (CHR '','') (a @ CHR '','' # b) = a # strings_Split (CHR '','') b"
  by (induction a) (auto simp: plain_char_def)

lemma ParseSignatureHeader_Sign:
  assumes k: "0 < k" "k < 2 ^ 63"
  shows "ParseSignatureHeader (''t='' @ itoa k @ '',v1='' @ hex_encode bs) = (k, hex_encode bs, bs \<noteq> [])"
proof -
  have p1: "list_all plain_char (''t='' @ itoa k)" and p2: "list_all plain_char (''v1='' @ hex_encode bs)"
    using plain_itoa [OF k(1)] plain_hex_encode [of bs] by (simp_all add: plain_char_def unicode_IsSpace_def)
  have "strings_Split (CHR '','') ((''t='' @ itoa k) @ CHR '','' # (''v1='' @ hex_encode bs)) =
      [''t='' @ itoa k, ''v1='' @ hex_encode bs]"
    by (simp only: strings_Split_plain(2) [OF p1] strings_Split_plain(1) [OF p2])
  then have split: "strings_Split (CHR '','') (''t='' @ itoa k @ '',v1='' @ hex_encode bs) =
      [''t='' @ itoa k, ''v1='' @ hex_encode bs]" by simp
  have a: "signature_part (0, []) (''t='' @ itoa k) = (k, [])"
    unfolding signature_part_def TrimSpace_plain [OF p1] using ParseInt_itoa [OF k] by simp
  have b: "signature_part (k, []) (''v1='' @ hex_encode bs) = (k, hex_encode bs)"
    unfolding signature_part_def TrimSpace_plain [OF p2] by simp
  have "hex_encode bs \<noteq> [] \<longleftrightarrow> bs \<noteq> []" by (cases bs) (simp_all add: hex_encode_def)
  then show ?thesis using k unfolding ParseSignatureHeader_def split foldl.simps a b Let_def case_prod_conv by simp
qed

section \<open>Properties\<close>

text \<open>
  C32. The header that \<open>Sign\<close> renders for a body is accepted by \<open>Verify\<close> exactly when the
  time is within the tolerance and the code of the body that is checked, under the secret of the
  checker, is the one that was signed: a genuine delivery is accepted, a changed body or another
  secret is rejected unless HMAC collides.
\<close>

theorem Verify_Sign:
  assumes "0 < ts" "ts < 2 ^ 63" "0 < now" "now < 2 ^ 63" and "hmac secret (itoa ts @ ''.'' @ body) \<noteq> []"
  shows "Verify hmac clock secret' body' (fst (Sign hmac clock secret body ts)) now tol \<longleftrightarrow>
    \<bar>now - ts\<bar> \<le> (if tol \<le> 0 then 300 else tol) \<and>
    hmac secret' (itoa ts @ ''.'' @ body') = hmac secret (itoa ts @ ''.'' @ body)"
proof -
  have i64: "int64_of k = k" if "- (2 ^ 63) \<le> k" "k < 2 ^ 63" for k
    using that by (simp add: int64_of_def sint_of_int_small)
  have d: "int64_of (now - ts) = now - ts" "now - ts < 0 \<Longrightarrow> int64_of (- (now - ts)) = ts - now"
    using assms by (auto intro!: i64)
  have abs: "(if now - ts < 0 then int64_of (- (now - ts)) else now - ts) = \<bar>now - ts\<bar>" using d(2) by auto
  have h: "fst (Sign hmac clock secret body ts) = ''t='' @ itoa ts @ '',v1='' @ hex_encode (hmac secret (itoa ts @ ''.'' @ body))"
    using assms(1) by (simp add: Sign_def Let_def)
  have e: "snd (Sign hmac clock secret' body' ts) = hex_encode (hmac secret' (itoa ts @ ''.'' @ body'))"
    using assms(1) by (simp add: Sign_def Let_def)
  have "Verify hmac clock secret' body' (fst (Sign hmac clock secret body ts)) now tol =
      (\<bar>now - ts\<bar> \<le> (if tol \<le> 0 then 300 else tol) \<and>
       hex_encode (hmac secret' (itoa ts @ ''.'' @ body')) = hex_encode (hmac secret (itoa ts @ ''.'' @ body)))"
    unfolding Verify_def h ParseSignatureHeader_Sign [OF assms(1,2)] case_prod_conv e Let_def
    using assms(3,5) abs d(1) by auto
  then show ?thesis by (simp add: hex_encode_inj)
qed

theorem Verify_Sign_witness:
  "Verify (\<lambda>key msg. key @ msg) 0 ''k'' ''body'' (fst (Sign (\<lambda>key msg. key @ msg) 0 ''k'' ''body'' 1000)) 1010 0 \<and>
   \<not> Verify (\<lambda>key msg. key @ msg) 0 ''k'' ''bodx'' (fst (Sign (\<lambda>key msg. key @ msg) 0 ''k'' ''body'' 1000)) 1010 0"
  using Verify_Sign [of 1000 1010 "\<lambda>key msg. key @ msg" "''k''" "''body''" 0 "''k''" "''body''" 0]
    Verify_Sign [of 1000 1010 "\<lambda>key msg. key @ msg" "''k''" "''body''" 0 "''k''" "''bodx''" 0] by simp

end
