(* ===== verification/Campaigns.thy ===== *)
theory Campaigns
  imports Messaging "HOL-Library.List_Lexorder" "HOL-Library.Char_ord"
begin

text \<open>
  \<open>internal/campaigns/service.go\<close>: a campaign is a draft with a sender, a text and a list of
  recipients until it is started; then the worker (\<open>CampaignWorker\<close>) enqueues one message for
  each recipient. The statements are those of \<open>internal/db/sqlc/campaigns.sql.go\<close>.
\<close>

section \<open>Queries\<close>

definition campaign_recipients_of :: "uuid \<Rightarrow> db \<Rightarrow> campaign_recipient list" where
  "campaign_recipients_of kid d = filter (\<lambda>r. rp_campaign r = kid) (campaign_recipients d)"

record recipient_stats =
  cs_total :: int
  cs_pending :: int
  cs_enqueued :: int
  cs_skipped :: int
  cs_failed :: int

definition count_status :: "campaign_recipient_status \<Rightarrow> campaign_recipient list \<Rightarrow> int" where
  "count_status st rs = int (length (filter (\<lambda>r. rp_status r = st) rs))"

definition CampaignRecipientStats :: "uuid \<Rightarrow> db \<Rightarrow> recipient_stats" where
  "CampaignRecipientStats kid d =
     (let rs = campaign_recipients_of kid d in
      \<lparr>cs_total = int (length rs), cs_pending = count_status RecipientPending rs,
       cs_enqueued = count_status RecipientEnqueued rs, cs_skipped = count_status RecipientSkipped rs,
       cs_failed = count_status RecipientFailed rs\<rparr>)"

definition GetCampaignForClient :: "uuid \<Rightarrow> uuid \<Rightarrow> db \<Rightarrow> sms_campaign result" where
  "GetCampaignForClient kid cid d =
     first_row (filter (\<lambda>c. cp_id c = kid \<and> cp_client c = cid) (sms_campaigns d))"

text \<open>The row is locked until the transaction ends; transactions here are atomic.\<close>

definition GetCampaignForClientForUpdate :: "uuid \<Rightarrow> uuid \<Rightarrow> db \<Rightarrow> sms_campaign result" where
  "GetCampaignForClientForUpdate kid cid d = GetCampaignForClient kid cid d"

definition InsertCampaign ::
    "uuid \<Rightarrow> time \<Rightarrow> uuid \<Rightarrow> string \<Rightarrow> string \<Rightarrow> uuid option \<Rightarrow> db \<Rightarrow> (sms_campaign \<times> db) result" where
  "InsertCampaign new_id now cid from text by d =
     (if \<not> IsSender from then Inl (PgError CheckViolation)
      else if new_id \<in> set (map cp_id (sms_campaigns d)) then Inl (PgError UniqueViolation)
      else
        let c = \<lparr>cp_id = new_id, cp_client = cid, cp_from = from, cp_text = text,
            cp_status = CampaignDraft, cp_total_count = 0, cp_accepted_count = 0,
            cp_delivered_count = 0, cp_failed_count = 0, cp_created_by = by,
            cp_created_at = now, cp_updated_at = now\<rparr>
        in Inr (c, d\<lparr>sms_campaigns := sms_campaigns d @ [c]\<rparr>))"

text \<open>An \<open>UPDATE ... RETURNING\<close> of one campaign under a condition.\<close>

definition update_campaign ::
    "(sms_campaign \<Rightarrow> bool) \<Rightarrow> (sms_campaign \<Rightarrow> sms_campaign) \<Rightarrow> db \<Rightarrow> (sms_campaign \<times> db) result" where
  "update_campaign p f d =
     (case filter p (sms_campaigns d) of
        [] \<Rightarrow> Inl NoRows
      | c # _ \<Rightarrow> Inr (f c, d\<lparr>sms_campaigns := update_where p f (sms_campaigns d)\<rparr>))"

definition UpdateCampaignDraft ::
    "time \<Rightarrow> string option \<Rightarrow> string option \<Rightarrow> uuid \<Rightarrow> uuid \<Rightarrow> db \<Rightarrow> (sms_campaign \<times> db) result" where
  "UpdateCampaignDraft now from text kid cid d =
     (if (case from of None \<Rightarrow> False | Some f \<Rightarrow> \<not> IsSender f)
         \<and> list_ex (\<lambda>c. cp_id c = kid \<and> cp_client c = cid \<and> cp_status c = CampaignDraft) (sms_campaigns d)
      then Inl (PgError CheckViolation)
      else update_campaign (\<lambda>c. cp_id c = kid \<and> cp_client c = cid \<and> cp_status c = CampaignDraft)
        (\<lambda>c. c\<lparr>cp_from := (case from of None \<Rightarrow> cp_from c | Some f \<Rightarrow> f),
               cp_text := (case text of None \<Rightarrow> cp_text c | Some t \<Rightarrow> t), cp_updated_at := now\<rparr>) d)"

definition QueueCampaign :: "time \<Rightarrow> uuid \<Rightarrow> uuid \<Rightarrow> db \<Rightarrow> (sms_campaign \<times> db) result" where
  "QueueCampaign now kid cid d =
     update_campaign (\<lambda>c. cp_id c = kid \<and> cp_client c = cid \<and> cp_status c = CampaignDraft \<and> cp_total_count c > 0)
       (\<lambda>c. c\<lparr>cp_status := CampaignQueued, cp_updated_at := now\<rparr>) d"

definition CancelCampaign :: "time \<Rightarrow> uuid \<Rightarrow> uuid \<Rightarrow> db \<Rightarrow> (sms_campaign \<times> db) result" where
  "CancelCampaign now kid cid d =
     update_campaign (\<lambda>c. cp_id c = kid \<and> cp_client c = cid \<and> cp_status c \<in> {CampaignQueued, CampaignRunning})
       (\<lambda>c. c\<lparr>cp_status := CampaignCancelled, cp_updated_at := now\<rparr>) d"

text \<open>The recipients of a deleted draft go with it (\<open>ON DELETE CASCADE\<close>).\<close>

definition DeleteCampaignDraft :: "uuid \<Rightarrow> uuid \<Rightarrow> db \<Rightarrow> nat \<times> db" where
  "DeleteCampaignDraft kid cid d =
     (let p = (\<lambda>c. cp_id c = kid \<and> cp_client c = cid \<and> cp_status c = CampaignDraft) in
      if list_ex p (sms_campaigns d)
      then (length (filter p (sms_campaigns d)),
            d\<lparr>sms_campaigns := filter (\<lambda>c. \<not> p c) (sms_campaigns d),
              campaign_recipients := filter (\<lambda>r. rp_campaign r \<noteq> kid) (campaign_recipients d)\<rparr>)
      else (0, d))"

definition ListCampaignsForClient ::
    "uuid \<Rightarrow> campaign_status option \<Rightarrow> nat \<Rightarrow> nat \<Rightarrow> db \<Rightarrow> sms_campaign list" where
  "ListCampaignsForClient cid st offset limit d =
     take limit (drop offset (sort_key (\<lambda>c. - cp_created_at c)
       (filter (\<lambda>c. cp_client c = cid \<and> (st = None \<or> st = Some (cp_status c))) (sms_campaigns d))))"

definition ListCampaignRecipientMSISDNs :: "uuid \<Rightarrow> db \<Rightarrow> string list" where
  "ListCampaignRecipientMSISDNs kid d = map rp_to (campaign_recipients_of kid d)"

text \<open>
  The rows of one \<open>INSERT ... ON CONFLICT DO NOTHING\<close>: a row that fails the CHECK fails the
  statement, a number the campaign already has is passed over. \<open>ids\<close> generates the primary keys.
\<close>

fun insert_recipients ::
    "(string \<Rightarrow> uuid) \<Rightarrow> time \<Rightarrow> uuid \<Rightarrow> string list \<Rightarrow> campaign_recipient list \<Rightarrow>
     (int \<times> campaign_recipient list) result" where
  "insert_recipients ids now kid [] rs = Inr (0, rs)"
| "insert_recipients ids now kid (x # xs) rs =
     (if \<not> to_msisdn_chk x then Inl (PgError CheckViolation)
      else if list_ex (\<lambda>r. rp_campaign r = kid \<and> rp_to r = x) rs then insert_recipients ids now kid xs rs
      else if ids x \<in> set (map rp_id rs) then Inl (PgError UniqueViolation)
      else
        (case insert_recipients ids now kid xs
           (rs @ [\<lparr>rp_id = ids x, rp_campaign = kid, rp_to = x, rp_status = RecipientPending,
                   rp_sms_message = None, rp_created_at = now\<rparr>]) of
           Inl e \<Rightarrow> Inl e | Inr (n, rs') \<Rightarrow> Inr (n + 1, rs')))"

definition InsertCampaignRecipients ::
    "(string \<Rightarrow> uuid) \<Rightarrow> time \<Rightarrow> uuid \<Rightarrow> string list \<Rightarrow> db \<Rightarrow> (int \<times> db) result" where
  "InsertCampaignRecipients ids now kid xs d =
     (case insert_recipients ids now kid xs (campaign_recipients d) of
        Inl e \<Rightarrow> Inl e | Inr (n, rs) \<Rightarrow> Inr (n, d\<lparr>campaign_recipients := rs\<rparr>))"

definition CountCampaignRecipients :: "uuid \<Rightarrow> db \<Rightarrow> int" where
  "CountCampaignRecipients kid d = int (length (campaign_recipients_of kid d))"

definition SetCampaignTotal :: "time \<Rightarrow> int \<Rightarrow> uuid \<Rightarrow> db \<Rightarrow> db" where
  "SetCampaignTotal now n kid d =
     d\<lparr>sms_campaigns := update_where (\<lambda>c. cp_id c = kid)
         (\<lambda>c. c\<lparr>cp_total_count := n, cp_updated_at := now\<rparr>) (sms_campaigns d)\<rparr>"

text \<open>A negative offset, which the 32-bit sum of the caller could become, is an error.\<close>

definition ListCampaignRecipients :: "uuid \<Rightarrow> int \<Rightarrow> nat \<Rightarrow> db \<Rightarrow> campaign_recipient list result" where
  "ListCampaignRecipients kid offset limit d =
     (if offset < 0 then Inl (PgError InvalidRowCountInResultOffsetClause)
      else Inr (take limit (drop (nat offset)
        (sort_key rp_created_at (sort_key rp_id (campaign_recipients_of kid d))))))"

record recipient_row =
  rr_recipient :: campaign_recipient
  rr_message_status :: "sms_status option"

definition ListCampaignRecipientRows :: "uuid \<Rightarrow> nat \<Rightarrow> nat \<Rightarrow> db \<Rightarrow> recipient_row list" where
  "ListCampaignRecipientRows kid offset limit d =
     map (\<lambda>r. \<lparr>rr_recipient = r, rr_message_status =
            (case rp_sms_message r of None \<Rightarrow> None
             | Some mid \<Rightarrow> map_option msg_status (find (\<lambda>m. msg_id m = mid) (sms_messages d)))\<rparr>)
       (take limit (drop offset (sort_key rp_created_at (sort_key rp_id (campaign_recipients_of kid d)))))"

text \<open>The rows that another transaction has locked are passed over (\<open>SKIP LOCKED\<close>).\<close>

definition SkipPendingForCampaign :: "(uuid \<Rightarrow> bool) \<Rightarrow> uuid \<Rightarrow> db \<Rightarrow> db" where
  "SkipPendingForCampaign free kid d =
     d\<lparr>campaign_recipients := update_where
         (\<lambda>r. rp_campaign r = kid \<and> rp_status r = RecipientPending \<and> free (rp_id r))
         (\<lambda>r. r\<lparr>rp_status := RecipientSkipped\<rparr>) (campaign_recipients d)\<rparr>"

section \<open>The service\<close>

definition maxRecipients :: int where
  "maxRecipients = 100000"

definition recipientChunk :: nat where
  "recipientChunk = 2000"

text \<open>\<open>maxTextRunes\<close> is the same constant as in \<open>messaging\<close>.\<close>

definition validateFromText :: "uuid \<Rightarrow> string \<Rightarrow> string \<Rightarrow> db \<Rightarrow> (string \<times> string) result" where
  "validateFromText cid fromRaw textRaw d =
     (case NormalizeSender fromRaw of
        Inl e \<Rightarrow> Inl (Fmt CampaignsErrValidation (''from: '' @ error_text e))
      | Inr from \<Rightarrow>
      let text = TrimSpace textRaw in
      if text = [] then Inl (Fmt CampaignsErrValidation ''text required'')
      else if RuneCountInString text > maxTextRunes then Inl (Fmt CampaignsErrValidation ''text too long'')
      else
       (case GetAssignedNumberForClient from cid d of
          Inl e \<Rightarrow> Inl (if e = NoRows then Sentinel CampaignsErrNotAssigned else e)
        | Inr _ \<Rightarrow> Inr (from, text)))"

definition campaigns_Create ::
    "uuid \<Rightarrow> time \<Rightarrow> uuid \<Rightarrow> uuid option \<Rightarrow> string \<Rightarrow> string \<Rightarrow> db \<Rightarrow> (sms_campaign \<times> db) result" where
  "campaigns_Create new_id now cid by fromRaw textRaw d =
     (case validateFromText cid fromRaw textRaw d of
        Inl e \<Rightarrow> Inl e
      | Inr (from, text) \<Rightarrow> InsertCampaign new_id now cid from text by d)"

definition campaigns_get :: "uuid \<Rightarrow> uuid \<Rightarrow> db \<Rightarrow> sms_campaign result" where
  "campaigns_get cid kid d =
     (case GetCampaignForClient kid cid d of
        Inl e \<Rightarrow> Inl (if e = NoRows then Sentinel CampaignsErrNotFound else e) | Inr c \<Rightarrow> Inr c)"

definition campaigns_Patch ::
    "time \<Rightarrow> uuid \<Rightarrow> uuid \<Rightarrow> string option \<Rightarrow> string option \<Rightarrow> db \<Rightarrow> (sms_campaign \<times> db) result" where
  "campaigns_Patch now cid kid inFrom inText d =
     (case campaigns_get cid kid d of Inl e \<Rightarrow> Inl e | Inr cur \<Rightarrow>
      if cp_status cur \<noteq> CampaignDraft then Inl (Sentinel CampaignsErrFrozen)
      else
        (case validateFromText cid (case inFrom of None \<Rightarrow> cp_from cur | Some f \<Rightarrow> f)
            (case inText of None \<Rightarrow> cp_text cur | Some t \<Rightarrow> t) d of
           Inl e \<Rightarrow> Inl e
         | Inr (from, text) \<Rightarrow>
           (case UpdateCampaignDraft now (Some from) (Some text) kid cid d of
              Inl e \<Rightarrow> Inl (if e = NoRows then Sentinel CampaignsErrFrozen else e)
            | Inr r \<Rightarrow> Inr r)))"

definition campaigns_Get :: "uuid \<Rightarrow> uuid \<Rightarrow> db \<Rightarrow> (sms_campaign \<times> recipient_stats) result" where
  "campaigns_Get cid kid d =
     (case campaigns_get cid kid d of
        Inl e \<Rightarrow> Inl e | Inr c \<Rightarrow> Inr (c, CampaignRecipientStats kid d))"

record campaign_filter =
  cf_status :: "campaign_status option"
  cf_limit :: int
  cf_offset :: int

definition campaigns_List :: "uuid \<Rightarrow> campaign_filter \<Rightarrow> db \<Rightarrow> sms_campaign list" where
  "campaigns_List cid f d =
     (let limit = (if cf_limit f \<le> 0 \<or> cf_limit f > 100 then 50 else cf_limit f);
          offset = (if cf_offset f < 0 then 0 else cf_offset f)
      in ListCampaignsForClient cid (cf_status f) (nat offset) (nat limit) d)"

definition DeleteDraft :: "uuid \<Rightarrow> uuid \<Rightarrow> db \<Rightarrow> db result" where
  "DeleteDraft cid kid d =
     (case DeleteCampaignDraft kid cid d of (n, d') \<Rightarrow>
      if n = 0 then
        (case campaigns_get cid kid d of Inl e \<Rightarrow> Inl e | Inr _ \<Rightarrow> Inl (Sentinel CampaignsErrNotDraft))
      else Inr d')"

record invalid_row =
  iv_line :: int
  iv_value :: string
  iv_error :: string

record add_result =
  ar_added :: int
  ar_duplicates :: int
  ar_invalid :: "invalid_row list"
  ar_total :: int

definition campaigns_intOut :: "bool result option \<Rightarrow> bool" where
  "campaigns_intOut dirs = (case dirs of Some (Inr b) \<Rightarrow> b | _ \<Rightarrow> False)"

text \<open>
  The loop over the numbers of a request: \<open>have\<close> is the map of the numbers the campaign has,
  the result the new numbers, the count of duplicates and the rejected ones.
\<close>

fun fresh_numbers ::
    "bool \<Rightarrow> string list \<Rightarrow> string list \<Rightarrow> string list \<times> int \<times> invalid_row list" where
  "fresh_numbers intOut seen [] = ([], 0, [])"
| "fresh_numbers intOut seen (n # ns) =
     (if n \<in> set seen then
        (case fresh_numbers intOut seen ns of (fs, dup, bad) \<Rightarrow> (fs, dup + 1, bad))
      else
        (case NormalizeDest n of
           Inl e \<Rightarrow>
             (case fresh_numbers intOut seen ns of (fs, dup, bad) \<Rightarrow>
              (fs, dup, \<lparr>iv_line = 0, iv_value = n, iv_error = error_text e\<rparr> # bad))
         | Inr dst \<Rightarrow>
             if International dst \<and> \<not> intOut then
               (case fresh_numbers intOut seen ns of (fs, dup, bad) \<Rightarrow>
                (fs, dup, \<lparr>iv_line = 0, iv_value = n, iv_error = ''international SMS is disabled''\<rparr> # bad))
             else
               (case fresh_numbers intOut (n # seen) ns of (fs, dup, bad) \<Rightarrow> (n # fs, dup, bad))))"

function insert_chunks ::
    "(string \<Rightarrow> uuid) \<Rightarrow> time \<Rightarrow> uuid \<Rightarrow> string list \<Rightarrow> db \<Rightarrow> (int \<times> db) result" where
  "insert_chunks ids now kid fresh d =
     (if fresh = [] then Inr (0, d)
      else
        (case InsertCampaignRecipients ids now kid (take recipientChunk fresh) d of
           Inl e \<Rightarrow> Inl e
         | Inr (n, d') \<Rightarrow>
           (case insert_chunks ids now kid (drop recipientChunk fresh) d' of
              Inl e \<Rightarrow> Inl e | Inr (m, d'') \<Rightarrow> Inr (n + m, d''))))"
  by pat_completeness auto
termination
  by (relation "measure (\<lambda>(_, _, _, fresh, _). length fresh)") (auto simp: recipientChunk_def)

declare insert_chunks.simps [simp del]

definition AddRecipients ::
    "(string \<Rightarrow> uuid) \<Rightarrow> time \<Rightarrow> bool result option \<Rightarrow> uuid \<Rightarrow> uuid \<Rightarrow> string list \<Rightarrow> invalid_row list \<Rightarrow> db \<Rightarrow>
     (add_result \<times> db) result" where
  "AddRecipients ids now dirs cid kid msisdns invalid d =
     (case GetCampaignForClientForUpdate kid cid d of
        Inl e \<Rightarrow> Inl (if e = NoRows then Sentinel CampaignsErrNotFound else e)
      | Inr c \<Rightarrow>
      if cp_status c \<noteq> CampaignDraft then Inl (Sentinel CampaignsErrFrozen)
      else
        let existing = ListCampaignRecipientMSISDNs kid d in
        (case fresh_numbers (campaigns_intOut dirs) existing msisdns of (fresh, dup, bad) \<Rightarrow>
         if int32_of (int32_of (int (length existing)) + int32_of (int (length fresh))) > maxRecipients
         then Inl (Fmt CampaignsErrTooMany ''max 100000'')
         else
           (case insert_chunks ids now kid fresh d of
              Inl e \<Rightarrow> Inl e
            | Inr (added, d1) \<Rightarrow>
              let n = CountCampaignRecipients kid d1 in
              Inr (\<lparr>ar_added = added, ar_duplicates = dup, ar_invalid = invalid @ bad, ar_total = n\<rparr>,
                   SetCampaignTotal now n kid d1))))"

definition ListRecipients :: "uuid \<Rightarrow> uuid \<Rightarrow> int \<Rightarrow> int \<Rightarrow> db \<Rightarrow> recipient_row list result" where
  "ListRecipients cid kid limit offset d =
     (case campaigns_get cid kid d of Inl e \<Rightarrow> Inl e | Inr _ \<Rightarrow>
      let limit = (if limit \<le> 0 \<or> limit > 100 then 50 else limit);
          offset = (if offset < 0 then 0 else offset)
      in Inr (ListCampaignRecipientRows kid (nat offset) (nat limit) d))"

section \<open>The price of a campaign\<close>

record campaign_cost =
  cc_domestic :: int
  cc_international :: int
  cc_segments :: int
  cc_total :: decimal
  cc_currency :: string
  cc_billed :: bool

fun count_destinations :: "campaign_recipient list \<Rightarrow> int \<times> int \<Rightarrow> int \<times> int" where
  "count_destinations [] acc = acc"
| "count_destinations (r # rs) (dmst, intl) =
     (case NormalizeDest (rp_to r) of
        Inl _ \<Rightarrow> count_destinations rs (dmst, intl)
      | Inr dst \<Rightarrow>
          count_destinations rs (if International dst then (dmst, intl + 1) else (dmst + 1, intl)))"

text \<open>
  The loop over the pages, with the offset as the \<open>int32\<close> of the code. A page is full or the last
  one, and the offset grows by its length until it wraps to a negative one, so the loop ends.
\<close>

definition cost_page :: nat where
  "cost_page = 1000"

lemma int32_of_less: "int32_of k < 2147483648"
  using sint_lt [of "word_of_int k :: int32"] by (simp add: int32_of_def)

lemma int32_of_wrap:
  assumes "0 \<le> k" "k < 2147483648" "0 \<le> n" "n < 2147483648"
  shows "int32_of (k + n) = (if k + n < 2147483648 then k + n else k + n - 4294967296)"
proof (cases "k + n < 2147483648")
  case False
  have "int32_of (k + n) = int32_of (k + n - 4294967296)"
    unfolding int32_of_def
    by (rule arg_cong [where f = sint], simp only: word_of_int_eq_iff take_bit_eq_mod) simp
  then show ?thesis using assms False by simp
qed (use assms in simp)

function cost_pages :: "uuid \<Rightarrow> int \<Rightarrow> int \<times> int \<Rightarrow> db \<Rightarrow> (int \<times> int) result" where
  "cost_pages kid offset acc d =
     (case ListCampaignRecipients kid offset cost_page d of
        Inl e \<Rightarrow> Inl e
      | Inr rows \<Rightarrow>
          if rows = [] then Inr acc
          else
            let acc' = count_destinations rows acc in
            if length rows < cost_page then Inr acc'
            else cost_pages kid (int32_of (offset + int (length rows))) acc' d)"
  by pat_completeness auto
termination
proof (relation "measure (\<lambda>(_, offset, _, _). if offset < 0 then 0
    else if offset < 2147483648 then nat (2147483648 - offset) else 2147483649)", simp)
  fix kid offset acc d rows acc'
  assume r: "ListCampaignRecipients kid offset cost_page d = Inr rows" "\<not> length rows < cost_page"
  have "0 \<le> offset" "length rows = 1000"
    using r by (auto simp: ListCampaignRecipients_def cost_page_def split: if_splits)
  then show "((kid, int32_of (offset + int (length rows)), acc', d), kid, offset, acc, d) \<in>
      measure (\<lambda>(_, offset, _, _). if offset < 0 then 0
        else if offset < 2147483648 then nat (2147483648 - offset) else 2147483649)"
    using int32_of_less [of "offset + 1000"] by (auto simp: int32_of_wrap)
qed

declare cost_pages.simps [simp del]

definition bucketCost :: "time \<Rightarrow> uuid \<Rightarrow> billing_product \<Rightarrow> int \<Rightarrow> int \<Rightarrow> db \<Rightarrow> decimal result" where
  "bucketCost now cid product n seg d =
     (if n = 0 then Inr 0
      else
        (case ResolveTariff now cid product d of
           Inl e \<Rightarrow> Inl e | Inr t \<Rightarrow> Inr (rt_sell_price t * of_int seg * of_int n)))"

definition CampaignCost :: "time \<Rightarrow> bool \<Rightarrow> uuid \<Rightarrow> sms_campaign \<Rightarrow> db \<Rightarrow> campaign_cost result" where
  "CampaignCost now bill cid c d =
     (let seg = int (SegmentCount (cp_text c)) in
      if \<not> bill then Inl (Fmt CampaignsErrValidation ''billing unavailable'')
      else
        (case cost_pages (cp_id c) 0 (0, 0) d of Inl e \<Rightarrow> Inl e | Inr (dmst, intl) \<Rightarrow>
        (case bucketCost now cid SmsDomestic dmst seg d of Inl e \<Rightarrow> Inl e | Inr domCost \<Rightarrow>
        (case bucketCost now cid SmsInternational intl seg d of Inl e \<Rightarrow> Inl e | Inr intlCost \<Rightarrow>
         Inr \<lparr>cc_domestic = dmst, cc_international = intl, cc_segments = seg,
              cc_total = domCost + intlCost, cc_currency = ''RUB'', cc_billed = True\<rparr>))))"

definition assertCampaignAfford :: "time \<Rightarrow> bool \<Rightarrow> uuid \<Rightarrow> sms_campaign \<Rightarrow> db \<Rightarrow> goerr option" where
  "assertCampaignAfford now bill cid c d =
     (case CampaignCost now bill cid c d of
        Inl e \<Rightarrow> Some e | Inr cost \<Rightarrow> AssertCanAfford cid (cc_total cost) d)"

section \<open>Start and cancellation\<close>

text \<open>The queries of \<open>assertCampaignAfford\<close> go through the pool; the transaction has written nothing yet.\<close>

definition campaigns_Start ::
    "time \<Rightarrow> bool \<Rightarrow> uuid \<Rightarrow> uuid \<Rightarrow> db \<Rightarrow> (sms_campaign \<times> db) result" where
  "campaigns_Start now bill cid kid d =
     (case GetCampaignForClientForUpdate kid cid d of
        Inl e \<Rightarrow> Inl (if e = NoRows then Sentinel CampaignsErrNotFound else e)
      | Inr c \<Rightarrow>
      if cp_status c = CampaignQueued \<or> cp_status c = CampaignRunning then Inr (c, d)
      else if cp_status c \<noteq> CampaignDraft then Inl (Sentinel CampaignsErrConflict)
      else if cp_total_count c \<le> 0 then Inl (Sentinel CampaignsErrEmpty)
      else
        (case GetAssignedNumberForClient (cp_from c) cid d of
           Inl e \<Rightarrow> Inl (if e = NoRows then Sentinel CampaignsErrNotAssigned else e)
         | Inr _ \<Rightarrow>
        (case assertCampaignAfford now bill cid c d of
           Some e \<Rightarrow> Inl e
         | None \<Rightarrow>
        (case QueueCampaign now kid cid d of
           Inl e \<Rightarrow> Inl (if e = NoRows then Sentinel CampaignsErrConflict else e)
         | Inr r \<Rightarrow> Inr r))))"

text \<open>The transaction of \<open>Cancel\<close>; the recipients are passed over in a statement after it.\<close>

definition cancel_tx :: "time \<Rightarrow> uuid \<Rightarrow> uuid \<Rightarrow> db \<Rightarrow> (sms_campaign \<times> db) result" where
  "cancel_tx now cid kid d =
     (case GetCampaignForClientForUpdate kid cid d of
        Inl e \<Rightarrow> Inl (if e = NoRows then Sentinel CampaignsErrNotFound else e)
      | Inr c \<Rightarrow>
      if cp_status c = CampaignCancelled then Inr (c, d)
      else
        (case CancelCampaign now kid cid d of
           Inl e \<Rightarrow> Inl (if e = NoRows then Sentinel CampaignsErrConflict else e)
         | Inr r \<Rightarrow> Inr r))"

definition campaigns_Cancel ::
    "time \<Rightarrow> (uuid \<Rightarrow> bool) \<Rightarrow> uuid \<Rightarrow> uuid \<Rightarrow> db \<Rightarrow> (sms_campaign \<times> db) result" where
  "campaigns_Cancel now free cid kid d =
     (case cancel_tx now cid kid d of
        Inl e \<Rightarrow> Inl e | Inr (c, d') \<Rightarrow> Inr (c, SkipPendingForCampaign free kid d'))"

definition Frozen :: "campaign_status \<Rightarrow> bool" where
  "Frozen st = (st \<noteq> CampaignDraft)"

text \<open>\<open>csv.go\<close>: the numbers of a JSON request, in canonical form and without repetitions.\<close>

fun normalize_recipients :: "int \<Rightarrow> string list \<Rightarrow> string list \<Rightarrow> string list \<times> invalid_row list" where
  "normalize_recipients line seen [] = ([], [])"
| "normalize_recipients line seen (v # vs) =
     (case NormalizeDest v of
        Inl e \<Rightarrow>
          (case normalize_recipients (line + 1) seen vs of (ms, bad) \<Rightarrow>
           (ms, \<lparr>iv_line = line, iv_value = v, iv_error = error_text e\<rparr> # bad))
      | Inr dst \<Rightarrow>
          if MSISDN dst \<in> set seen then normalize_recipients (line + 1) seen vs
          else (case normalize_recipients (line + 1) (MSISDN dst # seen) vs of (ms, bad) \<Rightarrow>
                (MSISDN dst # ms, bad)))"

definition NormalizeRecipientList :: "string list \<Rightarrow> string list \<times> invalid_row list" where
  "NormalizeRecipientList raw = normalize_recipients 1 [] raw"

end
