(* ===== verification/CampaignWorker.thy ===== *)
theory CampaignWorker
  imports Campaigns
begin

text \<open>
  \<open>internal/campaigns/worker.go\<close>: the worker that turns the pending recipients of running
  campaigns into messages. The recipients of one client are handled in one transaction, each
  message in a savepoint of it.
\<close>

section \<open>Queries\<close>

record runnable_row =
  rn_running :: bool
  rn_assigned :: bool

definition CampaignRunnableForFanout :: "uuid \<Rightarrow> db \<Rightarrow> runnable_row result" where
  "CampaignRunnableForFanout kid d =
     first_row (map (\<lambda>c. \<lparr>rn_running = (cp_status c = CampaignRunning),
         rn_assigned = list_ex (\<lambda>n. dn_msisdn n = cp_from c \<and> dn_status n = NumberAssigned \<and>
           list_ex (\<lambda>a. na_number a = dn_id n \<and> na_unassigned_at a = None \<and> na_client a = cp_client c)
             (number_assignments d)) (def_numbers d)\<rparr>)
       (filter (\<lambda>c. cp_id c = kid) (sms_campaigns d)))"

text \<open>\<open>free\<close>: the rows that no other transaction has locked.\<close>

definition ClaimQueuedCampaigns :: "(uuid \<Rightarrow> bool) \<Rightarrow> time \<Rightarrow> nat \<Rightarrow> db \<Rightarrow> sms_campaign list \<times> db" where
  "ClaimQueuedCampaigns free now limit d =
     (let ids = map cp_id (take limit (sort_key cp_created_at (sort_key cp_id
            (filter (\<lambda>c. cp_status c = CampaignQueued \<and> free (cp_id c) \<and>
               list_ex (\<lambda>cl. cl_id cl = cp_client c \<and> cl_status cl = ClientActive) (clients d))
             (sms_campaigns d)))));
          f = (\<lambda>c. c\<lparr>cp_status := CampaignRunning, cp_updated_at := now\<rparr>)
      in (map f (filter (\<lambda>c. cp_id c \<in> set ids) (sms_campaigns d)),
          d\<lparr>sms_campaigns := update_where (\<lambda>c. cp_id c \<in> set ids) f (sms_campaigns d)\<rparr>))"

definition open_job :: "uuid \<Rightarrow> db \<Rightarrow> bool" where
  "open_job kid d =
     list_ex (\<lambda>m. msg_campaign m = Some kid \<and>
       list_ex (\<lambda>j. sj_message j = msg_id m \<and>
         sj_status j \<in> {JobPending, JobProcessing, JobRetry, JobUncertain}) (send_jobs d)) (sms_messages d)"

definition CompleteIdleCampaigns :: "time \<Rightarrow> db \<Rightarrow> db" where
  "CompleteIdleCampaigns now d =
     d\<lparr>sms_campaigns := update_where
         (\<lambda>c. cp_status c = CampaignRunning \<and>
            \<not> list_ex (\<lambda>r. rp_campaign r = cp_id c \<and> rp_status r = RecipientPending) (campaign_recipients d) \<and>
            \<not> open_job (cp_id c) d)
         (\<lambda>c. c\<lparr>cp_status := CampaignCompleted, cp_updated_at := now\<rparr>) (sms_campaigns d)\<rparr>"

definition count_messages :: "uuid \<Rightarrow> sms_status set \<Rightarrow> db \<Rightarrow> int" where
  "count_messages kid sts d =
     int (length (filter (\<lambda>m. msg_campaign m = Some kid \<and> msg_status m \<in> sts) (sms_messages d)))"

definition RefreshCampaignCounters :: "time \<Rightarrow> time \<Rightarrow> db \<Rightarrow> db" where
  "RefreshCampaignCounters now since d =
     d\<lparr>sms_campaigns := update_where
         (\<lambda>c. list_ex (\<lambda>m. msg_campaign m = Some (cp_id c)) (sms_messages d) \<and>
            (cp_status c \<in> {CampaignRunning, CampaignCancelled} \<or>
             cp_status c = CampaignCompleted \<and> cp_updated_at c > since))
         (\<lambda>c. c\<lparr>cp_accepted_count := count_messages (cp_id c) {SmsAccepted, SmsSent, SmsDelivered} d,
               cp_delivered_count := count_messages (cp_id c) {SmsDelivered} d,
               cp_failed_count := count_messages (cp_id c) {SmsFailed} d, cp_updated_at := now\<rparr>)
         (sms_campaigns d)\<rparr>"

definition SkipPendingForCancelledCampaigns :: "(uuid \<Rightarrow> bool) \<Rightarrow> db \<Rightarrow> db" where
  "SkipPendingForCancelledCampaigns free d =
     d\<lparr>campaign_recipients := update_where
         (\<lambda>r. rp_status r = RecipientPending \<and> free (rp_id r) \<and>
            list_ex (\<lambda>c. cp_id c = rp_campaign r \<and> cp_status c = CampaignCancelled) (sms_campaigns d))
         (\<lambda>r. r\<lparr>rp_status := RecipientSkipped\<rparr>) (campaign_recipients d)\<rparr>"

text \<open>A recipient that waits, joined with its running campaign.\<close>

record fanout_row =
  fr_id :: uuid
  fr_campaign :: uuid
  fr_to :: string
  fr_status :: campaign_recipient_status
  fr_sms_message :: "uuid option"
  fr_created_at :: time
  fr_client :: uuid
  fr_from :: string
  fr_text :: string
  fr_campaign_status :: campaign_status

definition fanout_rows :: "db \<Rightarrow> fanout_row list" where
  "fanout_rows d =
     concat (map (\<lambda>r. map (\<lambda>c.
         \<lparr>fr_id = rp_id r, fr_campaign = rp_campaign r, fr_to = rp_to r, fr_status = rp_status r,
          fr_sms_message = rp_sms_message r, fr_created_at = rp_created_at r, fr_client = cp_client c,
          fr_from = cp_from c, fr_text = cp_text c, fr_campaign_status = cp_status c\<rparr>)
       (filter (\<lambda>c. cp_id c = rp_campaign r \<and> cp_status c = CampaignRunning) (sms_campaigns d)))
     (filter (\<lambda>r. rp_status r = RecipientPending) (campaign_recipients d)))"

definition ListFanoutClientIDs :: "nat \<Rightarrow> db \<Rightarrow> uuid list" where
  "ListFanoutClientIDs limit d =
     (let rs = fanout_rows d in
      take limit (sort_key (\<lambda>c. Min (set (map fr_created_at (filter (\<lambda>r. fr_client r = c) rs))))
        (remdups (map fr_client rs))))"

definition LockPendingRecipientsForClient :: "(uuid \<Rightarrow> bool) \<Rightarrow> uuid \<Rightarrow> nat \<Rightarrow> db \<Rightarrow> fanout_row list" where
  "LockPendingRecipientsForClient free cid limit d =
     take limit (sort_key fr_created_at (sort_key fr_id
       (filter (\<lambda>r. fr_client r = cid \<and> free (fr_id r)) (fanout_rows d))))"

definition mark_recipient :: "uuid \<Rightarrow> (campaign_recipient \<Rightarrow> campaign_recipient) \<Rightarrow> db \<Rightarrow> db" where
  "mark_recipient rid f d =
     d\<lparr>campaign_recipients := update_where (\<lambda>r. rp_id r = rid \<and> rp_status r = RecipientPending) f
         (campaign_recipients d)\<rparr>"

definition MarkRecipientEnqueued :: "uuid \<Rightarrow> uuid \<Rightarrow> db \<Rightarrow> db" where
  "MarkRecipientEnqueued mid rid d =
     mark_recipient rid (\<lambda>r. r\<lparr>rp_status := RecipientEnqueued, rp_sms_message := Some mid\<rparr>) d"

definition MarkRecipientFailed :: "uuid \<Rightarrow> db \<Rightarrow> db" where
  "MarkRecipientFailed rid d = mark_recipient rid (\<lambda>r. r\<lparr>rp_status := RecipientFailed\<rparr>) d"

definition MarkRecipientSkipped :: "uuid \<Rightarrow> db \<Rightarrow> db" where
  "MarkRecipientSkipped rid d = mark_recipient rid (\<lambda>r. r\<lparr>rp_status := RecipientSkipped\<rparr>) d"

section \<open>The worker\<close>

definition CanEnqueue :: "campaign_status \<Rightarrow> bool" where
  "CanEnqueue st = (st = CampaignRunning)"

definition fanoutClients :: nat where "fanoutClients = 8"
definition fanoutPerClient :: nat where "fanoutPerClient = 100"
definition claimQueuedLimit :: nat where "claimQueuedLimit = 20"
definition aggregateEvery :: time where "aggregateEvery = 15 * second"
definition counterLookback :: time where "counterLookback = 7 * 24 * 3600 * second"

datatype skip_reason = SkipNone | SkipNotRunning | SkipUnassigned

text \<open>
  What a transaction meets: the clock, the ids generated for the message of a recipient, the rows
  locked by nobody else, the direction policy of the worker, and its messaging service with the
  policy and the billing service of that.
\<close>

record campaign_env =
  ce_now :: time
  ce_ids :: "uuid \<Rightarrow> enqueue_ids"
  ce_free :: "uuid \<Rightarrow> bool"
  ce_dirs :: "bool result option"
  ce_msg :: "(bool result option \<times> bool) option"

definition stillRunnable ::
    "fanout_row \<Rightarrow> (uuid \<Rightarrow> skip_reason) \<Rightarrow> db \<Rightarrow> (bool \<times> (uuid \<Rightarrow> skip_reason)) result" where
  "stillRunnable r sticky d =
     (case CampaignRunnableForFanout (fr_campaign r) d of
        Inl e \<Rightarrow> if e = NoRows then Inr (False, sticky(fr_campaign r := SkipNotRunning)) else Inl e
      | Inr row \<Rightarrow>
          if \<not> rn_running row then Inr (False, sticky(fr_campaign r := SkipNotRunning))
          else if \<not> rn_assigned row then Inr (False, sticky(fr_campaign r := SkipUnassigned))
          else Inr (True, sticky))"

text \<open>The errors of \<open>EnqueueWith\<close> after which the batch goes on without the recipient.\<close>

definition recipient_error :: "goerr \<Rightarrow> bool" where
  "recipient_error e =
     (errors_Is e BillingErrInsufficientFunds \<or> errors_Is e BillingErrTariffNotConfigured \<or>
      errors_Is e BillingErrInvalidTariff)"

definition recipient_input :: "fanout_row \<Rightarrow> dest \<Rightarrow> enqueue_input" where
  "recipient_input r dst =
     \<lparr>ei_client = fr_client r, ei_from = fr_from r, ei_to = MSISDN dst, ei_text = fr_text r,
      ei_key = None, ei_campaign = Some (fr_campaign r)\<rparr>"

text \<open>
  The message of one recipient, between \<open>SAVEPOINT\<close> and \<open>RELEASE\<close> or \<open>ROLLBACK TO\<close>: an error
  restores the state of the transaction at the savepoint.
\<close>

definition fanout_enqueue ::
    "campaign_env \<Rightarrow> db \<Rightarrow> fanout_row \<Rightarrow> dest \<Rightarrow> db \<Rightarrow> db result" where
  "fanout_enqueue env pool r dst d =
     (case ce_msg env of
        None \<Rightarrow> Inl (Plain ''messaging service required'')
      | Some (dirs, bill) \<Rightarrow>
          (case EnqueueWith (ce_ids env (fr_id r)) (ce_now env) dirs bill (recipient_input r dst) pool d of
             (Inl e, _) \<Rightarrow>
               if recipient_error e then Inr (MarkRecipientFailed (fr_id r) d) else Inl e
           | (Inr msg, t) \<Rightarrow>
               (case t of Live d1 \<Rightarrow> Inr (MarkRecipientEnqueued (msg_id msg) (fr_id r) d1)
                | Aborted \<Rightarrow> Inl (PgError InFailedSQLTransaction))))"

fun fanout_loop ::
    "campaign_env \<Rightarrow> db \<Rightarrow> bool \<Rightarrow> (uuid \<Rightarrow> skip_reason) \<Rightarrow> fanout_row list \<Rightarrow> db \<Rightarrow> db result" where
  "fanout_loop env pool intOut sticky [] d = Inr d"
| "fanout_loop env pool intOut sticky (r # rs) d =
     (if sticky (fr_campaign r) \<noteq> SkipNone
      then fanout_loop env pool intOut sticky rs (MarkRecipientSkipped (fr_id r) d)
      else
        (case stillRunnable r sticky d of Inl e \<Rightarrow> Inl e | Inr (ok, sticky') \<Rightarrow>
         if \<not> ok then fanout_loop env pool intOut sticky' rs (MarkRecipientSkipped (fr_id r) d)
         else
           (case NormalizeDest (fr_to r) of
              Inl _ \<Rightarrow> fanout_loop env pool intOut sticky' rs (MarkRecipientFailed (fr_id r) d)
            | Inr dst \<Rightarrow>
                if International dst \<and> \<not> intOut
                then fanout_loop env pool intOut sticky' rs (MarkRecipientSkipped (fr_id r) d)
                else
                  (case fanout_enqueue env pool r dst d of
                     Inl e \<Rightarrow> Inl e
                   | Inr d' \<Rightarrow> fanout_loop env pool intOut sticky' rs d'))))"

definition fanoutClient :: "campaign_env \<Rightarrow> uuid \<Rightarrow> db \<Rightarrow> (nat \<times> db) result" where
  "fanoutClient env cid d =
     (let rows = LockPendingRecipientsForClient (ce_free env) cid fanoutPerClient d in
      case fanout_loop env d (campaigns_intOut (ce_dirs env)) (\<lambda>_. SkipNone) rows d of
        Inl e \<Rightarrow> Inl e | Inr d' \<Rightarrow> Inr (length rows, d'))"

text \<open>Each client has its own transaction; \<open>env\<close> gives what it meets.\<close>

fun fanout_clients :: "(uuid \<Rightarrow> campaign_env) \<Rightarrow> uuid list \<Rightarrow> db \<Rightarrow> nat \<times> db" where
  "fanout_clients env [] d = (0, d)"
| "fanout_clients env (cid # cids) d =
     (case fanoutClient (env cid) cid d of
        Inl _ \<Rightarrow> fanout_clients env cids d
      | Inr (n, d') \<Rightarrow> (case fanout_clients env cids d' of (m, d'') \<Rightarrow> (n + m, d'')))"

definition fanout :: "(uuid \<Rightarrow> campaign_env) \<Rightarrow> db \<Rightarrow> nat \<times> db" where
  "fanout env d = fanout_clients env (ListFanoutClientIDs fanoutClients d) d"

text \<open>\<open>lastAgg\<close> is the field of the worker; \<open>free\<close> is for the statements outside the transactions.\<close>

definition campaigns_Tick ::
    "(uuid \<Rightarrow> bool) \<Rightarrow> time \<Rightarrow> (uuid \<Rightarrow> campaign_env) \<Rightarrow> time option \<Rightarrow> db \<Rightarrow> nat \<times> time option \<times> db" where
  "campaigns_Tick free now env lastAgg d =
     (let d1 = SkipPendingForCancelledCampaigns free d in
      case ClaimQueuedCampaigns free now claimQueuedLimit d1 of (queued, d2) \<Rightarrow>
      (case fanout env d2 of (n, d3) \<Rightarrow>
       if (case lastAgg of None \<Rightarrow> True | Some t \<Rightarrow> now - t \<ge> aggregateEvery)
       then (length queued + n, Some now,
             CompleteIdleCampaigns now (RefreshCampaignCounters now (now - counterLookback) d3))
       else (length queued + n, lastAgg, d3)))"

end
