(* ===== verification/CampaignInv.thy ===== *)
theory CampaignInv
  imports CampaignWorker OutboxRun
begin

text \<open>
  The invariant of campaigns: the messages of a campaign are exactly those of its enqueued
  recipients, one for each, and the recipients of a campaign are those it was started with. Every
  operation keeps it and moves campaigns and recipients forward only.
\<close>

section \<open>The invariant\<close>

definition canonical_number :: "string \<Rightarrow> bool" where
  "canonical_number n = (case NormalizeDest n of Inl _ \<Rightarrow> False | Inr dst \<Rightarrow> MSISDN dst = n)"

definition campaign_row_ok :: "campaign_recipient list \<Rightarrow> sms_campaign \<Rightarrow> bool" where
  "campaign_row_ok R c =
     (cp_total_count c = int (length (filter (\<lambda>r. rp_campaign r = cp_id c) R))
      \<and> cp_total_count c \<le> maxRecipients
      \<and> (cp_status c \<in> {CampaignDraft, CampaignQueued} \<longrightarrow>
           (\<forall>r \<in> set R. rp_campaign r = cp_id c \<longrightarrow> rp_status r = RecipientPending))
      \<and> (cp_status c = CampaignCompleted \<longrightarrow>
           (\<forall>r \<in> set R. rp_campaign r = cp_id c \<longrightarrow> rp_status r \<noteq> RecipientPending)))"

definition has_message :: "sms_message list \<Rightarrow> campaign_recipient \<Rightarrow> uuid \<Rightarrow> bool" where
  "has_message M r mid =
     (\<exists>m \<in> set M. msg_id m = mid \<and> msg_campaign m = Some (rp_campaign r) \<and> msg_to m = rp_to r)"

definition recipient_ok :: "sms_campaign list \<Rightarrow> sms_message list \<Rightarrow> campaign_recipient \<Rightarrow> bool" where
  "recipient_ok K M r =
     (canonical_number (rp_to r) \<and> rp_campaign r \<in> cp_id ` set K
      \<and> (case rp_sms_message r of
           None \<Rightarrow> rp_status r \<noteq> RecipientEnqueued
         | Some mid \<Rightarrow> rp_status r = RecipientEnqueued \<and> has_message M r mid))"

definition message_ok :: "campaign_recipient list \<Rightarrow> sms_message \<Rightarrow> bool" where
  "message_ok R m =
     (\<forall>k. msg_campaign m = Some k \<longrightarrow>
        (\<exists>r \<in> set R. rp_sms_message r = Some (msg_id m) \<and> rp_campaign r = k \<and> rp_to r = msg_to m))"

definition campaign_ok :: "db \<Rightarrow> bool" where
  "campaign_ok d =
     (distinct (map cp_id (sms_campaigns d)) \<and> distinct (map rp_id (campaign_recipients d))
      \<and> distinct (map (\<lambda>r. (rp_campaign r, rp_to r)) (campaign_recipients d))
      \<and> (\<forall>c \<in> set (sms_campaigns d). campaign_row_ok (campaign_recipients d) c)
      \<and> (\<forall>r \<in> set (campaign_recipients d). recipient_ok (sms_campaigns d) (sms_messages d) r)
      \<and> (\<forall>m \<in> set (sms_messages d). message_ok (campaign_recipients d) m))"

lemma campaign_okD:
  assumes "campaign_ok d"
  shows "distinct (map cp_id (sms_campaigns d))" "distinct (map rp_id (campaign_recipients d))"
    "distinct (map (\<lambda>r. (rp_campaign r, rp_to r)) (campaign_recipients d))"
    "\<And>c. c \<in> set (sms_campaigns d) \<Longrightarrow> campaign_row_ok (campaign_recipients d) c"
    "\<And>r. r \<in> set (campaign_recipients d) \<Longrightarrow> recipient_ok (sms_campaigns d) (sms_messages d) r"
    "\<And>m. m \<in> set (sms_messages d) \<Longrightarrow> message_ok (campaign_recipients d) m"
  using assms by (auto simp: campaign_ok_def)

lemma campaign_okI:
  assumes "distinct (map cp_id (sms_campaigns d))" "distinct (map rp_id (campaign_recipients d))"
    "distinct (map (\<lambda>r. (rp_campaign r, rp_to r)) (campaign_recipients d))"
    "\<And>c. c \<in> set (sms_campaigns d) \<Longrightarrow> campaign_row_ok (campaign_recipients d) c"
    "\<And>r. r \<in> set (campaign_recipients d) \<Longrightarrow> recipient_ok (sms_campaigns d) (sms_messages d) r"
    "\<And>m. m \<in> set (sms_messages d) \<Longrightarrow> message_ok (campaign_recipients d) m"
  shows "campaign_ok d"
  using assms by (auto simp: campaign_ok_def)

lemma campaign_ok_cong:
  "sms_campaigns d' = sms_campaigns d \<Longrightarrow> campaign_recipients d' = campaign_recipients d \<Longrightarrow>
   sms_messages d' = sms_messages d \<Longrightarrow> campaign_ok d' = campaign_ok d"
  by (simp add: campaign_ok_def)

lemma db_ok_campaigns [simp]:
  "db_ok (d\<lparr>sms_campaigns := K\<rparr>) = db_ok d" "db_ok (d\<lparr>campaign_recipients := R\<rparr>) = db_ok d"
  by (simp_all add: db_ok_def links_ok_def prices_ok_def)

lemma pending_has_no_message:
  "recipient_ok K M r \<Longrightarrow> rp_status r = RecipientPending \<Longrightarrow> rp_sms_message r = None"
  by (auto simp: recipient_ok_def split: option.splits)

text \<open>At most one message of a campaign goes to a number.\<close>

lemma one_message_per_number:
  assumes ok: "campaign_ok d" and m: "m \<in> set (sms_messages d)" "m' \<in> set (sms_messages d)"
    and k: "msg_campaign m = Some k" "msg_campaign m' = Some k" "msg_to m = msg_to m'"
  shows "msg_id m = msg_id m'"
proof -
  from campaign_okD(6) [OF ok m(1)] campaign_okD(6) [OF ok m(2)] k obtain r r' where
    r: "r \<in> set (campaign_recipients d)" "rp_sms_message r = Some (msg_id m)" "rp_campaign r = k" "rp_to r = msg_to m"
    and r': "r' \<in> set (campaign_recipients d)" "rp_sms_message r' = Some (msg_id m')" "rp_campaign r' = k" "rp_to r' = msg_to m'"
    by (metis message_ok_def)
  have "r = r'" by (rule distinct_map_inj [OF campaign_okD(3) [OF ok] r(1) r'(1)]) (use r r' k in simp)
  then show ?thesis using r r' by simp
qed

section \<open>Forward only\<close>

fun campaign_rank :: "campaign_status \<Rightarrow> nat" where
  "campaign_rank CampaignDraft = 0"
| "campaign_rank CampaignQueued = 1"
| "campaign_rank CampaignRunning = 2"
| "campaign_rank CampaignCompleted = 3"
| "campaign_rank CampaignFailed = 3"
| "campaign_rank CampaignCancelled = 3"

text \<open>What a started campaign keeps.\<close>

definition campaign_next :: "sms_campaign \<Rightarrow> sms_campaign \<Rightarrow> bool" where
  "campaign_next c c' =
     (cp_id c' = cp_id c \<and> cp_client c' = cp_client c
      \<and> (cp_status c' = cp_status c \<or> campaign_rank (cp_status c) < campaign_rank (cp_status c'))
      \<and> (Frozen (cp_status c) \<longrightarrow>
           cp_from c' = cp_from c \<and> cp_text c' = cp_text c \<and> cp_total_count c' = cp_total_count c))"

definition recipient_next :: "campaign_recipient \<Rightarrow> campaign_recipient \<Rightarrow> bool" where
  "recipient_next r r' =
     (rp_id r' = rp_id r \<and> rp_campaign r' = rp_campaign r \<and> rp_to r' = rp_to r
      \<and> (rp_status r \<noteq> RecipientPending \<longrightarrow> r' = r))"

definition frozen_in :: "db \<Rightarrow> uuid \<Rightarrow> bool" where
  "frozen_in d k = (\<exists>c \<in> set (sms_campaigns d). cp_id c = k \<and> Frozen (cp_status c))"

definition campaign_forward :: "db \<Rightarrow> db \<Rightarrow> bool" where
  "campaign_forward d d' =
     ((\<forall>c \<in> set (sms_campaigns d). Frozen (cp_status c) \<longrightarrow>
         (\<exists>c' \<in> set (sms_campaigns d'). campaign_next c c'))
      \<and> (\<forall>r \<in> set (campaign_recipients d). frozen_in d (rp_campaign r) \<longrightarrow>
         (\<exists>r' \<in> set (campaign_recipients d'). recipient_next r r')))"

lemma campaign_next_refl [simp]: "campaign_next c c"
  by (simp add: campaign_next_def)

lemma recipient_next_refl [simp]: "recipient_next r r"
  by (simp add: recipient_next_def)

lemma Frozen_rank: "Frozen st \<longleftrightarrow> 0 < campaign_rank st"
  by (cases st) (simp_all add: Frozen_def)

lemma campaign_next_Frozen: "campaign_next c c' \<Longrightarrow> Frozen (cp_status c) \<Longrightarrow> Frozen (cp_status c')"
  by (auto simp: campaign_next_def Frozen_rank)

lemma campaign_next_trans: "campaign_next a b \<Longrightarrow> campaign_next b c \<Longrightarrow> campaign_next a c"
  using campaign_next_Frozen [of a b] by (auto simp: campaign_next_def)

lemma recipient_next_trans: "recipient_next a b \<Longrightarrow> recipient_next b c \<Longrightarrow> recipient_next a c"
  by (auto simp: recipient_next_def)

lemma frozen_in_forward:
  assumes "campaign_forward d d'" "frozen_in d k"
  shows "frozen_in d' k"
proof -
  from assms(2) obtain c where c: "c \<in> set (sms_campaigns d)" "cp_id c = k" "Frozen (cp_status c)"
    by (auto simp: frozen_in_def)
  with assms(1) obtain c' where "c' \<in> set (sms_campaigns d')" "campaign_next c c'"
    by (auto simp: campaign_forward_def)
  with c show ?thesis
    using campaign_next_Frozen [of c c'] by (auto simp: frozen_in_def campaign_next_def)
qed

lemma campaign_forward_keep:
  assumes "\<And>c. c \<in> set (sms_campaigns d) \<Longrightarrow> Frozen (cp_status c) \<Longrightarrow> c \<in> set (sms_campaigns d')"
    and "\<And>r. r \<in> set (campaign_recipients d) \<Longrightarrow> frozen_in d (rp_campaign r) \<Longrightarrow> r \<in> set (campaign_recipients d')"
  shows "campaign_forward d d'"
  unfolding campaign_forward_def using assms campaign_next_refl recipient_next_refl by blast

lemma campaign_forward_refl [simp]: "campaign_forward d d"
  unfolding campaign_forward_def using campaign_next_refl recipient_next_refl by blast

lemma campaign_forward_trans [trans]:
  assumes 1: "campaign_forward d e" and 2: "campaign_forward e f"
  shows "campaign_forward d f"
proof -
  have "\<exists>c' \<in> set (sms_campaigns f). campaign_next c c'"
    if "c \<in> set (sms_campaigns d)" "Frozen (cp_status c)" for c
    using 1 2 that unfolding campaign_forward_def
    by (meson campaign_next_Frozen campaign_next_trans)
  moreover have "\<exists>r' \<in> set (campaign_recipients f). recipient_next r r'"
    if r: "r \<in> set (campaign_recipients d)" "frozen_in d (rp_campaign r)" for r
  proof -
    from 1 r obtain r1 where r1: "r1 \<in> set (campaign_recipients e)" "recipient_next r r1"
      by (auto simp: campaign_forward_def)
    then have "frozen_in e (rp_campaign r1)"
      using frozen_in_forward [OF 1 r(2)] by (simp add: recipient_next_def)
    with 2 r1 show ?thesis unfolding campaign_forward_def by (meson recipient_next_trans)
  qed
  ultimately show ?thesis by (auto simp: campaign_forward_def)
qed

text \<open>What each operation is shown to be.\<close>

definition campaign_good :: "db \<Rightarrow> db \<Rightarrow> bool" where
  "campaign_good d d' =
     (campaign_ok d \<and> db_ok d \<longrightarrow> campaign_ok d' \<and> db_ok d' \<and> campaign_forward d d')"

lemma campaign_good_refl [simp]: "campaign_good d d"
  by (simp add: campaign_good_def)

lemma campaign_good_trans [trans]: "campaign_good d e \<Longrightarrow> campaign_good e f \<Longrightarrow> campaign_good d f"
  by (auto simp: campaign_good_def intro: campaign_forward_trans)

lemma campaign_goodI:
  "(campaign_ok d \<Longrightarrow> db_ok d \<Longrightarrow> campaign_ok d' \<and> db_ok d' \<and> campaign_forward d d') \<Longrightarrow> campaign_good d d'"
  by (simp add: campaign_good_def)

section \<open>Updates of campaigns and of recipients\<close>

lemma campaigns_update_good:
  assumes "\<And>c. c \<in> set (sms_campaigns d) \<Longrightarrow> p c \<Longrightarrow> campaign_row_ok (campaign_recipients d) c \<Longrightarrow>
      campaign_next c (f c) \<and> campaign_row_ok (campaign_recipients d) (f c)"
  shows "campaign_good d (d\<lparr>sms_campaigns := update_where p f (sms_campaigns d)\<rparr>)"
proof (rule campaign_goodI)
  assume ok: "campaign_ok d" and "db_ok d"
  note D = campaign_okD [OF ok]
  let ?K = "update_where p f (sms_campaigns d)"
  have f: "campaign_next c (f c)" "campaign_row_ok (campaign_recipients d) (f c)"
    if "c \<in> set (sms_campaigns d)" "p c" for c using assms [OF that D(4)] that by auto
  have ids: "map cp_id ?K = map cp_id (sms_campaigns d)"
    using f(1) by (auto simp: update_where_def campaign_next_def)
  then have set_ids: "cp_id ` set ?K = cp_id ` set (sms_campaigns d)" by (metis list.set_map)
  have rows: "campaign_row_ok (campaign_recipients d) c" if "c \<in> set ?K" for c
    using update_where_elem [OF that] D(4) f(2) by auto
  have recs: "recipient_ok ?K (sms_messages d) r" if "r \<in> set (campaign_recipients d)" for r
    using D(5) [OF that] by (simp only: recipient_ok_def set_ids)
  have "campaign_ok (d\<lparr>sms_campaigns := ?K\<rparr>)"
    by (rule campaign_okI) (simp_all add: ids D rows recs)
  moreover have "campaign_forward d (d\<lparr>sms_campaigns := ?K\<rparr>)"
    unfolding campaign_forward_def
  proof (intro conjI ballI impI)
    fix c assume c: "c \<in> set (sms_campaigns d)"
    show "\<exists>c' \<in> set (sms_campaigns (d\<lparr>sms_campaigns := ?K\<rparr>)). campaign_next c c'"
      by (rule bexI [of _ "if p c then f c else c"]) (use c f(1) in \<open>auto simp: set_update_where\<close>)
  next
    fix r assume "r \<in> set (campaign_recipients d)"
    then show "\<exists>r' \<in> set (campaign_recipients (d\<lparr>sms_campaigns := ?K\<rparr>)). recipient_next r r'"
      by (intro bexI [of _ r]) simp_all
  qed
  ultimately show "campaign_ok (d\<lparr>sms_campaigns := ?K\<rparr>) \<and> db_ok (d\<lparr>sms_campaigns := ?K\<rparr>)
      \<and> campaign_forward d (d\<lparr>sms_campaigns := ?K\<rparr>)" using \<open>db_ok d\<close> by simp
qed

lemma update_campaign_good:
  assumes "update_campaign p f d = Inr (c, d')"
    and "\<And>c. c \<in> set (sms_campaigns d) \<Longrightarrow> p c \<Longrightarrow> campaign_row_ok (campaign_recipients d) c \<Longrightarrow>
      campaign_next c (f c) \<and> campaign_row_ok (campaign_recipients d) (f c)"
  shows "campaign_good d d'"
proof -
  from assms(1) have "d' = d\<lparr>sms_campaigns := update_where p f (sms_campaigns d)\<rparr>"
    by (auto simp: update_campaign_def split: list.splits)
  then show ?thesis using campaigns_update_good [of d p f, OF assms(2)] by simp
qed

definition started_in :: "db \<Rightarrow> uuid \<Rightarrow> bool" where
  "started_in d k = (\<exists>c \<in> set (sms_campaigns d). cp_id c = k \<and> 2 \<le> campaign_rank (cp_status c))"

lemma update_where_mem: "x \<in> set rs \<Longrightarrow> p x \<Longrightarrow> f x \<in> set (update_where p f rs)"
  by (auto simp: set_update_where)

lemma update_where_fields:
  assumes "\<And>r. r \<in> set R \<Longrightarrow> p r \<Longrightarrow> g (f r) = g r"
  shows "map g (update_where p f R) = map g R"
  using assms by (auto simp: update_where_def)

lemma filter_length_fields:
  "map g R' = map g R \<Longrightarrow> length (filter (\<lambda>r. g r = k) R') = length (filter (\<lambda>r. g r = k) R)"
proof -
  assume "map g R' = map g R"
  then have "length (filter (\<lambda>x. x = k) (map g R')) = length (filter (\<lambda>x. x = k) (map g R))" by simp
  then show ?thesis by (simp add: filter_map comp_def)
qed

lemma started_row:
  assumes "campaign_ok d" "started_in d k" "c \<in> set (sms_campaigns d)" "cp_id c = k"
  shows "2 \<le> campaign_rank (cp_status c)"
proof -
  from assms(2) obtain c' where c': "c' \<in> set (sms_campaigns d)" "cp_id c' = k" "2 \<le> campaign_rank (cp_status c')"
    by (auto simp: started_in_def)
  have "c = c'" by (rule distinct_map_inj [OF campaign_okD(1) [OF assms(1)]]) (use assms c' in auto)
  then show ?thesis using c' by simp
qed

text \<open>
  Pending recipients of started campaigns leave that state, and the messages \<open>ms\<close> are new.
\<close>

lemma recipients_update_good:
  assumes p: "\<And>r. r \<in> set (campaign_recipients d) \<Longrightarrow> p r \<Longrightarrow>
      rp_status r = RecipientPending \<and> started_in d (rp_campaign r) \<and> recipient_next r (f r)
      \<and> rp_status (f r) \<noteq> RecipientPending"
    and K: "sms_campaigns d' = sms_campaigns d"
    and R: "campaign_recipients d' = update_where p f (campaign_recipients d)"
    and M: "sms_messages d' = sms_messages d @ ms"
    and rec: "\<And>r. r \<in> set (campaign_recipients d) \<Longrightarrow> p r \<Longrightarrow>
      recipient_ok (sms_campaigns d) (sms_messages d) r \<Longrightarrow>
      recipient_ok (sms_campaigns d) (sms_messages d @ ms) (f r)"
    and new: "\<And>m. m \<in> set ms \<Longrightarrow> message_ok (campaign_recipients d') m"
    and db: "db_ok d \<Longrightarrow> db_ok d'"
  shows "campaign_good d d'"
proof (rule campaign_goodI)
  assume ok: "campaign_ok d" and "db_ok d"
  note D = campaign_okD [OF ok]
  let ?R = "update_where p f (campaign_recipients d)"
  have same: "map rp_id ?R = map rp_id (campaign_recipients d)" "map rp_campaign ?R = map rp_campaign (campaign_recipients d)"
    "map (\<lambda>r. (rp_campaign r, rp_to r)) ?R = map (\<lambda>r. (rp_campaign r, rp_to r)) (campaign_recipients d)"
    using p by (auto intro!: update_where_fields simp: recipient_next_def)
  have rows: "campaign_row_ok ?R c" if c: "c \<in> set (sms_campaigns d)" for c
  proof -
    note C = D(4) [OF c, unfolded campaign_row_ok_def]
    have "rp_status r = RecipientPending" if "r \<in> set ?R" "rp_campaign r = cp_id c"
      "cp_status c \<in> {CampaignDraft, CampaignQueued}" for r
      using update_where_elem [OF that(1)] that(2,3) C p started_row [OF ok _ c]
      by (fastforce simp: recipient_next_def)
    moreover have "rp_status r \<noteq> RecipientPending" if "r \<in> set ?R" "rp_campaign r = cp_id c"
      "cp_status c = CampaignCompleted" for r
      using update_where_elem [OF that(1)] that(2,3) C p by auto
    ultimately show ?thesis
      using C filter_length_fields [OF same(2)] by (simp add: campaign_row_ok_def)
  qed
  have recs: "recipient_ok (sms_campaigns d) (sms_messages d @ ms) r" if "r \<in> set ?R" for r
  proof -
    from update_where_elem [OF that] obtain x where x: "x \<in> set (campaign_recipients d)" "r = x \<or> r = f x \<and> p x" by blast
    then show ?thesis using rec [OF x(1)] D(5) [OF x(1)]
      by (auto simp: recipient_ok_def has_message_def split: option.splits)
  qed
  have msgs: "message_ok ?R m" if m: "m \<in> set (sms_messages d @ ms)" for m
  proof (cases "m \<in> set ms")
    case False
    show ?thesis unfolding message_ok_def
    proof (intro allI impI)
      fix k assume "msg_campaign m = Some k"
      then obtain r where r: "r \<in> set (campaign_recipients d)" "rp_sms_message r = Some (msg_id m)"
        "rp_campaign r = k" "rp_to r = msg_to m"
        using D(6) [of m] m False by (auto simp: message_ok_def)
      then have "\<not> p r" using p [OF r(1)] pending_has_no_message [OF D(5) [OF r(1)]] by auto
      then have "r \<in> set ?R" using r(1) by (auto simp: set_update_where)
      with r show "\<exists>r \<in> set ?R. rp_sms_message r = Some (msg_id m) \<and> rp_campaign r = k \<and> rp_to r = msg_to m" by blast
    qed
  qed (use new R in simp)
  have "campaign_ok d'"
    by (rule campaign_okI) (simp_all only: K R M same D rows recs msgs)
  moreover have "campaign_forward d d'"
    unfolding campaign_forward_def K R
  proof (intro conjI ballI impI)
    fix c assume "c \<in> set (sms_campaigns d)"
    then show "\<exists>c' \<in> set (sms_campaigns d). campaign_next c c'" by (intro bexI [of _ c]) simp_all
  next
    fix r assume r: "r \<in> set (campaign_recipients d)"
    show "\<exists>r' \<in> set ?R. recipient_next r r'"
      by (rule bexI [of _ "if p r then f r else r"]) (use r p in \<open>auto simp: set_update_where\<close>)
  qed
  ultimately show "campaign_ok d' \<and> db_ok d' \<and> campaign_forward d d'" using db \<open>db_ok d\<close> by simp
qed

text \<open>A recipient is given up, or gets its message.\<close>

lemma giveup_good:
  assumes "\<And>r. r \<in> set (campaign_recipients d) \<Longrightarrow> p r \<Longrightarrow> rp_status r = RecipientPending \<and> started_in d (rp_campaign r)"
    and "st = RecipientSkipped \<or> st = RecipientFailed"
  shows "campaign_good d (d\<lparr>campaign_recipients :=
      update_where p (\<lambda>r. r\<lparr>rp_status := st\<rparr>) (campaign_recipients d)\<rparr>)"
proof (rule recipients_update_good [where p = p and f = "\<lambda>r. r\<lparr>rp_status := st\<rparr>" and ms = "[]"])
  fix r assume r: "r \<in> set (campaign_recipients d)" "p r"
  then show "rp_status r = RecipientPending \<and> started_in d (rp_campaign r) \<and> recipient_next r (r\<lparr>rp_status := st\<rparr>)
      \<and> rp_status (r\<lparr>rp_status := st\<rparr>) \<noteq> RecipientPending"
    using assms(1) [OF r] assms(2) by (auto simp: recipient_next_def)
  assume ok: "recipient_ok (sms_campaigns d) (sms_messages d) r"
  then show "recipient_ok (sms_campaigns d) (sms_messages d @ []) (r\<lparr>rp_status := st\<rparr>)"
    using pending_has_no_message [OF ok] assms(1) [OF r] assms(2) by (auto simp: recipient_ok_def)
qed simp_all

lemma enqueued_good:
  assumes r: "r \<in> set (campaign_recipients d)" "rp_id r = rid" "rp_status r = RecipientPending"
    and st: "started_in d (rp_campaign r)"
    and K: "sms_campaigns d' = sms_campaigns d"
    and R: "campaign_recipients d' = update_where (\<lambda>x. rp_id x = rid \<and> rp_status x = RecipientPending)
        (\<lambda>x. x\<lparr>rp_status := RecipientEnqueued, rp_sms_message := Some (msg_id m)\<rparr>) (campaign_recipients d)"
    and M: "sms_messages d' = sms_messages d @ [m]"
    and m: "msg_campaign m = Some (rp_campaign r)" "msg_to m = rp_to r"
    and db: "db_ok d \<Longrightarrow> db_ok d'"
  shows "campaign_good d d'"
proof (rule campaign_goodI)
  assume ok: "campaign_ok d" and "db_ok d"
  have u: "x = r" if "x \<in> set (campaign_recipients d)" "rp_id x = rid" for x
    by (rule distinct_map_inj [OF campaign_okD(2) [OF ok]]) (use that r in auto)
  have "campaign_good d d'"
  proof (rule recipients_update_good [OF _ K R M])
    fix x assume x: "x \<in> set (campaign_recipients d)" "rp_id x = rid \<and> rp_status x = RecipientPending"
    let ?x = "x\<lparr>rp_status := RecipientEnqueued, rp_sms_message := Some (msg_id m)\<rparr>"
    show "rp_status x = RecipientPending \<and> started_in d (rp_campaign x) \<and> recipient_next x ?x
        \<and> rp_status ?x \<noteq> RecipientPending"
      using u [OF x(1)] x(2) st by (auto simp: recipient_next_def)
    assume "recipient_ok (sms_campaigns d) (sms_messages d) x"
    then show "recipient_ok (sms_campaigns d) (sms_messages d @ [m]) ?x"
      using u [OF x(1)] x(2) m by (auto simp: recipient_ok_def has_message_def)
  next
    fix x assume "x \<in> set [m]"
    moreover have "r\<lparr>rp_status := RecipientEnqueued, rp_sms_message := Some (msg_id m)\<rparr> \<in> set (campaign_recipients d')"
      unfolding R set_update_where using r by (intro image_eqI [of _ _ r]) simp_all
    ultimately show "message_ok (campaign_recipients d') x" using m
      by (auto simp: message_ok_def intro!: bexI [of _ "r\<lparr>rp_status := RecipientEnqueued, rp_sms_message := Some (msg_id m)\<rparr>"])
  qed (rule db)
  with ok \<open>db_ok d\<close> show "campaign_ok d' \<and> db_ok d' \<and> campaign_forward d d'" by (simp add: campaign_good_def)
qed

end
