(* ===== verification/CampaignOps.thy ===== *)
theory CampaignOps
  imports CampaignInv
begin

text \<open>Every operation of the campaign service and of its worker keeps the invariant of campaigns.\<close>

section \<open>The service\<close>

lemma campaigns_Create_good:
  assumes "campaigns_Create i now cid by f t d = Inr (c, d')"
  shows "campaign_good d d'"
proof (rule campaign_goodI)
  assume ok: "campaign_ok d" and "db_ok d"
  note D = campaign_okD [OF ok]
  from assms have d': "d' = d\<lparr>sms_campaigns := sms_campaigns d @ [c]\<rparr>" and new: "cp_id c \<notin> cp_id ` set (sms_campaigns d)"
    and c: "cp_status c = CampaignDraft" "cp_total_count c = 0"
    by (auto simp: campaigns_Create_def InsertCampaign_def Let_def split: sum.splits prod.splits if_splits)
  have none: "rp_campaign r \<noteq> cp_id c" if "r \<in> set (campaign_recipients d)" for r
    using D(5) [OF that] new by (auto simp: recipient_ok_def)
  then have "filter (\<lambda>r. rp_campaign r = cp_id c) (campaign_recipients d) = []" by (simp add: filter_empty_conv)
  then have row: "campaign_row_ok (campaign_recipients d) c"
    using none c by (simp add: campaign_row_ok_def maxRecipients_def)
  have "recipient_ok (sms_campaigns d @ [c]) (sms_messages d) r" if "r \<in> set (campaign_recipients d)" for r
    using D(5) [OF that] by (auto simp: recipient_ok_def)
  then have "campaign_ok d'"
    by (intro campaign_okI) (use D d' new row in auto)
  moreover have "campaign_forward d d'"
    by (rule campaign_forward_keep) (simp_all add: d')
  ultimately show "campaign_ok d' \<and> db_ok d' \<and> campaign_forward d d'" using \<open>db_ok d\<close> d' by simp
qed

lemma UpdateCampaignDraft_good:
  assumes "UpdateCampaignDraft now f t kid cid d = Inr (c, d')"
  shows "campaign_good d d'"
proof -
  let ?p = "\<lambda>c. cp_id c = kid \<and> cp_client c = cid \<and> cp_status c = CampaignDraft"
  from assms have "update_campaign ?p (\<lambda>c. c\<lparr>cp_from := (case f of None \<Rightarrow> cp_from c | Some f \<Rightarrow> f),
       cp_text := (case t of None \<Rightarrow> cp_text c | Some t \<Rightarrow> t), cp_updated_at := now\<rparr>) d = Inr (c, d')"
    by (simp add: UpdateCampaignDraft_def split: if_splits)
  then show ?thesis
    by (rule update_campaign_good) (auto simp: campaign_next_def campaign_row_ok_def Frozen_def)
qed

lemma campaigns_Patch_good: "campaigns_Patch now cid kid f t d = Inr (c, d') \<Longrightarrow> campaign_good d d'"
  by (auto simp: campaigns_Patch_def split: sum.splits prod.splits if_splits intro: UpdateCampaignDraft_good)

lemma QueueCampaign_good: "QueueCampaign now kid cid d = Inr (c, d') \<Longrightarrow> campaign_good d d'"
  unfolding QueueCampaign_def
  by (erule update_campaign_good) (auto simp: campaign_next_def campaign_row_ok_def Frozen_def)

lemma campaigns_Start_good: "campaigns_Start now bill cid kid d = Inr (c, d') \<Longrightarrow> campaign_good d d'"
  by (auto simp: campaigns_Start_def split: sum.splits if_splits option.splits intro: QueueCampaign_good)

lemma CancelCampaign_good: "CancelCampaign now kid cid d = Inr (c, d') \<Longrightarrow> campaign_good d d'"
  unfolding CancelCampaign_def
  by (erule update_campaign_good) (auto simp: campaign_next_def campaign_row_ok_def Frozen_def)

lemma cancel_tx_good: "cancel_tx now cid kid d = Inr (c, d') \<Longrightarrow> campaign_good d d'"
  by (auto simp: cancel_tx_def split: sum.splits if_splits intro: CancelCampaign_good)

definition cancelled_in :: "db \<Rightarrow> uuid \<Rightarrow> bool" where
  "cancelled_in d k = (\<exists>c \<in> set (sms_campaigns d). cp_id c = k \<and> cp_status c = CampaignCancelled)"

lemma cancelled_started: "cancelled_in d k \<Longrightarrow> started_in d k"
  by (auto simp: cancelled_in_def started_in_def intro!: bexI)

lemma cancel_tx_cancelled:
  assumes "cancel_tx now cid kid d = Inr (c, d')"
  shows "cancelled_in d' kid"
proof (cases "CancelCampaign now kid cid d = Inr (c, d')")
  case False
  with assms have "GetCampaignForClient kid cid d = Inr c" "cp_status c = CampaignCancelled" "d' = d"
    by (auto simp: cancel_tx_def GetCampaignForClientForUpdate_def split: sum.splits if_splits)
  then show ?thesis
    using first_row_OK [of "filter (\<lambda>c. cp_id c = kid \<and> cp_client c = cid) (sms_campaigns d)" c]
    by (auto simp: GetCampaignForClient_def cancelled_in_def)
next
  case True
  then obtain x xs where x: "filter (\<lambda>c. cp_id c = kid \<and> cp_client c = cid \<and> cp_status c \<in> {CampaignQueued, CampaignRunning}) (sms_campaigns d) = x # xs"
    and d': "d' = d\<lparr>sms_campaigns := update_where (\<lambda>c. cp_id c = kid \<and> cp_client c = cid \<and> cp_status c \<in> {CampaignQueued, CampaignRunning})
       (\<lambda>c. c\<lparr>cp_status := CampaignCancelled, cp_updated_at := now\<rparr>) (sms_campaigns d)\<rparr>"
    by (auto simp: CancelCampaign_def update_campaign_def split: list.splits)
  then have "x \<in> set (filter (\<lambda>c. cp_id c = kid \<and> cp_client c = cid \<and> cp_status c \<in> {CampaignQueued, CampaignRunning}) (sms_campaigns d))"
    by simp
  then show ?thesis unfolding d' cancelled_in_def
    by (intro bexI [of _ "x\<lparr>cp_status := CampaignCancelled, cp_updated_at := now\<rparr>"])
      (auto intro!: update_where_mem [where f = "\<lambda>c. c\<lparr>cp_status := CampaignCancelled, cp_updated_at := now\<rparr>"])
qed

lemma SkipPendingForCampaign_good: "cancelled_in d kid \<Longrightarrow> campaign_good d (SkipPendingForCampaign free kid d)"
  unfolding SkipPendingForCampaign_def
  by (rule giveup_good) (auto intro: cancelled_started)

lemma SkipPendingForCancelledCampaigns_good: "campaign_good d (SkipPendingForCancelledCampaigns free d)"
  unfolding SkipPendingForCancelledCampaigns_def
  by (rule giveup_good) (auto simp: list_ex_iff cancelled_in_def intro!: cancelled_started)

lemma campaigns_Cancel_good:
  assumes "campaigns_Cancel now free cid kid d = Inr (c, d')"
  shows "campaign_good d d'"
proof -
  from assms obtain d1 where d1: "cancel_tx now cid kid d = Inr (c, d1)" "d' = SkipPendingForCampaign free kid d1"
    by (auto simp: campaigns_Cancel_def split: sum.splits)
  show ?thesis unfolding d1(2)
    by (rule campaign_good_trans [OF cancel_tx_good [OF d1(1)]
          SkipPendingForCampaign_good [OF cancel_tx_cancelled [OF d1(1)]]])
qed

lemma DeleteDraft_good:
  assumes "DeleteDraft cid kid d = Inr d'"
  shows "campaign_good d d'"
proof (rule campaign_goodI)
  assume ok: "campaign_ok d" and "db_ok d"
  note D = campaign_okD [OF ok]
  let ?p = "\<lambda>c. cp_id c = kid \<and> cp_client c = cid \<and> cp_status c = CampaignDraft"
  let ?K = "filter (\<lambda>c. \<not> ?p c) (sms_campaigns d)" and ?R = "filter (\<lambda>r. rp_campaign r \<noteq> kid) (campaign_recipients d)"
  from assms have "list_ex ?p (sms_campaigns d)"
    and d': "d' = d\<lparr>sms_campaigns := ?K, campaign_recipients := ?R\<rparr>"
    by (auto simp: DeleteDraft_def DeleteCampaignDraft_def Let_def split: sum.splits if_splits)
  then obtain c0 where c0: "c0 \<in> set (sms_campaigns d)" "?p c0" by (auto simp: list_ex_iff)
  have u: "c = c0" if "c \<in> set (sms_campaigns d)" "cp_id c = kid" for c
    by (rule distinct_map_inj [OF D(1)]) (use that c0 in auto)
  have pend: "rp_status r = RecipientPending" if "r \<in> set (campaign_recipients d)" "rp_campaign r = kid" for r
    using D(4) [OF c0(1)] c0(2) that by (simp add: campaign_row_ok_def)
  have rows: "campaign_row_ok ?R c" if c: "c \<in> set ?K" for c
  proof -
    have "cp_id c \<noteq> kid" using u [of c] c c0(2) by auto
    then have "filter (\<lambda>r. rp_campaign r = cp_id c) ?R = filter (\<lambda>r. rp_campaign r = cp_id c) (campaign_recipients d)"
      by (auto intro!: filter_cong simp: filter_filter)
    then show ?thesis using D(4) [of c] c by (simp add: campaign_row_ok_def)
  qed
  have recs: "recipient_ok ?K (sms_messages d) r" if r: "r \<in> set ?R" for r
  proof -
    from r D(5) [of r] have "rp_campaign r \<in> cp_id ` set (sms_campaigns d)" "rp_campaign r \<noteq> kid" by (auto simp: recipient_ok_def)
    then have "rp_campaign r \<in> cp_id ` set ?K" by auto
    then show ?thesis using D(5) [of r] r by (simp add: recipient_ok_def)
  qed
  have msgs: "message_ok ?R m" if m: "m \<in> set (sms_messages d)" for m
    unfolding message_ok_def
  proof (intro allI impI)
    fix k assume "msg_campaign m = Some k"
    with D(6) [OF m] obtain r where r: "r \<in> set (campaign_recipients d)" "rp_sms_message r = Some (msg_id m)"
      "rp_campaign r = k" "rp_to r = msg_to m" by (auto simp: message_ok_def)
    then have "rp_campaign r \<noteq> kid" using pend [OF r(1)] pending_has_no_message [OF D(5) [OF r(1)]] by auto
    with r show "\<exists>r \<in> set ?R. rp_sms_message r = Some (msg_id m) \<and> rp_campaign r = k \<and> rp_to r = msg_to m" by auto
  qed
  have "campaign_ok d'" unfolding d'
    by (rule campaign_okI) (use D rows recs msgs in \<open>simp_all add: distinct_map_filter\<close>)
  moreover have "campaign_forward d d'"
  proof (rule campaign_forward_keep)
    fix r assume r: "r \<in> set (campaign_recipients d)" "frozen_in d (rp_campaign r)"
    then obtain c where "c \<in> set (sms_campaigns d)" "cp_id c = rp_campaign r" "cp_status c \<noteq> CampaignDraft"
      by (auto simp: frozen_in_def Frozen_def)
    then have "rp_campaign r \<noteq> kid" using u [of c] c0(2) by metis
    then show "r \<in> set (campaign_recipients d')" using r(1) d' by simp
  qed (auto simp: d' Frozen_def)
  ultimately show "campaign_ok d' \<and> db_ok d' \<and> campaign_forward d d'" using \<open>db_ok d\<close> d' by simp
qed

section \<open>The worker's statements\<close>

lemma ClaimQueuedCampaigns_good: "campaign_good d (snd (ClaimQueuedCampaigns free now n d))"
proof (rule campaign_goodI)
  assume ok: "campaign_ok d" and "db_ok d"
  define ids where "ids = set (map cp_id (take n (sort_key cp_created_at (sort_key cp_id
      (filter (\<lambda>c. cp_status c = CampaignQueued \<and> free (cp_id c) \<and>
         list_ex (\<lambda>cl. cl_id cl = cp_client c \<and> cl_status cl = ClientActive) (clients d)) (sms_campaigns d))))))"
  have q: "cp_status c = CampaignQueued" if c: "c \<in> set (sms_campaigns d)" "cp_id c \<in> ids" for c
  proof -
    from c(2) obtain x where x: "x \<in> set (sms_campaigns d)" "cp_id x = cp_id c" "cp_status x = CampaignQueued"
      unfolding ids_def by (auto dest!: in_set_takeD)
    have "c = x" by (rule distinct_map_inj [OF campaign_okD(1) [OF ok] c(1) x(1)]) (simp add: x)
    then show ?thesis using x by simp
  qed
  have e: "snd (ClaimQueuedCampaigns free now n d) = d\<lparr>sms_campaigns := update_where (\<lambda>c. cp_id c \<in> ids)
      (\<lambda>c. c\<lparr>cp_status := CampaignRunning, cp_updated_at := now\<rparr>) (sms_campaigns d)\<rparr>"
    by (simp add: ClaimQueuedCampaigns_def Let_def ids_def)
  have "campaign_good d (snd (ClaimQueuedCampaigns free now n d))" unfolding e
    by (rule campaigns_update_good) (use q in \<open>auto simp: campaign_next_def campaign_row_ok_def\<close>)
  then show "campaign_ok (snd (ClaimQueuedCampaigns free now n d)) \<and> db_ok (snd (ClaimQueuedCampaigns free now n d))
      \<and> campaign_forward d (snd (ClaimQueuedCampaigns free now n d))"
    using ok \<open>db_ok d\<close> by (simp add: campaign_good_def)
qed

lemma CompleteIdleCampaigns_good: "campaign_good d (CompleteIdleCampaigns now d)"
  unfolding CompleteIdleCampaigns_def
  by (rule campaigns_update_good) (auto simp: campaign_next_def campaign_row_ok_def list_ex_iff)

lemma RefreshCampaignCounters_good: "campaign_good d (RefreshCampaignCounters now since d)"
  unfolding RefreshCampaignCounters_def
  by (rule campaigns_update_good) (auto simp: campaign_next_def campaign_row_ok_def)

section \<open>New recipients\<close>

lemma canonical_number_MSISDN:
  assumes "NormalizeDest raw = Inr dst" "to_msisdn_chk (MSISDN dst)"
  shows "canonical_number (MSISDN dst)"
proof -
  let ?n = "MSISDN dst"
  have digits: "list_all ascii_digit ?n" using assms(2) by (simp add: to_msisdn_chk_def)
  note id = digitsOnly_id [OF digits]
  from assms(1) show ?thesis
  proof (cases rule: NormalizeDest_cases)
    case (sender n)
    then have "length n = 11" "hd n = CHR ''7''"
      by (auto simp: NormalizeSender_def Let_def split: if_splits)
    then have "IsSender ?n" using sender digits by (simp add: IsSender_iff)
    then show ?thesis by (simp add: canonical_number_def NormalizeDest_IsSender)
  next
    case (other e)
    then have "NormalizeSender ?n = NormalizeSender raw" using id by (simp add: NormalizeSender_def)
    then show ?thesis using other id by (simp add: canonical_number_def NormalizeDest_def Let_def)
  qed
qed

text \<open>The rows that one insertion adds to the table.\<close>

definition new_recipients :: "uuid \<Rightarrow> string list \<Rightarrow> campaign_recipient list \<Rightarrow> campaign_recipient list \<Rightarrow> bool" where
  "new_recipients k xs rs new =
     (length new \<le> length xs \<and> set (map rp_to new) \<subseteq> {x \<in> set xs. to_msisdn_chk x}
      \<and> (\<forall>r \<in> set new. rp_campaign r = k \<and> rp_status r = RecipientPending \<and> rp_sms_message r = None)
      \<and> (distinct (map rp_id rs) \<longrightarrow> distinct (map rp_id (rs @ new)))
      \<and> (distinct (map (\<lambda>r. (rp_campaign r, rp_to r)) rs) \<longrightarrow>
           distinct (map (\<lambda>r. (rp_campaign r, rp_to r)) (rs @ new))))"

lemma new_recipients_append:
  "new_recipients k xs rs a \<Longrightarrow> new_recipients k ys (rs @ a) b \<Longrightarrow> new_recipients k (xs @ ys) rs (a @ b)"
  by (auto simp: new_recipients_def)

lemma insert_recipients_effect:
  assumes "insert_recipients ids now k xs rs = Inr (n, rs')"
  shows "\<exists>new. rs' = rs @ new \<and> n = int (length new) \<and> new_recipients k xs rs new"
  using assms
proof (induction xs arbitrary: rs n)
  case Nil
  then show ?case by (simp add: new_recipients_def)
next
  case (Cons x xs)
  have chk: "to_msisdn_chk x" using Cons.prems by (simp split: if_splits)
  show ?case
  proof (cases "list_ex (\<lambda>r. rp_campaign r = k \<and> rp_to r = x) rs")
    case True
    then have "insert_recipients ids now k xs rs = Inr (n, rs')" using Cons.prems chk by simp
    from Cons.IH [OF this] obtain new where "rs' = rs @ new" "n = int (length new)" "new_recipients k xs rs new" by blast
    then show ?thesis by (intro exI [of _ new]) (auto simp: new_recipients_def)
  next
    case False
    let ?r = "\<lparr>rp_id = ids x, rp_campaign = k, rp_to = x, rp_status = RecipientPending,
        rp_sms_message = None, rp_created_at = now\<rparr>"
    from False Cons.prems chk obtain m where f: "ids x \<notin> rp_id ` set rs"
      and m: "insert_recipients ids now k xs (rs @ [?r]) = Inr (m, rs')" "n = m + 1"
      by (auto split: if_splits sum.splits)
    from Cons.IH [OF m(1)] obtain new where new: "rs' = (rs @ [?r]) @ new" "m = int (length new)"
      "new_recipients k xs (rs @ [?r]) new" by blast
    have "new_recipients k [x] rs [?r]"
      using f False chk by (auto simp: new_recipients_def list_ex_iff)
    from new_recipients_append [OF this new(3)] show ?thesis
      using new m(2) by (intro exI [of _ "?r # new"]) simp
  qed
qed

lemma insert_chunks_effect:
  assumes "insert_chunks ids now k xs d = Inr (n, d')"
  shows "\<exists>new. d' = d\<lparr>campaign_recipients := campaign_recipients d @ new\<rparr> \<and>
    new_recipients k xs (campaign_recipients d) new"
  using assms
proof (induction ids now k xs d arbitrary: n rule: insert_chunks.induct)
  case (1 ids now k xs d)
  show ?case
  proof (cases "xs = []")
    case True
    then show ?thesis using "1.prems" by (intro exI [of _ "[]"]) (simp add: insert_chunks.simps new_recipients_def)
  next
    case False
    with "1.prems" obtain a d1 b where a: "InsertCampaignRecipients ids now k (take recipientChunk xs) d = Inr (a, d1)"
      and b: "insert_chunks ids now k (drop recipientChunk xs) d1 = Inr (b, d')"
      by (subst (asm) insert_chunks.simps) (auto split: sum.splits)
    from a obtain R where R: "insert_recipients ids now k (take recipientChunk xs) (campaign_recipients d) = Inr (a, R)"
      "d1 = d\<lparr>campaign_recipients := R\<rparr>" by (auto simp: InsertCampaignRecipients_def split: sum.splits)
    from insert_recipients_effect [OF R(1)] obtain new where new: "R = campaign_recipients d @ new"
      "new_recipients k (take recipientChunk xs) (campaign_recipients d) new" by blast
    from "1.IH" [OF False a refl b] obtain new' where new': "d' = d1\<lparr>campaign_recipients := campaign_recipients d1 @ new'\<rparr>"
      "new_recipients k (drop recipientChunk xs) (campaign_recipients d1) new'" by blast
    have "new_recipients k xs (campaign_recipients d) (new @ new')"
      using new_recipients_append [OF new(2), of "drop recipientChunk xs" new'] new'(2) R(2) new(1) by simp
    then show ?thesis using new'(1) R(2) new(1) by (intro exI [of _ "new @ new'"]) simp
  qed
qed

lemma fresh_numbers_sub:
  "fresh_numbers b seen xs = (fs, dup, bad) \<Longrightarrow> set fs \<subseteq> set xs \<and> length fs \<le> length xs"
  by (induction b seen xs arbitrary: fs dup bad rule: fresh_numbers.induct)
    (fastforce split: if_splits sum.splits prod.splits)+

definition normalized_list :: "string list \<Rightarrow> bool" where
  "normalized_list xs = (\<forall>x \<in> set xs. \<exists>raw dst. NormalizeDest raw = Inr dst \<and> x = MSISDN dst)"

lemma NormalizeRecipientList_normalized:
  "normalized_list (fst (NormalizeRecipientList raw))"
proof -
  have "normalized_list (fst (normalize_recipients k seen raw))" for k seen
  proof (induction k seen raw rule: normalize_recipients.induct)
    case (2 k seen v vs)
    then show ?case by (auto simp: normalized_list_def split: sum.splits prod.splits if_splits)
  qed (simp add: normalized_list_def)
  then show ?thesis by (simp add: NormalizeRecipientList_def)
qed

text \<open>
  The numbers come normalised from both callers. Up to two thousand million of them, the
  32-bit sum of the check is exact.
\<close>

lemma AddRecipients_good:
  assumes a: "AddRecipients ids now dirs cid kid xs bad d = Inr (res, d')"
    and xs: "normalized_list xs" "length xs < 2000000000"
  shows "campaign_good d d'"
proof (rule campaign_goodI)
  assume ok: "campaign_ok d" and "db_ok d"
  note D = campaign_okD [OF ok]
  let ?R = "campaign_recipients d"
  obtain c0 fresh dup inv n d1 where c0: "GetCampaignForClient kid cid d = Inr c0" "cp_status c0 = CampaignDraft"
    and fr: "fresh_numbers (campaigns_intOut dirs) (ListCampaignRecipientMSISDNs kid d) xs = (fresh, dup, inv)"
    and le: "\<not> int32_of (int32_of (int (length (ListCampaignRecipientMSISDNs kid d))) + int32_of (int (length fresh))) > maxRecipients"
    and ins: "insert_chunks ids now kid fresh d = Inr (n, d1)"
    and d': "d' = SetCampaignTotal now (CountCampaignRecipients kid d1) kid d1"
    using a by (auto simp: AddRecipients_def GetCampaignForClientForUpdate_def Let_def
        split: sum.splits prod.splits if_splits)
  have mem: "c0 \<in> set (sms_campaigns d)" "cp_id c0 = kid"
    using first_row_OK [OF c0(1) [unfolded GetCampaignForClient_def]] by auto
  have u: "c = c0" if "c \<in> set (sms_campaigns d)" "cp_id c = kid" for c
    by (rule distinct_map_inj [OF D(1)]) (use that mem in auto)
  note row0 = D(4) [OF mem(1), unfolded campaign_row_ok_def mem(2)]
  from insert_chunks_effect [OF ins] obtain new where d1: "d1 = d\<lparr>campaign_recipients := ?R @ new\<rparr>"
    and new: "new_recipients kid fresh ?R new" by blast
  note N = new [unfolded new_recipients_def]
  have sub: "set fresh \<subseteq> set xs" "length fresh \<le> length xs" using fresh_numbers_sub [OF fr] by auto
  let ?cnt = "int (length (filter (\<lambda>r. rp_campaign r = kid) (?R @ new)))"
  let ?K = "update_where (\<lambda>c. cp_id c = kid) (\<lambda>c. c\<lparr>cp_total_count := ?cnt, cp_updated_at := now\<rparr>) (sms_campaigns d)"
  have d'': "d' = d\<lparr>sms_campaigns := ?K, campaign_recipients := ?R @ new\<rparr>"
    unfolding d' d1 by (simp add: SetCampaignTotal_def CountCampaignRecipients_def campaign_recipients_of_def)
  have all_new: "filter (\<lambda>r. rp_campaign r = kid) new = new" using N by (auto intro!: filter_True)
  have "int (length (filter (\<lambda>r. rp_campaign r = kid) ?R)) + int (length fresh) \<le> maxRecipients"
    using le row0 sub(2) xs(2) c0(2)
    by (simp add: ListCampaignRecipientMSISDNs_def campaign_recipients_of_def maxRecipients_def)
  then have bound: "?cnt \<le> maxRecipients" using N all_new by simp
  have ids: "map cp_id ?K = map cp_id (sms_campaigns d)" by (rule update_where_fields) simp
  then have set_ids: "cp_id ` set ?K = cp_id ` set (sms_campaigns d)" by (metis list.set_map)
  have rows: "campaign_row_ok (?R @ new) c" if "c \<in> set ?K" for c
  proof -
    from that obtain x where x: "x \<in> set (sms_campaigns d)"
      "c = (if cp_id x = kid then x\<lparr>cp_total_count := ?cnt, cp_updated_at := now\<rparr> else x)"
      by (auto simp: set_update_where)
    show ?thesis
    proof (cases "cp_id x = kid")
      case True
      with x u have "c = c0\<lparr>cp_total_count := ?cnt, cp_updated_at := now\<rparr>" by simp
      then show ?thesis using row0 bound c0(2) mem(2) N by (auto simp: campaign_row_ok_def)
    next
      case False
      then have "filter (\<lambda>r. rp_campaign r = cp_id x) new = []" using N by (auto simp: filter_empty_conv)
      then show ?thesis using D(4) [OF x(1)] x(2) False N by (auto simp: campaign_row_ok_def)
    qed
  qed
  have recs: "recipient_ok ?K (sms_messages d) r" if "r \<in> set (?R @ new)" for r
  proof (cases "r \<in> set ?R")
    case True
    then show ?thesis using D(5) [OF True] by (simp only: recipient_ok_def set_ids)
  next
    case False
    with that have r: "r \<in> set new" by simp
    then have t: "rp_to r \<in> set xs" "to_msisdn_chk (rp_to r)" using N sub(1) by auto
    then have "canonical_number (rp_to r)"
      using xs(1) canonical_number_MSISDN unfolding normalized_list_def by metis
    then show ?thesis using r N mem unfolding recipient_ok_def set_ids by (auto intro: rev_image_eqI)
  qed
  have msgs: "message_ok (?R @ new) m" if "m \<in> set (sms_messages d)" for m
    using D(6) [OF that] unfolding message_ok_def set_append by blast
  have dist: "distinct (map rp_id (?R @ new))" "distinct (map (\<lambda>r. (rp_campaign r, rp_to r)) (?R @ new))"
    using N D(2,3) by blast+
  have F: "sms_campaigns d' = ?K" "campaign_recipients d' = ?R @ new" "sms_messages d' = sms_messages d"
    unfolding d'' by simp_all
  have "campaign_ok d'"
    by (rule campaign_okI) (simp_all only: F ids D dist rows recs msgs)
  moreover have "campaign_forward d d'"
    by (rule campaign_forward_keep) (use u c0(2) in \<open>auto simp: d'' set_update_where Frozen_def image_iff intro!: bexI\<close>)
  ultimately show "campaign_ok d' \<and> db_ok d' \<and> campaign_forward d d'" using \<open>db_ok d\<close> d'' by simp
qed

end
