(* ===== verification/CampaignFanout.thy ===== *)
theory CampaignFanout
  imports CampaignOps
begin

text \<open>
  The fan-out: a transaction of the worker handles every recipient it has locked, and whatever
  happens to it, keeps the invariant of campaigns and the books.
\<close>

section \<open>The message of a recipient\<close>

lemma enqueue_campaign_frame:
  assumes "enqueue ids now dirs bill i pool d = (Inr m, Live d')"
  shows "sms_campaigns d' = sms_campaigns d" "campaign_recipients d' = campaign_recipients d"
    "sms_messages d' = sms_messages d @ [m]" "msg_campaign m = ei_campaign i"
    "\<exists>dst. NormalizeDest (ei_to i) = Inr dst \<and> msg_to m = MSISDN dst"
proof -
  from assms obtain frm dst body est d1 d2 where c: "enqueue_checks dirs i d = Inr (frm, dst, body)"
    and m: "InsertSmsMessage (id_message ids) now (enqueue_params i frm dst body est) d = Inr (m, d1)"
    and j: "InsertSendJob (id_job ids) now (msg_id m) (Some (ei_client i)) d1 = Inr d2"
    and r: "ReserveForMessage (id_hold ids) now (Some d2) m = Inr d'"
    by (rule enqueue_OK) auto
  note M = InsertSmsMessage_OK [OF m]
  from j obtain k where d2: "d2 = d1\<lparr>send_jobs := send_jobs d1 @ [k]\<rparr>" by (rule InsertSendJob_OK)
  from r have "\<exists>ws ts. d' = d2\<lparr>wallets := ws, wallet_txs := ts\<rparr>"
  proof (cases rule: ReserveForMessage_OK)
    case (noop cid)
    then show ?thesis by (intro exI [of _ "wallets d2"] exI [of _ "wallet_txs d2"]) simp
  next
    case (posted cid price segs amt w e p)
    from posted(9,10) show ?thesis by (rule post_frame) blast
  qed
  then show "sms_campaigns d' = sms_campaigns d" "campaign_recipients d' = campaign_recipients d"
    "sms_messages d' = sms_messages d @ [m]" using d2 M(1) by auto
  show "msg_campaign m = ei_campaign i" using M(11) by (simp add: enqueue_params_def)
  show "\<exists>dst. NormalizeDest (ei_to i) = Inr dst \<and> msg_to m = MSISDN dst"
    using enqueue_checks_OK(2) [OF c] M(6) by (simp add: enqueue_params_def)
qed

section \<open>One recipient\<close>

definition live_row :: "db \<Rightarrow> fanout_row \<Rightarrow> bool" where
  "live_row d r =
     ((\<exists>x \<in> set (campaign_recipients d). rp_id x = fr_id r \<and> rp_campaign x = fr_campaign r
         \<and> rp_to x = fr_to r \<and> rp_status x = RecipientPending)
      \<and> (\<exists>c \<in> set (sms_campaigns d). cp_id c = fr_campaign r \<and> cp_status c = CampaignRunning))"

lemma live_row_started: "live_row d r \<Longrightarrow> started_in d (fr_campaign r)"
  by (auto simp: live_row_def started_in_def intro!: bexI)

text \<open>The recipient of the row is no longer pending, nothing else changes in the two tables.\<close>

definition handled :: "fanout_row \<Rightarrow> db \<Rightarrow> db \<Rightarrow> bool" where
  "handled r d d' =
     (sms_campaigns d' = sms_campaigns d \<and>
      (\<exists>f. campaign_recipients d' = update_where (\<lambda>x. rp_id x = fr_id r \<and> rp_status x = RecipientPending) f
             (campaign_recipients d)
         \<and> (\<forall>x. rp_id (f x) = rp_id x \<and> rp_campaign (f x) = rp_campaign x \<and> rp_to (f x) = rp_to x
              \<and> rp_status (f x) \<noteq> RecipientPending)))"

lemma mark_recipient_handled:
  "(\<And>x. rp_id (f x) = rp_id x \<and> rp_campaign (f x) = rp_campaign x \<and> rp_to (f x) = rp_to x
     \<and> rp_status (f x) \<noteq> RecipientPending) \<Longrightarrow>
   sms_campaigns e = sms_campaigns d \<Longrightarrow> campaign_recipients e = campaign_recipients d \<Longrightarrow>
   handled r d (mark_recipient (fr_id r) f e)"
  by (auto simp: handled_def mark_recipient_def)

lemma handled_live:
  assumes "handled r d d'" "live_row d q" "fr_id q \<noteq> fr_id r"
  shows "live_row d' q"
proof -
  from assms(1) obtain f where K: "sms_campaigns d' = sms_campaigns d" and
    R: "campaign_recipients d' = update_where (\<lambda>x. rp_id x = fr_id r \<and> rp_status x = RecipientPending) f (campaign_recipients d)"
    by (auto simp: handled_def)
  from assms(2) obtain x where x: "x \<in> set (campaign_recipients d)" "rp_id x = fr_id q"
    "rp_campaign x = fr_campaign q" "rp_to x = fr_to q" "rp_status x = RecipientPending" by (auto simp: live_row_def)
  then have "x \<in> set (campaign_recipients d')" using assms(3) unfolding R by (auto simp: set_update_where)
  then show ?thesis using assms(2) x K by (auto simp: live_row_def)
qed

definition pending_ids :: "db \<Rightarrow> uuid set" where
  "pending_ids d = rp_id ` {x \<in> set (campaign_recipients d). rp_status x = RecipientPending}"

lemma handled_pending: "handled r d d' \<Longrightarrow> pending_ids d' = pending_ids d - {fr_id r}"
  by (auto simp: handled_def pending_ids_def set_update_where image_iff split: if_splits)

lemma live_mark_good:
  assumes "st = RecipientSkipped \<or> st = RecipientFailed"
  shows "live_row d r \<Longrightarrow> campaign_good d (mark_recipient (fr_id r) (\<lambda>x. x\<lparr>rp_status := st\<rparr>) d)"
proof (rule campaign_goodI)
  assume l: "live_row d r" and ok: "campaign_ok d" and "db_ok d"
  from l obtain x where x: "x \<in> set (campaign_recipients d)" "rp_id x = fr_id r" "rp_campaign x = fr_campaign r"
    by (auto simp: live_row_def)
  have "campaign_good d (mark_recipient (fr_id r) (\<lambda>x. x\<lparr>rp_status := st\<rparr>) d)"
    unfolding mark_recipient_def
  proof (rule giveup_good [OF _ assms])
    fix y assume y: "y \<in> set (campaign_recipients d)" "rp_id y = fr_id r \<and> rp_status y = RecipientPending"
    have "y = x" by (rule distinct_map_inj [OF campaign_okD(2) [OF ok] y(1) x(1)]) (simp add: x y)
    then show "rp_status y = RecipientPending \<and> started_in d (rp_campaign y)"
      using x(3) y(2) live_row_started [OF l] by simp
  qed
  then show "campaign_ok (mark_recipient (fr_id r) (\<lambda>x. x\<lparr>rp_status := st\<rparr>) d)
      \<and> db_ok (mark_recipient (fr_id r) (\<lambda>x. x\<lparr>rp_status := st\<rparr>) d)
      \<and> campaign_forward d (mark_recipient (fr_id r) (\<lambda>x. x\<lparr>rp_status := st\<rparr>) d)"
    using ok \<open>db_ok d\<close> by (simp add: campaign_good_def)
qed

lemmas marks_good =
  live_mark_good [of RecipientSkipped, simplified, folded MarkRecipientSkipped_def]
  live_mark_good [of RecipientFailed, simplified, folded MarkRecipientFailed_def]

lemma marks_handled: "handled r d (MarkRecipientSkipped (fr_id r) d)" "handled r d (MarkRecipientFailed (fr_id r) d)"
  unfolding MarkRecipientSkipped_def MarkRecipientFailed_def by (rule mark_recipient_handled; simp)+

lemma fanout_enqueue_handled:
  assumes "fanout_enqueue env pool r dst d = Inr d'"
  shows "handled r d d'"
proof -
  from assms obtain dirs bill where "ce_msg env = Some (dirs, bill)" by (auto simp: fanout_enqueue_def split: option.splits)
  with assms consider "d' = MarkRecipientFailed (fr_id r) d"
    | m d1 where "enqueue (ce_ids env (fr_id r)) (ce_now env) dirs bill (recipient_input r dst) pool d = (Inr m, Live d1)"
        "d' = MarkRecipientEnqueued (msg_id m) (fr_id r) d1"
    by (auto simp: fanout_enqueue_def EnqueueWith_def split: prod.splits sum.splits if_splits pgtx.splits)
  then show ?thesis
  proof cases
    case (2 m d1)
    then show ?thesis unfolding 2(2) MarkRecipientEnqueued_def
      by (intro mark_recipient_handled) (use enqueue_campaign_frame [OF 2(1)] in auto)
  qed (simp add: marks_handled)
qed

lemma fanout_enqueue_good:
  assumes e: "fanout_enqueue env pool r dst d = Inr d'" and l: "live_row d r"
    and dst: "NormalizeDest (fr_to r) = Inr dst"
  shows "campaign_good d d'"
proof (rule campaign_goodI)
  assume ok: "campaign_ok d" and "db_ok d"
  from e obtain dirs bill where "ce_msg env = Some (dirs, bill)" by (auto simp: fanout_enqueue_def split: option.splits)
  with e consider "d' = MarkRecipientFailed (fr_id r) d"
    | m d1 where "enqueue (ce_ids env (fr_id r)) (ce_now env) dirs bill (recipient_input r dst) pool d = (Inr m, Live d1)"
        "d' = MarkRecipientEnqueued (msg_id m) (fr_id r) d1"
    by (auto simp: fanout_enqueue_def EnqueueWith_def split: prod.splits sum.splits if_splits pgtx.splits)
  then have "campaign_good d d'"
  proof cases
    case 1
    then show ?thesis using marks_good(2) [OF l] by simp
  next
    case (2 m d1)
    note F = enqueue_campaign_frame [OF 2(1)]
    from l obtain x where x: "x \<in> set (campaign_recipients d)" "rp_id x = fr_id r" "rp_status x = RecipientPending"
      "rp_campaign x = fr_campaign r" "rp_to x = fr_to r" by (auto simp: live_row_def)
    have "MSISDN dst = fr_to r"
      using campaign_okD(5) [OF ok x(1)] dst x(5) by (simp add: recipient_ok_def canonical_number_def)
    then have m: "msg_campaign m = Some (rp_campaign x)" "msg_to m = rp_to x"
      using F(4,5) dst x by (auto simp: recipient_input_def)
    show ?thesis
      by (rule enqueued_good [OF x(1,2,3)])
        (use F m x live_row_started [OF l] enqueue_keeps [OF 2(1)] 2(2) in
          \<open>simp_all add: MarkRecipientEnqueued_def mark_recipient_def\<close>)
  qed
  then show "campaign_ok d' \<and> db_ok d' \<and> campaign_forward d d'" using ok \<open>db_ok d\<close> by (simp add: campaign_good_def)
qed

section \<open>A transaction\<close>

lemma fanout_loop_effect:
  assumes "fanout_loop env pool intOut sticky rs d = Inr d'" "\<forall>r \<in> set rs. live_row d r" "distinct (map fr_id rs)"
  shows "campaign_good d d' \<and> pending_ids d' = pending_ids d - set (map fr_id rs)"
  using assms
proof (induction rs arbitrary: sticky d)
  case (Cons r rs)
  have step: ?case if "campaign_good d e" "handled r d e" "fanout_loop env pool intOut s rs e = Inr d'" for e s
  proof -
    have "fr_id q \<noteq> fr_id r" if "q \<in> set rs" for q
      using Cons.prems(3) imageI [OF that, of fr_id] by auto
    then have "\<forall>q \<in> set rs. live_row e q" using handled_live [OF that(2)] Cons.prems(2) by simp
    from Cons.IH [OF that(3) this] Cons.prems(3) handled_pending [OF that(2)] that(1)
    show ?thesis by (auto intro: campaign_good_trans)
  qed
  note L = marks_good [of d r] and H = marks_handled [where r = r and d = d]
  have l: "live_row d r" using Cons.prems(2) by simp
  show ?case
  proof (cases "sticky (fr_campaign r) \<noteq> SkipNone")
    case True
    then show ?thesis using Cons.prems(1) by (intro step [OF L(1) [OF l] H(1), of sticky]) simp
  next
    case False
    with Cons.prems(1) obtain ok s where s: "stillRunnable r sticky d = Inr (ok, s)" by (auto split: sum.splits)
    show ?thesis
    proof (cases ok)
      case True
      show ?thesis
      proof (cases "NormalizeDest (fr_to r)")
        case (Inl e)
        then show ?thesis using Cons.prems(1) False s True
          by (intro step [OF L(2) [OF l] H(2), of s]) simp
      next
        case (Inr dst)
        show ?thesis
        proof (cases "International dst \<and> \<not> intOut")
          case i: True
          then show ?thesis using Cons.prems(1) False s True Inr
            by (intro step [OF L(1) [OF l] H(1), of s]) simp
        next
          case i: False
          then obtain e where e: "fanout_enqueue env pool r dst d = Inr e" "fanout_loop env pool intOut s rs e = Inr d'"
            using Cons.prems(1) False s True Inr by (auto split: sum.splits)
          show ?thesis by (rule step [OF fanout_enqueue_good [OF e(1) l Inr] fanout_enqueue_handled [OF e(1)] e(2)])
        qed
      qed
    next
      case nok: False
      then show ?thesis using Cons.prems(1) False s by (intro step [OF L(1) [OF l] H(1), of s]) simp
    qed
  qed
qed simp

lemma fanout_rows_live: "r \<in> set (fanout_rows d) \<Longrightarrow> live_row d r"
  by (auto simp: fanout_rows_def live_row_def)

lemma fanout_rows_ids:
  assumes "campaign_ok d"
  shows "distinct (map fr_id (fanout_rows d))"
proof -
  have one: "length (filter (\<lambda>c. cp_id c = k \<and> cp_status c = CampaignRunning) (sms_campaigns d)) \<le> 1" for k
    by (rule length_filter_le_1)
      (use campaign_okD(1) [OF assms] in \<open>auto intro: distinct_map_inj simp: distinct_map\<close>)
  have g: "distinct (map fr_id (concat (map (\<lambda>r. map (\<lambda>c. g r c) (filter (\<lambda>c. cp_id c = rp_campaign r \<and> cp_status c = CampaignRunning)
      (sms_campaigns d))) (filter (\<lambda>r. rp_status r = RecipientPending) R))))"
    if "distinct (map rp_id R)" "\<And>r c. fr_id (g r c) = rp_id r" for R g
    using that
  proof (induction R)
    case (Cons r R)
    have "length (filter (\<lambda>c. cp_id c = rp_campaign r \<and> cp_status c = CampaignRunning) (sms_campaigns d)) = 0 \<or>
        length (filter (\<lambda>c. cp_id c = rp_campaign r \<and> cp_status c = CampaignRunning) (sms_campaigns d)) = 1"
      using one [of "rp_campaign r"] by linarith
    then show ?case using Cons by (auto simp: length_Suc_conv)
  qed simp
  show ?thesis unfolding fanout_rows_def by (rule g [OF campaign_okD(2) [OF assms]]) simp
qed

lemma locked_rows_distinct:
  assumes "campaign_ok d"
  shows "distinct (map fr_id (LockPendingRecipientsForClient free cid n d))"
proof -
  have "distinct (map fr_id (filter p (fanout_rows d)))" for p
    using fanout_rows_ids [OF assms] by (rule distinct_map_filter)
  then have "distinct (map fr_id (sort_key fr_created_at (sort_key fr_id (filter p (fanout_rows d)))))" for p
    by (auto simp: distinct_map)
  then show ?thesis
    unfolding LockPendingRecipientsForClient_def by (simp add: distinct_take flip: take_map)
qed

lemma fanoutClient_effect:
  assumes "fanoutClient env cid d = Inr (n, d')" "campaign_ok d"
  shows "campaign_good d d'"
    "pending_ids d' = pending_ids d - set (map fr_id (LockPendingRecipientsForClient (ce_free env) cid fanoutPerClient d))"
    "n = length (LockPendingRecipientsForClient (ce_free env) cid fanoutPerClient d)"
proof -
  let ?rows = "LockPendingRecipientsForClient (ce_free env) cid fanoutPerClient d"
  from assms have l: "fanout_loop env d (campaigns_intOut (ce_dirs env)) (\<lambda>_. SkipNone) ?rows d = Inr d'"
    and n: "n = length ?rows" by (auto simp: fanoutClient_def Let_def split: sum.splits)
  have live: "\<forall>r \<in> set ?rows. live_row d r"
    by (auto simp: LockPendingRecipientsForClient_def dest!: in_set_takeD intro: fanout_rows_live)
  from fanout_loop_effect [OF l live locked_rows_distinct [OF assms(2)]] n
  show "campaign_good d d'" "pending_ids d' = pending_ids d - set (map fr_id ?rows)" "n = length ?rows" by auto
qed

end
