(* ===== verification/CampaignProps.thy ===== *)
theory CampaignProps
  imports CampaignFanout MessagingProps
begin

text \<open>
  The theorems on campaigns. A step is one committed transaction or statement of the campaign
  service, of its worker or of another part of the system; any number of them may run in any order.
\<close>

section \<open>The system\<close>

text \<open>
  What the other parts do to the tables: they leave campaigns and recipients alone, move
  messages forward and add messages that belong to no campaign, and keep the books.
\<close>

definition other_parts :: "db \<Rightarrow> db \<Rightarrow> bool" where
  "other_parts d d' =
     (sms_campaigns d' = sms_campaigns d \<and> campaign_recipients d' = campaign_recipients d
      \<and> msgs_forward (sms_messages d) (sms_messages d')
      \<and> list_all (\<lambda>m. msg_campaign m = None) (drop (length (sms_messages d)) (sms_messages d'))
      \<and> (db_ok d \<longrightarrow> db_ok d'))"

inductive campaign_step :: "db \<Rightarrow> db \<Rightarrow> bool" where
  create: "campaigns_Create i now cid by f t d = Inr (c, d') \<Longrightarrow> campaign_step d d'"
| patch: "campaigns_Patch now cid kid f' t' d = Inr (c, d') \<Longrightarrow> campaign_step d d'"
| remove: "DeleteDraft cid kid d = Inr d' \<Longrightarrow> campaign_step d d'"
| add: "normalized_list xs \<Longrightarrow> length xs < 2000000000 \<Longrightarrow>
    AddRecipients ids now dirs cid kid xs bad d = Inr (res, d') \<Longrightarrow> campaign_step d d'"
| start: "campaigns_Start now bill cid kid d = Inr (c, d') \<Longrightarrow> campaign_step d d'"
| cancel: "cancel_tx now cid kid d = Inr (c, d') \<Longrightarrow> campaign_step d d'"
| skip: "cancelled_in d kid \<Longrightarrow> campaign_step d (SkipPendingForCampaign free kid d)"
| skip_all: "campaign_step d (SkipPendingForCancelledCampaigns free d)"
| claim: "campaign_step d (snd (ClaimQueuedCampaigns free now n d))"
| fan_out: "fanoutClient env cid d = Inr (n, d') \<Longrightarrow> campaign_step d d'"
| refresh: "campaign_step d (RefreshCampaignCounters now since d)"
| finish: "campaign_step d (CompleteIdleCampaigns now d)"
| other: "other_parts d d' \<Longrightarrow> campaign_step d d'"

lemma other_good:
  assumes "other_parts d d'"
  shows "campaign_good d d'"
proof (rule campaign_goodI)
  assume ok: "campaign_ok d" and "db_ok d"
  note D = campaign_okD [OF ok]
  let ?M = "sms_messages d" and ?M' = "sms_messages d'"
  have same: "sms_campaigns d' = sms_campaigns d" "campaign_recipients d' = campaign_recipients d"
    and fwd: "msgs_forward ?M ?M'" and new: "list_all (\<lambda>m. msg_campaign m = None) (drop (length ?M) ?M')"
    and "db_ok d'" using assms \<open>db_ok d\<close> by (auto simp: other_parts_def)
  have recs: "recipient_ok (sms_campaigns d) ?M' r" if r: "r \<in> set (campaign_recipients d)" for r
  proof -
    have "has_message ?M' r mid" if m: "has_message ?M r mid" for mid
    proof -
      from m obtain x where x: "x \<in> set ?M" "msg_id x = mid" "msg_campaign x = Some (rp_campaign r)" "msg_to x = rp_to r"
        by (auto simp: has_message_def)
      from msgs_forward_mem [OF fwd x(1)] obtain y where "y \<in> set ?M'" "message_forward x y" .
      then show ?thesis using x by (auto simp: has_message_def message_forward_def)
    qed
    then show ?thesis using D(5) [OF r] by (auto simp: recipient_ok_def split: option.splits)
  qed
  have msgs: "message_ok (campaign_recipients d) m" if m: "m \<in> set ?M'" for m
  proof -
    from m obtain i where i: "i < length ?M'" "m = ?M' ! i" by (auto simp: in_set_conv_nth)
    show ?thesis
    proof (cases "i < length ?M")
      case True
      then have "message_forward (?M ! i) m" using fwd i by (auto simp: msgs_forward_def list_all2_conv_all_nth)
      then show ?thesis using D(6) [OF nth_mem [OF True]] by (simp add: message_ok_def message_forward_def)
    next
      case False
      then have "m = drop (length ?M) ?M' ! (i - length ?M)" using i by simp
      moreover have "i - length ?M < length (drop (length ?M) ?M')" using i False by simp
      ultimately have "m \<in> set (drop (length ?M) ?M')" by (simp only: nth_mem)
      then show ?thesis using new by (simp add: list_all_iff message_ok_def)
    qed
  qed
  have "campaign_ok d'"
    by (rule campaign_okI) (simp_all only: same D recs msgs)
  moreover have "campaign_forward d d'" by (rule campaign_forward_keep) (simp_all add: same)
  ultimately show "campaign_ok d' \<and> db_ok d' \<and> campaign_forward d d'" using \<open>db_ok d'\<close> by simp
qed

text \<open>A message sent through the API is such a part.\<close>

lemma Enqueue_other:
  assumes "Enqueue ids now dirs bill i d = Inr (m, d')" "ei_campaign i = None"
  shows "other_parts d d'"
  using enqueue_campaign_frame [OF Enqueue_OK [OF assms(1)]] enqueue_keeps [OF Enqueue_OK [OF assms(1)]] assms(2)
  by (simp add: other_parts_def)

lemma campaign_step_good: "campaign_step d d' \<Longrightarrow> campaign_ok d \<Longrightarrow> campaign_good d d'"
  by (induction rule: campaign_step.induct)
    (auto intro: campaigns_Create_good campaigns_Patch_good DeleteDraft_good AddRecipients_good campaigns_Start_good
      cancel_tx_good SkipPendingForCampaign_good SkipPendingForCancelledCampaigns_good ClaimQueuedCampaigns_good
      fanoutClient_effect(1) RefreshCampaignCounters_good CompleteIdleCampaigns_good other_good)

definition campaigns_sound :: "db \<Rightarrow> bool" where
  "campaigns_sound d = (campaign_ok d \<and> db_ok d)"

lemma campaign_step_keeps: "campaign_step d d' \<Longrightarrow> campaigns_sound d \<Longrightarrow> campaigns_sound d' \<and> campaign_forward d d'"
  using campaign_step_good [of d d'] by (simp add: campaigns_sound_def campaign_good_def)

interpretation campaign_system: safe_system campaign_step campaigns_sound
  by unfold_locales (simp add: campaign_step_keeps)

text \<open>A tick of the worker is a sequence of steps.\<close>

lemma fanout_clients_steps: "campaign_step\<^sup>*\<^sup>* d (snd (fanout_clients env cids d))"
proof (induction env cids d rule: fanout_clients.induct)
  case (2 env cid cids d)
  then show ?case
    by (auto split: sum.splits prod.splits intro: fan_out converse_rtranclp_into_rtranclp)
qed simp

lemma campaigns_Tick_steps: "campaign_step\<^sup>*\<^sup>* d (snd (snd (campaigns_Tick free now env lastAgg d)))"
proof -
  define d1 where "d1 = SkipPendingForCancelledCampaigns free d"
  define d2 where "d2 = snd (ClaimQueuedCampaigns free now claimQueuedLimit d1)"
  define d3 where "d3 = snd (fanout env d2)"
  have "campaign_step\<^sup>*\<^sup>* d d3"
    unfolding d3_def d2_def d1_def fanout_def
    by (meson fanout_clients_steps skip_all claim converse_rtranclp_into_rtranclp)
  moreover have "campaign_step\<^sup>*\<^sup>* d3 (CompleteIdleCampaigns now (RefreshCampaignCounters now (now - counterLookback) d3))"
    by (meson refresh finish r_into_rtranclp rtranclp.rtrancl_into_rtrancl)
  ultimately show ?thesis
    by (auto simp: campaigns_Tick_def Let_def case_prod_beta d1_def d2_def d3_def)
qed

lemma campaign_steps_forward:
  "campaign_step\<^sup>*\<^sup>* d d' \<Longrightarrow> campaigns_sound d \<Longrightarrow> campaigns_sound d' \<and> campaign_forward d d'"
  by (induction rule: rtranclp_induct) (auto dest: campaign_step_keeps intro: campaign_forward_trans)

section \<open>Counting\<close>

lemma enqueued_recipients:
  assumes ok: "campaign_ok d" and "db_ok d"
  shows "count_status RecipientEnqueued (campaign_recipients_of k d) =
    int (length (filter (\<lambda>m. msg_campaign m = Some k) (sms_messages d)))"
proof -
  note D = campaign_okD [OF ok]
  let ?R = "filter (\<lambda>r. rp_status r = RecipientEnqueued) (campaign_recipients_of k d)"
  let ?M = "filter (\<lambda>m. msg_campaign m = Some k) (sms_messages d)"
  let ?mid = "\<lambda>r. the (rp_sms_message r)"
  have mem: "r \<in> set (campaign_recipients d)" "rp_campaign r = k" "rp_sms_message r = Some (?mid r)"
    "has_message (sms_messages d) r (?mid r)" if "r \<in> set ?R" for r
    using that D(5) [of r] by (auto simp: campaign_recipients_of_def recipient_ok_def split: option.splits)
  have dm: "distinct (map msg_id (sms_messages d))"
    using \<open>db_ok d\<close> by (simp add: db_ok_def links_ok_def)
  have "distinct (map rp_id ?R)" using D(2) by (simp add: campaign_recipients_of_def distinct_map_filter)
  then have "distinct ?R" by (simp add: distinct_map)
  moreover have "inj_on ?mid (set ?R)"
  proof (rule inj_onI)
    fix a b assume a: "a \<in> set ?R" and b: "b \<in> set ?R" and "?mid a = ?mid b"
    then have "rp_to a = rp_to b"
      using mem(4) [OF a] mem(4) [OF b] dm by (auto simp: has_message_def dest: distinct_map_inj)
    then show "a = b"
      using mem [OF a] mem [OF b] by (intro distinct_map_inj [OF D(3)]) auto
  qed
  ultimately have "length ?R = card (?mid ` set ?R)" by (metis card_image distinct_card)
  moreover have "?mid ` set ?R = msg_id ` set ?M"
  proof (intro set_eqI iffI)
    fix x assume "x \<in> ?mid ` set ?R"
    then obtain r where r: "r \<in> set ?R" "x = ?mid r" by blast
    from mem(2,4) [OF r(1)] r(2) obtain m where "m \<in> set ?M" "msg_id m = x" by (auto simp: has_message_def)
    then show "x \<in> msg_id ` set ?M" by blast
  next
    fix x assume "x \<in> msg_id ` set ?M"
    then obtain m where m: "m \<in> set (sms_messages d)" "msg_campaign m = Some k" "x = msg_id m" by auto
    then obtain r where r: "r \<in> set (campaign_recipients d)" "rp_sms_message r = Some x" "rp_campaign r = k"
      using D(6) [OF m(1)] by (auto simp: message_ok_def)
    then have "r \<in> set ?R" using D(5) [OF r(1)] by (simp add: recipient_ok_def campaign_recipients_of_def)
    then show "x \<in> ?mid ` set ?R" using r(2) by (metis imageI option.sel)
  qed
  moreover have "distinct (map msg_id ?M)" using dm by (rule distinct_map_filter)
  ultimately have "length ?R = length ?M" by (metis distinct_card length_map list.set_map)
  then show ?thesis by (simp add: count_status_def)
qed

lemma count_statuses:
  "count_status RecipientPending rs + count_status RecipientEnqueued rs + count_status RecipientSkipped rs
   + count_status RecipientFailed rs = int (length rs)"
  by (induction rs) (auto simp: count_status_def intro: campaign_recipient_status.exhaust)

section \<open>The price of a campaign\<close>

definition is_domestic :: "campaign_recipient \<Rightarrow> bool" where
  "is_domestic r = (case NormalizeDest (rp_to r) of Inl _ \<Rightarrow> False | Inr dst \<Rightarrow> \<not> International dst)"

definition is_international :: "campaign_recipient \<Rightarrow> bool" where
  "is_international r = (case NormalizeDest (rp_to r) of Inl _ \<Rightarrow> False | Inr dst \<Rightarrow> International dst)"

lemma count_destinations_filter:
  "count_destinations rs (a, b) =
   (a + int (length (filter is_domestic rs)), b + int (length (filter is_international rs)))"
  by (induction rs arbitrary: a b) (auto simp: is_domestic_def is_international_def split: sum.split)

lemma count_destinations_append: "count_destinations (xs @ ys) acc = count_destinations ys (count_destinations xs acc)"
  by (cases acc) (simp add: count_destinations_filter)

definition ordered_recipients :: "uuid \<Rightarrow> db \<Rightarrow> campaign_recipient list" where
  "ordered_recipients k d = sort_key rp_created_at (sort_key rp_id (campaign_recipients_of k d))"

lemma cost_pages_all:
  assumes "0 \<le> off" "off \<le> int (length (ordered_recipients k d))" "int (length (ordered_recipients k d)) < 2147483648"
  shows "cost_pages k off acc d = Inr (count_destinations (drop (nat off) (ordered_recipients k d)) acc)"
  using assms
proof (induction k off acc d rule: cost_pages.induct)
  case (1 k off acc d)
  define L' where "L' = ordered_recipients k d"
  note P = "1.prems" [folded L'_def]
  define rows where "rows = take cost_page (drop (nat off) L')"
  have l: "ListCampaignRecipients k off cost_page d = Inr rows"
    using P(1) by (simp add: ListCampaignRecipients_def rows_def L'_def ordered_recipients_def)
  have split: "drop (nat off) L' = rows @ drop (nat off + length rows) L'"
  proof -
    have "drop (length rows) (drop (nat off) L') = drop cost_page (drop (nat off) L')"
      by (auto simp: rows_def min_def)
    then show ?thesis
      using append_take_drop_id [of cost_page "drop (nat off) L'"] by (simp add: rows_def add.commute)
  qed
  show ?case
  proof (cases "length rows < cost_page")
    case True
    then have "drop (nat off + length rows) L' = []" by (auto simp: rows_def min_def split: if_splits)
    then have "drop (nat off) L' = rows" using split by simp
    then show ?thesis using True l unfolding L'_def [symmetric] by (subst cost_pages.simps) (auto simp: Let_def)
  next
    case False
    then have len: "length rows = 1000" "off + 1000 \<le> int (length L')" "rows \<noteq> []"
      by (auto simp: rows_def cost_page_def min_def split: if_splits)
    have w: "int32_of (off + int (length rows)) = off + 1000" using P len by simp
    have "cost_pages k (off + 1000) (count_destinations rows acc) d =
        Inr (count_destinations (drop (nat (off + 1000)) L') (count_destinations rows acc))"
      using "1.IH" [OF l len(3) refl False, folded L'_def] P len w by simp
    moreover have "nat (off + 1000) = nat off + length rows" using P(1) len(1) by simp
    ultimately show ?thesis
      unfolding L'_def [symmetric] split count_destinations_append
      using False l len(3) w by (subst cost_pages.simps) (simp add: Let_def)
  qed
qed

text \<open>What the message of a recipient will cost.\<close>

definition recipient_price :: "time \<Rightarrow> uuid \<Rightarrow> string \<Rightarrow> db \<Rightarrow> campaign_recipient \<Rightarrow> decimal" where
  "recipient_price now cid body d r =
     (case NormalizeDest (rp_to r) of Inl _ \<Rightarrow> 0 | Inr dst \<Rightarrow>
      (case Estimate now cid dst body d of Inl _ \<Rightarrow> 0 | Inr e \<Rightarrow> es_total e))"

lemma length_filter_sort_key [simp]: "length (filter p (sort_key f xs)) = length (filter p xs)"
  by (simp add: filter_sort)

lemma price_sum:
  assumes "\<And>r. r \<in> set rs \<Longrightarrow> is_domestic r \<Longrightarrow> g r = pd" "\<And>r. r \<in> set rs \<Longrightarrow> is_international r \<Longrightarrow> g r = pi'"
    "\<And>r. r \<in> set rs \<Longrightarrow> \<not> is_domestic r \<Longrightarrow> \<not> is_international r \<Longrightarrow> g r = 0"
  shows "sum_list (map g rs) = pd * of_int (int (length (filter is_domestic rs)))
    + (pi' :: rat) * of_int (int (length (filter is_international rs)))"
  using assms
proof (induction rs)
  case (Cons r rs)
  have "\<not> (is_domestic r \<and> is_international r)" by (auto simp: is_domestic_def is_international_def split: sum.splits)
  moreover have "sum_list (map g rs) = pd * of_int (int (length (filter is_domestic rs)))
    + pi' * of_int (int (length (filter is_international rs)))" using Cons by simp
  ultimately show ?case using Cons.prems [of r] by (auto simp: algebra_simps)
qed simp

lemma recipient_price_cases:
  "is_domestic r \<Longrightarrow> ResolveTariff now cid SmsDomestic d = Inr t \<Longrightarrow>
     recipient_price now cid body d r = rt_sell_price t * of_int (int (SegmentCount body))"
  "is_international r \<Longrightarrow> ResolveTariff now cid SmsInternational d = Inr t \<Longrightarrow>
     recipient_price now cid body d r = rt_sell_price t * of_int (int (SegmentCount body))"
  "\<not> is_domestic r \<Longrightarrow> \<not> is_international r \<Longrightarrow> recipient_price now cid body d r = 0"
  by (auto simp: is_domestic_def is_international_def recipient_price_def Estimate_def ProductForDest_def Let_def
      split: sum.splits)

lemma bucketCost_OK:
  assumes "bucketCost now cid product (int (length (filter p rs))) seg d = Inr x"
  obtains "filter p rs = []" "x = 0"
  | t where "ResolveTariff now cid product d = Inr t" "x = rt_sell_price t * of_int seg * of_int (int (length (filter p rs)))"
  using assms by (auto simp: bucketCost_def split: if_splits sum.splits)

lemma CampaignCost_sum:
  assumes c: "CampaignCost now bill cid c d = Inr cost"
    and small: "int (length (campaign_recipients_of (cp_id c) d)) < 2147483648"
  shows "cc_total cost = sum_list (map (recipient_price now cid (cp_text c) d) (campaign_recipients_of (cp_id c) d))"
proof -
  let ?rs = "campaign_recipients_of (cp_id c) d" and ?seg = "int (SegmentCount (cp_text c))"
  let ?D = "int (length (filter is_domestic ?rs))" and ?I = "int (length (filter is_international ?rs))"
  have pages: "cost_pages (cp_id c) 0 (0, 0) d = Inr (?D, ?I)"
    using cost_pages_all [of 0 "cp_id c" d "(0, 0)"] small
    by (simp add: ordered_recipients_def count_destinations_filter)
  from c pages obtain x y where x: "bucketCost now cid SmsDomestic ?D ?seg d = Inr x"
    and y: "bucketCost now cid SmsInternational ?I ?seg d = Inr y" and cost: "cc_total cost = x + y"
    by (auto simp: CampaignCost_def Let_def split: if_splits sum.splits)
  obtain pd where pd: "x = pd * of_int ?D" "\<And>r. r \<in> set ?rs \<Longrightarrow> is_domestic r \<Longrightarrow> recipient_price now cid (cp_text c) d r = pd"
    using x
  proof (cases rule: bucketCost_OK)
    case 1
    then show ?thesis using that [of 0] by (auto simp: filter_empty_conv)
  next
    case (2 t)
    show ?thesis
      by (rule that [of "rt_sell_price t * of_int ?seg"]) (use 2 recipient_price_cases(1) in \<open>auto\<close>)
  qed
  obtain pi' where pi': "y = pi' * of_int ?I" "\<And>r. r \<in> set ?rs \<Longrightarrow> is_international r \<Longrightarrow> recipient_price now cid (cp_text c) d r = pi'"
    using y
  proof (cases rule: bucketCost_OK)
    case 1
    then show ?thesis using that [of 0] by (auto simp: filter_empty_conv)
  next
    case (2 t)
    show ?thesis
      by (rule that [of "rt_sell_price t * of_int ?seg"]) (use 2 recipient_price_cases(2) in \<open>auto\<close>)
  qed
  show ?thesis unfolding cost pd(1) pi'(1)
    by (rule price_sum [symmetric]) (use pd(2) pi'(2) recipient_price_cases(3) in auto)
qed

section \<open>Properties\<close>

text \<open>
  A running campaign of one client: one recipient waits, another has been passed over.
\<close>

definition demo_row :: "campaign_status \<Rightarrow> sms_campaign" where
  "demo_row st = \<lparr>cp_id = ''k1'', cp_client = ''c1'', cp_from = ''79161234567'', cp_text = ''hi'', cp_status = st,
     cp_total_count = 2, cp_accepted_count = 0, cp_delivered_count = 0, cp_failed_count = 0,
     cp_created_by = None, cp_created_at = 1, cp_updated_at = 1\<rparr>"

definition demo_recipient :: "uuid \<Rightarrow> string \<Rightarrow> campaign_recipient_status \<Rightarrow> campaign_recipient" where
  "demo_recipient i n st = \<lparr>rp_id = i, rp_campaign = ''k1'', rp_to = n, rp_status = st, rp_sms_message = None, rp_created_at = 1\<rparr>"

definition demo_campaign :: db where
  "demo_campaign = demo_shop\<lparr>sms_campaigns := [demo_row CampaignRunning],
     campaign_recipients := [demo_recipient ''r1'' ''79167654321'' RecipientPending,
       demo_recipient ''r2'' ''79167654322'' RecipientSkipped]\<rparr>"

definition demo_draft :: db where
  "demo_draft = demo_shop\<lparr>sms_campaigns := [demo_row CampaignDraft],
     campaign_recipients := [demo_recipient ''r1'' ''79167654321'' RecipientPending,
       demo_recipient ''r2'' ''79167654322'' RecipientPending]\<rparr>"

definition demo_cenv :: campaign_env where
  "demo_cenv = \<lparr>ce_now = 5, ce_ids = demo_ids, ce_free = (\<lambda>_. True), ce_dirs = None, ce_msg = Some (None, True)\<rparr>"

lemma demo_numbers [simp]:
  "NormalizeDest ''79167654321'' = Inr \<lparr>MSISDN = ''79167654321'', International = False\<rparr>"
  "NormalizeDest ''79167654322'' = Inr \<lparr>MSISDN = ''79167654322'', International = False\<rparr>"
  "NormalizeSender ''79161234567'' = Inr ''79161234567''"
  by (simp_all add: NormalizeDest_IsSender NormalizeSender_IsSender IsSender_def ascii_digit_def)

lemmas demo_campaign_defs = demo_row_def demo_recipient_def

lemma demo_campaign_sound: "campaign_ok demo_campaign" "db_ok demo_campaign" "campaign_ok demo_draft" "db_ok demo_draft"
  by (simp_all add: demo_campaign_def demo_draft_def demo_shop_ok)
    (simp_all add: demo_campaign_defs campaign_ok_def demo_shop_def demo_defs campaign_row_ok_def recipient_ok_def
      canonical_number_def maxRecipients_def)

definition demo_fanout_row :: fanout_row where
  "demo_fanout_row = \<lparr>fr_id = ''r1'', fr_campaign = ''k1'', fr_to = ''79167654321'', fr_status = RecipientPending,
     fr_sms_message = None, fr_created_at = 1, fr_client = ''c1'', fr_from = ''79161234567'', fr_text = ''hi'',
     fr_campaign_status = CampaignRunning\<rparr>"

lemma demo_rows: "fanout_rows demo_campaign = [demo_fanout_row]"
  by (simp add: fanout_rows_def demo_campaign_def demo_campaign_defs demo_fanout_row_def)

lemma demo_lock: "LockPendingRecipientsForClient (ce_free demo_cenv) ''c1'' fanoutPerClient demo_campaign = [demo_fanout_row]"
  unfolding LockPendingRecipientsForClient_def demo_rows
  by (simp add: demo_fanout_row_def demo_cenv_def fanoutPerClient_def)

lemma demo_campaign_checks: "enqueue_checks None (recipient_input demo_fanout_row \<lparr>MSISDN = ''79167654321'', International = False\<rparr>) demo_campaign =
    Inr (''79161234567'', \<lparr>MSISDN = ''79167654321'', International = False\<rparr>, ''hi'')"
  by (simp add: enqueue_checks_def recipient_input_def demo_fanout_row_def maxTextRunes_def RuneCountInString_def
      GetAssignedNumberForClient_def demo_campaign_def demo_shop_def)

lemma demo_campaign_Estimate:
  "Estimate 5 ''c1'' \<lparr>MSISDN = ''79167654321'', International = False\<rparr> ''hi'' demo_campaign = Inr demo_estimate"
  by (simp add: Estimate_def Let_def ResolveTariff_def GetClientTariff_def tariff_row_def ProductForDest_def
      mustPositive_def GetWalletByClientID_def trimCurrency_def demo_estimate_def demo_campaign_def demo_shop_def demo_defs)

lemma demo_campaign_enqueue:
  "\<exists>m d1. enqueue (demo_ids ''r1'') 5 None True (recipient_input demo_fanout_row \<lparr>MSISDN = ''79167654321'', International = False\<rparr>)
     demo_campaign demo_campaign = (Inr m, Live d1)"
  unfolding enqueue_def demo_campaign_checks
  by (simp add: recipient_input_def demo_fanout_row_def demo_campaign_Estimate)
    (simp add: InsertSmsMessage_def enqueue_params_def demo_estimate_def
      to_msisdn_chk_def ascii_digit_def demo_ids_def InsertSendJob_def demo_campaign_def demo_shop_def
      demo_defs wallet_eval)

lemma demo_fanout:
  "\<exists>d'. fanoutClient demo_cenv ''c1'' demo_campaign = Inr (1, d') \<and>
     list_ex (\<lambda>r. rp_campaign r = ''k1'' \<and> rp_to r = ''79167654321'' \<and> rp_status r = RecipientEnqueued) (campaign_recipients d')"
proof -
  obtain m d1 where e: "enqueue (demo_ids ''r1'') 5 None True (recipient_input demo_fanout_row \<lparr>MSISDN = ''79167654321'', International = False\<rparr>)
     demo_campaign demo_campaign = (Inr m, Live d1)" using demo_campaign_enqueue by blast
  have s: "stillRunnable demo_fanout_row sticky demo_campaign = Inr (True, sticky)" for sticky
    by (simp add: stillRunnable_def CampaignRunnableForFanout_def demo_fanout_row_def demo_campaign_def demo_campaign_defs demo_shop_def)
  have r: "fr_id demo_fanout_row = ''r1''" "fr_to demo_fanout_row = ''79167654321''" by (simp_all add: demo_fanout_row_def)
  have "fanoutClient demo_cenv ''c1'' demo_campaign = Inr (1, MarkRecipientEnqueued (msg_id m) ''r1'' d1)"
    unfolding fanoutClient_def demo_lock
    using e by (simp add: s r fanout_enqueue_def EnqueueWith_def demo_cenv_def)
  moreover have "campaign_recipients d1 = campaign_recipients demo_campaign" by (rule enqueue_campaign_frame(2) [OF e])
  ultimately show ?thesis
    by (simp add: MarkRecipientEnqueued_def mark_recipient_def demo_campaign_def demo_campaign_defs)
qed

text \<open>
  C33. Whatever the service, the worker and the other parts do, in any order, a number gets at
  most one message of a campaign, and gets it exactly when the recipient is marked as enqueued.
\<close>

theorem campaign_message_once:
  assumes "campaign_step\<^sup>*\<^sup>* d d'" "campaign_ok d" "db_ok d"
  shows "length (filter (\<lambda>m. msg_campaign m = Some k \<and> msg_to m = n) (sms_messages d')) =
    (if list_ex (\<lambda>r. rp_campaign r = k \<and> rp_to r = n \<and> rp_status r = RecipientEnqueued) (campaign_recipients d')
     then 1 else 0)"
proof -
  let ?M = "filter (\<lambda>m. msg_campaign m = Some k \<and> msg_to m = n) (sms_messages d')"
  have "campaigns_sound d'"
    using campaign_system.steps_keep [OF assms(1)] assms(2,3) by (simp add: campaigns_sound_def)
  then have ok: "campaign_ok d'" and dm: "distinct (map msg_id (sms_messages d'))"
    by (simp_all add: campaigns_sound_def db_ok_def links_ok_def)
  have "distinct (sms_messages d')" using dm by (simp add: distinct_map)
  then have le: "length ?M \<le> 1"
  proof (rule length_filter_le_1)
    fix x y assume "x \<in> set (sms_messages d')" "y \<in> set (sms_messages d')"
      "msg_campaign x = Some k \<and> msg_to x = n" "msg_campaign y = Some k \<and> msg_to y = n"
    then show "x = y"
      by (intro distinct_map_inj [OF dm]) (auto intro: one_message_per_number [OF ok])
  qed
  show ?thesis
  proof (cases "list_ex (\<lambda>r. rp_campaign r = k \<and> rp_to r = n \<and> rp_status r = RecipientEnqueued) (campaign_recipients d')")
    case True
    then obtain r where "r \<in> set (campaign_recipients d')" "rp_campaign r = k" "rp_to r = n" "rp_status r = RecipientEnqueued"
      by (auto simp: list_ex_iff)
    then obtain m where "m \<in> set ?M"
      using campaign_okD(5) [OF ok, of r] by (auto simp: recipient_ok_def has_message_def split: option.splits)
    then have "?M \<noteq> []" by (metis empty_iff list.set(1))
    then have "length ?M \<noteq> 0" by simp
    then have "length ?M = 1" using le by linarith
    then show ?thesis using True by (simp only: if_True)
  next
    case False
    have "m \<notin> set ?M" for m
      using campaign_okD(6) [OF ok, of m] campaign_okD(5) [OF ok] False
      by (fastforce simp: message_ok_def list_ex_iff recipient_ok_def)
    then have "?M = []" by (metis list.set_intros(1) neq_Nil_conv)
    then show ?thesis using False by (simp only: list.size if_False)
  qed
qed

theorem campaign_message_once_witness:
  "\<exists>d'. fanoutClient demo_cenv ''c1'' demo_campaign = Inr (1, d') \<and>
     length (filter (\<lambda>m. msg_campaign m = Some ''k1'' \<and> msg_to m = ''79167654321'') (sms_messages d')) = 1"
proof -
  obtain d' where d': "fanoutClient demo_cenv ''c1'' demo_campaign = Inr (1, d')"
    "list_ex (\<lambda>r. rp_campaign r = ''k1'' \<and> rp_to r = ''79167654321'' \<and> rp_status r = RecipientEnqueued) (campaign_recipients d')"
    using demo_fanout by blast
  have "campaign_step\<^sup>*\<^sup>* demo_campaign d'" using fan_out [OF d'(1)] by (rule r_into_rtranclp)
  then show ?thesis
    using d' campaign_message_once [OF _ demo_campaign_sound(1,2), of d' "''k1''" "''79167654321''"]
    by simp
qed

text \<open>
  C34. A campaign that has left the draft keeps its sender, its text and its recipients, its status
  only advances, and a recipient that is no longer pending never changes again, over any steps and
  over a whole tick of the worker.
\<close>

theorem campaign_runs_forward:
  assumes "campaign_step\<^sup>*\<^sup>* d d'" "campaign_ok d" "db_ok d"
  shows "campaign_forward d d' \<and> campaign_forward d (snd (snd (campaigns_Tick free now env lastAgg d')))"
proof -
  have s: "campaigns_sound d" using assms(2,3) by (simp add: campaigns_sound_def)
  note 1 = campaign_steps_forward [OF assms(1) s]
  from 1 campaign_steps_forward [OF campaigns_Tick_steps] show ?thesis by (blast intro: campaign_forward_trans)
qed

theorem campaign_runs_forward_witness:
  "\<exists>d'. fanoutClient demo_cenv ''c1'' demo_campaign = Inr (1, d') \<and> campaign_forward demo_campaign d' \<and>
     campaign_forward demo_campaign (snd (snd (campaigns_Tick (\<lambda>_. True) 6 (\<lambda>_. demo_cenv) None d')))"
proof -
  obtain d' where d': "fanoutClient demo_cenv ''c1'' demo_campaign = Inr (1, d')" using demo_fanout by blast
  have "campaign_step\<^sup>*\<^sup>* demo_campaign d'" using fan_out [OF d'] by (rule r_into_rtranclp)
  from campaign_runs_forward [OF this demo_campaign_sound(1,2)] d' show ?thesis by blast
qed

text \<open>
  C35. The report of a campaign is exact: the total is the number of its recipients, at most
  100000, the four states add up to it, the enqueued ones are as many as its messages, and a
  completed campaign has no pending recipient.
\<close>

theorem campaign_report_exact:
  assumes "campaign_step\<^sup>*\<^sup>* d d'" "campaign_ok d" "db_ok d" "c \<in> set (sms_campaigns d')"
  shows "\<exists>st. campaigns_Get (cp_client c) (cp_id c) d' = Inr (c, st) \<and> cs_total st = cp_total_count c
    \<and> cp_total_count c \<le> 100000
    \<and> cs_pending st + cs_enqueued st + cs_skipped st + cs_failed st = cs_total st
    \<and> cs_enqueued st = int (length (filter (\<lambda>m. msg_campaign m = Some (cp_id c)) (sms_messages d')))
    \<and> (cp_status c = CampaignCompleted \<longrightarrow> cs_pending st = 0)"
proof -
  have "campaigns_sound d'"
    using campaign_system.steps_keep [OF assms(1)] assms(2,3) by (simp add: campaigns_sound_def)
  then have ok: "campaign_ok d'" and db: "db_ok d'" by (simp_all add: campaigns_sound_def)
  have u: "x = c" if "x \<in> set (sms_campaigns d')" "cp_id x = cp_id c" for x
    by (rule distinct_map_inj [OF campaign_okD(1) [OF ok] that(1) assms(4) that(2)])
  obtain x xs where x: "filter (\<lambda>x. cp_id x = cp_id c \<and> cp_client x = cp_client c) (sms_campaigns d') = x # xs"
    using assms(4) by (cases "filter (\<lambda>x. cp_id x = cp_id c \<and> cp_client x = cp_client c) (sms_campaigns d')") (auto simp: filter_empty_conv)
  then have "x \<in> set (filter (\<lambda>x. cp_id x = cp_id c \<and> cp_client x = cp_client c) (sms_campaigns d'))" by simp
  then have "x = c" using u by simp
  then have g: "campaigns_Get (cp_client c) (cp_id c) d' = Inr (c, CampaignRecipientStats (cp_id c) d')"
    using x by (simp add: campaigns_Get_def campaigns_get_def GetCampaignForClient_def)
  note row = campaign_okD(4) [OF ok assms(4), unfolded campaign_row_ok_def]
  have p: "count_status RecipientPending (campaign_recipients_of (cp_id c) d') = 0" if "cp_status c = CampaignCompleted"
    using row that by (auto simp: count_status_def campaign_recipients_of_def filter_empty_conv)
  show ?thesis
    using row p enqueued_recipients [OF ok db, of "cp_id c"] count_statuses [of "campaign_recipients_of (cp_id c) d'"]
    by (intro exI [of _ "CampaignRecipientStats (cp_id c) d'"])
      (simp add: g CampaignRecipientStats_def Let_def maxRecipients_def campaign_recipients_of_def)
qed

theorem campaign_report_exact_witness:
  "\<exists>st. campaigns_Get ''c1'' ''k1'' demo_campaign = Inr (demo_row CampaignRunning, st) \<and> cs_total st = 2 \<and> cs_enqueued st = 0"
proof -
  have "demo_row CampaignRunning \<in> set (sms_campaigns demo_campaign)" by (simp add: demo_campaign_def)
  from campaign_report_exact [OF rtranclp.rtrancl_refl demo_campaign_sound(1,2) this]
  show ?thesis by (simp add: demo_campaign_defs demo_campaign_def demo_shop_def) (metis)
qed



text \<open>
  C37. A draft is started only if the wallet can pay for all of it: what the page loop of
  \<open>CampaignCost\<close> computes is the sum of the estimates with which the messages of the recipients will
  be enqueued, and it is at most the available balance.
\<close>

theorem start_is_affordable:
  assumes "campaigns_Start now bill cid kid d = Inr (c', d')" "campaign_ok d"
    "GetCampaignForClient kid cid d = Inr c" "cp_status c = CampaignDraft"
  shows "cp_status c' = CampaignQueued \<and>
    (\<exists>w cost. GetWalletByClientID cid d = Inr w \<and> CampaignCost now bill cid c d = Inr cost
      \<and> cc_total cost = sum_list (map (recipient_price now cid (cp_text c) d) (campaign_recipients_of kid d))
      \<and> cc_total cost \<le> w_available w)"
proof -
  have c: "c \<in> set (sms_campaigns d)" "cp_id c = kid"
    using first_row_OK [OF assms(3) [unfolded GetCampaignForClient_def]] by auto
  from assms have q: "QueueCampaign now kid cid d = Inr (c', d')" and a: "assertCampaignAfford now bill cid c d = None"
    by (auto simp: campaigns_Start_def GetCampaignForClientForUpdate_def split: if_splits sum.splits option.splits)
  have "int (length (campaign_recipients_of kid d)) < 2147483648"
    using campaign_okD(4) [OF assms(2) c(1)] c(2) by (simp add: campaign_row_ok_def campaign_recipients_of_def maxRecipients_def)
  then have "CampaignCost now bill cid c d = Inr cost \<Longrightarrow>
      cc_total cost = sum_list (map (recipient_price now cid (cp_text c) d) (campaign_recipients_of kid d))" for cost
    using CampaignCost_sum [of now bill cid c d cost] c(2) by simp
  moreover from a obtain w cost where "CampaignCost now bill cid c d = Inr cost" "GetWalletByClientID cid d = Inr w"
    "cc_total cost \<le> w_available w"
    by (auto simp: assertCampaignAfford_def AssertCanAfford_def not_less split: sum.splits if_splits)
  moreover have "cp_status c' = CampaignQueued"
    using q by (auto simp: QueueCampaign_def update_campaign_def split: list.splits)
  ultimately show ?thesis by blast
qed

lemma demo_draft_tariff:
  "\<exists>t. ResolveTariff 5 ''c1'' SmsDomestic demo_draft = Inr t \<and> rt_sell_price t = 2"
  by (simp add: ResolveTariff_def GetClientTariff_def tariff_row_def mustPositive_def GetWalletByClientID_def
      trimCurrency_def demo_draft_def demo_shop_def demo_defs Let_def)

lemma demo_draft_pages: "cost_pages ''k1'' 0 (0, 0) demo_draft = Inr (2, 0)"
proof -
  have r: "ordered_recipients ''k1'' demo_draft =
      [demo_recipient ''r1'' ''79167654321'' RecipientPending, demo_recipient ''r2'' ''79167654322'' RecipientPending]"
    by (simp add: ordered_recipients_def campaign_recipients_of_def demo_draft_def demo_recipient_def)
  show ?thesis using cost_pages_all [of 0 "''k1''" demo_draft "(0, 0)"] by (simp add: r demo_recipient_def)
qed

lemma demo_start: "\<exists>c' d'. campaigns_Start 5 True ''c1'' ''k1'' demo_draft = Inr (c', d')"
proof -
  obtain t where t: "ResolveTariff 5 ''c1'' SmsDomestic demo_draft = Inr t" "rt_sell_price t = 2"
    using demo_draft_tariff by blast
  have "assertCampaignAfford 5 True ''c1'' (demo_row CampaignDraft) demo_draft = None"
    by (simp add: assertCampaignAfford_def CampaignCost_def Let_def demo_row_def demo_draft_pages bucketCost_def t)
      (simp add: AssertCanAfford_def GetWalletByClientID_def demo_draft_def demo_shop_def demo_defs)
  moreover have "GetCampaignForClient ''k1'' ''c1'' demo_draft = Inr (demo_row CampaignDraft)"
    "cp_status (demo_row CampaignDraft) = CampaignDraft" "cp_total_count (demo_row CampaignDraft) = 2"
    "cp_from (demo_row CampaignDraft) = ''79161234567''"
    by (simp_all add: GetCampaignForClient_def demo_draft_def demo_row_def)
  moreover have "\<exists>n. GetAssignedNumberForClient ''79161234567'' ''c1'' demo_draft = Inr n"
    by (simp add: GetAssignedNumberForClient_def demo_draft_def demo_shop_def)
  moreover have "\<exists>c' d'. QueueCampaign 5 ''k1'' ''c1'' demo_draft = Inr (c', d')"
    by (simp add: QueueCampaign_def update_campaign_def demo_draft_def demo_row_def)
  ultimately show ?thesis by (auto simp: campaigns_Start_def GetCampaignForClientForUpdate_def)
qed

theorem start_is_affordable_witness:
  "\<exists>c' d' w. campaigns_Start 5 True ''c1'' ''k1'' demo_draft = Inr (c', d') \<and> cp_status c' = CampaignQueued \<and>
     GetWalletByClientID ''c1'' demo_draft = Inr w \<and>
     sum_list (map (recipient_price 5 ''c1'' ''hi'' demo_draft) (campaign_recipients_of ''k1'' demo_draft)) \<le> w_available w"
proof -
  obtain c' d' where s: "campaigns_Start 5 True ''c1'' ''k1'' demo_draft = Inr (c', d')" using demo_start by blast
  have g: "GetCampaignForClient ''k1'' ''c1'' demo_draft = Inr (demo_row CampaignDraft)" "cp_text (demo_row CampaignDraft) = ''hi''"
    "cp_status (demo_row CampaignDraft) = CampaignDraft"
    by (simp_all add: GetCampaignForClient_def demo_draft_def demo_row_def)
  show ?thesis using s start_is_affordable [OF s demo_campaign_sound(3) g(1,3)] g(2) by auto
qed

end
