(* ===== verification/RunexisCallback.thy ===== *)
theory RunexisCallback
  imports WebhookSigning
begin

text \<open>
  \<open>internal/runexis/callback.go\<close>: a delivery report or an inbound message of the provider, read
  from JSON, from a form or from the query of the request. Arguments are \<open>encoding/json\<close>, as the
  value of a text and the \<open>data\<close> field of the wire envelope, and \<open>strings.ToLower\<close>.
\<close>

section \<open>The library\<close>

text \<open>What \<open>json.Unmarshal\<close> stores in an \<open>any\<close>; the keys of an object are distinct.\<close>

datatype jsonv =
    JvNull
  | JvBool bool
  | JvNum rat
  | JvStr string
  | JvArr "jsonv list"
  | JvObj "(string \<times> jsonv) list"

text \<open>The conversion of a \<open>float64\<close> in range to an integer cuts the fraction.\<close>

definition int_of_float :: "rat \<Rightarrow> int" where
  "int_of_float x = (if x < 0 then \<lceil>x\<rceil> else \<lfloor>x\<rfloor>)"

definition ParseBool :: "string \<Rightarrow> bool option" where
  "ParseBool s =
     (if s \<in> set [''1'', ''t'', ''T'', ''TRUE'', ''true'', ''True''] then Some True
      else if s \<in> set [''0'', ''f'', ''F'', ''FALSE'', ''false'', ''False''] then Some False
      else None)"

text \<open>\<open>url.QueryUnescape\<close> and \<open>url.ParseQuery\<close>, whose error is \<open>None\<close>.\<close>

definition hex_value :: "char \<Rightarrow> nat option" where
  "hex_value c =
     (let n = of_char c in
      if 48 \<le> n \<and> n \<le> 57 then Some (n - 48)
      else if 97 \<le> n \<and> n \<le> 102 then Some (n - 87)
      else if 65 \<le> n \<and> n \<le> 70 then Some (n - 55)
      else None)"

fun QueryUnescape :: "string \<Rightarrow> string option" where
  "QueryUnescape [] = Some []"
| "QueryUnescape (c # cs) =
     (if c = CHR ''%'' then
        (case cs of
           a # b # rest \<Rightarrow>
             (case (hex_value a, hex_value b) of
                (Some x, Some y) \<Rightarrow> map_option (\<lambda>s. char_of (16 * x + y) # s) (QueryUnescape rest)
              | _ \<Rightarrow> None)
         | _ \<Rightarrow> None)
      else map_option (\<lambda>s. (if c = CHR ''+'' then CHR '' '' else c) # s) (QueryUnescape cs))"

definition query_pair :: "string \<Rightarrow> (string \<times> string) option" where
  "query_pair part =
     (let (key, val) = (case strings_Cut (CHR ''='') part of None \<Rightarrow> (part, []) | Some kv \<Rightarrow> kv) in
      case (QueryUnescape key, QueryUnescape val) of (Some k, Some v) \<Rightarrow> Some (k, v) | _ \<Rightarrow> None)"

fun query_pairs :: "string list \<Rightarrow> (string \<times> string) list option" where
  "query_pairs [] = Some []"
| "query_pairs (part # parts) =
     (if CHR '';'' \<in> set part then None
      else if part = [] then query_pairs parts
      else
        (case query_pair part of
           None \<Rightarrow> None | Some kv \<Rightarrow> map_option (\<lambda>kvs. kv # kvs) (query_pairs parts)))"

definition ParseQuery :: "string \<Rightarrow> (string \<times> string) list option" where
  "ParseQuery q = (if q = [] then Some [] else query_pairs (strings_Split (CHR ''&'') q))"

section \<open>Fields\<close>

fun firstString :: "(string \<times> jsonv) list \<Rightarrow> string list \<Rightarrow> string" where
  "firstString m [] = []"
| "firstString m (k # ks) =
     (case map_of m k of
        Some (JvStr t) \<Rightarrow> if TrimSpace t \<noteq> [] then TrimSpace t else firstString m ks
      | Some (JvNum x) \<Rightarrow> itoa (int_of_float x)
      | _ \<Rightarrow> firstString m ks)"

fun firstBool :: "(string \<times> jsonv) list \<Rightarrow> string list \<Rightarrow> bool" where
  "firstBool m [] = False"
| "firstBool m (k # ks) =
     (case map_of m k of
        Some (JvBool b) \<Rightarrow> b
      | Some (JvStr t) \<Rightarrow> (case ParseBool (TrimSpace t) of Some b \<Rightarrow> b | None \<Rightarrow> firstBool m ks)
      | Some (JvNum x) \<Rightarrow> x \<noteq> 0
      | _ \<Rightarrow> firstBool m ks)"

fun firstIntOK :: "(string \<times> jsonv) list \<Rightarrow> string list \<Rightarrow> int option" where
  "firstIntOK m [] = None"
| "firstIntOK m (k # ks) =
     (case map_of m k of
        Some (JvNum x) \<Rightarrow> Some (int_of_float x)
      | Some (JvStr t) \<Rightarrow> (case ParseInt (TrimSpace t) of Some n \<Rightarrow> Some n | None \<Rightarrow> firstIntOK m ks)
      | _ \<Rightarrow> firstIntOK m ks)"

definition firstInt :: "(string \<times> jsonv) list \<Rightarrow> string list \<Rightarrow> int" where
  "firstInt m ks = (case firstIntOK m ks of None \<Rightarrow> 0 | Some n \<Rightarrow> n)"

section \<open>Callbacks\<close>

record callback =
  rc_sms_id :: string
  rc_from :: string
  rc_to :: string
  rc_text :: string
  rc_incoming :: bool
  rc_pdu :: int
  rc_sent :: bool
  rc_delivered :: bool
  rc_failed :: bool
  rc_status :: string

definition empty_callback :: "callback \<Rightarrow> bool" where
  "empty_callback row =
     (rc_sms_id row = [] \<and> rc_from row = [] \<and> rc_to row = [] \<and> rc_text row = [] \<and> rc_status row = []
      \<and> \<not> rc_sent row \<and> \<not> rc_delivered row \<and> \<not> rc_failed row)"

definition message_status :: "int \<Rightarrow> callback \<Rightarrow> callback" where
  "message_status n row =
     (let row = row\<lparr>rc_status := itoa n\<rparr> in
      if n = 0 \<or> n = 2 then row\<lparr>rc_delivered := True, rc_sent := True, rc_failed := False\<rparr>
      else if n = 1 \<or> n = 3 then row\<lparr>rc_failed := True, rc_delivered := False\<rparr>
      else row)"

definition callbackFromMap :: "(string \<times> jsonv) list \<Rightarrow> callback option" where
  "callbackFromMap m =
     (if m = [] then None
      else
        let row = \<lparr>rc_sms_id = firstString m [''sms_id'', ''id'', ''message_id'', ''smsId''],
              rc_from = firstString m [''sender_number'', ''from_number'', ''from'', ''from_msisdn''],
              rc_to = firstString m [''receiver_number'', ''to_number'', ''to'', ''to_msisdn''],
              rc_text = firstString m [''message'', ''text'', ''body''],
              rc_incoming = firstBool m [''incoming''], rc_pdu = firstInt m [''pdu''],
              rc_sent = firstBool m [''sent''], rc_delivered = firstBool m [''delivered''],
              rc_failed = firstBool m [''failed''],
              rc_status = firstString m [''status'', ''state'', ''dlr_status'']\<rparr>;
            row = (case firstIntOK m [''message_status''] of None \<Rightarrow> row | Some n \<Rightarrow> message_status n row)
        in if empty_callback row then None else Some row)"

definition callbackFromValues :: "(string \<times> string) list \<Rightarrow> callback option" where
  "callbackFromValues v = callbackFromMap (map (\<lambda>(k, s). (k, JvStr s)) v)"

text \<open>
  \<open>callbacksFromRaw\<close> on the value of the text. A nested \<open>data\<close> is rendered and read again by the
  code, which gives the same value.
\<close>

definition array_callbacks :: "jsonv list \<Rightarrow> callback list option" where
  "array_callbacks vs =
     (if list_all (\<lambda>v. case v of JvObj _ \<Rightarrow> True | JvNull \<Rightarrow> True | _ \<Rightarrow> False) vs
      then
        let rows = concat (map (\<lambda>v. case v of
             JvObj m \<Rightarrow> (case callbackFromMap m of None \<Rightarrow> [] | Some row \<Rightarrow> [row]) | _ \<Rightarrow> []) vs)
        in if length rows > 0 then Some rows else None
      else None)"

lemma map_of_size: "map_of m k = Some v \<Longrightarrow> size v < size (JvObj m)"
  by (induction m) (auto split: if_splits)

function value_callbacks :: "jsonv \<Rightarrow> callback list option" where
  "value_callbacks (JvArr vs) = array_callbacks vs"
| "value_callbacks (JvObj m) =
     (let own = map_option (\<lambda>row. [row]) (callbackFromMap m) in
      case map_of m ''data'' of
        None \<Rightarrow> own
      | Some nested \<Rightarrow> (case value_callbacks nested of None \<Rightarrow> own | Some rows \<Rightarrow> Some rows))"
| "value_callbacks JvNull = None"
| "value_callbacks (JvBool b) = None"
| "value_callbacks (JvNum x) = None"
| "value_callbacks (JvStr s) = None"
  by pat_completeness auto
termination
  by (relation "measure size") (auto dest: map_of_size)

definition callbacksFromRaw :: "(string \<Rightarrow> jsonv option) \<Rightarrow> string \<Rightarrow> callback list option" where
  "callbacksFromRaw unmarshal raw =
     (let trim = TrimSpace raw in
      if trim = [] then None
      else (case unmarshal trim of None \<Rightarrow> None | Some v \<Rightarrow> value_callbacks v))"

text \<open>\<open>envelope\<close> is the field \<open>Data\<close> of the text read as a \<open>wireEnvelope\<close>, \<open>None\<close> for an error.\<close>

definition parseJSONCallbacks ::
    "(string \<Rightarrow> jsonv option) \<Rightarrow> (string \<Rightarrow> string option) \<Rightarrow> string \<Rightarrow> callback list" where
  "parseJSONCallbacks unmarshal envelope body =
     (let trim = TrimSpace body in
      if trim = [] then []
      else
        (case callbacksFromRaw unmarshal trim of
           Some rows \<Rightarrow> rows
         | None \<Rightarrow>
             (case envelope trim of
                None \<Rightarrow> []
              | Some data \<Rightarrow>
                  if TrimSpace data = [] then []
                  else (case callbacksFromRaw unmarshal data of None \<Rightarrow> [] | Some rows \<Rightarrow> rows))))"

definition normalizeCallback :: "(string \<Rightarrow> string) \<Rightarrow> callback \<Rightarrow> callback" where
  "normalizeCallback ToLower row =
     (let st = ToLower (TrimSpace (rc_status row));
          row = row\<lparr>rc_status := st\<rparr>;
          row = (if st \<in> set [''delivered'', ''delivery'', ''ok'', ''success'']
                 then row\<lparr>rc_delivered := True, rc_sent := True\<rparr>
                 else if st \<in> set [''sent'', ''accepted''] then row\<lparr>rc_sent := True\<rparr>
                 else if st \<in> set [''failed'', ''fail'', ''undelivered'', ''not_delivered'', ''error'']
                 then row\<lparr>rc_failed := True\<rparr>
                 else row)
      in if rc_delivered row then row\<lparr>rc_sent := True, rc_failed := False\<rparr> else row)"

definition mergeCallback :: "callback list \<Rightarrow> callback \<Rightarrow> callback list" where
  "mergeCallback existing extra =
     (case existing of
        [] \<Rightarrow> [extra]
      | dst # rest \<Rightarrow>
          \<lparr>rc_sms_id = (if rc_sms_id dst = [] then rc_sms_id extra else rc_sms_id dst),
           rc_from = (if rc_from dst = [] then rc_from extra else rc_from dst),
           rc_to = (if rc_to dst = [] then rc_to extra else rc_to dst),
           rc_text = (if rc_text dst = [] then rc_text extra else rc_text dst),
           rc_incoming = (rc_incoming dst \<or> rc_incoming extra),
           rc_pdu = (if rc_pdu dst = 0 then rc_pdu extra else rc_pdu dst),
           rc_sent = (rc_sent dst \<or> rc_sent extra),
           rc_delivered = (rc_delivered dst \<or> rc_delivered extra),
           rc_failed = (rc_failed dst \<or> rc_failed extra),
           rc_status = (if rc_status dst = [] then rc_status extra else rc_status dst)\<rparr> # rest)"

record parse_lib =
  pl_unmarshal :: "string \<Rightarrow> jsonv option"
  pl_envelope :: "string \<Rightarrow> string option"
  pl_lower :: "string \<Rightarrow> string"

text \<open>The rows read from the body: from JSON or else from a form.\<close>

definition body_callbacks :: "parse_lib \<Rightarrow> string \<Rightarrow> string \<Rightarrow> callback list" where
  "body_callbacks lib contentType body =
     (let rows = parseJSONCallbacks (pl_unmarshal lib) (pl_envelope lib) body in
      if length rows > 0 then rows
      else if strings_Contains (pl_lower lib contentType) ''application/x-www-form-urlencoded''
      then (case ParseQuery (TrimSpace body) of
              None \<Rightarrow> []
            | Some vals \<Rightarrow> (case callbackFromValues vals of None \<Rightarrow> [] | Some row \<Rightarrow> [row]))
      else [])"

definition ParseCallbacks :: "parse_lib \<Rightarrow> string \<Rightarrow> string \<Rightarrow> string \<Rightarrow> callback list" where
  "ParseCallbacks lib query contentType body =
     (let out = body_callbacks lib contentType body;
          out = (if query = [] then out
                 else case ParseQuery query of
                    None \<Rightarrow> out
                  | Some vals \<Rightarrow> (case callbackFromValues vals of None \<Rightarrow> out | Some row \<Rightarrow> mergeCallback out row));
          out = map (normalizeCallback (pl_lower lib)) out
      in filter (\<lambda>row. \<not> empty_callback row) out)"

section \<open>Facts\<close>

text \<open>A callback never says both that a message was delivered and that it failed.\<close>

lemma normalizeCallback_final:
  "\<exists>r. normalizeCallback f row = (if rc_delivered r then r\<lparr>rc_sent := True, rc_failed := False\<rparr> else r)"
  unfolding normalizeCallback_def Let_def by blast

lemma ParseCallbacks_consistent:
  assumes "row \<in> set (ParseCallbacks lib q ct body)"
  shows "\<not> (rc_delivered row \<and> rc_failed row) \<and> (rc_delivered row \<longrightarrow> rc_sent row) \<and> \<not> empty_callback row"
proof -
  from assms obtain x where x: "row = normalizeCallback (pl_lower lib) x" "\<not> empty_callback row"
    unfolding ParseCallbacks_def Let_def by auto
  obtain r where "row = (if rc_delivered r then r\<lparr>rc_sent := True, rc_failed := False\<rparr> else r)"
    using normalizeCallback_final [of "pl_lower lib" x] x(1) by blast
  then show ?thesis using x(2) by (cases "rc_delivered r") simp_all
qed

lemma normalizeCallback_update:
  "\<exists>dl sn fl. normalizeCallback f row =
     row\<lparr>rc_status := f (TrimSpace (rc_status row)), rc_delivered := dl, rc_sent := sn, rc_failed := fl\<rparr>"
proof -
  have "\<exists>dl sn fl. (let r = row\<lparr>rc_status := st\<rparr>;
        r = (if a then r\<lparr>rc_delivered := True, rc_sent := True\<rparr> else if b then r\<lparr>rc_sent := True\<rparr>
             else if c then r\<lparr>rc_failed := True\<rparr> else r)
      in if rc_delivered r then r\<lparr>rc_sent := True, rc_failed := False\<rparr> else r) =
      row\<lparr>rc_status := st, rc_delivered := dl, rc_sent := sn, rc_failed := fl\<rparr>" for a b c :: bool and st
    by (cases row, cases a; cases b; cases c) (auto simp: Let_def)
  then show ?thesis unfolding normalizeCallback_def Let_def by blast
qed

lemma normalizeCallback_fields [simp]:
  "rc_sms_id (normalizeCallback f row) = rc_sms_id row" "rc_from (normalizeCallback f row) = rc_from row"
  "rc_to (normalizeCallback f row) = rc_to row" "rc_text (normalizeCallback f row) = rc_text row"
  "rc_status (normalizeCallback f row) = f (TrimSpace (rc_status row))"
  using normalizeCallback_update [of f row] by auto

end
