(* ===== verification/Ingress.thy ===== *)
theory Ingress
  imports RunexisCallback Webhooks OutboxRun
begin

text \<open>
  \<open>internal/ingress\<close> and \<open>internal/http/ingress/handler.go\<close>: the provider calls the service with
  delivery reports and inbound messages. The handler stores the raw request and answers; the worker
  reads the stored events and applies them to the messages.
\<close>

section \<open>Events\<close>

datatype callback_kind = CallbackKindDlr | CallbackKindMo

text \<open>The column \<open>parsed\<close>: the JSON objects that the worker stores.\<close>

datatype event_result = Skipped string | Result string "callback list" nat

record callback_event =
  ev_id :: uuid
  ev_kind :: callback_kind
  ev_idempotency_key :: string
  ev_method :: string
  ev_path :: string
  ev_query :: "string option"
  ev_headers :: string
  ev_raw_body :: string
  ev_content_type :: "string option"
  ev_parsed :: "event_result option"
  ev_sms_message :: "uuid option"
  ev_processed_at :: "time option"
  ev_created_at :: time

record ingress_state =
  is_db :: db
  is_events :: "callback_event list"

record event_params =
  ep_kind :: callback_kind
  ep_idempotency_key :: string
  ep_method :: string
  ep_path :: string
  ep_query :: "string option"
  ep_headers :: string
  ep_raw_body :: string
  ep_content_type :: "string option"

definition opt_text :: "string option \<Rightarrow> bool" where
  "opt_text s = (case s of None \<Rightarrow> True | Some t \<Rightarrow> pg_text t)"

definition InsertCallbackEvent ::
    "uuid \<Rightarrow> time \<Rightarrow> event_params \<Rightarrow> callback_event list \<Rightarrow> (callback_event \<times> callback_event list) result" where
  "InsertCallbackEvent new_id now p evs =
     (if \<not> (pg_text (ep_method p) \<and> pg_text (ep_path p) \<and> opt_text (ep_query p) \<and> opt_text (ep_content_type p))
      then Inl (PgError CharacterNotInRepertoire)
      else if ep_idempotency_key p \<in> set (map ev_idempotency_key evs) then Inl NoRows
      else if new_id \<in> set (map ev_id evs) then Inl (PgError UniqueViolation)
      else
        let e = \<lparr>ev_id = new_id, ev_kind = ep_kind p, ev_idempotency_key = ep_idempotency_key p,
            ev_method = ep_method p, ev_path = ep_path p, ev_query = ep_query p, ev_headers = ep_headers p,
            ev_raw_body = ep_raw_body p, ev_content_type = ep_content_type p, ev_parsed = None,
            ev_sms_message = None, ev_processed_at = None, ev_created_at = now\<rparr>
        in Inr (e, evs @ [e]))"

definition GetCallbackEventByID :: "uuid \<Rightarrow> callback_event list \<Rightarrow> callback_event result" where
  "GetCallbackEventByID eid evs = first_row (filter (\<lambda>e. ev_id e = eid) evs)"

definition ListUnprocessedCallbackEvents :: "nat \<Rightarrow> callback_event list \<Rightarrow> callback_event list" where
  "ListUnprocessedCallbackEvents limit evs =
     take limit (sort_key ev_created_at (filter (\<lambda>e. ev_processed_at e = None) evs))"

text \<open>A \<open>jsonb\<close> value has no string with U+0000; \<open>json.Marshal\<close> renders a zero byte as that escape.\<close>

definition no_nul :: "string \<Rightarrow> bool" where
  "no_nul s = list_all (\<lambda>c. of_char c \<noteq> (0::nat)) s"

definition row_storable :: "callback \<Rightarrow> bool" where
  "row_storable row =
     (no_nul (rc_sms_id row) \<and> no_nul (rc_from row) \<and> no_nul (rc_to row) \<and> no_nul (rc_text row)
      \<and> no_nul (rc_status row))"

fun result_storable :: "event_result \<Rightarrow> bool" where
  "result_storable (Skipped s) = no_nul s"
| "result_storable (Result s rows n) = (no_nul s \<and> list_all row_storable rows)"

definition MarkCallbackProcessed ::
    "time \<Rightarrow> event_result \<Rightarrow> uuid option \<Rightarrow> uuid \<Rightarrow> callback_event list \<Rightarrow> callback_event list result" where
  "MarkCallbackProcessed now parsed mid eid evs =
     (if \<not> result_storable parsed then Inl (PgError UntranslatableCharacter)
      else Inr (update_where (\<lambda>e. ev_id e = eid \<and> ev_processed_at e = None)
        (\<lambda>e. e\<lparr>ev_processed_at := Some now, ev_parsed := Some parsed, ev_sms_message := mid\<rparr>) evs))"

definition GetSmsMessageByProviderID :: "string option \<Rightarrow> db \<Rightarrow> sms_message result" where
  "GetSmsMessageByProviderID pid d =
     first_row (filter (\<lambda>m. pid \<noteq> None \<and> msg_provider_sms_id m = pid) (sms_messages d))"

section \<open>Requests\<close>

definition MaxBody :: nat where
  "MaxBody = 1048576"

definition ascii_upper :: "string \<Rightarrow> string" where
  "ascii_upper s = map (\<lambda>c. if 97 \<le> (of_char c :: nat) \<and> (of_char c :: nat) \<le> 122
      then char_of ((of_char c :: nat) - 32) else c) s"

text \<open>\<open>sha\<close> is SHA-256 in hexadecimal. The method is \<open>GET\<close>, \<open>POST\<close> or \<open>PUT\<close>.\<close>

definition IdempotencyKey :: "(string \<Rightarrow> string) \<Rightarrow> string \<Rightarrow> string \<Rightarrow> string \<Rightarrow> string \<Rightarrow> string" where
  "IdempotencyKey sha meth path query body =
     sha (ascii_upper meth @ [CHR 0x0A] @ path @ [CHR 0x0A] @ query @ [CHR 0x0A] @ body)"

definition HashToken :: "(string \<Rightarrow> string) \<Rightarrow> string \<Rightarrow> string" where
  "HashToken sha token = sha token"

definition TokenMatch :: "(string \<Rightarrow> string) \<Rightarrow> string \<Rightarrow> string \<Rightarrow> bool" where
  "TokenMatch sha storedHash token =
     (if storedHash = [] \<or> token = [] then False
      else
        let got = HashToken sha token in
        if length got \<noteq> length storedHash then False else got = storedHash)"

definition RedactPath :: "string \<Rightarrow> string" where
  "RedactPath path =
     (let prefix = ''/internal/runexis/'' in
      if \<not> HasPrefix path prefix then path
      else
        (case strings_Cut (CHR ''/'') (TrimPrefix path prefix) of
           None \<Rightarrow> prefix @ ''*''
         | Some (kind, _) \<Rightarrow>
             if kind \<noteq> ''dlr'' \<and> kind \<noteq> ''mo'' then prefix @ ''*'' else prefix @ kind @ ''/*''))"

text \<open>\<open>marshal\<close> renders the headers as JSON, \<open>None\<close> for an error.\<close>

definition SanitizeHeaders ::
    "(string \<Rightarrow> string) \<Rightarrow> ((string \<times> string list) list \<Rightarrow> string option) \<Rightarrow> (string \<times> string list) list \<Rightarrow> string" where
  "SanitizeHeaders ToLower marshal h =
     (case marshal (filter (\<lambda>(k, _). ToLower k \<noteq> ''cookie'' \<and> ToLower k \<noteq> ''authorization'') h) of
        None \<Rightarrow> ''{}'' | Some b \<Rightarrow> b)"

definition KindFromPath :: "(string \<Rightarrow> string) \<Rightarrow> string \<Rightarrow> callback_kind option" where
  "KindFromPath ToLower kind =
     (if ToLower kind = ''dlr'' then Some CallbackKindDlr
      else if ToLower kind = ''mo'' then Some CallbackKindMo
      else None)"

text \<open>The body as far as the limit lets it be read; \<open>None\<close> for a failing read.\<close>

definition ReadBody :: "string option \<Rightarrow> string option" where
  "ReadBody body = map_option (take (MaxBody + 1)) body"

record http_request =
  hr_method :: string
  hr_path :: string
  hr_kind :: string
  hr_token :: string
  hr_query :: string
  hr_content_type :: string
  hr_headers :: "(string \<times> string list) list"
  hr_body :: "string option"

text \<open>
  \<open>he_stored\<close> is the stored hash of the token, \<open>he_allowed\<close> the verdict of the rate limiter, true if it
  is absent or fails.
\<close>

record capture_env =
  he_sha :: "string \<Rightarrow> string"
  he_lower :: "string \<Rightarrow> string"
  he_marshal :: "(string \<times> string list) list \<Rightarrow> string option"
  he_stored :: "string result"
  he_allowed :: bool
  he_event_id :: uuid
  he_clock :: time

definition capture_params :: "capture_env \<Rightarrow> callback_kind \<Rightarrow> http_request \<Rightarrow> string \<Rightarrow> event_params" where
  "capture_params env kind r body =
     \<lparr>ep_kind = kind,
      ep_idempotency_key = IdempotencyKey (he_sha env) (hr_method r) (hr_path r) (hr_query r) body,
      ep_method = hr_method r, ep_path = RedactPath (hr_path r),
      ep_query = (if hr_query r \<noteq> [] then Some (hr_query r) else None),
      ep_headers = SanitizeHeaders (he_lower env) (he_marshal env) (hr_headers r), ep_raw_body = body,
      ep_content_type = (if TrimSpace (hr_content_type r) \<noteq> [] then Some (TrimSpace (hr_content_type r)) else None)\<rparr>"

text \<open>The HTTP status of the answer and the events afterwards.\<close>

definition Capture :: "capture_env \<Rightarrow> http_request \<Rightarrow> callback_event list \<Rightarrow> nat \<times> callback_event list" where
  "Capture env r evs =
     (if hr_method r \<notin> set [''GET'', ''POST'', ''PUT''] then (405, evs)
      else
        (case KindFromPath (he_lower env) (hr_kind r) of
           None \<Rightarrow> (404, evs)
         | Some kind \<Rightarrow>
        (case he_stored env of
           Inl _ \<Rightarrow> (404, evs)
         | Inr stored \<Rightarrow>
           if stored = [] \<or> \<not> TokenMatch (he_sha env) stored (hr_token r) then (404, evs)
           else if \<not> he_allowed env then (429, evs)
           else
             (case ReadBody (hr_body r) of
                None \<Rightarrow> (400, evs)
              | Some body \<Rightarrow>
                  if length body > MaxBody then (413, evs)
                  else
                    (case InsertCallbackEvent (he_event_id env) (he_clock env) (capture_params env kind r body) evs of
                       Inl e \<Rightarrow> if e = NoRows then (200, evs) else (500, evs)
                     | Inr (_, evs') \<Rightarrow> (200, evs'))))))"

section \<open>The worker\<close>

text \<open>What the worker has: the parser, the billing service, and the ids it generates for the row of an event.\<close>

record ingress_env =
  ie_lib :: parse_lib
  ie_bill :: bool
  ie_message_id :: "uuid \<Rightarrow> nat \<Rightarrow> uuid"
  ie_tx_id :: "uuid \<Rightarrow> nat \<Rightarrow> uuid"

definition ingress_capture :: "ingress_env \<Rightarrow> uuid \<Rightarrow> time \<Rightarrow> uuid \<Rightarrow> db \<Rightarrow> db" where
  "ingress_capture env i now mid d =
     (if \<not> ie_bill env then d
      else (case CaptureForMessage i now mid d of Inl _ \<Rightarrow> d | Inr d' \<Rightarrow> d'))"

definition callback_pdu :: "callback \<Rightarrow> int option" where
  "callback_pdu row = (if rc_pdu row > 0 then Some (int32_of (rc_pdu row)) else None)"

text \<open>The statements fail on text that PostgreSQL does not take.\<close>

definition dlr_update :: "time \<Rightarrow> callback \<Rightarrow> sms_message \<Rightarrow> db \<Rightarrow> db result" where
  "dlr_update now row msg d =
     (if rc_failed row then
        let st = (if rc_status row = [] then ''failed'' else rc_status row) in
        if \<not> pg_text st then Inl (PgError CharacterNotInRepertoire)
        else UpdateSmsMessageFailed now (Some st) (msg_id msg) d
      else if \<not> pg_text (rc_status row) then Inl (PgError CharacterNotInRepertoire)
      else UpdateSmsMessageFromStatistic now (Some (rc_sms_id row))
        (if rc_status row \<noteq> [] then Some (rc_status row) else None) (callback_pdu row)
        (rc_delivered row) (rc_sent row) (msg_id msg) d)"

definition applyDLR :: "ingress_env \<Rightarrow> uuid \<Rightarrow> time \<Rightarrow> callback \<Rightarrow> db \<Rightarrow> (uuid option \<times> bool) \<times> db" where
  "applyDLR env i now row d =
     (if rc_sms_id row = [] then ((None, False), d)
      else
        (case GetSmsMessageByProviderID (Some (rc_sms_id row)) d of
           Inl _ \<Rightarrow> ((None, False), d)
         | Inr msg \<Rightarrow>
             (case dlr_update now row msg d of
                Inl e \<Rightarrow>
                  if e = NoRows then ((Some (msg_id msg), True), ingress_capture env i now (msg_id msg) d)
                  else ((None, False), d)
              | Inr d' \<Rightarrow> ((Some (msg_id msg), True), ingress_capture env i now (msg_id msg) d'))))"

definition applyMO :: "uuid \<Rightarrow> time \<Rightarrow> callback \<Rightarrow> db \<Rightarrow> (uuid option \<times> bool) \<times> db" where
  "applyMO i now row d =
     (let to = Canonical (rc_to row); frm = Canonical (rc_from row) in
      if to = [] \<or> frm = [] then ((None, False), d)
      else
        let cid = (case GetOpenAssignmentByMSISDN to d of Inl _ \<Rightarrow> None | Inr a \<Rightarrow> Some (na_client a));
            sid = (if rc_sms_id row \<noteq> [] then Some (rc_sms_id row) else None);
            ins = (if \<not> (pg_text (rc_text row) \<and> opt_text sid) then Inl (PgError CharacterNotInRepertoire)
                   else InsertInboundMessage i now cid frm to (rc_text row) sid (callback_pdu row) d)
        in (case ins of
              Inl e \<Rightarrow>
                if e = NoRows then
                  (case (if sid = None then Inl NoRows else GetSmsMessageByProviderID sid d) of
                     Inl _ \<Rightarrow> ((None, True), d)
                   | Inr existing \<Rightarrow> ((Some (msg_id existing), True), d))
                else ((None, False), d)
            | Inr (msg, d') \<Rightarrow> ((Some (msg_id msg), True), d')))"

definition ingress_apply ::
    "ingress_env \<Rightarrow> uuid \<Rightarrow> nat \<Rightarrow> time \<Rightarrow> callback_kind \<Rightarrow> callback \<Rightarrow> db \<Rightarrow> (uuid option \<times> bool) \<times> db" where
  "ingress_apply env eid k now kind row d =
     (case kind of
        CallbackKindDlr \<Rightarrow> applyDLR env (ie_tx_id env eid k) now row d
      | CallbackKindMo \<Rightarrow> applyMO (ie_message_id env eid k) now row d)"

text \<open>The loop over the rows: the first message linked, how many rows were applied.\<close>

fun apply_rows ::
    "ingress_env \<Rightarrow> uuid \<Rightarrow> nat \<Rightarrow> time \<Rightarrow> callback_kind \<Rightarrow> callback list \<Rightarrow> uuid option \<Rightarrow> nat \<Rightarrow> db \<Rightarrow>
     uuid option \<times> nat \<times> db" where
  "apply_rows env eid k now kind [] linked applied d = (linked, applied, d)"
| "apply_rows env eid k now kind (row # rows) linked applied d =
     (case ingress_apply env eid k now kind row d of ((mid, ok), d') \<Rightarrow>
      apply_rows env eid (Suc k) now kind rows
        (if ok \<and> linked = None then mid else linked) (if ok then Suc applied else applied) d')"

definition event_rows :: "parse_lib \<Rightarrow> callback_event \<Rightarrow> callback list" where
  "event_rows lib ev =
     ParseCallbacks lib (case ev_query ev of None \<Rightarrow> [] | Some q \<Rightarrow> q)
       (case ev_content_type ev of None \<Rightarrow> [] | Some ct \<Rightarrow> ct) (ev_raw_body ev)"

text \<open>A failing statement is logged; the event then stays unprocessed.\<close>

definition ingress_finish :: "time \<Rightarrow> uuid \<Rightarrow> uuid option \<Rightarrow> event_result \<Rightarrow> callback_event list \<Rightarrow> callback_event list" where
  "ingress_finish now eid mid parsed evs =
     (case MarkCallbackProcessed now parsed mid eid evs of Inl _ \<Rightarrow> evs | Inr evs' \<Rightarrow> evs')"

definition ingress_process :: "ingress_env \<Rightarrow> time \<Rightarrow> callback_event \<Rightarrow> ingress_state \<Rightarrow> ingress_state" where
  "ingress_process env now ev s =
     (let rows = event_rows (ie_lib env) ev in
      if rows = [] then s\<lparr>is_events := ingress_finish now (ev_id ev) None (Skipped ''unrecognized'') (is_events s)\<rparr>
      else
        (case apply_rows env (ev_id ev) 0 now (ev_kind ev) rows None 0 (is_db s) of (linked, applied, d) \<Rightarrow>
         let result = (if applied = 0 then ''no_match'' else ''applied'') in
         \<lparr>is_db = d, is_events = ingress_finish now (ev_id ev) linked (Result result rows applied) (is_events s)\<rparr>))"

definition ingress_claimBatch :: nat where
  "ingress_claimBatch = 20"

definition ingress_Tick :: "ingress_env \<Rightarrow> time \<Rightarrow> ingress_state \<Rightarrow> nat \<times> ingress_state" where
  "ingress_Tick env now s =
     (let events = ListUnprocessedCallbackEvents ingress_claimBatch (is_events s) in
      (length events, fold (ingress_process env now) events s))"

end
