(* ===== verification/IngressProps.thy ===== *)
theory IngressProps
  imports Ingress
begin

text \<open>
  What the callbacks of the provider do: a request is stored once, a tick of the worker handles the
  oldest events and keeps the books, and an event whose text has a zero byte stays for ever.
\<close>

section \<open>Books and messages\<close>

lemma ingress_capture_safe [simp]: "safe_db d (ingress_capture env i now mid d)"
  by (auto simp: ingress_capture_def CaptureForMessage_def split: sum.split dest: settle_safe)

lemma dlr_update_safe: "dlr_update now row msg d = Inr d' \<Longrightarrow> safe_db d d'"
  by (auto simp: dlr_update_def Let_def split: if_splits
      dest: UpdateSmsMessageFailed_step UpdateSmsMessageFromStatistic_step intro: safe_message_step)

lemma applyDLR_safe: "safe_db d (snd (applyDLR env i now row d))"
proof -
  have "safe_db d (ingress_capture env i now mid d')" if "dlr_update now row msg d = Inr d'" for msg mid d'
    by (rule safe_trans [OF dlr_update_safe [OF that] ingress_capture_safe])
  then show ?thesis by (auto simp: applyDLR_def split: sum.splits)
qed

lemma applyMO_safe: "safe_db d (snd (applyMO i now row d))"
  by (auto simp: applyMO_def Let_def split: sum.splits if_splits dest: InsertInboundMessage_safe)

lemma ingress_apply_safe: "safe_db d (snd (ingress_apply env eid k now kind row d))"
  by (cases kind) (simp_all add: ingress_apply_def applyDLR_safe applyMO_safe)

lemma apply_rows_safe: "safe_db d (snd (snd (apply_rows env eid k now kind rows linked applied d)))"
proof (induction rows arbitrary: k linked applied d)
  case (Cons row rows)
  show ?case
    using safe_trans [OF ingress_apply_safe [of d env eid k now kind row] Cons.IH] by (simp add: case_prod_beta)
qed simp

lemma ingress_process_safe: "safe_db (is_db s) (is_db (ingress_process env now ev s))"
  using apply_rows_safe [of "is_db s" env "ev_id ev" 0 now "ev_kind ev" "event_rows (ie_lib env) ev" None 0]
  by (simp add: ingress_process_def Let_def case_prod_beta)

section \<open>Events\<close>

definition unprocessed :: "callback_event list \<Rightarrow> callback_event list" where
  "unprocessed evs = filter (\<lambda>e. ev_processed_at e = None) evs"

definition event_storable :: "parse_lib \<Rightarrow> callback_event \<Rightarrow> bool" where
  "event_storable lib e = list_all row_storable (event_rows lib e)"

lemma ingress_process_events:
  "is_events (ingress_process env now ev s) = is_events s \<or>
   (\<exists>mid r. is_events (ingress_process env now ev s) =
      update_where (\<lambda>e. ev_id e = ev_id ev \<and> ev_processed_at e = None)
        (\<lambda>e. e\<lparr>ev_processed_at := Some now, ev_parsed := Some r, ev_sms_message := mid\<rparr>) (is_events s))"
  by (auto simp: ingress_process_def ingress_finish_def MarkCallbackProcessed_def Let_def split: prod.split sum.split)

lemma result_text: "no_nul ''unrecognized''" "no_nul ''no_match''" "no_nul ''applied''"
  by (simp_all add: no_nul_def)

lemma ingress_process_storable:
  assumes "event_storable (ie_lib env) ev"
  shows "\<exists>mid r. is_events (ingress_process env now ev s) =
      update_where (\<lambda>e. ev_id e = ev_id ev \<and> ev_processed_at e = None)
        (\<lambda>e. e\<lparr>ev_processed_at := Some now, ev_parsed := Some r, ev_sms_message := mid\<rparr>) (is_events s)"
  using assms
  by (auto simp: ingress_process_def ingress_finish_def MarkCallbackProcessed_def Let_def event_storable_def
      result_text split: prod.split)

lemma ingress_process_stuck:
  assumes "\<not> event_storable (ie_lib env) ev"
  shows "is_events (ingress_process env now ev s) = is_events s"
proof -
  have "event_rows (ie_lib env) ev \<noteq> []" using assms by (auto simp: event_storable_def)
  then show ?thesis using assms
    by (simp add: ingress_process_def ingress_finish_def MarkCallbackProcessed_def Let_def event_storable_def
        split: prod.split)
qed

text \<open>Marking the event of an id takes it, and only it, from the unprocessed ones.\<close>

lemma unprocessed_mark:
  assumes "\<And>e. ev_processed_at (f e) \<noteq> None"
  shows "unprocessed (update_where (\<lambda>e. ev_id e = i \<and> ev_processed_at e = None) f evs) =
    filter (\<lambda>e. ev_id e \<noteq> i) (unprocessed evs)"
  unfolding unprocessed_def using assms by (induction evs) auto

lemma fold_process_unprocessed:
  assumes "list_all (event_storable (ie_lib env)) es"
  shows "unprocessed (is_events (fold (ingress_process env now) es s)) =
    filter (\<lambda>e. ev_id e \<notin> set (map ev_id es)) (unprocessed (is_events s))"
  using assms
proof (induction es arbitrary: s)
  case (Cons e es)
  from ingress_process_storable [of env e now s] Cons.prems obtain mid r where
    "is_events (ingress_process env now e s) = update_where (\<lambda>x. ev_id x = ev_id e \<and> ev_processed_at x = None)
        (\<lambda>x. x\<lparr>ev_processed_at := Some now, ev_parsed := Some r, ev_sms_message := mid\<rparr>) (is_events s)" by auto
  then have "unprocessed (is_events (ingress_process env now e s)) = filter (\<lambda>x. ev_id x \<noteq> ev_id e) (unprocessed (is_events s))"
    by (simp add: unprocessed_mark)
  then show ?case using Cons by (auto intro!: filter_cong)
qed simp

lemma fold_process_safe:
  "safe_db (is_db s) (is_db (fold (ingress_process env now) es s))"
  by (induction es arbitrary: s) (auto intro: safe_trans ingress_process_safe)

lemma fold_process_keeps:
  assumes "e \<in> set (is_events s)" "ev_processed_at e \<noteq> None"
  shows "e \<in> set (is_events (fold (ingress_process env now) es s))"
  using assms(1)
proof (induction es arbitrary: s)
  case (Cons x es)
  have "e \<in> set (is_events (ingress_process env now x s))"
    using ingress_process_events [of env now x s] Cons.prems assms(2) by (auto simp: set_update_where)
  then show ?case using Cons.IH by simp
qed simp

lemma fold_process_stuck:
  "list_all (\<lambda>e. \<not> event_storable (ie_lib env) e) es \<Longrightarrow>
   is_events (fold (ingress_process env now) es s) = is_events s"
  by (induction es arbitrary: s) (simp_all add: ingress_process_stuck)

section \<open>Properties\<close>

text \<open>The state of the witnesses: a delivery report and a message with a zero byte.\<close>

definition demo_lib :: parse_lib where
  "demo_lib = \<lparr>pl_unmarshal = (\<lambda>s. if s = ''nul'' then Some (JvObj [(''message'', JvStr [CHR 0x00])])
       else if s = ''dlr'' then Some (JvObj [(''id'', JvStr ''p1''), (''message_status'', JvNum 2)]) else None),
     pl_envelope = (\<lambda>_. None), pl_lower = (\<lambda>s. s)\<rparr>"

definition demo_ienv :: ingress_env where
  "demo_ienv = \<lparr>ie_lib = demo_lib, ie_bill = True, ie_message_id = (\<lambda>e k. e), ie_tx_id = (\<lambda>e k. e)\<rparr>"

definition demo_event :: "uuid \<Rightarrow> string \<Rightarrow> time \<Rightarrow> callback_event" where
  "demo_event i body t = \<lparr>ev_id = i, ev_kind = CallbackKindDlr, ev_idempotency_key = i, ev_method = ''POST'',
     ev_path = ''/internal/runexis/dlr/*'', ev_query = None, ev_headers = ''{}'', ev_raw_body = body,
     ev_content_type = None, ev_parsed = None, ev_sms_message = None, ev_processed_at = None, ev_created_at = t\<rparr>"

lemma demo_trim [simp]: "TrimSpace ''nul'' = ''nul''" "TrimSpace ''dlr'' = ''dlr''" "TrimSpace ''p1'' = ''p1''"
    "TrimSpace [CHR 0x00] = [CHR 0x00]" "TrimSpace ''2'' = ''2''"
  by (simp_all add: TrimSpace_def Let_def unicode_IsSpace_def)

lemma demo_itoa [simp]: "itoa 2 = ''2''"
  by (simp add: itoa_def nat_digits.simps char_of_def bit_0)

definition demo_dlr :: callback where
  "demo_dlr = \<lparr>rc_sms_id = ''p1'', rc_from = [], rc_to = [], rc_text = [], rc_incoming = False, rc_pdu = 0, rc_sent = True,
     rc_delivered = True, rc_failed = False, rc_status = ''2''\<rparr>"

definition demo_nul :: callback where
  "demo_nul = \<lparr>rc_sms_id = [], rc_from = [], rc_to = [], rc_text = [CHR 0x00], rc_incoming = False, rc_pdu = 0, rc_sent = False,
     rc_delivered = False, rc_failed = False, rc_status = []\<rparr>"

lemma demo_maps:
  "callbackFromMap [(''id'', JvStr ''p1''), (''message_status'', JvNum 2)] = Some demo_dlr"
  "callbackFromMap [(''message'', JvStr [CHR 0x00])] = Some demo_nul"
  by (simp_all add: callbackFromMap_def Let_def firstInt_def message_status_def int_of_float_def empty_callback_def
      demo_dlr_def demo_nul_def)

lemma demo_ingress_rows:
  "event_rows demo_lib (demo_event i ''dlr'' t) = filter (\<lambda>r. \<not> empty_callback r) [normalizeCallback (\<lambda>s. s) demo_dlr]"
  "event_rows demo_lib (demo_event i ''nul'' t) = filter (\<lambda>r. \<not> empty_callback r) [normalizeCallback (\<lambda>s. s) demo_nul]"
  by (simp_all add: event_rows_def demo_event_def ParseCallbacks_def body_callbacks_def parseJSONCallbacks_def
      callbacksFromRaw_def demo_lib_def demo_maps Let_def)

lemma demo_event_storable: "event_storable demo_lib (demo_event i ''dlr'' t)"
  by (simp add: event_storable_def demo_ingress_rows row_storable_def no_nul_def demo_dlr_def)

lemma demo_event_stuck: "\<not> event_storable demo_lib (demo_event i ''nul'' t)"
  by (simp add: event_storable_def demo_ingress_rows row_storable_def no_nul_def demo_nul_def empty_callback_def)

text \<open>
  C38. A tick of the ingress worker whose events can be stored takes the 20 oldest unprocessed
  events, marks each of them and no other, leaves processed events as they are, keeps the
  billing invariant and only moves messages forward.
\<close>

theorem ingress_tick_processes:
  assumes "distinct (map ev_id (is_events s))"
    and "list_all (event_storable (ie_lib env)) (ListUnprocessedCallbackEvents 20 (is_events s))"
    and "ingress_Tick env now s = (n, s')"
  shows "n = min 20 (length (unprocessed (is_events s)))
    \<and> length (unprocessed (is_events s')) + n = length (unprocessed (is_events s))
    \<and> (\<forall>e \<in> set (ListUnprocessedCallbackEvents 20 (is_events s)). ev_id e \<notin> ev_id ` set (unprocessed (is_events s')))
    \<and> (\<forall>e \<in> set (is_events s). ev_processed_at e \<noteq> None \<longrightarrow> e \<in> set (is_events s'))
    \<and> safe_db (is_db s) (is_db s')"
proof -
  let ?U = "unprocessed (is_events s)" and ?es = "ListUnprocessedCallbackEvents 20 (is_events s)"
  have t: "n = length ?es" "s' = fold (ingress_process env now) ?es s"
    using assms(3) by (simp_all add: ingress_Tick_def ingress_claimBatch_def Let_def)
  have es: "?es = take 20 (sort_key ev_created_at ?U)" by (simp add: ListUnprocessedCallbackEvents_def unprocessed_def)
  then have n: "n = min 20 (length ?U)" using t by (simp add: min.commute)
  have dU: "distinct (map ev_id ?U)" unfolding unprocessed_def by (rule distinct_map_filter [OF assms(1)])
  then have "distinct (map ev_id (sort_key ev_created_at ?U))" by (auto simp: distinct_map)
  then have des: "distinct (map ev_id ?es)" unfolding es by (simp add: distinct_take flip: take_map)
  have sub: "set ?es \<subseteq> set ?U" unfolding es by (auto dest: in_set_takeD)
  have U': "unprocessed (is_events s') = filter (\<lambda>e. ev_id e \<notin> set (map ev_id ?es)) ?U"
    unfolding t by (rule fold_process_unprocessed [OF assms(2)])
  have in_es: "e \<in> set ?es" if "e \<in> set ?U" "ev_id e \<in> set (map ev_id ?es)" for e
  proof -
    from that(2) obtain x where x: "x \<in> set ?es" "ev_id x = ev_id e" by auto
    then have "x = e" using sub that(1) by (intro distinct_map_inj [OF dU]) auto
    then show ?thesis using x by simp
  qed
  have "set (filter (\<lambda>e. ev_id e \<in> set (map ev_id ?es)) ?U) = set ?es" using in_es sub by auto
  moreover have "distinct (filter (\<lambda>e. ev_id e \<in> set (map ev_id ?es)) ?U)" "distinct ?es"
    using dU des by (simp_all add: distinct_map)
  ultimately have "length (filter (\<lambda>e. ev_id e \<in> set (map ev_id ?es)) ?U) = n" unfolding t(1) by (metis distinct_card)
  then have "length (unprocessed (is_events s')) + n = length ?U"
    unfolding U' using sum_length_filter_compl [of "\<lambda>e. ev_id e \<in> set (map ev_id ?es)" ?U] by simp
  moreover have "ev_id e \<notin> ev_id ` set (unprocessed (is_events s'))" if "e \<in> set ?es" for e
    using imageI [OF that, of ev_id] unfolding U' by fastforce
  ultimately show ?thesis
    using n fold_process_keeps fold_process_safe [of s env now ?es] unfolding t(2) by blast
qed

theorem ingress_tick_processes_witness:
  "\<exists>s'. ingress_Tick demo_ienv 5 \<lparr>is_db = empty_db, is_events = [demo_event ''e1'' ''dlr'' 1]\<rparr> = (1, s') \<and>
     unprocessed (is_events s') = [] \<and> safe_db empty_db (is_db s')"
proof -
  let ?s = "\<lparr>is_db = empty_db, is_events = [demo_event ''e1'' ''dlr'' 1]\<rparr>"
  have l: "ListUnprocessedCallbackEvents 20 (is_events ?s) = [demo_event ''e1'' ''dlr'' 1]"
    "unprocessed (is_events ?s) = [demo_event ''e1'' ''dlr'' 1]"
    by (simp_all add: ListUnprocessedCallbackEvents_def unprocessed_def demo_event_def)
  have st: "list_all (event_storable (ie_lib demo_ienv)) (ListUnprocessedCallbackEvents 20 (is_events ?s))"
    unfolding l by (simp add: demo_ienv_def demo_event_storable)
  obtain n s' where t: "ingress_Tick demo_ienv 5 ?s = (n, s')" by fastforce
  have "n = 1 \<and> length (unprocessed (is_events s')) + n = 1 \<and> safe_db (is_db ?s) (is_db s')"
    using ingress_tick_processes [OF _ st t] unfolding l by auto
  then show ?thesis using t by auto
qed

fun ingress_ticks :: "(ingress_env \<times> time) list \<Rightarrow> ingress_state \<Rightarrow> ingress_state" where
  "ingress_ticks [] s = s"
| "ingress_ticks ((env, now) # ts) s = ingress_ticks ts (snd (ingress_Tick env now s))"

text \<open>
  C39. An event with a zero byte in a text (\<open>\u0000\<close> in a JSON body) is never marked as processed,
  because the column \<open>parsed\<close> cannot hold it. When such events are the oldest ones, the worker takes
  them again in every tick and no later event is ever handled.
\<close>

theorem nul_events_block_ingress:
  assumes "list_all (\<lambda>e. \<not> event_storable lib e) (ListUnprocessedCallbackEvents 20 (is_events s))"
    and "list_all (\<lambda>(env, _). ie_lib env = lib) ticks"
  shows "is_events (ingress_ticks ticks s) = is_events s"
  using assms
proof (induction ticks s rule: ingress_ticks.induct)
  case (2 env now ts s)
  have "is_events (snd (ingress_Tick env now s)) = is_events s"
    using 2 fold_process_stuck [of env] by (simp add: ingress_Tick_def ingress_claimBatch_def Let_def)
  then show ?case using 2 by simp
qed simp

theorem nul_events_block_ingress_witness:
  "demo_event ''late'' ''dlr'' 2 \<in> set (unprocessed (is_events (ingress_ticks (replicate 1000 (demo_ienv, 5))
     \<lparr>is_db = empty_db, is_events = replicate 20 (demo_event ''e'' ''nul'' 1) @ [demo_event ''late'' ''dlr'' 2]\<rparr>)))"
proof -
  let ?evs = "replicate 20 (demo_event ''e'' ''nul'' 1) @ [demo_event ''late'' ''dlr'' 2]"
  let ?s = "\<lparr>is_db = empty_db, is_events = ?evs\<rparr>"
  have "filter (\<lambda>e. ev_processed_at e = None) ?evs = ?evs" by (simp add: demo_event_def)
  moreover have "sort_key ev_created_at ?evs = ?evs"
    by (rule sort_key_id_if_sorted) (auto simp: demo_event_def sorted_append)
  ultimately have "ListUnprocessedCallbackEvents 20 ?evs = replicate 20 (demo_event ''e'' ''nul'' 1)"
    by (simp add: ListUnprocessedCallbackEvents_def)
  then have "list_all (\<lambda>e. \<not> event_storable demo_lib e) (ListUnprocessedCallbackEvents 20 (is_events ?s))"
    using demo_event_stuck by (simp add: list_all_iff)
  then have "is_events (ingress_ticks (replicate 1000 (demo_ienv, 5)) ?s) = ?evs"
    using nul_events_block_ingress [of demo_lib ?s "replicate 1000 (demo_ienv, 5)"]
    by (simp add: list_all_iff demo_ienv_def)
  then show ?thesis by (simp add: unprocessed_def demo_event_def)
qed

lemma ReadBody_whole: "ReadBody b = Some body \<Longrightarrow> length body \<le> MaxBody \<Longrightarrow> b = Some body"
  by (auto simp: ReadBody_def)

lemma InsertCallbackEvent_OK:
  "InsertCallbackEvent i now p evs = Inr (e, evs') \<Longrightarrow> evs' = evs @ [e] \<and> ev_processed_at e = None
     \<and> ev_raw_body e = ep_raw_body p \<and> ev_idempotency_key e = ep_idempotency_key p
     \<and> ep_idempotency_key p \<notin> set (map ev_idempotency_key evs)"
  by (auto simp: InsertCallbackEvent_def Let_def split: if_splits)

lemma InsertCallbackEvent_NoRows:
  "InsertCallbackEvent i now p evs = Inl NoRows \<Longrightarrow> ep_idempotency_key p \<in> set (map ev_idempotency_key evs)"
  by (auto simp: InsertCallbackEvent_def Let_def split: if_splits)

lemma Capture_cases:
  assumes "Capture env r evs = (st, evs')"
  shows "st \<noteq> 200 \<and> evs' = evs \<or>
    st = 200 \<and> (\<exists>kind stored body. he_stored env = Inr stored \<and> TokenMatch (he_sha env) stored (hr_token r)
      \<and> ReadBody (hr_body r) = Some body \<and> length body \<le> MaxBody
      \<and> (InsertCallbackEvent (he_event_id env) (he_clock env) (capture_params env kind r body) evs = Inl NoRows \<and> evs' = evs
         \<or> (\<exists>e. InsertCallbackEvent (he_event_id env) (he_clock env) (capture_params env kind r body) evs = Inr (e, evs'))))"
  using assms unfolding Capture_def
  by (simp split: if_splits option.splits sum.splits prod.splits) (auto simp: not_less)

text \<open>
  C40. The endpoint stores a request only with status 200, answers with another status without
  any change, never with 200 for a wrong token, and a repetition of a stored request, with
  whatever clock and limits, stores nothing more.
\<close>

theorem Capture_stores_once:
  assumes "Capture env r evs = (st, evs')"
  shows "(st \<noteq> 200 \<longrightarrow> evs' = evs)
    \<and> (st = 200 \<longrightarrow> (\<exists>stored. he_stored env = Inr stored \<and> HashToken (he_sha env) (hr_token r) = stored)
        \<and> (evs' = evs \<or> (\<exists>e. evs' = evs @ [e] \<and> ev_processed_at e = None \<and> hr_body r = Some (ev_raw_body e)))
        \<and> (he_sha env' = he_sha env \<longrightarrow> snd (Capture env' r evs') = evs'))"
proof (cases "st = 200")
  case False
  then show ?thesis using Capture_cases [OF assms] by blast
next
  case True
  from Capture_cases [OF assms] True obtain kind stored body where
    s: "he_stored env = Inr stored" "TokenMatch (he_sha env) stored (hr_token r)"
    and body: "hr_body r = Some body"
    and key: "IdempotencyKey (he_sha env) (hr_method r) (hr_path r) (hr_query r) body \<in> set (map ev_idempotency_key evs')"
    and evs: "evs' = evs \<or> (\<exists>e. evs' = evs @ [e] \<and> ev_processed_at e = None \<and> ev_raw_body e = body)"
    by (auto dest!: ReadBody_whole InsertCallbackEvent_OK InsertCallbackEvent_NoRows simp: capture_params_def)
  have "HashToken (he_sha env) (hr_token r) = stored" using s(2) by (simp add: TokenMatch_def Let_def split: if_splits)
  moreover have "snd (Capture env' r evs') = evs'" if sha: "he_sha env' = he_sha env"
  proof -
    obtain st' evs'' where c: "Capture env' r evs' = (st', evs'')" by fastforce
    from Capture_cases [OF c] show ?thesis
      using key sha body c by (auto dest!: ReadBody_whole InsertCallbackEvent_OK simp: capture_params_def)
  qed
  ultimately show ?thesis using True s(1) body evs by blast
qed

definition demo_henv :: "time \<Rightarrow> capture_env" where
  "demo_henv t = \<lparr>he_sha = (\<lambda>s. s), he_lower = (\<lambda>s. s), he_marshal = (\<lambda>_. None), he_stored = Inr ''tok'',
     he_allowed = True, he_event_id = ''e1'', he_clock = t\<rparr>"

definition demo_request :: http_request where
  "demo_request = \<lparr>hr_method = ''POST'', hr_path = ''/internal/runexis/dlr/tok'', hr_kind = ''dlr'', hr_token = ''tok'',
     hr_query = [], hr_content_type = [], hr_headers = [], hr_body = Some ''dlr''\<rparr>"

lemma demo_Capture: "\<exists>e. Capture (demo_henv 1) demo_request [] = (200, [e])"
  by (simp add: Capture_def demo_henv_def demo_request_def KindFromPath_def TokenMatch_def HashToken_def ReadBody_def
      MaxBody_def InsertCallbackEvent_def capture_params_def RedactPath_def HasPrefix_def TrimPrefix_def TrimSpace_def
      pg_text_def opt_text_def rune_error_def Let_def)

theorem Capture_stores_once_witness:
  "\<exists>e. Capture (demo_henv 1) demo_request [] = (200, [e]) \<and> snd (Capture (demo_henv 9) demo_request [e]) = [e]"
proof -
  obtain e where e: "Capture (demo_henv 1) demo_request [] = (200, [e])" using demo_Capture by blast
  have "he_sha (demo_henv 9) = he_sha (demo_henv 1)" by (simp add: demo_henv_def)
  then show ?thesis using Capture_stores_once [OF e, of "demo_henv 9"] e by blast
qed

end
