(* ===== verification/Spec2Isabelle.thy ===== *)
theory Spec2Isabelle
  imports OutboxProps LookupFinish WebhookProps WebhookSigning CampaignProps IngressProps
begin

text \<open>
  \<^bold>\<open>Finenumbers SMS: a verification library.\<close> The program is a Go service that sends text messages
  and runs HLR and silent-SMS checks for clients who pay from a prepaid wallet. An API
  request or a page of the cabinet enqueues work; background workers take it from tables in
  PostgreSQL, talk to a provider and settle the price of each message or check. This library
  models that core, with the SQL statements as functions on tables, and proves that no money is
  lost or charged twice, that work only moves forward, and how often a provider or a client is
  called; where the code does less than it means to, a theorem shows the run that does it.

  \<^bold>\<open>How the code corresponds to the model.\<close>
  \<^item> A Go function that returns a value and an error is a function to \<open>'a result\<close>, a sum whose left
    side is the error (\<open>Prelude\<close>). Sentinel errors and wrapped errors are constructors.
  \<^item> A Go string is a list of bytes; \<open>range\<close> over it decodes UTF-8 (\<open>GoStrings\<close>). \<open>int32\<close> and
    \<open>int64\<close> values whose range matters are words or are wrapped by \<open>int32_of\<close> and \<open>int64_of\<close>.
    \<open>decimal.Decimal\<close> is an exact rational; rounding to the scale of a column is written out.
  \<^item> A table is a list of rows in a record \<open>db\<close> (\<open>Store\<close>, after \<open>db/sqlc/models.go\<close> and the migrations); a
    statement of \<open>internal/db/sqlc\<close> is a function on it that returns the rows and the changed tables,
    with the \<open>CHECK\<close>, \<open>UNIQUE\<close> and version conditions that the code relies on.
  \<^item> A transaction is one function. An error makes its result \<open>Inl\<close> and its changes are dropped;
    inside a transaction the state after a failed statement is aborted, as PostgreSQL has it
    (\<open>pgtx\<close> in \<open>Messaging\<close>, also used by \<open>LookupCreate\<close>). Operations that read before they lock are
    split at the lock (\<open>settle_read\<close>, \<open>settle_write\<close>), so that interleavings can be stated.
  \<^item> The clock, random identifiers, hashes, the JSON codec, the rate limiter, the settings and the
    answers of providers are arguments. The theorems hold for all of them.

  \<^bold>\<open>The parts.\<close>
  \<^item> \<open>Msisdn\<close>, \<open>Pdu\<close>: \<open>internal/msisdn\<close> and \<open>internal/billing/pdu.go\<close>. The canonical form of numbers, fixed
    points, and that the billed number of segments is the least that holds the text.
  \<^item> \<open>Ledger\<close>, \<open>WalletQueries\<close>, \<open>BillingService\<close>, \<open>LookupBilling\<close>, \<open>Tariffs\<close>: \<open>internal/billing\<close> with its
    statements. \<open>LedgerInv\<close>, \<open>SmsLedger\<close>, \<open>LookupLedger\<close> hold the billing invariant \<open>db_ok\<close> (the held
    balance is the sum of the open holds) and its preservation by each operation; \<open>WalletSystem\<close>
    makes the operations one transition system, \<open>WalletFlows\<close> and \<open>WalletProps\<close> give the effect of
    whole flows, and the interleaving of a capture and a release that both commit.
  \<^item> \<open>Messaging\<close>, \<open>Idempotency\<close>, \<open>MessagingProps\<close>: \<open>internal/messaging\<close>, \<open>internal/idempotency\<close> and the
    keyed send of \<open>internal/http/publicapi/messages.go\<close>. A message, its job and its hold appear
    together; a repeated request is answered from the stored response.
  \<^item> \<open>Outbox\<close>: \<open>internal/outbox/worker.go\<close> with its queries. \<open>JobProtocol\<close> is the abstract protocol of one
    job, which \<open>process\<close> refines (\<open>OutboxInv\<close>); \<open>OutboxRun\<close>, \<open>OutboxFlows\<close>, \<open>PostBound\<close>, \<open>OutboxCrash\<close>,
    \<open>OutboxProps\<close>: whole ticks, the money behind an answer, the number of POSTs, and what a worker
    that dies in a POST leaves behind.
  \<^item> \<open>LookupPhones\<close>, \<open>LookupState\<close>, \<open>LookupCreate\<close>, \<open>LookupApply\<close>, \<open>LookupWorker\<close>, \<open>LookupTick\<close>:
    \<open>internal/lookup\<close> (\<open>phone.go\<close>, \<open>state.go\<close>, \<open>create.go\<close>, \<open>apply.go\<close>, \<open>worker.go\<close>, \<open>callback.go\<close>), the worker in a
    state monad over the database, the clock and the requests sent. \<open>LookupInv\<close>, \<open>LookupMoney\<close>,
    \<open>LookupJobs\<close> hold the invariant \<open>lookup_ok\<close> and its preservation; \<open>LookupRun\<close> is the transition
    system whose steps are single statements and transactions, in any interleaving; \<open>LookupProgram\<close>
    has one rule for each construct of the monad and \<open>LookupSteps\<close> one lemma for each operation of the
    worker: each is a sequence of steps. \<open>LookupProps\<close> and \<open>LookupFinish\<close> hold the theorems.
  \<^item> \<open>Webhooks\<close>, \<open>WebhookDelivery\<close>, \<open>WebhookSigning\<close>, \<open>WebhookProps\<close>: \<open>internal/webhooks\<close>. Endpoints, events, the
    queue of deliveries, the retries and the signature header.
  \<^item> \<open>Campaigns\<close>, \<open>CampaignWorker\<close>: \<open>internal/campaigns\<close> (\<open>service.go\<close>, \<open>worker.go\<close>) with its statements: drafts,
    recipients, \<open>Start\<close>, \<open>Cancel\<close>, and the fan-out of the worker, whose messages are enqueued in
    savepoints of one transaction. \<open>CampaignInv\<close> has the invariant \<open>campaign_ok\<close> (the messages of a
    campaign are those of its enqueued recipients, one for each), \<open>CampaignOps\<close> and \<open>CampaignFanout\<close> its
    preservation by the service and the worker; \<open>CampaignProps\<close>: no recipient gets a second message,
    campaigns only move forward, the report counts what was sent, a start is affordable.
  \<^item> \<open>RunexisCallback\<close>, \<open>Ingress\<close>, \<open>IngressProps\<close>: \<open>internal/runexis/callback.go\<close>, \<open>internal/ingress\<close> and
    \<open>internal/http/ingress/handler.go\<close>, the delivery reports and inbound messages of the provider. A
    request is stored once, a tick applies the oldest events and keeps the books, and events that
    cannot be stored as processed hold up all later ones.

  \<^bold>\<open>Interfaces.\<close> \<open>safe_system\<close> (\<open>Prelude\<close>) is a step relation with an invariant that each step keeps; it
  gives the invariant of every reachable state and the induction over runs. It is interpreted
  for the wallet (with and without negative adjustments), for the lookup tables, for the
  queue of webhooks and for campaigns. \<open>locked_update\<close> (\<open>OutboxInv\<close>) is what a statement on a send job promises to
  other workers (it acts for the owner of the lock only); it is interpreted for the three statements
  that end or renew the work on a job.

  \<^bold>\<open>Bounds and loops.\<close> Every function is total, and no fuel stands for a result: loops over rows are
  recursions on the rows. The page loop of \<open>backfillInbox\<close> has the 20 pages of the code as its
  bound, the retry loop of a lookup settlement the five attempts of the code, the repeated
  drain of a tick the deadline of the code, in the model a list of clock readings. The pages of
  recipients of a campaign (\<open>cost_pages\<close>) are read at an \<open>int32\<close> offset, which is wrapped in the model; a
  wrapped offset is an error of the statement and the recursion has its termination proof.

  \<^bold>\<open>Not modelled.\<close>
  \<^item> Failing connections, cancelled contexts and statement timeouts, except where an argument
    says that a statement fails; the checks for missing services (\<open>w == nil\<close>); logs, metrics and
    the audit trail; foreign keys, except where a definition states them; text that PostgreSQL
    rejects for its encoding, except in webhooks and the ingress, where it matters.
  \<^item> HTTP handlers, routing, JSON rendering, file formats, exports and listing queries: input and
    output around the operations that are modelled.
  \<^item> The HTTP clients of the providers (\<open>internal/runexis/client.go\<close>, \<open>internal/smsc\<close>): arguments of the
    workers; cryptography: arguments.
  \<^item> Users, sessions, API keys, the settings page, the inventory of numbers, retention and
    process start: they do not touch the invariants above, except that they delete or change rows
    an operation reads, and every theorem on a single operation holds for any such state.
\<close>

end
